(* ===== verification/Prelude.thy ===== *)
theory Prelude
  imports Main "HOL-Library.Word" "HOL-Library.Monad_Syntax"
begin

text \<open>
  What every component shares: the machine types of the agent (LP64 Linux), the allocator,
  C strings, C integer conversions, and the automation collections the component theories
  fill.

  Allocation can fail anywhere in the agent, and most of its early returns test for it.  The
  allocator is therefore a value that is threaded through the operations: a list of outcomes,
  one per call of \<open>malloc\<close>, \<open>strdup\<close> or \<open>strndup\<close>.  \<open>None\<close> is a
  failed call; \<open>Some j\<close> is a successful one whose fresh memory holds the arbitrary word
  \<open>j\<close>, which only code that reads memory before writing it can observe.  When the list is
  used up every further call succeeds, so a theorem for all lists covers every finite run.
\<close>

unbundle bit_operations_syntax

subsection \<open>Machine types\<close>

type_synonym u8 = "8 word"
type_synonym u16 = "16 word"
type_synonym u32 = "32 word"
type_synonym u64 = "64 word"

text \<open>
  \<open>int\<close> and \<open>time_t\<close>/\<open>long\<close> are words read with \<^term>\<open>sint\<close>;
  arithmetic on them wraps, which is what the compiled code does where the C standard leaves
  the overflow undefined.
\<close>

type_synonym cint = "32 word"
type_synonym clong = "64 word"

subsection \<open>Automation\<close>

named_theorems alloc_simps "evaluation of the allocation combinators"
named_theorems inv_intros "operations keep the invariant of their component"
named_theorems flag_simps "evaluation of metric flags"

subsection \<open>The allocator\<close>

type_synonym alloc = "u64 option list"

fun malloc :: "alloc \<Rightarrow> u64 option \<times> alloc" where
  "malloc [] = (Some 0, [])"
| "malloc (x # xs) = (x, xs)"

definition strdup :: "string \<Rightarrow> alloc \<Rightarrow> string option \<times> alloc" where
  "strdup s al = (case malloc al of (None, al') \<Rightarrow> (None, al') | (Some _, al') \<Rightarrow> (Some s, al'))"

text \<open>\<open>if (!(x = f())) return NULL; ...\<close>\<close>

definition or_null ::
  "(alloc \<Rightarrow> 'a option \<times> alloc) \<Rightarrow> ('a \<Rightarrow> alloc \<Rightarrow> 'b option \<times> alloc) \<Rightarrow> alloc \<Rightarrow> 'b option \<times> alloc" where
  "or_null f g al = (case f al of (None, al') \<Rightarrow> (None, al') | (Some x, al') \<Rightarrow> g x al')"

definition alloc_ret :: "'a \<Rightarrow> alloc \<Rightarrow> 'a option \<times> alloc" where
  "alloc_ret x al = (Some x, al)"

text \<open>An allocator that never refuses.\<close>

definition alloc_ok :: "alloc \<Rightarrow> bool" where
  "alloc_ok al \<longleftrightarrow> None \<notin> set al"

lemma alloc_ok_Nil [simp]: "alloc_ok []"
  by (simp add: alloc_ok_def)

lemma alloc_ok_malloc:
  assumes "alloc_ok al"
  obtains j al' where "malloc al = (Some j, al')" and "alloc_ok al'"
proof (cases al)
  case Nil
  then show ?thesis using that by simp
next
  case (Cons x xs)
  with assms obtain j where "x = Some j" and "alloc_ok xs"
    by (cases x) (auto simp: alloc_ok_def)
  with Cons show ?thesis using that by simp
qed

lemma alloc_ok_strdup:
  assumes "alloc_ok al"
  obtains al' where "strdup s al = (Some s, al')" and "alloc_ok al'"
proof -
  from assms obtain j al' where "malloc al = (Some j, al')" and "alloc_ok al'"
    by (rule alloc_ok_malloc)
  then show ?thesis using that by (simp add: strdup_def)
qed

lemma strdup_Some: "strdup s al = (Some t, al') \<Longrightarrow> t = s"
  by (auto simp: strdup_def split: prod.splits option.splits)

lemma or_null_Some [alloc_simps]: "f al = (Some x, al') \<Longrightarrow> or_null f g al = g x al'"
  by (simp add: or_null_def)

lemma or_null_None [alloc_simps]: "f al = (None, al') \<Longrightarrow> or_null f g al = (None, al')"
  by (simp add: or_null_def)

lemma or_null_eq_Some_iff:
  "or_null f g al = (Some y, al'') \<longleftrightarrow> (\<exists>x al'. f al = (Some x, al') \<and> g x al' = (Some y, al''))"
  by (auto simp: or_null_def split: prod.splits option.splits)

lemma alloc_ret_eq_iff [simp]: "alloc_ret x al = (r, al') \<longleftrightarrow> r = Some x \<and> al' = al"
  by (auto simp: alloc_ret_def)

lemma strdup_Nil [alloc_simps]: "strdup s [] = (Some s, [])"
  by (simp add: strdup_def)

subsection \<open>C strings\<close>

text \<open>
  A \<open>char *\<close> is the list of the bytes before its terminating NUL, so no character of a C
  string is NUL.
\<close>

definition cstr :: "string \<Rightarrow> bool" where
  "cstr s \<longleftrightarrow> CHR 0x00 \<notin> set s"

definition strlen :: "string \<Rightarrow> u64" where
  "strlen s = of_nat (length s)"

definition byte_of_char :: "char \<Rightarrow> u8" where
  "byte_of_char c = of_nat (of_char c)"

definition char_of_byte :: "u8 \<Rightarrow> char" where
  "char_of_byte b = char_of (unat b)"

lemma char_of_byte_of_char [simp]: "char_of_byte (byte_of_char c) = c"
proof -
  have "of_char c < (256::nat)" by simp
  then have "unat (of_nat (of_char c) :: u8) = of_char c"
    by (simp add: unat_of_nat take_bit_eq_mod)
  then show ?thesis by (simp add: char_of_byte_def byte_of_char_def)
qed

lemma byte_of_char_inj: "byte_of_char c = byte_of_char d \<Longrightarrow> c = d"
  by (metis char_of_byte_of_char)

lemma byte_of_char_0 [simp]: "byte_of_char CHR 0x00 = 0"
  by (simp add: byte_of_char_def)

lemma byte_of_char_eq_0: "byte_of_char c = 0 \<longleftrightarrow> c = CHR 0x00"
  by (metis byte_of_char_0 byte_of_char_inj)

lemma cstr_Nil [simp]: "cstr []"
  and cstr_Cons [simp]: "cstr (c # s) \<longleftrightarrow> c \<noteq> CHR 0x00 \<and> cstr s"
  and cstr_append [simp]: "cstr (s @ t) \<longleftrightarrow> cstr s \<and> cstr t"
  by (auto simp: cstr_def)

subsection \<open>C integer conversions\<close>

text \<open>\<open>(size_t)i\<close>, \<open>(time_t)i\<close> of an \<open>int\<close>: sign extension.\<close>

definition size_of_int :: "cint \<Rightarrow> u64" where
  "size_of_int i = signed_take_bit 31 (ucast i)"

text \<open>\<open>(int)l\<close> of a \<open>long\<close>: the low 32 bits.\<close>

definition int_of_long :: "clong \<Rightarrow> cint" where
  "int_of_long l = ucast l"

lemma sint_int_of_long:
  assumes "- (2 ^ 31) \<le> sint l" and "sint l < 2 ^ 31"
  shows "sint (int_of_long l) = sint l"
proof -
  have "sint (ucast l :: cint) = signed_take_bit 31 (uint l)"
    by (simp add: sint_uint unsigned_ucast_eq take_bit_word_eq_self signed_take_bit_take_bit
        flip: signed_take_bit_decr_length_iff) 
  also have "\<dots> = signed_take_bit 31 (sint l)"
    by (simp add: sint_uint)
  also have "\<dots> = sint l"
    using assms by (simp add: signed_take_bit_int_eq_self)
  finally show ?thesis by (simp add: int_of_long_def)
qed

lemma unat_of_nat_u64: "n < 2 ^ 64 \<Longrightarrow> unat (of_nat n :: u64) = n"
  by (simp add: unat_of_nat take_bit_nat_eq_self)

subsection \<open>Loops that stop at the first match\<close>

fun find_first :: "('a \<Rightarrow> bool) \<Rightarrow> 'a list \<Rightarrow> nat option" where
  "find_first P [] = None"
| "find_first P (x # xs) = (if P x then Some 0 else map_option Suc (find_first P xs))"

lemma find_first_None: "find_first P xs = None \<longleftrightarrow> (\<forall>x\<in>set xs. \<not> P x)"
  by (induction xs) auto

lemma find_first_SomeD:
  "find_first P xs = Some i \<Longrightarrow> i < length xs \<and> P (xs ! i) \<and> (\<forall>j<i. \<not> P (xs ! j))"
proof (induction xs arbitrary: i)
  case Nil
  then show ?case by simp
next
  case (Cons x xs)
  then show ?case
    by (cases i) (auto split: if_splits simp: nth_Cons' less_Suc_eq_0_disj)
qed

lemma find_first_Some_iff:
  "find_first P xs = Some i \<longleftrightarrow> i < length xs \<and> P (xs ! i) \<and> (\<forall>j<i. \<not> P (xs ! j))"
proof
  assume r: "i < length xs \<and> P (xs ! i) \<and> (\<forall>j<i. \<not> P (xs ! j))"
  then obtain k where k: "find_first P xs = Some k"
    by (cases "find_first P xs") (auto simp: find_first_None)
  from find_first_SomeD [OF k] r have "k = i" by (metis linorder_neqE_nat)
  with k show "find_first P xs = Some i" by simp
qed (rule find_first_SomeD)

lemma list_all2_set2: "list_all2 P xs ys \<Longrightarrow> y \<in> set ys \<Longrightarrow> \<exists>x\<in>set xs. P x y"
  by (induction rule: list_all2_induct) auto

subsection \<open>Sums of words\<close>

lemma sum_list_update_same:
  fixes f :: "'a \<Rightarrow> 'b::comm_monoid_add"
  assumes "i < length xs" and "f y = f (xs ! i)"
  shows "sum_list (map f (xs[i := y])) = sum_list (map f xs)"
  using assms by (induction xs arbitrary: i) (auto split: nat.splits)

lemma sum_list_words_nat:
  fixes f :: "'a \<Rightarrow> 'b::len word"
  shows "sum_list (map f xs) = of_nat (sum_list (map (\<lambda>x. unat (f x)) xs))"
  by (induction xs) simp_all

end
