(* ===== verification/Links.thy ===== *)
theory Links
  imports Prelude
begin

text \<open>
  Linked structures in memory.  A memory maps addresses to nodes; the null pointer is \<open>None\<close>, and
  so is the result of following a pointer to memory that is not (or no longer) allocated.  The
  predicates say which list of addresses a chain of nodes visits; they are used for the singly
  linked lists of metrics and for the doubly linked lists of handlers.
\<close>

definition hd_opt :: "'a list \<Rightarrow> 'a option \<Rightarrow> 'a option" where
  "hd_opt xs dflt = (case xs of [] \<Rightarrow> dflt | x # _ \<Rightarrow> Some x)"

definition last_opt :: "'a list \<Rightarrow> 'a option \<Rightarrow> 'a option" where
  "last_opt xs dflt = (if xs = [] then dflt else Some (last xs))"

lemma hd_opt_simps [simp]:
  "hd_opt [] d = d" "hd_opt (x # xs) d = Some x" "hd_opt (xs @ ys) d = hd_opt xs (hd_opt ys d)"
  by (simp_all add: hd_opt_def split: list.split)

lemma last_opt_simps [simp]:
  "last_opt [] d = d" "last_opt (x # xs) d = last_opt xs (Some x)" "last_opt (xs @ ys) d = last_opt ys (last_opt xs d)"
  by (simp_all add: last_opt_def)

subsection \<open>Doubly linked lists\<close>

record 'a dnode =
  dn_data :: 'a
  dn_prev :: "nat option"
  dn_next :: "nat option"

record 'a dll =
  dl_heap :: "nat \<Rightarrow> 'a dnode option"
  dl_first :: "nat option"
  dl_last :: "nat option"

text \<open>\<open>p->next = q\<close> and \<open>p->prev = q\<close>.\<close>

definition set_next :: "(nat \<Rightarrow> 'a dnode option) \<Rightarrow> nat option \<Rightarrow> nat option \<Rightarrow> (nat \<Rightarrow> 'a dnode option) option" where
  "set_next hp p q = do { a \<leftarrow> p; n \<leftarrow> hp a; Some (hp(a := Some (n\<lparr>dn_next := q\<rparr>))) }"

definition set_prev :: "(nat \<Rightarrow> 'a dnode option) \<Rightarrow> nat option \<Rightarrow> nat option \<Rightarrow> (nat \<Rightarrow> 'a dnode option) option" where
  "set_prev hp p q = do { a \<leftarrow> p; n \<leftarrow> hp a; Some (hp(a := Some (n\<lparr>dn_prev := q\<rparr>))) }"

fun dchain :: "(nat \<Rightarrow> 'a dnode option) \<Rightarrow> nat option \<Rightarrow> nat list \<Rightarrow> nat option \<Rightarrow> bool" where
  "dchain hp p [] nx \<longleftrightarrow> True"
| "dchain hp p (x # xs) nx \<longleftrightarrow>
     map_option (\<lambda>n. (dn_prev n, dn_next n)) (hp x) = Some (p, hd_opt xs nx)
     \<and> dchain hp (Some x) xs nx"

lemma dchain_append [simp]:
  "dchain hp p (xs @ ys) nx \<longleftrightarrow> dchain hp p xs (hd_opt ys nx) \<and> dchain hp (last_opt xs p) ys nx"
  by (induction xs arbitrary: p) auto

lemma dchain_other [simp]: "a \<notin> set xs \<Longrightarrow> dchain (hp(a := v)) p xs nx \<longleftrightarrow> dchain hp p xs nx"
  by (induction xs arbitrary: p) auto

text \<open>The list object represents the addresses \<open>xs\<close>.\<close>

definition dll_is :: "'a dll \<Rightarrow> nat list \<Rightarrow> bool" where
  "dll_is l xs \<longleftrightarrow> distinct xs \<and> dl_first l = hd_opt xs None \<and> dl_last l = last_opt xs None
     \<and> dchain (dl_heap l) None xs None"

text \<open>Appending a node, and taking one out: what the three lists of handlers do.\<close>

definition dll_link :: "'a dll \<Rightarrow> nat \<Rightarrow> 'a dll option" where
  "dll_link l h = do {
     l \<leftarrow> (if dl_first l = None then Some (l\<lparr>dl_first := Some h\<rparr>)
          else do {
            hp \<leftarrow> set_next (dl_heap l) (dl_last l) (Some h);
            hp \<leftarrow> set_prev hp (Some h) (dl_last l);
            Some (l\<lparr>dl_heap := hp\<rparr>) });
     Some (l\<lparr>dl_last := Some h\<rparr>) }"

definition dll_unlink :: "'a dll \<Rightarrow> nat \<Rightarrow> 'a dll option" where
  "dll_unlink l h = do {
     n \<leftarrow> dl_heap l h;
     hp \<leftarrow> (if dn_next n \<noteq> None then set_prev (dl_heap l) (dn_next n) (dn_prev n) else Some (dl_heap l));
     hp \<leftarrow> (if dn_prev n \<noteq> None then set_next hp (dn_prev n) (dn_next n) else Some hp);
     let l = l\<lparr>dl_heap := hp\<rparr>;
     let l = (if Some h = dl_first l then l\<lparr>dl_first := dn_next n\<rparr> else l);
     let l = (if Some h = dl_last l then l\<lparr>dl_last := dn_prev n\<rparr> else l);
     Some l }"

lemma dchain_nodeD:
  "dchain hp p (xs @ h # ys) nx \<Longrightarrow>
     \<exists>n. hp h = Some n \<and> dn_prev n = last_opt xs p \<and> dn_next n = hd_opt ys nx"
  by auto

lemma dll_link_ok:
  assumes l: "dll_is l xs" and h: "h \<notin> set xs" "dl_heap l h = Some n" "dn_prev n = None" "dn_next n = None"
  shows "\<exists>l'. dll_link l h = Some l' \<and> dll_is l' (xs @ [h])
    \<and> (\<forall>a. map_option dn_data (dl_heap l' a) = map_option dn_data (dl_heap l a))"
proof (cases xs rule: rev_cases)
  case Nil
  with assms show ?thesis by (simp add: dll_link_def dll_is_def)
next
  case (snoc as a)
  with l obtain m where m: "dl_heap l a = Some m" "dn_prev m = last_opt as None" "dn_next m = None"
    and ends: "dl_first l = hd_opt (as @ [a]) None" "dl_last l = Some a"
    by (auto simp: dll_is_def)
  have "dl_first l \<noteq> None" using ends by (cases as) auto
  with l h snoc m ends show ?thesis
    by (auto simp: dll_link_def dll_is_def set_next_def set_prev_def)
qed

lemma dll_unlink_ok:
  assumes l: "dll_is l (xs @ h # ys)"
  shows "\<exists>l'. dll_unlink l h = Some l' \<and> dll_is l' (xs @ ys)
    \<and> (\<forall>a. map_option dn_data (dl_heap l' a) = map_option dn_data (dl_heap l a))"
proof -
  from l have d: "distinct (xs @ h # ys)" and f: "dl_first l = hd_opt (xs @ h # ys) None"
    and la: "dl_last l = last_opt ys (Some h)" and c: "dchain (dl_heap l) None (xs @ h # ys) None"
    by (auto simp: dll_is_def)
  obtain n where n: "dl_heap l h = Some n" "dn_prev n = last_opt xs None" "dn_next n = hd_opt ys None"
    using dchain_nodeD [OF c] by auto
  show ?thesis
  proof (cases xs rule: rev_cases)
    case Nil
    show ?thesis
    proof (cases ys)
      case Nil
      with \<open>xs = []\<close> n f la show ?thesis by (simp add: dll_unlink_def dll_is_def)
    next
      case (Cons y ys')
      with \<open>xs = []\<close> c obtain m where "dl_heap l y = Some m" "dn_prev m = Some h" "dn_next m = hd_opt ys' None"
        by auto
      moreover have "Some h \<noteq> last_opt ys' (Some y)"
        using Cons d by (cases ys' rule: rev_cases) auto
      ultimately show ?thesis using Cons \<open>xs = []\<close> n f la d c
        by (simp add: dll_unlink_def dll_is_def set_prev_def Let_def)
    qed
  next
    case (snoc as a)
    with c obtain k where k: "dl_heap l a = Some k" "dn_prev k = last_opt as None" "dn_next k = Some h"
      by auto
    have fst: "dl_first l = hd_opt as (Some a)" "Some h \<noteq> hd_opt as (Some a)"
      using f d snoc by (cases as; auto)+
    show ?thesis
    proof (cases ys)
      case Nil
      with snoc n fst la d c k show ?thesis
        by (simp add: dll_unlink_def dll_is_def set_next_def)
    next
      case (Cons y ys')
      with snoc c obtain m where "dl_heap l y = Some m" "dn_prev m = Some h" "dn_next m = hd_opt ys' None"
        by auto
      moreover have "Some h \<noteq> last_opt ys' (Some y)"
        using Cons d by (cases ys' rule: rev_cases) auto
      ultimately show ?thesis using Cons snoc n fst la d c k
        by (simp add: dll_unlink_def dll_is_def set_prev_def set_next_def Let_def)
    qed
  qed
qed

definition dll_data :: "'a dll \<Rightarrow> nat list \<Rightarrow> 'a list" where
  "dll_data l xs = map (\<lambda>a. case dl_heap l a of Some n \<Rightarrow> dn_data n | None \<Rightarrow> undefined) xs"

end
