(* ===== verification/IO_List.thy ===== *)
theory IO_List
  imports Links
begin

text \<open>
  The three doubly linked lists of handlers, \<open>include/io_handler.h\<close>,
  \<open>src/io_handler/io_handler.c\<close> and \<open>list.c\<close>: file descriptors, curl transfers and child
  processes.  The C code has one copy of the linking and unlinking per list; each copy is one
  definition here, on the list it works on.
\<close>

definition MONIKOR_IO_HANDLER_RD :: u8 where "MONIKOR_IO_HANDLER_RD = 1"
definition MONIKOR_IO_HANDLER_WR :: u8 where "MONIKOR_IO_HANDLER_WR = 2"

text \<open>A handler, with its callback and data as one value (\<open>None\<close>: no callback).\<close>

record 'c io_handler =
  ih_fd :: cint
  ih_mode :: u8
  ih_callback :: "'c option"

record 'c curl_handler =
  ch_curl :: nat
  ch_callback :: "'c option"

record 'c process_handler =
  ph_pid :: cint
  ph_callback :: "'c option"

record 'c curl_list =
  cl_multi :: "nat list"
  cl_handlers :: "'c curl_handler dll"

record ('i, 'c, 'p) handler_lists =
  hl_io :: "'i io_handler dll"
  hl_curl :: "'c curl_list"
  hl_processes :: "'p process_handler dll"

definition monikor_io_handler_new ::
  "cint \<Rightarrow> u8 \<Rightarrow> 'c option \<Rightarrow> alloc \<Rightarrow> 'c io_handler dnode option \<times> alloc" where
  "monikor_io_handler_new fd mode callback =
     or_null malloc (\<lambda>_. alloc_ret
       \<lparr>dn_data = \<lparr>ih_fd = fd, ih_mode = mode, ih_callback = callback\<rparr>, dn_prev = None, dn_next = None\<rparr>)"

text \<open>\<open>curl_easy_init\<close> is libcurl's: its result is a parameter.\<close>

definition monikor_curl_handler_new ::
  "nat option \<Rightarrow> 'c option \<Rightarrow> alloc \<Rightarrow> 'c curl_handler dnode option \<times> alloc" where
  "monikor_curl_handler_new easy_init callback =
     or_null malloc (\<lambda>_ al. case easy_init of
        None \<Rightarrow> (None, al)
      | Some curl \<Rightarrow>
          (Some \<lparr>dn_data = \<lparr>ch_curl = curl, ch_callback = callback\<rparr>, dn_prev = None, dn_next = None\<rparr>, al))"

definition monikor_process_handler_new ::
  "cint \<Rightarrow> 'c option \<Rightarrow> alloc \<Rightarrow> 'c process_handler dnode option \<times> alloc" where
  "monikor_process_handler_new pid callback =
     or_null malloc (\<lambda>_. alloc_ret
       \<lparr>dn_data = \<lparr>ph_pid = pid, ph_callback = callback\<rparr>, dn_prev = None, dn_next = None\<rparr>)"

definition empty_dll :: "(nat \<Rightarrow> 'a dnode option) \<Rightarrow> 'a dll" where
  "empty_dll hp = \<lparr>dl_heap = hp, dl_first = None, dl_last = None\<rparr>"

text \<open>The lists after initialization, and the return code (-1: \<open>curl_multi_init\<close> failed).\<close>

definition monikor_io_handler_list_init ::
  "bool \<Rightarrow> ('i, 'c, 'p) handler_lists \<Rightarrow> ('i, 'c, 'p) handler_lists \<times> cint" where
  "monikor_io_handler_list_init multi_init l =
     (l\<lparr>hl_io := empty_dll (dl_heap (hl_io l)),
        hl_curl := \<lparr>cl_multi = [], cl_handlers = empty_dll (dl_heap (cl_handlers (hl_curl l)))\<rparr>,
        hl_processes := empty_dll (dl_heap (hl_processes l))\<rparr>,
      if multi_init then 0 else -1)"

definition monikor_io_handler_list_push :: "'c io_handler dll \<Rightarrow> nat \<Rightarrow> 'c io_handler dll option" where
  "monikor_io_handler_list_push l handler = do {
     l \<leftarrow> (if dl_first l = None then Some (l\<lparr>dl_first := Some handler\<rparr>)
          else do {
            hp \<leftarrow> set_next (dl_heap l) (dl_last l) (Some handler);
            hp \<leftarrow> set_prev hp (Some handler) (dl_last l);
            Some (l\<lparr>dl_heap := hp\<rparr>) });
     Some (l\<lparr>dl_last := Some handler\<rparr>) }"

definition monikor_io_handler_list_remove :: "'c io_handler dll \<Rightarrow> nat \<Rightarrow> 'c io_handler dll option" where
  "monikor_io_handler_list_remove l handler = do {
     n \<leftarrow> dl_heap l handler;
     hp \<leftarrow> (if dn_next n \<noteq> None then set_prev (dl_heap l) (dn_next n) (dn_prev n) else Some (dl_heap l));
     hp \<leftarrow> (if dn_prev n \<noteq> None then set_next hp (dn_prev n) (dn_next n) else Some hp);
     let l = l\<lparr>dl_heap := hp\<rparr>;
     let l = (if Some handler = dl_first l then l\<lparr>dl_first := dn_next n\<rparr> else l);
     let l = (if Some handler = dl_last l then l\<lparr>dl_last := dn_prev n\<rparr> else l);
     Some l }"

definition monikor_io_handler_list_push_curl :: "'c curl_list \<Rightarrow> nat \<Rightarrow> 'c curl_list option" where
  "monikor_io_handler_list_push_curl c handler = do {
     let l = cl_handlers c;
     l \<leftarrow> (if dl_first l = None then Some (l\<lparr>dl_first := Some handler\<rparr>)
          else do {
            hp \<leftarrow> set_next (dl_heap l) (dl_last l) (Some handler);
            hp \<leftarrow> set_prev hp (Some handler) (dl_last l);
            Some (l\<lparr>dl_heap := hp\<rparr>) });
     n \<leftarrow> dl_heap l handler;
     Some (c\<lparr>cl_handlers := l\<lparr>dl_last := Some handler\<rparr>, cl_multi := cl_multi c @ [ch_curl (dn_data n)]\<rparr>) }"

definition monikor_io_handler_list_remove_curl :: "'c curl_list \<Rightarrow> nat \<Rightarrow> 'c curl_list option" where
  "monikor_io_handler_list_remove_curl c handler = do {
     let l = cl_handlers c;
     n \<leftarrow> dl_heap l handler;
     hp \<leftarrow> (if dn_next n \<noteq> None then set_prev (dl_heap l) (dn_next n) (dn_prev n) else Some (dl_heap l));
     hp \<leftarrow> (if dn_prev n \<noteq> None then set_next hp (dn_prev n) (dn_next n) else Some hp);
     let l = l\<lparr>dl_heap := hp\<rparr>;
     let l = (if Some handler = dl_first l then l\<lparr>dl_first := dn_next n\<rparr> else l);
     let l = (if Some handler = dl_last l then l\<lparr>dl_last := dn_prev n\<rparr> else l);
     Some (c\<lparr>cl_handlers := l, cl_multi := removeAll (ch_curl (dn_data n)) (cl_multi c)\<rparr>) }"

definition monikor_io_handler_list_push_process ::
  "'c process_handler dll \<Rightarrow> nat \<Rightarrow> 'c process_handler dll option" where
  "monikor_io_handler_list_push_process l handler = do {
     l \<leftarrow> (if dl_first l = None then Some (l\<lparr>dl_first := Some handler\<rparr>)
          else do {
            hp \<leftarrow> set_next (dl_heap l) (dl_last l) (Some handler);
            hp \<leftarrow> set_prev hp (Some handler) (dl_last l);
            Some (l\<lparr>dl_heap := hp\<rparr>) });
     Some (l\<lparr>dl_last := Some handler\<rparr>) }"

definition monikor_io_handler_list_remove_process ::
  "'c process_handler dll \<Rightarrow> nat \<Rightarrow> 'c process_handler dll option" where
  "monikor_io_handler_list_remove_process l handler = do {
     n \<leftarrow> dl_heap l handler;
     hp \<leftarrow> (if dn_next n \<noteq> None then set_prev (dl_heap l) (dn_next n) (dn_prev n) else Some (dl_heap l));
     hp \<leftarrow> (if dn_prev n \<noteq> None then set_next hp (dn_prev n) (dn_next n) else Some hp);
     let l = l\<lparr>dl_heap := hp\<rparr>;
     let l = (if Some handler = dl_first l then l\<lparr>dl_first := dn_next n\<rparr> else l);
     let l = (if Some handler = dl_last l then l\<lparr>dl_last := dn_prev n\<rparr> else l);
     Some l }"

subsection \<open>The contract of a list of handlers\<close>

text \<open>Pushing an unlinked node appends it, removing a linked node takes it out, and neither follows a
  bad pointer or changes a handler's data.  \<open>lst\<close> is the doubly linked list in the object.\<close>

locale handler_list =
  fixes lst :: "'l \<Rightarrow> 'a dll"
    and push :: "'l \<Rightarrow> nat \<Rightarrow> 'l option"
    and remove :: "'l \<Rightarrow> nat \<Rightarrow> 'l option"
  assumes push_ok: "dll_is (lst l) xs \<Longrightarrow> h \<notin> set xs \<Longrightarrow> dl_heap (lst l) h = Some n \<Longrightarrow>
      dn_prev n = None \<Longrightarrow> dn_next n = None \<Longrightarrow>
      \<exists>l'. push l h = Some l' \<and> dll_is (lst l') (xs @ [h])
        \<and> (\<forall>a. map_option dn_data (dl_heap (lst l') a) = map_option dn_data (dl_heap (lst l) a))"
    and remove_ok: "dll_is (lst l) (xs @ h # ys) \<Longrightarrow>
      \<exists>l'. remove l h = Some l' \<and> dll_is (lst l') (xs @ ys)
        \<and> (\<forall>a. map_option dn_data (dl_heap (lst l') a) = map_option dn_data (dl_heap (lst l) a))"
begin

text \<open>A run of pushes builds the list in their order.\<close>

lemma push_remove:
  assumes "dll_is (lst l) xs" and "h \<notin> set xs" and "dl_heap (lst l) h = Some n"
    and "dn_prev n = None" and "dn_next n = None"
  obtains l1 l2 where "push l h = Some l1" and "remove l1 h = Some l2" and "dll_is (lst l2) xs"
proof -
  obtain l1 where "push l h = Some l1" "dll_is (lst l1) (xs @ [h])" using push_ok [OF assms] by blast
  moreover from this(2) obtain l2 where "remove l1 h = Some l2" "dll_is (lst l2) xs"
    using remove_ok [of l1 xs h "[]"] by auto
  ultimately show ?thesis using that by blast
qed

text \<open>Removing any handler of the list, wherever it is.\<close>

lemma remove_any:
  assumes "dll_is (lst l) xs" and "h \<in> set xs"
  obtains l' where "remove l h = Some l'" and "dll_is (lst l') (remove1 h xs)"
proof -
  from assms(2) obtain as bs where xs: "xs = as @ h # bs" "h \<notin> set as"
    by (meson split_list_first)
  then have "remove1 h xs = as @ bs" by (simp add: remove1_append)
  with remove_ok [of l as h bs] assms(1) xs that show ?thesis by auto
qed

end

lemma io_push_is_link: "monikor_io_handler_list_push = dll_link"
  by (intro ext) (simp add: monikor_io_handler_list_push_def dll_link_def)

lemma io_remove_is_unlink: "monikor_io_handler_list_remove = dll_unlink"
  by (intro ext) (simp add: monikor_io_handler_list_remove_def dll_unlink_def)

lemma process_push_is_link: "monikor_io_handler_list_push_process = dll_link"
  by (intro ext) (simp add: monikor_io_handler_list_push_process_def dll_link_def)

lemma process_remove_is_unlink: "monikor_io_handler_list_remove_process = dll_unlink"
  by (intro ext) (simp add: monikor_io_handler_list_remove_process_def dll_unlink_def)

lemma curl_push_is_link:
  "dll_link (cl_handlers c) h = Some l' \<Longrightarrow> dl_heap l' h = Some n \<Longrightarrow>
     monikor_io_handler_list_push_curl c h
       = Some (c\<lparr>cl_handlers := l', cl_multi := cl_multi c @ [ch_curl (dn_data n)]\<rparr>)"
  by (auto simp: monikor_io_handler_list_push_curl_def dll_link_def Let_def split: bind_splits if_splits)

lemma curl_remove_is_unlink:
  "dll_unlink (cl_handlers c) h = Some l' \<Longrightarrow> dl_heap (cl_handlers c) h = Some n \<Longrightarrow>
     monikor_io_handler_list_remove_curl c h
       = Some (c\<lparr>cl_handlers := l', cl_multi := removeAll (ch_curl (dn_data n)) (cl_multi c)\<rparr>)"
  by (auto simp: monikor_io_handler_list_remove_curl_def dll_unlink_def Let_def split: bind_splits if_splits)

lemma curl_push_ok:
  assumes "dll_is (cl_handlers c) xs" and "h \<notin> set xs" and n: "dl_heap (cl_handlers c) h = Some n"
    and "dn_prev n = None" and "dn_next n = None"
  shows "\<exists>c'. monikor_io_handler_list_push_curl c h = Some c' \<and> dll_is (cl_handlers c') (xs @ [h])
    \<and> (\<forall>a. map_option dn_data (dl_heap (cl_handlers c') a) = map_option dn_data (dl_heap (cl_handlers c) a))"
proof -
  obtain l' where l': "dll_link (cl_handlers c) h = Some l'" "dll_is l' (xs @ [h])"
    "\<forall>a. map_option dn_data (dl_heap l' a) = map_option dn_data (dl_heap (cl_handlers c) a)"
    using dll_link_ok [OF assms] by blast
  then obtain n' where "dl_heap l' h = Some n'" using n by (metis map_option_eq_Some)
  with l' show ?thesis by (simp add: curl_push_is_link)
qed

lemma curl_remove_ok:
  assumes "dll_is (cl_handlers c) (xs @ h # ys)"
  shows "\<exists>c'. monikor_io_handler_list_remove_curl c h = Some c' \<and> dll_is (cl_handlers c') (xs @ ys)
    \<and> (\<forall>a. map_option dn_data (dl_heap (cl_handlers c') a) = map_option dn_data (dl_heap (cl_handlers c) a))"
proof -
  obtain l' where "dll_unlink (cl_handlers c) h = Some l'" "dll_is l' (xs @ ys)"
    "\<forall>a. map_option dn_data (dl_heap l' a) = map_option dn_data (dl_heap (cl_handlers c) a)"
    using dll_unlink_ok [OF assms] by blast
  moreover obtain n where "dl_heap (cl_handlers c) h = Some n"
    using assms by (auto simp: dll_is_def)
  ultimately show ?thesis by (simp add: curl_remove_is_unlink)
qed

interpretation io_list: handler_list "\<lambda>l. l" monikor_io_handler_list_push monikor_io_handler_list_remove
  unfolding io_push_is_link io_remove_is_unlink
  by unfold_locales (rule dll_link_ok, assumption+, rule dll_unlink_ok, assumption)

interpretation process_list: handler_list "\<lambda>l. l" monikor_io_handler_list_push_process
  monikor_io_handler_list_remove_process
  unfolding process_push_is_link process_remove_is_unlink
  by unfold_locales (rule dll_link_ok, assumption+, rule dll_unlink_ok, assumption)

interpretation curl_list: handler_list cl_handlers monikor_io_handler_list_push_curl
  monikor_io_handler_list_remove_curl
  by unfold_locales (rule curl_push_ok, assumption+, rule curl_remove_ok, assumption)

end
