(* ===== verification/CFloat.thy ===== *)
theory CFloat
  imports Prelude Complex_Main
begin

text \<open>
  The C type \<open>float\<close>: a 32-bit word holding an IEEE-754 binary32 value, with the operations the
  agent applies to it.  An operand is decoded to \<open>(-1)\<^sup>s * m * 2\<^sup>e\<close>, the operation is
  carried out exactly on integers, and one rounding (to nearest, ties to even) gives the result; the
  \<open>double\<close> operations the agent goes through have the same shape in the binary64 format.
  A NaN is always the quiet NaN the hardware produces.
\<close>

type_synonym f32 = "32 word"

datatype fp = NaN | Inf bool | Fin bool nat int

text \<open>A format: precision in bits, smallest and largest exponent of the last bit.\<close>

record fmt =
  prec :: nat
  emin :: int
  emax :: int

definition F32 :: fmt where
  "F32 = \<lparr>prec = 24, emin = -149, emax = 104\<rparr>"

definition F64 :: fmt where
  "F64 = \<lparr>prec = 53, emin = -1074, emax = 971\<rparr>"

subsection \<open>Rounding a ratio\<close>

fun nbits :: "nat \<Rightarrow> nat" where
  "nbits n = (if n = 0 then 0 else Suc (nbits (n div 2)))"

declare nbits.simps [simp del]

text \<open>\<open>n / d\<close> divided by \<open>2^e\<close>, as a ratio of naturals.\<close>

definition scale_ratio :: "nat \<Rightarrow> nat \<Rightarrow> int \<Rightarrow> nat \<times> nat" where
  "scale_ratio n d e = (if 0 \<le> e then (n, d * 2 ^ nat e) else (n * 2 ^ nat (- e), d))"

text \<open>The exponent of the last bit of the \<open>p\<close>-bit approximation of \<open>n / d\<close>.\<close>

definition last_bit_exp :: "nat \<Rightarrow> nat \<Rightarrow> nat \<Rightarrow> int" where
  "last_bit_exp p n d =
     (let k = int (nbits n) - int (nbits d); (n', d') = scale_ratio n d k
      in if d' \<le> n' then k - int p + 1 else k - int p)"

definition round_even :: "nat \<Rightarrow> nat \<Rightarrow> nat" where
  "round_even n d =
     (let q = n div d; r = n mod d
      in if d < 2 * r \<or> (2 * r = d \<and> odd q) then Suc q else q)"

definition fp_round :: "fmt \<Rightarrow> bool \<Rightarrow> nat \<Rightarrow> nat \<Rightarrow> fp" where
  "fp_round f s n d =
     (if n = 0 then Fin s 0 (emin f)
      else let e = max (emin f) (last_bit_exp (prec f) n d);
               (n', d') = scale_ratio n d e;
               q = round_even n' d';
               (m, e') = (if q = 2 ^ prec f then (2 ^ (prec f - 1), e + 1) else (q, e))
           in if emax f < e' then Inf s else Fin s m e')"

definition fp_scaled :: "fmt \<Rightarrow> bool \<Rightarrow> nat \<Rightarrow> int \<Rightarrow> fp" where
  "fp_scaled f s m e =
     (if 0 \<le> e then fp_round f s (m * 2 ^ nat e) 1 else fp_round f s m (2 ^ nat (- e)))"

subsection \<open>Operations on decoded values\<close>

definition signed_val :: "bool \<Rightarrow> nat \<Rightarrow> int" where
  "signed_val s m = (if s then - int m else int m)"

fun fp_neg :: "fp \<Rightarrow> fp" where
  "fp_neg NaN = NaN"
| "fp_neg (Inf s) = Inf (\<not> s)"
| "fp_neg (Fin s m e) = Fin (\<not> s) m e"

fun fp_add :: "fmt \<Rightarrow> fp \<Rightarrow> fp \<Rightarrow> fp" where
  "fp_add f NaN y = NaN"
| "fp_add f x NaN = NaN"
| "fp_add f (Inf s) (Inf t) = (if s = t then Inf s else NaN)"
| "fp_add f (Inf s) y = Inf s"
| "fp_add f x (Inf t) = Inf t"
| "fp_add f (Fin s m e) (Fin t n g) =
     (let h = min e g;
          v = signed_val s (m * 2 ^ nat (e - h)) + signed_val t (n * 2 ^ nat (g - h))
      in fp_scaled f (if v = 0 then s \<and> t else v < 0) (nat \<bar>v\<bar>) h)"

definition fp_sub :: "fmt \<Rightarrow> fp \<Rightarrow> fp \<Rightarrow> fp" where
  "fp_sub f x y = fp_add f x (fp_neg y)"

fun fp_div :: "fmt \<Rightarrow> fp \<Rightarrow> fp \<Rightarrow> fp" where
  "fp_div f NaN y = NaN"
| "fp_div f x NaN = NaN"
| "fp_div f (Inf s) (Inf t) = NaN"
| "fp_div f (Inf s) (Fin t n g) = Inf (s \<noteq> t)"
| "fp_div f (Fin s m e) (Inf t) = Fin (s \<noteq> t) 0 (emin f)"
| "fp_div f (Fin s m e) (Fin t n g) =
     (if n = 0 then (if m = 0 then NaN else Inf (s \<noteq> t))
      else if g \<le> e then fp_round f (s \<noteq> t) (m * 2 ^ nat (e - g)) n
      else fp_round f (s \<noteq> t) m (n * 2 ^ nat (g - e)))"

fun fp_less :: "fp \<Rightarrow> fp \<Rightarrow> bool" where
  "fp_less NaN y = False"
| "fp_less x NaN = False"
| "fp_less (Inf s) (Inf t) = (s \<and> \<not> t)"
| "fp_less (Inf s) (Fin t n g) = s"
| "fp_less (Fin s m e) (Inf t) = (\<not> t)"
| "fp_less (Fin s m e) (Fin t n g) =
     (let h = min e g in signed_val s (m * 2 ^ nat (e - h)) < signed_val t (n * 2 ^ nat (g - h)))"

fun fp_convert :: "fmt \<Rightarrow> fp \<Rightarrow> fp" where
  "fp_convert f NaN = NaN"
| "fp_convert f (Inf s) = Inf s"
| "fp_convert f (Fin s m e) = fp_scaled f s m e"

subsection \<open>The 32-bit encoding\<close>

definition f32_dec :: "f32 \<Rightarrow> fp" where
  "f32_dec w =
     (let u = unat w; s = (2 ^ 31 \<le> u); x = (u div 2 ^ 23) mod 256; r = u mod 2 ^ 23
      in if x = 255 then (if r = 0 then Inf s else NaN)
         else if x = 0 then Fin s r (-149)
         else Fin s (r + 2 ^ 23) (int x - 150))"

fun f32_enc_nat :: "fp \<Rightarrow> nat" where
  "f32_enc_nat NaN = 255 * 2 ^ 23 + 2 ^ 22"
| "f32_enc_nat (Inf s) = (if s then 2 ^ 31 else 0) + 255 * 2 ^ 23"
| "f32_enc_nat (Fin s m e) = (if s then 2 ^ 31 else 0) + nat (e + 149) * 2 ^ 23 + m"

definition f32_enc :: "fp \<Rightarrow> f32" where
  "f32_enc x = of_nat (f32_enc_nat x)"

definition f32_add :: "f32 \<Rightarrow> f32 \<Rightarrow> f32" where
  "f32_add a b = f32_enc (fp_add F32 (f32_dec a) (f32_dec b))"

definition f32_sub :: "f32 \<Rightarrow> f32 \<Rightarrow> f32" where
  "f32_sub a b = f32_enc (fp_sub F32 (f32_dec a) (f32_dec b))"

definition f32_div :: "f32 \<Rightarrow> f32 \<Rightarrow> f32" where
  "f32_div a b = f32_enc (fp_div F32 (f32_dec a) (f32_dec b))"

definition f32_less :: "f32 \<Rightarrow> f32 \<Rightarrow> bool" where
  "f32_less a b = fp_less (f32_dec a) (f32_dec b)"

text \<open>\<open>(float)u\<close> of a \<open>uint64_t\<close> and of a \<open>long\<close>.\<close>

definition f32_of_u64 :: "u64 \<Rightarrow> f32" where
  "f32_of_u64 n = f32_enc (fp_round F32 False (unat n) 1)"

definition f32_of_long :: "clong \<Rightarrow> f32" where
  "f32_of_long l = f32_enc (fp_round F32 (sint l < 0) (nat \<bar>sint l\<bar>) 1)"

text \<open>
  \<open>x / c\<close> for a \<open>float\<close> \<open>x\<close> and a \<open>double\<close> constant \<open>c\<close> that is a whole number:
  a \<open>double\<close> division, converted back to \<open>float\<close>.
\<close>

definition f32_div_double :: "f32 \<Rightarrow> nat \<Rightarrow> f32" where
  "f32_div_double x c = f32_enc (fp_convert F32 (fp_div F64 (f32_dec x) (Fin False c 0)))"

text \<open>The equations that evaluate the operations on concrete words.\<close>

lemmas f32_eval = f32_add_def f32_sub_def f32_div_def f32_div_double_def f32_of_long_def
  f32_of_u64_def f32_less_def fp_sub_def fp_round_def scale_ratio_def last_bit_exp_def
  round_even_def f32_enc_def f32_dec_def F32_def F64_def nbits.simps fp_scaled_def signed_val_def Let_def

subsection \<open>Rounding gives a value of the format\<close>

definition canonical :: "fmt \<Rightarrow> fp \<Rightarrow> bool" where
  "canonical f x = (case x of
       NaN \<Rightarrow> True
     | Inf s \<Rightarrow> True
     | Fin s m e \<Rightarrow> m < 2 ^ prec f \<and> emin f \<le> e \<and> e \<le> emax f \<and> (2 ^ (prec f - 1) \<le> m \<or> e = emin f))"

lemma nbits_0 [simp]: "nbits 0 = 0"
  by (simp add: nbits.simps)

lemma nbits_bounds: "0 < n \<Longrightarrow> 2 ^ (nbits n - 1) \<le> n \<and> n < 2 ^ nbits n"
proof (induction n rule: nbits.induct)
  case (1 n)
  show ?case
  proof (cases "n div 2 = 0")
    case True
    with "1.prems" have "n = 1" by simp
    then show ?thesis by (simp add: nbits.simps)
  next
    case False
    with 1 have IH: "2 ^ (nbits (n div 2) - 1) \<le> n div 2" "n div 2 < 2 ^ nbits (n div 2)"
      by simp_all
    moreover have "nbits n = Suc (nbits (n div 2))"
      using "1.prems" by (simp add: nbits.simps [of n])
    moreover have "0 < nbits (n div 2)"
      using False by (simp add: nbits.simps [of "n div 2"])
    ultimately show ?thesis
      by (cases "nbits (n div 2)") auto
  qed
qed

lemma nbits_pos: "0 < n \<Longrightarrow> 0 < nbits n"
  by (simp add: nbits.simps [of n])

lemma nbits_bounds_real:
  assumes "0 < n"
  shows "2 powi (int (nbits n) - 1) \<le> real n" and "real n < 2 powi int (nbits n)"
proof -
  from assms have b: "2 ^ (nbits n - 1) \<le> n" "n < 2 ^ nbits n" and pos: "0 < nbits n"
    using nbits_bounds nbits_pos by auto
  have "real (2 ^ (nbits n - 1)) \<le> real n" using b(1) by (simp only: of_nat_le_iff)
  moreover have "int (nbits n) - 1 = int (nbits n - 1)" using pos by simp
  ultimately show "2 powi (int (nbits n) - 1) \<le> real n" by (simp only: power_int_of_nat of_nat_power of_nat_numeral)
  have "real n < real (2 ^ nbits n)" using b(2) by (simp only: of_nat_less_iff)
  then show "real n < 2 powi int (nbits n)" by simp
qed

lemma scale_ratio_real:
  assumes "0 < d" and "scale_ratio n d e = (n', d')"
  shows "0 < d'" and "real n' / real d' = real n / real d / 2 powi e"
proof -
  show "0 < d'" using assms by (auto simp: scale_ratio_def split: if_splits)
  show "real n' / real d' = real n / real d / 2 powi e"
  proof (cases "0 \<le> e")
    case True
    then have "2 powi e = (2::real) ^ nat e" by (simp add: power_int_def)
    with True assms(2) show ?thesis by (auto simp: scale_ratio_def)
  next
    case False
    then have "(2::real) powi e = 1 / 2 ^ nat (- e)"
      by (simp add: power_int_def power_one_over inverse_eq_divide)
    with False assms(2) show ?thesis by (auto simp: scale_ratio_def)
  qed
qed

lemma last_bit_exp_bracket:
  fixes n d p :: nat
  assumes "0 < n" and "0 < d"
  defines "e \<equiv> last_bit_exp p n d"
  shows "2 powi (int p - 1) * 2 powi e \<le> real n / real d"
    and "real n / real d < 2 powi int p * 2 powi e"
proof -
  define k where "k = int (nbits n) - int (nbits d)"
  obtain n' d' where s: "scale_ratio n d k = (n', d')" by (cases "scale_ratio n d k")
  note sr = scale_ratio_real [OF \<open>0 < d\<close> s]
  have test: "d' \<le> n' \<longleftrightarrow> 2 powi k \<le> real n / real d"
  proof -
    have "d' \<le> n' \<longleftrightarrow> 1 \<le> real n' / real d'" using sr(1) by (simp add: field_simps)
    also have "\<dots> \<longleftrightarrow> 1 \<le> real n / real d / 2 powi k" by (simp only: sr(2))
    also have "\<dots> \<longleftrightarrow> 2 powi k \<le> real n / real d"
      using \<open>0 < d\<close> by (simp add: le_divide_eq mult.commute)
    finally show ?thesis .
  qed
  have e: "e = (if 2 powi k \<le> real n / real d then k - int p + 1 else k - int p)"
    using s test by (simp add: e_def last_bit_exp_def k_def Let_def)
  have lo: "2 powi (k - 1) \<le> real n / real d"
  proof -
    have "2 powi (k - 1) * real d \<le> 2 powi (k - 1) * 2 powi int (nbits d)"
      using nbits_bounds_real(2) [OF \<open>0 < d\<close>] by (intro mult_left_mono) auto
    also have "\<dots> = 2 powi (k - 1 + int (nbits d))"
      by (rule power_int_add [symmetric]) simp
    also have "\<dots> = 2 powi (int (nbits n) - 1)" by (simp add: k_def)
    also have "\<dots> \<le> real n" by (rule nbits_bounds_real(1) [OF \<open>0 < n\<close>])
    finally show ?thesis using \<open>0 < d\<close> by (simp add: field_simps)
  qed
  have hi: "real n / real d < 2 powi (k + 1)"
  proof -
    have "real n < 2 powi int (nbits n)" by (rule nbits_bounds_real(2) [OF \<open>0 < n\<close>])
    also have "\<dots> = 2 powi (k + 1) * 2 powi (int (nbits d) - 1)"
      by (simp add: k_def flip: power_int_add)
    also have "\<dots> \<le> 2 powi (k + 1) * real d"
      using nbits_bounds_real(1) [OF \<open>0 < d\<close>] by (intro mult_left_mono) auto
    finally show ?thesis using \<open>0 < d\<close> by (simp add: field_simps)
  qed
  show "2 powi (int p - 1) * 2 powi e \<le> real n / real d"
    using lo by (simp add: e flip: power_int_add)
  have "2 powi int p * 2 powi e = (2::real) powi (int p + e)"
    by (rule power_int_add [symmetric]) simp
  with hi show "real n / real d < 2 powi int p * 2 powi e"
    by (auto simp: e simp del: power_int_of_nat)
qed

lemma round_even_half:
  assumes "0 < d"
  shows "\<bar>real (round_even n d) - real n / real d\<bar> \<le> 1 / 2"
proof -
  define q where "q = n div d"
  define r where "r = n mod d"
  have n: "real n = real q * real d + real r"
    unfolding q_def r_def by (metis div_mult_mod_eq of_nat_add of_nat_mult)
  have "r < d" using assms by (simp add: r_def)
  have x: "real n / real d = real q + real r / real d"
    using assms by (simp add: n field_simps)
  have "real (round_even n d) = (if d < 2 * r \<or> (2 * r = d \<and> odd q) then real q + 1 else real q)"
    by (simp add: round_even_def q_def r_def Let_def)
  then show ?thesis
    using \<open>r < d\<close> unfolding x by (auto simp: abs_le_iff field_simps)
qed

lemma round_even_le: "0 < d \<Longrightarrow> real n / real d \<le> real k \<Longrightarrow> round_even n d \<le> k"
  using round_even_half [of d n] by linarith

lemma round_even_ge: "0 < d \<Longrightarrow> real k \<le> real n / real d \<Longrightarrow> k \<le> round_even n d"
  using round_even_half [of d n] by linarith

text \<open>
  Rounding is correct: a finite result is within half a unit in the last place of the ratio.
\<close>

definition fp_val :: "bool \<Rightarrow> nat \<Rightarrow> int \<Rightarrow> real" where
  "fp_val s m e = (if s then -1 else 1) * real m * 2 powi e"

lemma fp_round_sign: "fp_round f s n d = Fin t m e \<Longrightarrow> t = s"
  by (auto simp: fp_round_def Let_def split: if_splits prod.splits)

lemma fp_round_nearest:
  assumes "0 < d" and "0 < prec f" and r: "fp_round f s n d = Fin t m e"
  shows "\<bar>real m * 2 powi e - real n / real d\<bar> \<le> 2 powi e / 2"
proof (cases "n = 0")
  case True
  with r show ?thesis by (simp add: fp_round_def)
next
  case False
  define g where "g = max (emin f) (last_bit_exp (prec f) n d)"
  obtain n' d' where s: "scale_ratio n d g = (n', d')" by (cases "scale_ratio n d g")
  define q where "q = round_even n' d'"
  note sr = scale_ratio_real [OF \<open>0 < d\<close> s]
  have half: "\<bar>real q * 2 powi g - real n / real d\<bar> \<le> 2 powi g / 2"
  proof -
    have "real q * 2 powi g - real n / real d = (real q - real n' / real d') * 2 powi g"
      unfolding sr(2) by (simp add: left_diff_distrib)
    then have "\<bar>real q * 2 powi g - real n / real d\<bar> = \<bar>real q - real n' / real d'\<bar> * 2 powi g"
      by (simp add: abs_mult)
    also have "\<dots> \<le> 1 / 2 * 2 powi g"
      using round_even_half [OF sr(1), of n'] unfolding q_def by (intro mult_right_mono) auto
    finally show ?thesis by simp
  qed
  show ?thesis
  proof (cases "q = 2 ^ prec f")
    case True
    with r False s have me: "m = 2 ^ (prec f - 1)" "e = g + 1"
      by (auto simp: fp_round_def Let_def g_def q_def split: if_splits)
    have "real m * 2 powi e = real q * 2 powi g"
      using \<open>0 < prec f\<close> by (cases "prec f") (simp_all add: me True power_int_add)
    moreover have "2 powi g / 2 \<le> (2::real) powi e / 2" by (simp add: me power_int_add)
    ultimately show ?thesis using half by linarith
  next
    case False
    with r \<open>n \<noteq> 0\<close> s have "m = q" "e = g"
      by (auto simp: fp_round_def Let_def g_def q_def split: if_splits)
    with half show ?thesis by simp
  qed
qed

lemma fp_round_canonical:
  assumes "0 < d" and "0 < prec f" and "emin f \<le> emax f"
  shows "canonical f (fp_round f s n d)"
proof (cases "n = 0")
  case True
  with assms show ?thesis by (simp add: fp_round_def canonical_def)
next
  case False
  define l where "l = last_bit_exp (prec f) n d"
  define g where "g = max (emin f) l"
  obtain n' d' where s: "scale_ratio n d g = (n', d')" by (cases "scale_ratio n d g")
  define q where "q = round_even n' d'"
  note sr = scale_ratio_real [OF \<open>0 < d\<close> s]
  have "0 < n" using False by simp
  note br = last_bit_exp_bracket [OF this \<open>0 < d\<close>, of "prec f", folded l_def]
  have "real n / real d \<le> 2 ^ prec f * 2 powi g"
    using br(2) by (rule order.strict_implies_order [THEN order_trans])
      (simp add: g_def power_int_increasing)
  then have "real n' / real d' \<le> real (2 ^ prec f)"
    unfolding sr(2) using \<open>0 < d\<close> by (simp add: divide_le_eq mult.commute mult.left_commute)
  then have hi: "q \<le> 2 ^ prec f" unfolding q_def by (rule round_even_le [OF sr(1)])
  have lo: "2 ^ (prec f - 1) \<le> q" if "g = l"
  proof -
    have "real (2 ^ (prec f - 1)) = 2 powi (int (prec f) - 1)"
      using \<open>0 < prec f\<close> by (cases "prec f") simp_all
    then have "real (2 ^ (prec f - 1)) \<le> real n' / real d'"
      unfolding sr(2) that using br(1) \<open>0 < d\<close>
      by (simp add: le_divide_eq mult.commute mult.left_commute)
    then show ?thesis unfolding q_def by (rule round_even_ge [OF sr(1)])
  qed
  have "g = l \<or> g = emin f" by (auto simp: g_def)
  moreover have "emin f \<le> g" by (simp add: g_def)
  moreover have "(2::nat) ^ (prec f - 1) < 2 ^ prec f" using \<open>0 < prec f\<close> by simp
  ultimately show ?thesis
    using False s hi lo
    by (auto simp: fp_round_def Let_def canonical_def simp flip: g_def l_def q_def)
qed

subsection \<open>Encoding and decoding\<close>

lemma F32_simps [simp]: "prec F32 = 24" "emin F32 = -149" "emax F32 = 104"
  by (simp_all add: F32_def)

lemma F64_simps [simp]: "prec F64 = 53" "emin F64 = -1074" "emax F64 = 971"
  by (simp_all add: F64_def)

lemma f32_dec_of_nat:
  assumes "x < 256" and "r < 2 ^ 23"
  shows "f32_dec (of_nat ((if s then 2 ^ 31 else 0) + x * 2 ^ 23 + r)) =
    (if x = 255 then (if r = 0 then Inf s else NaN)
     else if x = 0 then Fin s r (-149) else Fin s (r + 2 ^ 23) (int x - 150))"
proof -
  define u where "u = (if s then 2 ^ 31 else 0) + x * 2 ^ 23 + r"
  have xr: "x * 2 ^ 23 + r < 2 ^ 31" using assms by simp
  then have "u < 2 ^ 32" by (simp add: u_def)
  then have "unat (of_nat u :: 32 word) = u" by (simp add: unat_of_nat take_bit_nat_eq_self)
  moreover have "2 ^ 31 \<le> u \<longleftrightarrow> s" using xr by (auto simp: u_def)
  moreover have "u = (if s then 256 + x else x) * 2 ^ 23 + r" by (simp add: u_def)
  then have "u div 2 ^ 23 = (if s then 256 + x else x)" and "u mod 2 ^ 23 = r"
    using assms(2) by auto
  ultimately show ?thesis
    using assms(1) unfolding f32_dec_def Let_def u_def [symmetric] by (cases s) auto
qed

lemma f32_dec_enc: "canonical F32 x \<Longrightarrow> f32_dec (f32_enc x) = x"
proof (cases x)
  case NaN
  then show ?thesis using f32_dec_of_nat [of 255 "2 ^ 22" False] by (simp add: f32_enc_def)
next
  case (Inf s)
  then show ?thesis using f32_dec_of_nat [of 255 0 s] by (simp add: f32_enc_def)
next
  case (Fin s m e)
  moreover assume "canonical F32 x"
  ultimately have c: "m < 2 ^ 24" "-149 \<le> e" "e \<le> 104" "2 ^ 23 \<le> m \<or> e = -149"
    by (auto simp: canonical_def)
  show ?thesis
  proof (cases "2 ^ 23 \<le> m")
    case True
    define r where "r = m - 2 ^ 23"
    define k where "k = nat (e + 150)"
    have k: "k < 256" "k \<noteq> 0" "k \<noteq> 255" "int k - 150 = e" and r: "r < 2 ^ 23" "r + 2 ^ 23 = m"
      using c True by (auto simp: r_def k_def)
    have "nat (e + 149) * 2 ^ 23 + m = k * 2 ^ 23 + r"
      using c r by (simp add: k_def nat_add_distrib)
    then have "f32_enc_nat x = (if s then 2 ^ 31 else 0) + k * 2 ^ 23 + r"
      by (simp only: Fin f32_enc_nat.simps add.assoc)
    then show ?thesis
      unfolding f32_enc_def by (simp only: f32_dec_of_nat [OF k(1) r(1)])
        (use r(2) in \<open>simp add: Fin k\<close>)
  next
    case False
    with c have "e = -149" "m < 2 ^ 23" by auto
    then show ?thesis using f32_dec_of_nat [of 0 m s] by (simp add: Fin f32_enc_def)
  qed
qed

lemma fp_round_F32 [simp]: "0 < d \<Longrightarrow> canonical F32 (fp_round F32 s n d)"
  by (rule fp_round_canonical) simp_all

lemma fp_scaled_F32 [simp]: "canonical F32 (fp_scaled F32 s m e)"
  by (simp add: fp_scaled_def)

lemma fp_convert_F32 [simp]: "canonical F32 (fp_convert F32 x)"
  by (cases x) (simp_all add: canonical_def [of _ NaN] canonical_def [of _ "Inf _"])

lemma fp_div_F32 [simp]: "canonical F32 (fp_div F32 x y)"
  by (cases "(F32, x, y)" rule: fp_div.cases)
    (auto simp: canonical_def [of _ NaN] canonical_def [of _ "Inf _"] canonical_def [of _ "Fin _ 0 _"])

text \<open>Values whose sign bit is clear.\<close>

definition fp_nonneg :: "fp \<Rightarrow> bool" where
  "fp_nonneg x = (case x of NaN \<Rightarrow> False | Inf s \<Rightarrow> \<not> s | Fin s m e \<Rightarrow> \<not> s)"

lemma fp_round_nonneg: "fp_nonneg (fp_round f s n d) \<longleftrightarrow> \<not> s"
  by (auto simp: fp_round_def fp_nonneg_def Let_def split: prod.splits)

lemma fp_scaled_nonneg: "fp_nonneg (fp_scaled f s m e) \<longleftrightarrow> \<not> s"
  by (simp add: fp_scaled_def fp_round_nonneg)

subsection \<open>Positive values stay positive\<close>

definition fp_pos :: "fp \<Rightarrow> bool" where
  "fp_pos x = (case x of NaN \<Rightarrow> False | Inf s \<Rightarrow> \<not> s | Fin s m e \<Rightarrow> \<not> s \<and> 0 < m)"

lemma fp_round_lower:
  assumes "0 < d" and "0 < prec f" and "emin f \<le> emax f" and big: "2 powi emin f \<le> real n / real d"
    and r: "fp_round f s n d = Fin t m e"
  shows "0 < m" and "2 / 3 * (real n / real d) \<le> real m * 2 powi e"
proof -
  note near = fp_round_nearest [OF assms(1,2) r]
  have can: "canonical f (Fin t m e)" using fp_round_canonical [OF assms(1-3)] by (metis r)
  show "0 < m"
  proof (rule ccontr)
    assume "\<not> 0 < m"
    with can have "m = 0" "e = emin f" by (auto simp: canonical_def)
    with near have "real n / real d \<le> 2 powi emin f / 2" by (simp add: abs_le_iff)
    with big have "2 powi emin f \<le> (2::real) powi emin f / 2" by linarith
    then show False by simp
  qed
  then have "2 powi e \<le> real m * 2 powi e" by simp
  with near show "2 / 3 * (real n / real d) \<le> real m * 2 powi e" by linarith
qed

lemma fp_round_not_Inf:
  assumes "0 < d" and "0 < prec f" and "emin f \<le> emax f - 1"
    and small: "real n / real d < 2 powi (int (prec f) - 1) * 2 powi emax f"
  shows "\<exists>m e. fp_round f s n d = Fin s m e"
proof (cases "n = 0")
  case True
  then show ?thesis by (simp add: fp_round_def)
next
  case False
  define l where "l = last_bit_exp (prec f) n d"
  have "2 powi (int (prec f) - 1) * 2 powi l \<le> real n / real d"
    using last_bit_exp_bracket(1) [of n d "prec f"] False assms(1) by (simp add: l_def)
  with small have "2 powi (int (prec f) - 1) * 2 powi l < (2::real) powi (int (prec f) - 1) * 2 powi emax f"
    by linarith
  then have "(2::real) powi l < 2 powi emax f" by simp
  then have "l < emax f"
    using power_int_increasing [of "emax f" l "2::real"] by (cases "l < emax f") auto
  then have "max (emin f) l \<le> emax f - 1" using assms(3) by simp
  with False show ?thesis
    by (auto simp: fp_round_def Let_def simp flip: l_def split: prod.splits)
qed

lemma fp_div_nonneg:
  "fp_nonneg (Fin False m e) \<Longrightarrow> fp_pos y \<Longrightarrow> fp_nonneg (fp_div f (Fin False m e) y)"
  by (cases y) (auto simp: fp_nonneg_def [of "Fin _ 0 _"] fp_pos_def fp_round_nonneg)

lemma fp_round_big_pos:
  assumes "0 < d" and "0 < prec f" and "emin f \<le> emax f" and "2 powi emin f \<le> real n / real d"
  shows "fp_round f False n d = Inf False \<or>
    (\<exists>m e. fp_round f False n d = Fin False m e \<and> 0 < m \<and> 2 / 3 * (real n / real d) \<le> real m * 2 powi e)"
proof (cases "fp_round f False n d")
  case NaN
  then show ?thesis by (auto simp: fp_round_def Let_def split: if_splits prod.splits)
next
  case (Inf s)
  then show ?thesis by (auto simp: fp_round_def Let_def split: if_splits prod.splits)
next
  case (Fin s m e)
  moreover from this have "s = False" by (rule fp_round_sign)
  ultimately show ?thesis using fp_round_lower [OF assms] by auto
qed

lemma fp_scaled_real:
  obtains n d where "0 < d" and "fp_scaled f s m e = fp_round f s n d"
    and "real n / real d = real m * 2 powi e"
proof (cases "0 \<le> e")
  case True
  then show ?thesis by (intro that [of 1 "m * 2 ^ nat e"]) (simp_all add: fp_scaled_def power_int_def)
next
  case False
  then show ?thesis
    by (intro that [of "2 ^ nat (- e)" m])
      (simp_all add: fp_scaled_def power_int_def inverse_eq_divide power_one_over)
qed

lemma powi_149: "(2::real) powi -149 \<le> 4 / 9 / 1000000" and powi_1074: "(2::real) powi -1074 \<le> 2 / 3 / 1000000"
proof -
  have "(2::real) powi -1074 \<le> 2 powi -149" and "(2::real) powi -149 \<le> 2 powi -30"
    by (rule power_int_increasing; simp)+
  moreover have "(2::real) powi -30 \<le> 4 / 9 / 1000000"
    by (simp add: power_int_def inverse_eq_divide power_one_over)
  ultimately show "(2::real) powi -149 \<le> 4 / 9 / 1000000" "(2::real) powi -1074 \<le> 2 / 3 / 1000000"
    by linarith+
qed

lemma f32_of_long_pos:
  assumes "0 < sint l"
  obtains m e where "f32_dec (f32_of_long l) = Fin False m e" and "0 < m" and "2 / 3 \<le> real m * 2 powi e"
proof -
  have "sint l < 2 ^ 63" using sint_less [of l] by simp
  then have "real_of_int (sint l) < real_of_int (2 ^ 63)" by (simp only: of_int_less_iff)
  with assms have small: "real (nat (sint l)) < 2 ^ 63" by simp
  have "(2::real) ^ 63 \<le> 2 powi (int (prec F32) - 1) * 2 powi emax F32"
    by (simp add: power_int_def)
  with small have "\<exists>m e. fp_round F32 False (nat (sint l)) 1 = Fin False m e"
    by (intro fp_round_not_Inf) auto
  then obtain m e where r: "fp_round F32 False (nat (sint l)) 1 = Fin False m e" by blast
  have "1 \<le> nat (sint l)" using assms by linarith
  then have one: "1 \<le> real (nat (sint l)) / real 1" by (simp only: div_by_1 of_nat_1 of_nat_le_iff [of 1, simplified])
  then have "2 powi emin F32 \<le> real (nat (sint l)) / real 1"
    using powi_149 unfolding F32_simps by linarith
  note lower = fp_round_lower [OF _ _ _ this r]
  have "0 < m" by (rule lower(1)) simp_all
  moreover have "2 / 3 * (real (nat (sint l)) / real 1) \<le> real m * 2 powi e"
    by (rule lower(2)) simp_all
  with one have "2 / 3 \<le> real m * 2 powi e" by linarith
  moreover have "f32_dec (f32_of_long l) = Fin False m e"
    using f32_dec_enc [OF fp_round_F32 [of 1 False "nat (sint l)"]] r assms
    by (simp add: f32_of_long_def)
  ultimately show ?thesis using that by blast
qed

lemma f32_of_u64_finite:
  obtains m e where "f32_dec (f32_of_u64 n) = Fin False m e"
proof -
  have "real (unat n) < real (2 ^ 64)"
    using unsigned_less [of n, where ?'a = nat] by (simp only: of_nat_less_iff) simp
  also have "\<dots> \<le> 2 powi (int (prec F32) - 1) * 2 powi emax F32"
    by (simp add: power_int_def)
  finally have "\<exists>m e. fp_round F32 False (unat n) 1 = Fin False m e"
    by (intro fp_round_not_Inf) auto
  then obtain m e where "fp_round F32 False (unat n) 1 = Fin False m e" by blast
  then have "f32_dec (f32_of_u64 n) = Fin False m e"
    using f32_dec_enc [OF fp_round_F32 [of 1 False "unat n"]] by (simp add: f32_of_u64_def)
  then show ?thesis by (rule that)
qed

lemma f32_div_double_pos:
  assumes x: "f32_dec x = Fin False m e" and "0 < m" and big: "2 / 3 \<le> real m * 2 powi e"
  shows "fp_pos (f32_dec (f32_div_double x 1000000))"
proof -
  obtain n d where d: "0 < d" and q: "fp_div F64 (Fin False m e) (Fin False 1000000 0) = fp_round F64 False n d"
    and nd: "real n / real d = real m * 2 powi e / 1000000"
  proof (cases "0 \<le> e")
    case True
    then show ?thesis
      by (intro that [of 1000000 "m * 2 ^ nat e"]) (simp_all add: power_int_def)
  next
    case False
    then show ?thesis
      by (intro that [of "1000000 * 2 ^ nat (- e)" m])
        (simp_all add: power_int_def inverse_eq_divide power_one_over)
  qed
  have "2 / 3 / 1000000 \<le> real n / real d" using big by (simp add: nd)
  moreover from this have "2 powi emin F64 \<le> real n / real d" using powi_1074 by simp
  ultimately consider "fp_round F64 False n d = Inf False"
    | m' e' where "fp_round F64 False n d = Fin False m' e'" "4 / 9 / 1000000 \<le> real m' * 2 powi e'"
    using fp_round_big_pos [of d F64 n] d by fastforce
  then have "fp_pos (fp_convert F32 (fp_round F64 False n d))"
  proof cases
    case 1
    then show ?thesis by (simp add: fp_pos_def)
  next
    case 2
    obtain n2 d2 where r: "0 < d2" "fp_scaled F32 False m' e' = fp_round F32 False n2 d2"
      "real n2 / real d2 = real m' * 2 powi e'" by (rule fp_scaled_real)
    with 2(2) have "2 powi emin F32 \<le> real n2 / real d2" using powi_149 by simp
    from fp_round_big_pos [OF r(1) _ _ this] 2(1) r(2) show ?thesis
      by (auto simp: fp_pos_def)
  qed
  then show ?thesis by (simp add: f32_div_double_def f32_dec_enc x flip: q)
qed

text \<open>A count divided by a positive span of microseconds, read in seconds.\<close>

lemma rate_is_nonneg:
  assumes "0 < sint l"
  shows "fp_nonneg (f32_dec (f32_div (f32_of_u64 n) (f32_div_double (f32_of_long l) 1000000)))"
proof -
  obtain m e where n: "f32_dec (f32_of_u64 n) = Fin False m e" by (rule f32_of_u64_finite)
  obtain m' e' where "f32_dec (f32_of_long l) = Fin False m' e'" "0 < m'" "2 / 3 \<le> real m' * 2 powi e'"
    using assms by (rule f32_of_long_pos)
  then have "fp_pos (f32_dec (f32_div_double (f32_of_long l) 1000000))" by (rule f32_div_double_pos)
  then show ?thesis
    by (simp add: f32_div_def f32_dec_enc n fp_div_nonneg fp_nonneg_def [of "Fin _ _ _"])
qed

end
