(* ===== verification/Metric.thy ===== *)
theory Metric
  imports CFloat
begin

text \<open>
  Metrics: \<open>lib/monikor/include/metric.h\<close>, \<open>lib/monikor/src/metrics/metric.c\<close> and
  \<open>metric_compute.c\<close>.  The C union with its type tag is a datatype, so a metric always carries
  the value its tag announces; the fields a fresh struct has not written yet hold the word the
  allocator left there.
\<close>

subsection \<open>Data\<close>

record timeval =
  tv_sec :: clong
  tv_usec :: clong

datatype metric_type = MONIKOR_INTEGER | MONIKOR_FLOAT | MONIKOR_STRING

datatype metric_value = VInt u64 | VFloat f32 | VString string

fun type_of :: "metric_value \<Rightarrow> metric_type" where
  "type_of (VInt _) = MONIKOR_INTEGER"
| "type_of (VFloat _) = MONIKOR_FLOAT"
| "type_of (VString _) = MONIKOR_STRING"

definition MONIKOR_METRIC_DELTA :: u8 where
  [flag_simps]: "MONIKOR_METRIC_DELTA = 1"

definition MONIKOR_METRIC_TIMEDELTA :: u8 where
  [flag_simps]: "MONIKOR_METRIC_TIMEDELTA = MONIKOR_METRIC_DELTA OR 2"

definition MONIKOR_METRIC_AGGREGATE :: u8 where
  [flag_simps]: "MONIKOR_METRIC_AGGREGATE = 4"

record metric =
  m_name :: string
  m_id :: u16
  m_clock :: timeval
  m_value :: metric_value
  m_flags :: u8

abbreviation m_type :: "metric \<Rightarrow> metric_type" where
  "m_type m \<equiv> type_of (m_value m)"

subsection \<open>Construction\<close>

definition monikor_metric_new :: "string \<Rightarrow> timeval \<Rightarrow> alloc \<Rightarrow> metric option \<times> alloc" where
  "monikor_metric_new name clock =
     or_null malloc (\<lambda>j. or_null (strdup name) (\<lambda>n.
       alloc_ret \<lparr>m_name = n, m_id = 0, m_clock = clock, m_value = VInt j, m_flags = 0\<rparr>))"

definition monikor_metric_clone :: "metric \<Rightarrow> alloc \<Rightarrow> metric option \<times> alloc" where
  "monikor_metric_clone src =
     or_null (monikor_metric_new (m_name src) (m_clock src)) (\<lambda>m.
       let m = m\<lparr>m_id := m_id src, m_flags := m_flags src\<rparr>
       in case m_value src of
            VInt i \<Rightarrow> alloc_ret (m\<lparr>m_value := VInt i\<rparr>)
          | VFloat f \<Rightarrow> alloc_ret (m\<lparr>m_value := VFloat f\<rparr>)
          | VString s \<Rightarrow> or_null (strdup s) (\<lambda>s. alloc_ret (m\<lparr>m_value := VString s\<rparr>)))"

definition monikor_metric_integer ::
  "string \<Rightarrow> timeval \<Rightarrow> u64 \<Rightarrow> u8 \<Rightarrow> alloc \<Rightarrow> metric option \<times> alloc" where
  "monikor_metric_integer name clock value flags =
     or_null (monikor_metric_new name clock) (\<lambda>m.
       alloc_ret (m\<lparr>m_value := VInt value, m_flags := flags\<rparr>))"

definition monikor_metric_integer_id ::
  "string \<Rightarrow> timeval \<Rightarrow> u64 \<Rightarrow> u8 \<Rightarrow> u16 \<Rightarrow> alloc \<Rightarrow> metric option \<times> alloc" where
  "monikor_metric_integer_id name clock value flags i =
     or_null (monikor_metric_integer name clock value flags) (\<lambda>m. alloc_ret (m\<lparr>m_id := i\<rparr>))"

definition monikor_metric_float ::
  "string \<Rightarrow> timeval \<Rightarrow> f32 \<Rightarrow> u8 \<Rightarrow> alloc \<Rightarrow> metric option \<times> alloc" where
  "monikor_metric_float name clock value flags =
     or_null (monikor_metric_new name clock) (\<lambda>m.
       alloc_ret (m\<lparr>m_value := VFloat value, m_flags := flags\<rparr>))"

definition monikor_metric_float_id ::
  "string \<Rightarrow> timeval \<Rightarrow> f32 \<Rightarrow> u8 \<Rightarrow> u16 \<Rightarrow> alloc \<Rightarrow> metric option \<times> alloc" where
  "monikor_metric_float_id name clock value flags i =
     or_null (monikor_metric_float name clock value flags) (\<lambda>m. alloc_ret (m\<lparr>m_id := i\<rparr>))"

definition monikor_metric_string ::
  "string \<Rightarrow> timeval \<Rightarrow> string \<Rightarrow> alloc \<Rightarrow> metric option \<times> alloc" where
  "monikor_metric_string name clock value =
     or_null (monikor_metric_new name clock) (\<lambda>m.
       or_null (strdup value) (\<lambda>s. alloc_ret (m\<lparr>m_value := VString s\<rparr>)))"

definition monikor_metric_string_id ::
  "string \<Rightarrow> timeval \<Rightarrow> string \<Rightarrow> u16 \<Rightarrow> alloc \<Rightarrow> metric option \<times> alloc" where
  "monikor_metric_string_id name clock value i =
     or_null (monikor_metric_string name clock value) (\<lambda>m. alloc_ret (m\<lparr>m_id := i\<rparr>))"

definition monikor_metric_data_size :: "metric \<Rightarrow> u64" where
  "monikor_metric_data_size m =
     (case m_value m of VInt _ \<Rightarrow> 8 | VFloat _ \<Rightarrow> 4 | VString s \<Rightarrow> strlen s)"

subsection \<open>Deltas and sums\<close>

definition compute_metrics_interval :: "metric \<Rightarrow> metric \<Rightarrow> f32" where
  "compute_metrics_interval a b =
     (let duration = f32_of_long (1000000 * (tv_sec (m_clock b) - tv_sec (m_clock a))
                        + (tv_usec (m_clock b) - tv_usec (m_clock a)))
      in f32_div_double duration 1000000)"

definition is_timedelta :: "metric \<Rightarrow> bool" where
  "is_timedelta a \<longleftrightarrow> (m_flags a AND MONIKOR_METRIC_TIMEDELTA) = MONIKOR_METRIC_TIMEDELTA"

definition compute_float_delta :: "metric \<Rightarrow> f32 \<Rightarrow> metric \<Rightarrow> f32 \<Rightarrow> metric \<Rightarrow> metric" where
  "compute_float_delta a x b y res =
     (let res = res\<lparr>m_value := VFloat (f32_sub y x)\<rparr>
      in if is_timedelta a then
           (if f32_less y x then res\<lparr>m_value := VFloat 0\<rparr>
            else res\<lparr>m_value := VFloat (f32_div (f32_sub y x) (compute_metrics_interval a b))\<rparr>)
         else res)"

definition compute_int_delta :: "metric \<Rightarrow> u64 \<Rightarrow> metric \<Rightarrow> u64 \<Rightarrow> metric \<Rightarrow> metric" where
  "compute_int_delta a x b y res =
     (if is_timedelta a then
        (if y < x then res\<lparr>m_value := VFloat 0\<rparr>
         else res\<lparr>m_value := VFloat (f32_div (f32_of_u64 (y - x)) (compute_metrics_interval a b))\<rparr>)
      else
        (if y < x then res\<lparr>m_value := VInt 0\<rparr> else res\<lparr>m_value := VInt (y - x)\<rparr>))"

definition monikor_metric_compute_delta :: "metric \<Rightarrow> metric \<Rightarrow> alloc \<Rightarrow> metric option \<times> alloc" where
  "monikor_metric_compute_delta a b al =
     (if m_type a \<noteq> m_type b then (None, al)
      else case monikor_metric_clone a al of
        (None, al) \<Rightarrow> (None, al)
      | (Some result, al) \<Rightarrow>
          let result = result\<lparr>m_flags := m_flags result
                AND NOT (MONIKOR_METRIC_DELTA OR MONIKOR_METRIC_TIMEDELTA)\<rparr>
          in case (m_value a, m_value b) of
               (VInt x, VInt y) \<Rightarrow> (Some (compute_int_delta a x b y result), al)
             | (VFloat x, VFloat y) \<Rightarrow> (Some (compute_float_delta a x b y result), al)
             | _ \<Rightarrow> (None, al))"

text \<open>The updated destination, and the C return code (1: the metrics cannot be added).\<close>

definition monikor_metric_add :: "metric \<Rightarrow> metric \<Rightarrow> metric \<times> cint" where
  "monikor_metric_add dst src =
     (case (m_value dst, m_value src) of
        (VInt x, VInt y) \<Rightarrow> (dst\<lparr>m_value := VInt (x + y)\<rparr>, 0)
      | (VFloat x, VFloat y) \<Rightarrow> (dst\<lparr>m_value := VFloat (f32_add x y)\<rparr>, 0)
      | _ \<Rightarrow> (dst, 1))"

subsection \<open>Lemmas\<close>

text \<open>Names and string values are C strings.\<close>

definition metric_wf :: "metric \<Rightarrow> bool" where
  "metric_wf m \<longleftrightarrow> cstr (m_name m) \<and> (\<forall>s. m_value m = VString s \<longrightarrow> cstr s)"

lemma metric_new_Some:
  "monikor_metric_new name clock al = (Some m, al') \<Longrightarrow>
     m_name m = name \<and> m_id m = 0 \<and> m_clock m = clock \<and> m_flags m = 0"
  by (auto simp: monikor_metric_new_def or_null_eq_Some_iff dest: strdup_Some)

lemma metric_new_ok:
  assumes "alloc_ok al"
  obtains m al' where "monikor_metric_new name clock al = (Some m, al')" and "alloc_ok al'"
proof -
  from assms obtain j al1 where 1: "malloc al = (Some j, al1)" "alloc_ok al1"
    by (rule alloc_ok_malloc)
  from 1(2) obtain al2 where 2: "strdup name al1 = (Some name, al2)" "alloc_ok al2"
    by (rule alloc_ok_strdup)
  show ?thesis
    by (rule that [OF _ 2(2)]) (simp add: monikor_metric_new_def alloc_simps 1 2)
qed

lemma metric_clone_Some:
  "monikor_metric_clone src al = (Some m, al') \<Longrightarrow> m = src"
  by (cases "m_value src")
    (auto simp: monikor_metric_clone_def or_null_eq_Some_iff Let_def intro!: metric.equality
      dest!: metric_new_Some strdup_Some)

lemma metric_clone_ok:
  assumes "alloc_ok al"
  obtains al' where "monikor_metric_clone src al = (Some src, al')" and "alloc_ok al'"
proof -
  from assms obtain m al1 where 1: "monikor_metric_new (m_name src) (m_clock src) al = (Some m, al1)"
    "alloc_ok al1" by (rule metric_new_ok)
  have "\<exists>m' al'. monikor_metric_clone src al = (Some m', al') \<and> alloc_ok al'"
  proof (cases "m_value src")
    case (VString s)
    from 1(2) obtain al2 where "strdup s al1 = (Some s, al2)" "alloc_ok al2"
      by (rule alloc_ok_strdup)
    with 1 VString show ?thesis by (simp add: monikor_metric_clone_def alloc_simps)
  qed (use 1 in \<open>simp_all add: monikor_metric_clone_def alloc_simps\<close>)
  then show ?thesis using that metric_clone_Some by blast
qed

lemma metric_add_type: "monikor_metric_add d s = (d', r) \<Longrightarrow> m_type d' = m_type d"
  by (auto simp: monikor_metric_add_def split: metric_value.splits)

lemma metric_add_frame:
  "monikor_metric_add d s = (d', r) \<Longrightarrow>
     m_name d' = m_name d \<and> m_id d' = m_id d \<and> m_clock d' = m_clock d \<and> m_flags d' = m_flags d"
  by (auto simp: monikor_metric_add_def split: metric_value.splits)

lemma metric_add_wf: "monikor_metric_add d s = (d', r) \<Longrightarrow> metric_wf d \<Longrightarrow> metric_wf d'"
  by (auto simp: monikor_metric_add_def metric_wf_def split: metric_value.splits)

lemma metric_add_fail: "monikor_metric_add d s = (d', r) \<Longrightarrow> r \<noteq> 0 \<Longrightarrow> d' = d"
  by (auto simp: monikor_metric_add_def split: metric_value.splits)

text \<open>What a computed delta keeps of the older metric.\<close>

lemma compute_delta_Some:
  assumes "monikor_metric_compute_delta a b al = (Some r, al')"
  shows "m_name r = m_name a" and "m_id r = m_id a" and "m_clock r = m_clock a"
    and "m_flags r = m_flags a AND NOT 3" and "m_type b = m_type a" and "m_type a \<noteq> MONIKOR_STRING"
    and "m_type r \<noteq> MONIKOR_STRING"
  using assms
  by (auto simp: monikor_metric_compute_delta_def compute_int_delta_def compute_float_delta_def
      Let_def flag_simps
      dest!: metric_clone_Some split: if_splits prod.splits option.splits metric_value.splits)

lemma compute_delta_clears [simp]:
  "monikor_metric_compute_delta a b al = (Some r, al') \<Longrightarrow> m_flags r AND MONIKOR_METRIC_DELTA = 0"
  using compute_delta_Some(4) [of a b al r al']
  by (simp add: flag_simps and.assoc)

lemma compute_delta_wf:
  "monikor_metric_compute_delta a b al = (Some r, al') \<Longrightarrow> metric_wf a \<Longrightarrow> metric_wf r"
  using compute_delta_Some [of a b al r al'] by (cases "m_value r") (auto simp: metric_wf_def)

text \<open>A delta metric is one the store must pair with its previous sample.\<close>

abbreviation is_delta :: "metric \<Rightarrow> bool" where
  "is_delta m \<equiv> m_flags m AND MONIKOR_METRIC_DELTA \<noteq> 0"

lemma is_timedelta_is_delta: "is_timedelta m \<Longrightarrow> is_delta m"
proof
  assume t: "is_timedelta m" and "m_flags m AND MONIKOR_METRIC_DELTA = 0"
  then have "(m_flags m AND 3) AND 1 = 0" by (simp add: flag_simps and.assoc)
  with t show False by (simp add: is_timedelta_def flag_simps)
qed

subsection \<open>Properties\<close>

lemma compute_delta_ok:
  assumes "alloc_ok al" and "m_type a = m_type b"
  obtains al' where "alloc_ok al'" and "monikor_metric_compute_delta a b al =
    (let r = a\<lparr>m_flags := m_flags a AND NOT 3\<rparr>
     in case (m_value a, m_value b) of
          (VInt x, VInt y) \<Rightarrow> (Some (compute_int_delta a x b y r), al')
        | (VFloat x, VFloat y) \<Rightarrow> (Some (compute_float_delta a x b y r), al')
        | _ \<Rightarrow> (None, al'))"
proof -
  from assms(1) obtain al' where "monikor_metric_clone a al = (Some a, al')" "alloc_ok al'"
    by (rule metric_clone_ok)
  then show ?thesis
    by (intro that [of al']) (simp_all add: monikor_metric_compute_delta_def assms(2) flag_simps)
qed

text \<open>the delta of two integer counters is the difference of the samples, or 0 when the
  counter went back (it never wraps); everything else of the older metric is kept, and the delta
  flags are cleared.\<close>

theorem compute_delta_integer:
  assumes "alloc_ok al" and "m_value a = VInt x" and "m_value b = VInt y" and "\<not> is_timedelta a"
  shows "fst (monikor_metric_compute_delta a b al) =
    Some (a\<lparr>m_flags := m_flags a AND NOT 3, m_value := VInt (of_nat (unat y - unat x))\<rparr>)"
proof -
  have "m_type a = m_type b" by (simp add: assms)
  with assms(1) obtain al' where "monikor_metric_compute_delta a b al =
      (let r = a\<lparr>m_flags := m_flags a AND NOT 3\<rparr>
       in case (m_value a, m_value b) of
            (VInt x, VInt y) \<Rightarrow> (Some (compute_int_delta a x b y r), al')
          | (VFloat x, VFloat y) \<Rightarrow> (Some (compute_float_delta a x b y r), al')
          | _ \<Rightarrow> (None, al'))" by (rule compute_delta_ok)
  moreover have "(if y < x then 0 else y - x) = (of_nat (unat y - unat x) :: u64)"
    by (simp add: word_less_nat_alt of_nat_diff)
  ultimately show ?thesis
    using assms by (auto simp: compute_int_delta_def Let_def split: if_splits)
qed

theorem compute_delta_integer_witness:
  "fst (monikor_metric_compute_delta
      \<lparr>m_name = ''m'', m_id = 7, m_clock = \<lparr>tv_sec = 42, tv_usec = 0\<rparr>, m_value = VInt 42, m_flags = 1\<rparr>
      \<lparr>m_name = ''m'', m_id = 7, m_clock = \<lparr>tv_sec = 102, tv_usec = 0\<rparr>, m_value = VInt 126, m_flags = 1\<rparr> []) =
   Some \<lparr>m_name = ''m'', m_id = 7, m_clock = \<lparr>tv_sec = 42, tv_usec = 0\<rparr>, m_value = VInt 84, m_flags = 0\<rparr>"
  by (subst compute_delta_integer [where x = 42 and y = 126])
    (simp_all add: is_timedelta_def flag_simps)



text \<open>with memory available, computing a delta is refused exactly for two metrics of different
  types and for strings.\<close>

theorem compute_delta_refused:
  assumes "alloc_ok al"
  shows "fst (monikor_metric_compute_delta a b al) = None \<longleftrightarrow>
    m_type a \<noteq> m_type b \<or> m_type a = MONIKOR_STRING"
proof (cases "m_type a = m_type b")
  case False
  then show ?thesis by (simp add: monikor_metric_compute_delta_def)
next
  case True
  from assms this obtain al' where "monikor_metric_compute_delta a b al =
      (let r = a\<lparr>m_flags := m_flags a AND NOT 3\<rparr>
       in case (m_value a, m_value b) of
            (VInt x, VInt y) \<Rightarrow> (Some (compute_int_delta a x b y r), al')
          | (VFloat x, VFloat y) \<Rightarrow> (Some (compute_float_delta a x b y r), al')
          | _ \<Rightarrow> (None, al'))" by (rule compute_delta_ok)
  with True show ?thesis by (cases "m_value a"; cases "m_value b") (simp_all add: Let_def)
qed

theorem compute_delta_refused_witness:
  "fst (monikor_metric_compute_delta
      \<lparr>m_name = ''m'', m_id = 0, m_clock = \<lparr>tv_sec = 0, tv_usec = 0\<rparr>, m_value = VInt 1, m_flags = 1\<rparr>
      \<lparr>m_name = ''m'', m_id = 0, m_clock = \<lparr>tv_sec = 1, tv_usec = 0\<rparr>, m_value = VFloat 0, m_flags = 1\<rparr> []) = None"
  by (subst compute_delta_refused) simp_all

end
