(* ===== verification/Counted_List.thy ===== *)
theory Counted_List
  imports Prelude
begin

text \<open>
  The interface of the agent's counted lists.  \<open>monikor_metric_list_t\<close> and \<open>strl_t\<close> are
  both singly linked lists with a size that is kept beside the links; their clients only push at
  the end, append one list to another (which empties the second) and read the size.  The locale
  states what a provider promises and derives what the clients use: pushing a whole sequence, and
  the double append with which the store puts its cache back in front.
\<close>

locale counted_list =
  fixes elems :: "'q \<Rightarrow> 'a list"
    and count :: "'q \<Rightarrow> u64"
    and empty :: 'q
    and push :: "'q \<Rightarrow> 'a \<Rightarrow> 'q"
    and concat_to :: "'q \<Rightarrow> 'q \<Rightarrow> 'q \<times> 'q"
    and invar :: "'q \<Rightarrow> bool"
  assumes empty_ok: "elems empty = []" "invar empty"
    and push_elems: "elems (push q x) = elems q @ [x]"
    and push_invar: "invar q \<Longrightarrow> invar (push q x)"
    and concat_elems: "elems (fst (concat_to p q)) = elems p @ elems q"
      "elems (snd (concat_to p q)) = []"
    and concat_invar: "invar p \<Longrightarrow> invar q \<Longrightarrow> invar (fst (concat_to p q))"
      "invar (snd (concat_to p q))"
    and count_ok: "invar q \<Longrightarrow> count q = of_nat (length (elems q))"
begin

lemma push_all_elems: "elems (foldl push q xs) = elems q @ xs"
  by (induction xs arbitrary: q) (simp_all add: push_elems)

lemma push_all_invar: "invar q \<Longrightarrow> invar (foldl push q xs)"
  by (induction xs arbitrary: q) (simp_all add: push_invar)

lemma push_all_count: "invar q \<Longrightarrow> count (foldl push q xs) = count q + of_nat (length xs)"
  by (simp add: count_ok push_all_invar push_all_elems)

lemma count_zero_iff: "invar q \<Longrightarrow> length (elems q) < 2 ^ 64 \<Longrightarrow> count q = 0 \<longleftrightarrow> elems q = []"
  by (auto simp: count_ok word_of_nat_eq_0_iff dest: dvd_imp_le)

text \<open>Two appends that bring \<open>p\<close> back in front of \<open>q\<close>.\<close>

lemma swap_elems:
  assumes "concat_to p q = (p1, q1)" and "concat_to q1 p1 = (q2, p2)"
  shows "elems q2 = elems p @ elems q" and "elems p2 = []"
  using concat_elems [of p q] concat_elems [of q1 p1] assms by simp_all

lemma swap_invar:
  assumes "concat_to p q = (p1, q1)" and "concat_to q1 p1 = (q2, p2)" and "invar p" and "invar q"
  shows "invar q2" and "invar p2"
  using concat_invar [of p q] concat_invar [of q1 p1] assms by simp_all

end

end
