(* ===== verification/Metric_List.thy ===== *)
theory Metric_List
  imports Metric Counted_List
begin

text \<open>
  Metric lists, \<open>lib/monikor/src/metrics/metric_list.c\<close>, as the other components see them: the
  metrics in link order with the two counters the C code keeps beside the links, \<open>size\<close> and
  \<open>data_size\<close>, both \<open>size_t\<close> and both updated by increments, as in the code.
\<close>

record mlist =
  l_nodes :: "metric list"
  l_size :: u64
  l_data_size :: u64

text \<open>\<open>sizeof(monikor_metric_list_node_t)\<close> and \<open>sizeof(monikor_metric_t)\<close> on LP64.\<close>

definition sizeof_node :: u64 where "sizeof_node = 16"
definition sizeof_metric :: u64 where "sizeof_metric = 56"

definition monikor_metric_node_size :: "metric \<Rightarrow> u64" where
  "monikor_metric_node_size m =
     (let sz = sizeof_node + sizeof_metric + strlen (m_name m)
      in case m_value m of VString s \<Rightarrow> sz + strlen s | _ \<Rightarrow> sz)"

definition monikor_metric_list_init :: mlist where
  "monikor_metric_list_init = \<lparr>l_nodes = [], l_size = 0, l_data_size = 0\<rparr>"

definition monikor_metric_list_new :: "alloc \<Rightarrow> mlist option \<times> alloc" where
  "monikor_metric_list_new = or_null malloc (\<lambda>_. alloc_ret monikor_metric_list_init)"

definition monikor_metric_list_node_new :: "metric \<Rightarrow> alloc \<Rightarrow> metric option \<times> alloc" where
  "monikor_metric_list_node_new m = or_null malloc (\<lambda>_. alloc_ret m)"

definition monikor_metric_list_empty :: "mlist option \<Rightarrow> mlist option" where
  "monikor_metric_list_empty list =
     (case list of None \<Rightarrow> None
      | Some l \<Rightarrow> Some (l\<lparr>l_nodes := [], l_size := 0, l_data_size := 0\<rparr>))"

definition monikor_metric_list_push_node :: "mlist \<Rightarrow> metric \<Rightarrow> mlist" where
  "monikor_metric_list_push_node l node =
     l\<lparr>l_nodes := l_nodes l @ [node], l_size := l_size l + 1,
       l_data_size := l_data_size l + monikor_metric_node_size node\<rparr>"

definition monikor_metric_list_push :: "mlist \<Rightarrow> metric \<Rightarrow> alloc \<Rightarrow> mlist \<times> cint \<times> alloc" where
  "monikor_metric_list_push l m al =
     (case monikor_metric_list_node_new m al of
        (None, al) \<Rightarrow> (l, -1, al)
      | (Some node, al) \<Rightarrow> (monikor_metric_list_push_node l node, 0, al))"

definition monikor_metric_list_pop :: "mlist \<Rightarrow> metric option \<times> mlist" where
  "monikor_metric_list_pop l =
     (case l_nodes l of
        [] \<Rightarrow> (None, l)
      | m # ms \<Rightarrow> (Some m, l\<lparr>l_nodes := ms, l_size := l_size l - 1,
                     l_data_size := l_data_size l - monikor_metric_node_size m\<rparr>))"

definition monikor_metric_list_apply :: "mlist \<Rightarrow> (metric \<Rightarrow> 'd \<Rightarrow> 'd) \<Rightarrow> 'd \<Rightarrow> 'd" where
  "monikor_metric_list_apply l f data = fold f (l_nodes l) data"

text \<open>
  The loop of \<open>monikor_metric_list_remove_if\<close>: the nodes still linked, in order, the two counters
  and the number of removals.
\<close>

fun remove_if_loop ::
  "(metric \<Rightarrow> bool) \<Rightarrow> metric list \<Rightarrow> u64 \<Rightarrow> u64 \<Rightarrow> u64 \<Rightarrow> metric list \<times> u64 \<times> u64 \<times> u64" where
  "remove_if_loop f [] sz ds n = ([], sz, ds, n)"
| "remove_if_loop f (m # ms) sz ds n =
     (if f m then remove_if_loop f ms (sz - 1) (ds - monikor_metric_node_size m) (n + 1)
      else (case remove_if_loop f ms sz ds n of (ms', r) \<Rightarrow> (m # ms', r)))"

definition monikor_metric_list_remove_if :: "mlist \<Rightarrow> (metric \<Rightarrow> bool) \<Rightarrow> mlist \<times> u64" where
  "monikor_metric_list_remove_if l f =
     (case remove_if_loop f (l_nodes l) (l_size l) (l_data_size l) 0 of
        (ms, sz, ds, n) \<Rightarrow>
          (l\<lparr>l_nodes := ms, l_size := sz, l_data_size := ds\<rparr>, n))"

definition monikor_metric_list_concat :: "mlist \<Rightarrow> mlist \<Rightarrow> mlist \<times> mlist" where
  "monikor_metric_list_concat h t =
     (h\<lparr>l_nodes := l_nodes h @ l_nodes t, l_size := l_size h + l_size t,
        l_data_size := l_data_size h + l_data_size t\<rparr>, monikor_metric_list_init)"

subsection \<open>The counters describe the nodes\<close>

definition nodes_data_size :: "metric list \<Rightarrow> u64" where
  "nodes_data_size ms = sum_list (map monikor_metric_node_size ms)"

definition list_inv :: "mlist \<Rightarrow> bool" where
  "list_inv l \<longleftrightarrow> l_size l = of_nat (length (l_nodes l)) \<and> l_data_size l = nodes_data_size (l_nodes l)"

lemma nodes_data_size_simps [simp]:
  "nodes_data_size [] = 0"
  "nodes_data_size (m # ms) = monikor_metric_node_size m + nodes_data_size ms"
  "nodes_data_size (ms @ ns) = nodes_data_size ms + nodes_data_size ns"
  by (simp_all add: nodes_data_size_def)

lemma list_init_inv [inv_intros]: "list_inv monikor_metric_list_init"
  by (simp add: list_inv_def monikor_metric_list_init_def)

lemma list_init_nodes [simp]: "l_nodes monikor_metric_list_init = []"
  by (simp add: monikor_metric_list_init_def)

lemma list_push_node_inv [inv_intros]: "list_inv l \<Longrightarrow> list_inv (monikor_metric_list_push_node l m)"
  by (simp add: list_inv_def monikor_metric_list_push_node_def)

lemma list_push_node_nodes [simp]: "l_nodes (monikor_metric_list_push_node l m) = l_nodes l @ [m]"
  by (simp add: monikor_metric_list_push_node_def)

lemma list_push_cases:
  assumes "monikor_metric_list_push l m al = (l', r, al')"
  obtains (nomem) "l' = l" and "r = -1"
  | (pushed) "l' = monikor_metric_list_push_node l m" and "r = 0"
  using assms
  by (auto simp: monikor_metric_list_push_def monikor_metric_list_node_new_def or_null_def
      split: prod.splits option.splits)

lemma list_push_ok:
  assumes "alloc_ok al"
  obtains al' where "monikor_metric_list_push l m al = (monikor_metric_list_push_node l m, 0, al')"
    and "alloc_ok al'"
proof -
  from assms obtain j al' where "malloc al = (Some j, al')" "alloc_ok al'"
    by (rule alloc_ok_malloc)
  then show ?thesis
    by (intro that [of al'])
      (simp_all add: monikor_metric_list_push_def monikor_metric_list_node_new_def alloc_simps alloc_ret_def)
qed

lemma list_push_inv: "monikor_metric_list_push l m al = (l', r, al') \<Longrightarrow> list_inv l \<Longrightarrow> list_inv l'"
  by (erule list_push_cases) (simp_all add: list_push_node_inv)

lemma list_pop_inv: "monikor_metric_list_pop l = (m, l') \<Longrightarrow> list_inv l \<Longrightarrow> list_inv l'"
  by (auto simp: monikor_metric_list_pop_def list_inv_def split: list.splits)

lemma list_concat_inv:
  "monikor_metric_list_concat h t = (h', t') \<Longrightarrow> list_inv h \<Longrightarrow> list_inv t \<Longrightarrow> list_inv h' \<and> list_inv t'"
  by (auto simp: monikor_metric_list_concat_def list_inv_def monikor_metric_list_init_def)

lemma list_empty_inv: "monikor_metric_list_empty (Some l) = Some l' \<Longrightarrow> list_inv l'"
  by (auto simp: monikor_metric_list_empty_def list_inv_def)

lemma remove_if_loop_spec:
  "remove_if_loop f ms sz ds n =
     (filter (\<lambda>m. \<not> f m) ms, sz - of_nat (length (filter f ms)),
      ds - nodes_data_size (filter f ms), n + of_nat (length (filter f ms)))"
  by (induction ms arbitrary: sz ds n) (simp_all add: algebra_simps)

lemma list_remove_if_nodes:
  "monikor_metric_list_remove_if l f = (l', n) \<Longrightarrow>
     l_nodes l' = filter (\<lambda>m. \<not> f m) (l_nodes l) \<and> n = of_nat (length (filter f (l_nodes l)))"
  by (auto simp: monikor_metric_list_remove_if_def remove_if_loop_spec)

lemma nodes_data_size_filter:
  "nodes_data_size (filter f ms) + nodes_data_size (filter (\<lambda>m. \<not> f m) ms) = nodes_data_size ms"
  by (induction ms) (simp_all add: algebra_simps)

lemma list_remove_if_inv:
  assumes "monikor_metric_list_remove_if l f = (l', n)" and "list_inv l"
  shows "list_inv l'"
proof -
  let ?ms = "l_nodes l"
  have "length (filter f ?ms) + length (filter (\<lambda>m. \<not> f m) ?ms) = length ?ms"
    by (rule sum_length_filter_compl)
  then have "of_nat (length ?ms) - of_nat (length (filter f ?ms))
      = (of_nat (length (filter (\<lambda>m. \<not> f m) ?ms)) :: u64)"
    by (metis add_diff_cancel_left' of_nat_add)
  moreover have "nodes_data_size ?ms - nodes_data_size (filter f ?ms)
      = nodes_data_size (filter (\<lambda>m. \<not> f m) ?ms)"
    using nodes_data_size_filter [of f ?ms] by (metis add_diff_cancel_left')
  ultimately show ?thesis
    using assms by (auto simp: monikor_metric_list_remove_if_def remove_if_loop_spec list_inv_def)
qed

interpretation mlist: counted_list l_nodes l_size monikor_metric_list_init
  monikor_metric_list_push_node monikor_metric_list_concat list_inv
  by unfold_locales
    (auto simp: list_inv_def monikor_metric_list_init_def monikor_metric_list_push_node_def
      monikor_metric_list_concat_def)

end
