(* ===== verification/Metric_Store.thy ===== *)
theory Metric_Store
  imports Metric_List
begin

text \<open>
  The metric store, \<open>lib/monikor/src/metrics/metric_store.c\<close>: the list the agent sends next
  (\<open>current\<close>), the last sample of every delta metric (\<open>delta\<close>), and what could not be
  sent yet (\<open>cache\<close>).  A return code is an \<open>int\<close>; \<open>None\<close> is a null pointer that the
  code dereferences.
\<close>

record store =
  s_current :: mlist
  s_delta :: mlist
  s_cache :: mlist

definition monikor_metric_store_new :: "alloc \<Rightarrow> store option \<times> alloc" where
  "monikor_metric_store_new =
     or_null malloc (\<lambda>_.
     or_null monikor_metric_list_new (\<lambda>current.
     or_null monikor_metric_list_new (\<lambda>delta.
     or_null monikor_metric_list_new (\<lambda>cache.
       alloc_ret \<lparr>s_current = current, s_delta = delta, s_cache = cache\<rparr>))))"

definition timecmp :: "timeval \<Rightarrow> timeval \<Rightarrow> cint" where
  "timecmp a b =
     (if tv_sec a \<noteq> tv_sec b then int_of_long (tv_sec a - tv_sec b)
      else int_of_long (tv_usec a - tv_usec b))"

definition is_cached_metric :: "metric \<Rightarrow> metric \<Rightarrow> bool" where
  "is_cached_metric m cached \<longleftrightarrow>
     m_id m = m_id cached \<and> m_name cached = m_name m \<and> timecmp (m_clock m) (m_clock cached) \<noteq> 0"

definition monikor_metric_store_push_aggregate :: "store \<Rightarrow> metric \<Rightarrow> alloc \<Rightarrow> store \<times> cint \<times> alloc" where
  "monikor_metric_store_push_aggregate s metric al =
     (let nodes = l_nodes (s_current s) in
      case find_first (\<lambda>node. m_id node = m_id metric \<and> m_name node = m_name metric
                              \<and> snd (monikor_metric_add node metric) = 0) nodes of
        Some i \<Rightarrow>
          (s\<lparr>s_current := (s_current s)\<lparr>l_nodes := nodes[i := fst (monikor_metric_add (nodes ! i) metric)]\<rparr>\<rparr>,
           0, al)
      | None \<Rightarrow>
          (case monikor_metric_list_push (s_current s) metric al of
             (l, r, al) \<Rightarrow> (s\<lparr>s_current := l\<rparr>, r, al)))"

text \<open>
  The two functions call each other: a delta that could be computed is pushed like any metric.
  Its delta flag is cleared, so the recursion ends.
\<close>

function monikor_metric_store_push :: "store \<Rightarrow> metric \<Rightarrow> alloc \<Rightarrow> store \<times> cint \<times> alloc"
  and monikor_metric_store_push_delta :: "store \<Rightarrow> metric \<Rightarrow> alloc \<Rightarrow> store \<times> cint \<times> alloc" where
  "monikor_metric_store_push s metric al =
     (if m_flags metric AND MONIKOR_METRIC_DELTA \<noteq> 0 then
        monikor_metric_store_push_delta s metric al
      else if m_flags metric AND MONIKOR_METRIC_AGGREGATE \<noteq> 0 then
        monikor_metric_store_push_aggregate s metric al
      else
        (case monikor_metric_list_push (s_current s) metric al of
           (l, r, al) \<Rightarrow> (s\<lparr>s_current := l\<rparr>, r, al)))"
| "monikor_metric_store_push_delta s metric al =
     (let nodes = l_nodes (s_delta s) in
      case find_first (is_cached_metric metric) nodes of
        Some i \<Rightarrow>
          (case monikor_metric_compute_delta (nodes ! i) metric al of
             (None, al) \<Rightarrow> (s, -1, al)
           | (Some new, al) \<Rightarrow>
               monikor_metric_store_push (s\<lparr>s_delta := (s_delta s)\<lparr>l_nodes := nodes[i := metric]\<rparr>\<rparr>) new al)
      | None \<Rightarrow>
          (case monikor_metric_list_push (s_delta s) metric al of
             (l, r, al) \<Rightarrow> (s\<lparr>s_delta := l\<rparr>, r, al)))"
  by pat_completeness auto

termination
proof (relation "measure (\<lambda>x. case x of Inl (s, m, al) \<Rightarrow> if is_delta m then 2 else 0 | Inr _ \<Rightarrow> 1)")
  show "wf (measure (\<lambda>x. case x of Inl (s :: store, m, al :: alloc) \<Rightarrow> if is_delta m then 2 else (0 :: nat)
      | Inr (_ :: store \<times> metric \<times> alloc) \<Rightarrow> 1))" by simp
qed (simp_all add: compute_delta_clears, metis compute_delta_clears)

declare monikor_metric_store_push.simps [simp del] monikor_metric_store_push_delta.simps [simp del]

text \<open>The list that is pushed, what is left of it, the worst return code.\<close>

function lpush_loop :: "store \<Rightarrow> mlist \<Rightarrow> cint \<Rightarrow> alloc \<Rightarrow> store \<times> mlist \<times> cint \<times> alloc" where
  "lpush_loop s metrics err al =
     (case monikor_metric_list_pop metrics of
        (None, metrics) \<Rightarrow> (s, metrics, err, al)
      | (Some m, metrics) \<Rightarrow>
          (case monikor_metric_store_push s m al of
             (s, r, al) \<Rightarrow> lpush_loop s metrics (if r \<noteq> 0 then -1 else err) al))"
  by pat_completeness auto
termination
  by (relation "measure (\<lambda>(s, metrics, err, al). length (l_nodes metrics))")
    (auto simp: monikor_metric_list_pop_def split: list.splits)

declare lpush_loop.simps [simp del]

definition monikor_metric_store_lpush ::
  "store \<Rightarrow> mlist \<Rightarrow> alloc \<Rightarrow> store \<times> mlist \<times> cint \<times> alloc" where
  "monikor_metric_store_lpush s metrics al = lpush_loop s metrics 0 al"

text \<open>\<open>monikor_metric_free\<close> dereferences what the pop returned.\<close>

function evict_cache_loop :: "mlist \<Rightarrow> u64 \<Rightarrow> u64 \<Rightarrow> (mlist \<times> u64) option" where
  "evict_cache_loop cache max_size n =
     (if l_data_size cache > max_size then
        (case monikor_metric_list_pop cache of
           (None, _) \<Rightarrow> None
         | (Some _, cache) \<Rightarrow> evict_cache_loop cache max_size (n + 1))
      else Some (cache, n))"
  by pat_completeness auto
termination
  by (relation "measure (\<lambda>(cache, max_size, n). length (l_nodes cache))")
    (auto simp: monikor_metric_list_pop_def split: list.splits)

declare evict_cache_loop.simps [simp del]

definition monikor_metric_store_evict_cache :: "store \<Rightarrow> u64 \<Rightarrow> (store \<times> u64) option" where
  "monikor_metric_store_evict_cache s max_size = do {
     (cache, n) \<leftarrow> evict_cache_loop (s_cache s) max_size 0;
     Some (s\<lparr>s_cache := cache\<rparr>, n) }"

definition evict_delta_predicate :: "timeval \<Rightarrow> metric \<Rightarrow> bool" where
  "evict_delta_predicate clock m \<longleftrightarrow> timecmp (m_clock m) clock <s 0"

definition monikor_metric_store_evict_delta :: "store \<Rightarrow> timeval \<Rightarrow> store \<times> u64" where
  "monikor_metric_store_evict_delta s clock =
     (case monikor_metric_list_remove_if (s_delta s) (evict_delta_predicate clock) of
        (l, n) \<Rightarrow> (s\<lparr>s_delta := l\<rparr>, n))"

definition list_emptied :: "mlist \<Rightarrow> mlist" where
  "list_emptied l = the (monikor_metric_list_empty (Some l))"

definition monikor_metric_store_flush :: "store \<Rightarrow> store" where
  "monikor_metric_store_flush s = s\<lparr>s_current := list_emptied (s_current s)\<rparr>"

definition monikor_metric_store_cache :: "store \<Rightarrow> store" where
  "monikor_metric_store_cache s =
     (case monikor_metric_list_concat (s_cache s) (s_current s) of
        (cache, current) \<Rightarrow> s\<lparr>s_current := current, s_cache := cache\<rparr>)"

definition monikor_metric_store_uncache :: "store \<Rightarrow> store" where
  "monikor_metric_store_uncache s =
     (case monikor_metric_list_concat (s_cache s) (s_current s) of
        (cache, current) \<Rightarrow>
          (case monikor_metric_list_concat current cache of
             (current, cache) \<Rightarrow> s\<lparr>s_current := current, s_cache := cache\<rparr>))"

definition monikor_metric_store_flush_all :: "store \<Rightarrow> store" where
  "monikor_metric_store_flush_all s =
     \<lparr>s_current = list_emptied (s_current s), s_delta = list_emptied (s_delta s),
      s_cache = list_emptied (s_cache s)\<rparr>"

subsection \<open>The invariant\<close>

text \<open>
  The counters are right, the sample list holds only delta metrics and what is sent or cached
  holds none.
\<close>

definition store_inv :: "store \<Rightarrow> bool" where
  "store_inv s \<longleftrightarrow> list_inv (s_current s) \<and> list_inv (s_delta s) \<and> list_inv (s_cache s)
     \<and> (\<forall>m\<in>set (l_nodes (s_delta s)). is_delta m)
     \<and> (\<forall>m\<in>set (l_nodes (s_current s)) \<union> set (l_nodes (s_cache s)). \<not> is_delta m)"

lemma list_update_node_inv:
  assumes "list_inv l" and "i < length (l_nodes l)" and "l_nodes l ! i = m"
    and "monikor_metric_node_size m' = monikor_metric_node_size m"
  shows "list_inv (l\<lparr>l_nodes := (l_nodes l)[i := m']\<rparr>)"
  using assms by (simp add: list_inv_def nodes_data_size_def sum_list_update_same)

lemma node_size_not_string:
  assumes "m_name m = m_name m'" and "m_type m \<noteq> MONIKOR_STRING" and "m_type m' \<noteq> MONIKOR_STRING"
  shows "monikor_metric_node_size m = monikor_metric_node_size m'"
  using assms by (cases "m_value m"; cases "m_value m'") (simp_all add: monikor_metric_node_size_def)

lemma metric_add_node_size:
  "monikor_metric_node_size (fst (monikor_metric_add d m)) = monikor_metric_node_size d"
  by (auto simp: monikor_metric_add_def monikor_metric_node_size_def split: metric_value.splits)

lemma metric_add_flags [simp]: "m_flags (fst (monikor_metric_add d m)) = m_flags d"
  by (metis metric_add_frame prod.collapse)

lemma push_plain_inv:
  assumes "store_inv s" and "\<not> is_delta m" and "monikor_metric_list_push (s_current s) m al = (l, r, al')"
  shows "store_inv (s\<lparr>s_current := l\<rparr>)"
  using assms(3)
  by (cases rule: list_push_cases) (use assms(1,2) in \<open>auto simp: store_inv_def list_push_node_inv\<close>)

lemma push_aggregate_inv:
  assumes "store_inv s" and "\<not> is_delta m" and "monikor_metric_store_push_aggregate s m al = (s', r, al')"
  shows "store_inv s'"
proof (cases "find_first (\<lambda>node. m_id node = m_id m \<and> m_name node = m_name m
    \<and> snd (monikor_metric_add node m) = 0) (l_nodes (s_current s))")
  case None
  with assms show ?thesis
    by (auto simp: monikor_metric_store_push_aggregate_def Let_def push_plain_inv split: prod.splits)
next
  case (Some i)
  from find_first_SomeD [OF Some] have i: "i < length (l_nodes (s_current s))" by simp
  have "\<not> is_delta (l_nodes (s_current s) ! i)" using assms(1) i by (simp add: store_inv_def)
  moreover have "list_inv ((s_current s)\<lparr>l_nodes := (l_nodes (s_current s))
      [i := fst (monikor_metric_add (l_nodes (s_current s) ! i) m)]\<rparr>)"
    using assms(1) i by (intro list_update_node_inv) (auto simp: store_inv_def metric_add_node_size)
  ultimately show ?thesis
    using assms(1,3) Some
    by (auto simp: monikor_metric_store_push_aggregate_def store_inv_def Let_def
        dest!: subsetD [OF set_update_subset_insert])
qed

text \<open>A push that computed no delta, and one that did.\<close>

lemma push_not_delta_inv:
  assumes "store_inv s" and "\<not> is_delta m" and "monikor_metric_store_push s m al = (s', r, al')"
  shows "store_inv s'"
  using assms push_aggregate_inv [OF assms(1,2)]
  by (auto simp: monikor_metric_store_push.simps [of s m al] push_plain_inv split: if_splits prod.splits)

lemma push_delta_inv:
  assumes "store_inv s" and "is_delta m" and "monikor_metric_store_push_delta s m al = (s', r, al')"
  shows "store_inv s'"
proof (cases "find_first (is_cached_metric m) (l_nodes (s_delta s))")
  case None
  obtain l r2 al2 where p: "monikor_metric_list_push (s_delta s) m al = (l, r2, al2)"
    by (metis prod_cases3)
  then have "store_inv (s\<lparr>s_delta := l\<rparr>)"
    by (cases rule: list_push_cases) (use assms(1,2) in \<open>auto simp: store_inv_def list_push_node_inv\<close>)
  with None p assms(3) show ?thesis
    by (simp add: monikor_metric_store_push_delta.simps [of s m al] Let_def)
next
  case (Some i)
  let ?old = "l_nodes (s_delta s) ! i"
  let ?s = "s\<lparr>s_delta := (s_delta s)\<lparr>l_nodes := (l_nodes (s_delta s))[i := m]\<rparr>\<rparr>"
  from find_first_SomeD [OF Some] have i: "i < length (l_nodes (s_delta s))"
    and same: "is_cached_metric m ?old" by simp_all
  show ?thesis
  proof (cases "monikor_metric_compute_delta ?old m al")
    case (Pair new al1)
    show ?thesis
    proof (cases new)
      case None
      with Pair Some assms show ?thesis
        by (simp add: monikor_metric_store_push_delta.simps [of s m al] Let_def)
    next
      case (Some n)
      note delta = compute_delta_Some [OF Pair [unfolded Some]]
      have "monikor_metric_node_size m = monikor_metric_node_size ?old"
        using delta same by (intro node_size_not_string) (auto simp: is_cached_metric_def)
      then have "list_inv ((s_delta s)\<lparr>l_nodes := (l_nodes (s_delta s))[i := m]\<rparr>)"
        using assms(1) i by (intro list_update_node_inv) (auto simp: store_inv_def)
      then have s: "store_inv ?s"
        using assms(1,2) by (auto simp: store_inv_def dest!: subsetD [OF set_update_subset_insert])
      have nd: "\<not> is_delta n" using Pair Some by simp
      show ?thesis
        by (rule push_not_delta_inv [OF s nd])
          (use Pair Some assms(3) \<open>find_first _ _ = Some i\<close> in
            \<open>simp add: monikor_metric_store_push_delta.simps [of s m al] Let_def\<close>)
    qed
  qed
qed

lemma push_inv:
  assumes "store_inv s" and "monikor_metric_store_push s m al = (s', r, al')"
  shows "store_inv s'"
proof (cases "is_delta m")
  case True
  then show ?thesis
    using assms push_delta_inv by (simp add: monikor_metric_store_push.simps [of s m al])
qed (use assms push_not_delta_inv in blast)

lemma lpush_loop_inv:
  "lpush_loop s metrics err al = (s', metrics', r, al') \<Longrightarrow> store_inv s \<Longrightarrow> list_inv metrics \<Longrightarrow>
     store_inv s' \<and> list_inv metrics' \<and> l_nodes metrics' = []"
proof (induction s metrics err al rule: lpush_loop.induct)
  case (1 s metrics err al)
  show ?case
  proof (cases "monikor_metric_list_pop metrics")
    case (Pair m rest)
    show ?thesis
    proof (cases m)
      case None
      with Pair 1(2-4) show ?thesis
        by (auto simp: lpush_loop.simps [of s metrics] monikor_metric_list_pop_def split: list.splits)
    next
      case (Some x)
      obtain s1 r1 al1 where p: "monikor_metric_store_push s x al = (s1, r1, al1)"
        by (metis prod_cases3)
      show ?thesis
        by (rule 1(1) [OF Pair [symmetric] Some p [symmetric] refl])
          (use 1(2-4) Pair Some p push_inv list_pop_inv in \<open>auto simp: lpush_loop.simps [of s metrics]\<close>)
    qed
  qed
qed

lemma evict_cache_loop_spec:
  assumes "list_inv cache"
  obtains k cache' where "evict_cache_loop cache max_size n = Some (cache', n + of_nat k)"
    and "l_nodes cache' = drop k (l_nodes cache)" and "k \<le> length (l_nodes cache)" and "list_inv cache'"
    and "l_data_size cache' \<le> max_size" and "\<forall>j<k. max_size < nodes_data_size (drop j (l_nodes cache))"
proof -
  have "\<exists>k cache'. evict_cache_loop cache max_size n = Some (cache', n + of_nat k)
    \<and> l_nodes cache' = drop k (l_nodes cache) \<and> k \<le> length (l_nodes cache) \<and> list_inv cache'
    \<and> l_data_size cache' \<le> max_size \<and> (\<forall>j<k. max_size < nodes_data_size (drop j (l_nodes cache)))"
    using assms
  proof (induction "l_nodes cache" arbitrary: cache n)
    case Nil
    then have "l_data_size cache = 0" by (simp add: list_inv_def flip: Nil.hyps)
    with Nil show ?case
      by (intro exI [of _ 0] exI [of _ cache]) (simp add: evict_cache_loop.simps [of cache])
  next
    case (Cons m ms)
    show ?case
    proof (cases "max_size < l_data_size cache")
      case False
      with Cons.prems show ?thesis
        by (intro exI [of _ 0] exI [of _ cache]) (simp add: evict_cache_loop.simps [of cache] leD)
    next
      case True
      obtain rest where r: "monikor_metric_list_pop cache = (Some m, rest)" "l_nodes rest = ms"
        by (simp add: monikor_metric_list_pop_def flip: Cons.hyps(2))
      with Cons.prems have inv: "list_inv rest" using list_pop_inv by blast
      from Cons.hyps(1) [OF r(2) [symmetric] inv, of "n + 1"] obtain k cache' where
        k: "evict_cache_loop rest max_size (n + 1) = Some (cache', n + 1 + of_nat k)"
        "l_nodes cache' = drop k ms" "k \<le> length ms" "list_inv cache'" "l_data_size cache' \<le> max_size"
        "\<forall>j<k. max_size < nodes_data_size (drop j ms)"
        by (auto simp: r(2))
      have "max_size < nodes_data_size (m # ms)"
        using True Cons.prems by (simp add: list_inv_def flip: Cons.hyps(2))
      with k(6) have "\<forall>j<Suc k. max_size < nodes_data_size (drop j (m # ms))"
        by (auto simp: less_Suc_eq_0_disj)
      with True k r show ?thesis
        by (intro exI [of _ "Suc k"] exI [of _ cache'])
          (simp add: evict_cache_loop.simps [of cache] flip: Cons.hyps(2))
    qed
  qed
  then show ?thesis using that by blast
qed

lemma concat_nodes:
  "l_nodes (fst (monikor_metric_list_concat h t)) = l_nodes h @ l_nodes t"
  "l_nodes (snd (monikor_metric_list_concat h t)) = []"
  by (rule mlist.concat_elems)+

lemma list_emptied_simps [simp]: "l_nodes (list_emptied l) = []" "list_inv (list_emptied l)"
  by (simp_all add: list_emptied_def monikor_metric_list_empty_def list_inv_def)

text \<open>Bringing the cache back puts it in front of the current list: the double append of
  the counted-list interface.\<close>

lemma uncache_nodes:
  "l_nodes (s_current (monikor_metric_store_uncache s)) = l_nodes (s_cache s) @ l_nodes (s_current s)"
  "l_nodes (s_cache (monikor_metric_store_uncache s)) = []"
  "s_delta (monikor_metric_store_uncache s) = s_delta s"
proof -
  obtain p1 q1 where 1: "monikor_metric_list_concat (s_cache s) (s_current s) = (p1, q1)" by force
  obtain q2 p2 where 2: "monikor_metric_list_concat q1 p1 = (q2, p2)" by force
  show "l_nodes (s_current (monikor_metric_store_uncache s)) = l_nodes (s_cache s) @ l_nodes (s_current s)"
    "l_nodes (s_cache (monikor_metric_store_uncache s)) = []"
    "s_delta (monikor_metric_store_uncache s) = s_delta s"
    using mlist.swap_elems [OF 1 2] by (simp_all add: monikor_metric_store_uncache_def 1 2)
qed

lemma cache_nodes:
  "l_nodes (s_cache (monikor_metric_store_cache s)) = l_nodes (s_cache s) @ l_nodes (s_current s)"
  "l_nodes (s_current (monikor_metric_store_cache s)) = []"
  "s_delta (monikor_metric_store_cache s) = s_delta s"
  using concat_nodes [of "s_cache s" "s_current s"]
  by (auto simp: monikor_metric_store_cache_def split: prod.splits)

lemma cache_inv [inv_intros]: "store_inv s \<Longrightarrow> store_inv (monikor_metric_store_cache s)"
  using cache_nodes [of s] mlist.concat_invar [of "s_cache s" "s_current s"]
  by (auto simp: store_inv_def monikor_metric_store_cache_def split: prod.splits)

lemma uncache_inv [inv_intros]: "store_inv s \<Longrightarrow> store_inv (monikor_metric_store_uncache s)"
proof -
  assume s: "store_inv s"
  obtain p1 q1 where 1: "monikor_metric_list_concat (s_cache s) (s_current s) = (p1, q1)" by force
  obtain q2 p2 where 2: "monikor_metric_list_concat q1 p1 = (q2, p2)" by force
  have "list_inv (s_cache s)" "list_inv (s_current s)" using s by (simp_all add: store_inv_def)
  then have "list_inv q2" "list_inv p2" by (rule mlist.swap_invar [OF 1 2])+
  then show ?thesis
    using s uncache_nodes [of s] by (auto simp: store_inv_def monikor_metric_store_uncache_def 1 2)
qed

lemma flush_inv [inv_intros]: "store_inv s \<Longrightarrow> store_inv (monikor_metric_store_flush s)"
  by (simp add: store_inv_def monikor_metric_store_flush_def)

lemma flush_all_inv [inv_intros]: "store_inv (monikor_metric_store_flush_all s)"
  by (simp add: store_inv_def monikor_metric_store_flush_all_def)

lemma evict_delta_inv [inv_intros]:
  "store_inv s \<Longrightarrow> store_inv (fst (monikor_metric_store_evict_delta s clock))"
  using list_remove_if_inv [of "s_delta s"] list_remove_if_nodes [of "s_delta s"]
  by (fastforce simp: store_inv_def monikor_metric_store_evict_delta_def split: prod.splits)

lemma evict_cache_inv:
  assumes "store_inv s" and "monikor_metric_store_evict_cache s max_size = Some (s', n)"
  shows "store_inv s'"
proof -
  have "list_inv (s_cache s)" using assms(1) by (simp add: store_inv_def)
  then obtain k cache' where "evict_cache_loop (s_cache s) max_size 0 = Some (cache', 0 + of_nat k)"
    "l_nodes cache' = drop k (l_nodes (s_cache s))" "list_inv cache'"
    by (rule evict_cache_loop_spec)
  with assms show ?thesis
    by (auto simp: monikor_metric_store_evict_cache_def store_inv_def dest!: in_set_dropD)
qed

lemma store_new_inv: "monikor_metric_store_new al = (Some s, al') \<Longrightarrow> store_inv s"
  by (auto simp: monikor_metric_store_new_def monikor_metric_list_new_def or_null_eq_Some_iff
      store_inv_def list_init_inv)

subsection \<open>Reachable stores\<close>

text \<open>Every call of the interface, whatever its arguments and whatever the allocator does.\<close>

inductive store_step :: "store \<Rightarrow> store \<Rightarrow> bool" where
  step_push: "monikor_metric_store_push s m al = (s', r, al') \<Longrightarrow> store_step s s'"
| step_lpush: "list_inv l \<Longrightarrow> monikor_metric_store_lpush s l al = (s', l', r, al') \<Longrightarrow> store_step s s'"
| step_evict_cache: "monikor_metric_store_evict_cache s max_size = Some (s', n) \<Longrightarrow> store_step s s'"
| step_evict_delta: "monikor_metric_store_evict_delta s clock = (s', n) \<Longrightarrow> store_step s s'"
| step_flush: "store_step s (monikor_metric_store_flush s)"
| step_cache: "store_step s (monikor_metric_store_cache s)"
| step_uncache: "store_step s (monikor_metric_store_uncache s)"
| step_flush_all: "store_step s (monikor_metric_store_flush_all s)"

inductive_cases store_stepE: "store_step s s'"

inductive reachable_store :: "store \<Rightarrow> bool" where
  fresh: "monikor_metric_store_new al = (Some s, al') \<Longrightarrow> reachable_store s"
| after: "reachable_store s \<Longrightarrow> store_step s s' \<Longrightarrow> reachable_store s'"

lemma store_step_inv:
  assumes "store_step s s'" and "store_inv s"
  shows "store_inv s'"
  using assms(1)
proof cases
  case (step_push m al r al')
  with assms(2) show ?thesis by (blast intro: push_inv)
next
  case (step_lpush l al l' r al')
  with assms(2) lpush_loop_inv show ?thesis by (fastforce simp: monikor_metric_store_lpush_def)
next
  case (step_evict_cache max_size n)
  with assms(2) show ?thesis by (blast intro: evict_cache_inv)
next
  case (step_evict_delta clock n)
  with evict_delta_inv [OF assms(2), of clock] show ?thesis by simp
qed (use assms(2) in \<open>simp_all add: inv_intros\<close>)

lemma reachable_store_inv: "reachable_store s \<Longrightarrow> store_inv s"
  by (induction rule: reachable_store.induct) (auto intro: store_new_inv store_step_inv)

subsection \<open>Clock order\<close>

text \<open>The clocks of two samples, as the agent's clock gives them.\<close>

definition clocks_close :: "timeval \<Rightarrow> timeval \<Rightarrow> bool" where
  "clocks_close a b \<longleftrightarrow> \<bar>sint (tv_sec a) - sint (tv_sec b)\<bar> < 2 ^ 31
     \<and> 0 \<le> sint (tv_usec a) \<and> sint (tv_usec a) < 1000000
     \<and> 0 \<le> sint (tv_usec b) \<and> sint (tv_usec b) < 1000000"

definition clock_less :: "timeval \<Rightarrow> timeval \<Rightarrow> bool" where
  "clock_less a b \<longleftrightarrow> sint (tv_sec a) < sint (tv_sec b)
     \<or> sint (tv_sec a) = sint (tv_sec b) \<and> sint (tv_usec a) < sint (tv_usec b)"

lemma sint_of_int_small: "- (2 ^ 63) \<le> k \<Longrightarrow> k < 2 ^ 63 \<Longrightarrow> sint (of_int k :: clong) = k"
  by (simp add: signed_of_int signed_take_bit_int_eq_self)

lemma sint_diff_small:
  fixes a b :: clong
  assumes "\<bar>sint a - sint b\<bar> < 2 ^ 31"
  shows "sint (int_of_long (a - b)) = sint a - sint b"
proof -
  define k where "k = sint a - sint b"
  have "a - b = of_int k" by (simp add: k_def)
  then have "sint (a - b) = k"
    using assms by (simp only:) (rule sint_of_int_small, simp_all add: abs_less_iff flip: k_def)
  then show ?thesis
    using assms by (subst sint_int_of_long) (auto simp: abs_less_iff simp flip: k_def)
qed

lemma timecmp_sint:
  assumes "clocks_close a b"
  shows "sint (timecmp a b) =
    (if tv_sec a \<noteq> tv_sec b then sint (tv_sec a) - sint (tv_sec b) else sint (tv_usec a) - sint (tv_usec b))"
proof -
  have "\<bar>sint (tv_usec a) - sint (tv_usec b)\<bar> < 2 ^ 31" "\<bar>sint (tv_sec a) - sint (tv_sec b)\<bar> < 2 ^ 31"
    using assms by (simp_all add: clocks_close_def abs_less_iff)
  then show ?thesis by (simp add: timecmp_def sint_diff_small)
qed

lemma timecmp_less:
  assumes "clocks_close a b"
  shows "timecmp a b <s 0 \<longleftrightarrow> clock_less a b"
proof -
  have "tv_sec a = tv_sec b \<longleftrightarrow> sint (tv_sec a) = sint (tv_sec b)" by (rule word_eq_iff_signed)
  then show ?thesis
    unfolding word_sless_alt timecmp_sint [OF assms] by (auto simp: clock_less_def)
qed

lemma timecmp_zero:
  assumes "clocks_close a b"
  shows "timecmp a b = 0 \<longleftrightarrow> a = b"
proof -
  have eq: "x = y \<longleftrightarrow> sint x = sint y" for x y :: clong by (rule word_eq_iff_signed)
  have "timecmp a b = 0 \<longleftrightarrow> sint (timecmp a b) = sint (0 :: cint)" by (rule word_eq_iff_signed)
  then show ?thesis
    unfolding timecmp_sint [OF assms] using eq [of "tv_sec a" "tv_sec b"] eq [of "tv_usec a" "tv_usec b"]
    by (cases a; cases b) auto
qed

subsection \<open>Series of samples\<close>

definition same_key :: "metric \<Rightarrow> metric \<Rightarrow> bool" where
  "same_key m n \<longleftrightarrow> m_id m = m_id n \<and> m_name m = m_name n"

definition counter_sample :: "string \<Rightarrow> u16 \<Rightarrow> timeval \<times> u64 \<Rightarrow> metric" where
  "counter_sample name i = (\<lambda>(clock, v).
     \<lparr>m_name = name, m_id = i, m_clock = clock, m_value = VInt v, m_flags = MONIKOR_METRIC_DELTA\<rparr>)"

text \<open>What the series makes visible: one metric per step, dated by the earlier sample.\<close>

fun counter_deltas :: "string \<Rightarrow> u16 \<Rightarrow> (timeval \<times> u64) list \<Rightarrow> metric list" where
  "counter_deltas name i ((c, x) # (d, y) # r) =
     \<lparr>m_name = name, m_id = i, m_clock = c, m_value = VInt (of_nat (unat y - unat x)), m_flags = 0\<rparr>
     # counter_deltas name i ((d, y) # r)"
| "counter_deltas name i _ = []"

definition metric_int :: "metric \<Rightarrow> nat" where
  "metric_int m = (case m_value m of VInt v \<Rightarrow> unat v | _ \<Rightarrow> 0)"

text \<open>The delta list holds \<open>a\<close> at \<open>i\<close> and no other sample of its key.\<close>

definition holds_sample :: "store \<Rightarrow> metric \<Rightarrow> nat \<Rightarrow> bool" where
  "holds_sample s a i \<longleftrightarrow> i < length (l_nodes (s_delta s)) \<and> l_nodes (s_delta s) ! i = a
     \<and> (\<forall>j<length (l_nodes (s_delta s)). j \<noteq> i \<longrightarrow> \<not> same_key (l_nodes (s_delta s) ! j) a)"

lemma sample_simps [simp]:
  "m_name (counter_sample n i p) = n" "m_id (counter_sample n i p) = i"
  "m_clock (counter_sample n i p) = fst p" "m_value (counter_sample n i p) = VInt (snd p)"
  "m_flags (counter_sample n i p) = 1"
  by (simp_all add: counter_sample_def flag_simps split: prod.split)

lemma sample_delta [simp]: "is_delta (counter_sample n i p)" "\<not> is_timedelta (counter_sample n i p)"
  by (simp_all add: flag_simps is_timedelta_def)

lemma push_first_sample:
  assumes "alloc_ok al" and "\<forall>d\<in>set (l_nodes (s_delta s)). \<not> same_key d m" and "is_delta m"
  obtains al' where "alloc_ok al'"
    "monikor_metric_store_push s m al = (s\<lparr>s_delta := monikor_metric_list_push_node (s_delta s) m\<rparr>, 0, al')"
proof -
  from assms(1) obtain al' where
    "monikor_metric_list_push (s_delta s) m al = (monikor_metric_list_push_node (s_delta s) m, 0, al')"
    "alloc_ok al'" by (rule list_push_ok)
  moreover have "find_first (is_cached_metric m) (l_nodes (s_delta s)) = None"
    using assms(2) by (auto simp: find_first_None is_cached_metric_def same_key_def)
  ultimately show ?thesis using assms(3) that
    by (simp add: monikor_metric_store_push.simps [of s m al] monikor_metric_store_push_delta.simps [of s m al])
qed

lemma push_next_sample:
  assumes "alloc_ok al" and "holds_sample s a k" and "same_key b a" and "is_delta b"
    and "timecmp (m_clock b) (m_clock a) \<noteq> 0" and "\<not> is_timedelta a"
    and "m_value a = VInt x" and "m_value b = VInt y" and "m_flags a = 1"
  obtains al' where "alloc_ok al'" "monikor_metric_store_push s b al =
      (s\<lparr>s_delta := (s_delta s)\<lparr>l_nodes := (l_nodes (s_delta s))[k := b]\<rparr>,
         s_current := monikor_metric_list_push_node (s_current s)
           (a\<lparr>m_flags := 0, m_value := VInt (of_nat (unat y - unat x))\<rparr>)\<rparr>, 0, al')"
proof -
  let ?d = "a\<lparr>m_flags := 0, m_value := VInt (of_nat (unat y - unat x))\<rparr>"
  have k: "find_first (is_cached_metric b) (l_nodes (s_delta s)) = Some k"
    using assms(2,3,5)
    by (auto simp: find_first_Some_iff holds_sample_def is_cached_metric_def same_key_def)
  have "m_type a = m_type b" using assms by simp
  from assms(1) this obtain al1 where al1: "alloc_ok al1"
    "monikor_metric_compute_delta a b al =
      (let r = a\<lparr>m_flags := m_flags a AND NOT 3\<rparr>
       in case (m_value a, m_value b) of
            (VInt x, VInt y) \<Rightarrow> (Some (compute_int_delta a x b y r), al1)
          | (VFloat x, VFloat y) \<Rightarrow> (Some (compute_float_delta a x b y r), al1)
          | _ \<Rightarrow> (None, al1))"
    by (rule compute_delta_ok)
  have v: "(if y < x then 0 else y - x) = (of_nat (unat y - unat x) :: u64)"
    by (simp add: word_less_nat_alt of_nat_diff)
  have "monikor_metric_compute_delta a b al = (Some ?d, al1)"
    using al1(2) v assms by (auto simp: compute_int_delta_def Let_def split: if_splits)
  moreover from al1(1) obtain al2 where "alloc_ok al2" "monikor_metric_list_push (s_current s) ?d al1 =
      (monikor_metric_list_push_node (s_current s) ?d, 0, al2)" by (rule list_push_ok)
  ultimately show ?thesis
    using k assms(2,4) that
    by (simp add: monikor_metric_store_push.simps [of s b al] monikor_metric_store_push_delta.simps [of s b al]
        monikor_metric_store_push.simps [of _ ?d] holds_sample_def Let_def)
qed

lemma holds_sample_first:
  "\<forall>d\<in>set (l_nodes (s_delta s)). \<not> same_key d m \<Longrightarrow>
     holds_sample (s\<lparr>s_delta := monikor_metric_list_push_node (s_delta s) m\<rparr>) m (length (l_nodes (s_delta s)))"
  by (auto simp: holds_sample_def nth_append)

lemma holds_sample_next:
  assumes "holds_sample s a k" and "same_key b a"
  shows "holds_sample (s\<lparr>s_delta := (s_delta s)\<lparr>l_nodes := (l_nodes (s_delta s))[k := b]\<rparr>, s_current := l\<rparr>) b k"
  using assms by (auto simp: holds_sample_def same_key_def)

lemma lpush_loop_step:
  assumes "l_nodes metrics = m # ms" and "monikor_metric_store_push s m al = (s1, 0, al1)"
  obtains rest where "l_nodes rest = ms" and "lpush_loop s metrics err al = lpush_loop s1 rest err al1"
proof -
  obtain rest where "monikor_metric_list_pop metrics = (Some m, rest)" "l_nodes rest = ms"
    by (simp add: monikor_metric_list_pop_def assms(1))
  then show ?thesis using that assms(2) by (simp add: lpush_loop.simps [of s metrics])
qed

lemma lpush_loop_done: "l_nodes metrics = [] \<Longrightarrow> lpush_loop s metrics err al = (s, metrics, err, al)"
  by (simp add: lpush_loop.simps [of s metrics] monikor_metric_list_pop_def)

lemma push_plain_ok:
  assumes "\<not> is_delta m" and "m_flags m AND MONIKOR_METRIC_AGGREGATE = 0" and "alloc_ok al"
  obtains al' where "alloc_ok al'"
    "monikor_metric_store_push s m al = (s\<lparr>s_current := monikor_metric_list_push_node (s_current s) m\<rparr>, 0, al')"
proof -
  from assms(3) obtain al' where "monikor_metric_list_push (s_current s) m al =
      (monikor_metric_list_push_node (s_current s) m, 0, al')" "alloc_ok al'" by (rule list_push_ok)
  with assms(1,2) that show ?thesis by (simp add: monikor_metric_store_push.simps [of s m al])
qed

text \<open>Metrics without flags are appended as they are.\<close>

lemma lpush_plain_loop:
  assumes "alloc_ok al" and "\<forall>m\<in>set (l_nodes metrics). \<not> is_delta m \<and> m_flags m AND MONIKOR_METRIC_AGGREGATE = 0"
  shows "\<exists>s' metrics' al'. lpush_loop s metrics err al = (s', metrics', err, al') \<and> s_delta s' = s_delta s \<and> s_cache s' = s_cache s
    \<and> l_nodes (s_current s') = l_nodes (s_current s) @ l_nodes metrics"
  using assms
proof (induction "l_nodes metrics" arbitrary: s metrics al)
  case Nil
  then show ?case by (simp add: lpush_loop_done)
next
  case (Cons m ms)
  then have m: "\<not> is_delta m" "m_flags m AND MONIKOR_METRIC_AGGREGATE = 0" by (simp_all flip: Cons.hyps(2))
  obtain al1 where 1: "alloc_ok al1"
    "monikor_metric_store_push s m al = (s\<lparr>s_current := monikor_metric_list_push_node (s_current s) m\<rparr>, 0, al1)"
    using m Cons.prems(1) by (rule push_plain_ok)
  obtain rest where rest: "l_nodes rest = ms" "lpush_loop s metrics err al
      = lpush_loop (s\<lparr>s_current := monikor_metric_list_push_node (s_current s) m\<rparr>) rest err al1"
    by (rule lpush_loop_step [OF Cons.hyps(2) [symmetric] 1(2)])
  have "\<forall>m\<in>set (l_nodes rest). \<not> is_delta m \<and> m_flags m AND MONIKOR_METRIC_AGGREGATE = 0"
    using Cons.prems(2) rest(1) by (simp flip: Cons.hyps(2))
  from Cons.hyps(1) [OF rest(1) [symmetric] 1(1) this, of "s\<lparr>s_current := monikor_metric_list_push_node (s_current s) m\<rparr>"] rest
  show ?case by (auto simp flip: Cons.hyps(2))
qed

lemma lpush_counter_loop:
  assumes "alloc_ok al" and "holds_sample s (counter_sample n i p) k"
    and "l_nodes metrics = map (counter_sample n i) ps"
    and "successively (\<lambda>a b. timecmp (fst b) (fst a) \<noteq> 0) (p # ps)"
  shows "\<exists>s' metrics' al'. lpush_loop s metrics err al = (s', metrics', err, al')
    \<and> l_nodes (s_current s') = l_nodes (s_current s) @ counter_deltas n i (p # ps)
    \<and> holds_sample s' (counter_sample n i (last (p # ps))) k"
  using assms
proof (induction ps arbitrary: s p metrics al)
  case Nil
  then show ?case by (cases p) (simp add: lpush_loop_done)
next
  case (Cons q ps)
  let ?a = "counter_sample n i p" and ?b = "counter_sample n i q"
  have key: "same_key ?b ?a" by (simp add: same_key_def)
  have clock: "timecmp (m_clock ?b) (m_clock ?a) \<noteq> 0" using Cons.prems(4) by simp
  obtain al1 where 1: "alloc_ok al1" "monikor_metric_store_push s ?b al =
      (s\<lparr>s_delta := (s_delta s)\<lparr>l_nodes := (l_nodes (s_delta s))[k := ?b]\<rparr>,
         s_current := monikor_metric_list_push_node (s_current s)
           (?a\<lparr>m_flags := 0, m_value := VInt (of_nat (unat (snd q) - unat (snd p)))\<rparr>)\<rparr>, 0, al1)"
    using push_next_sample [OF Cons.prems(1,2) key _ clock, of "snd p" "snd q"] sample_delta by auto
  let ?s1 = "fst (monikor_metric_store_push s ?b al)"
  have nodes: "l_nodes metrics = ?b # map (counter_sample n i) ps" using Cons.prems(3) by simp
  have push: "monikor_metric_store_push s ?b al = (?s1, 0, al1)" using 1(2) by simp
  obtain rest where rest: "l_nodes rest = map (counter_sample n i) ps"
    "lpush_loop s metrics err al = lpush_loop ?s1 rest err al1"
    by (rule lpush_loop_step [OF nodes push])
  have "holds_sample ?s1 ?b k"
    using holds_sample_next [OF Cons.prems(2) key] 1(2) by simp
  moreover have "successively (\<lambda>a b. timecmp (fst b) (fst a) \<noteq> 0) (q # ps)"
    using Cons.prems(4) by (cases ps) simp_all
  ultimately obtain s' metrics' al' where "lpush_loop ?s1 rest err al1 = (s', metrics', err, al')"
    "l_nodes (s_current s') = l_nodes (s_current ?s1) @ counter_deltas n i (q # ps)"
    "holds_sample s' (counter_sample n i (last (q # ps))) k"
    using Cons.IH [OF 1(1) _ rest(1)] by blast
  moreover have "l_nodes (s_current ?s1) @ counter_deltas n i (q # ps)
      = l_nodes (s_current s) @ counter_deltas n i (p # q # ps)"
    using 1(2) by (cases p; cases q) (simp add: counter_sample_def)
  ultimately show ?case using rest(2) by simp
qed

lemma counter_deltas_sum:
  "sorted (map (\<lambda>p. unat (snd p)) (p # ps)) \<Longrightarrow>
     sum_list (map metric_int (counter_deltas n i (p # ps))) + unat (snd p) = unat (snd (last (p # ps)))"
proof (induction ps arbitrary: p)
  case Nil
  then show ?case by (cases p) simp
next
  case (Cons q ps)
  have "unat (snd q) - unat (snd p) < 2 ^ 64"
    by (rule less_imp_diff_less) (use unsigned_less [of "snd q"] in simp)
  then have "unat (of_nat (unat (snd q) - unat (snd p)) :: u64) = unat (snd q) - unat (snd p)"
    by (simp add: unat_of_nat take_bit_nat_eq_self)
  then have "sum_list (map metric_int (counter_deltas n i (p # q # ps)))
      = unat (snd q) - unat (snd p) + sum_list (map metric_int (counter_deltas n i (q # ps)))"
    by (cases p; cases q) (simp add: metric_int_def)
  moreover have "sum_list (map metric_int (counter_deltas n i (q # ps))) + unat (snd q)
      = unat (snd (last (q # ps)))"
    by (rule Cons.IH) (use Cons.prems in simp)
  moreover have "unat (snd p) \<le> unat (snd q)" using Cons.prems by simp
  ultimately show ?case by simp
qed

lemma counter_deltas_length: "length (counter_deltas n i (p # ps)) = length ps"
  by (induction ps arbitrary: p) (auto split: prod.splits)

subsection \<open>Sums of aggregates\<close>

definition key_sum :: "u16 \<Rightarrow> string \<Rightarrow> metric list \<Rightarrow> u64" where
  "key_sum i name ms = sum_list (map (\<lambda>m. case m_value m of VInt v \<Rightarrow> v | _ \<Rightarrow> 0)
     (filter (\<lambda>m. m_id m = i \<and> m_name m = name) ms))"

lemma key_sum_append [simp]: "key_sum i name (xs @ ys) = key_sum i name xs + key_sum i name ys"
  by (simp add: key_sum_def)

lemma key_sum_update:
  assumes "k < length xs" and "m_id y = m_id (xs ! k)" and "m_name y = m_name (xs ! k)"
    and "m_value (xs ! k) = VInt v" and "m_value y = VInt (v + w)"
  shows "key_sum i name (xs[k := y]) =
    key_sum i name xs + (if m_id y = i \<and> m_name y = name then w else 0)"
  using assms
proof (induction xs arbitrary: k)
  case (Cons x xs)
  then show ?case by (cases k) (simp_all add: key_sum_def algebra_simps)
qed simp

subsection \<open>Properties\<close>

text \<open>C8: the counters of the three lists always describe their nodes, the sample list holds only
  delta metrics, and no delta metric is ever among the metrics to send or in the cache, whatever
  sequence of calls was made and whichever allocations failed.\<close>

theorem reachable_store_invariant:
  assumes "reachable_store s"
  shows "store_inv s"
  using assms by (rule reachable_store_inv)

theorem reachable_store_invariant_witness:
  "store_inv (fst (monikor_metric_store_push
     \<lparr>s_current = monikor_metric_list_init, s_delta = monikor_metric_list_init,
      s_cache = monikor_metric_list_init\<rparr> (counter_sample ''a'' 3 (\<lparr>tv_sec = 1, tv_usec = 0\<rparr>, 5)) []))"
proof (rule reachable_store_invariant)
  let ?s = "\<lparr>s_current = monikor_metric_list_init, s_delta = monikor_metric_list_init,
      s_cache = monikor_metric_list_init\<rparr>"
  have "monikor_metric_store_new [] = (Some ?s, [])"
    by (simp add: monikor_metric_store_new_def monikor_metric_list_new_def alloc_simps alloc_ret_def)
  then have "reachable_store ?s" by (rule reachable_store.fresh)
  then show "reachable_store (fst (monikor_metric_store_push ?s
      (counter_sample ''a'' 3 (\<lparr>tv_sec = 1, tv_usec = 0\<rparr>, 5)) []))"
    by (rule reachable_store.after) (metis store_step.step_push prod.collapse)
qed

text \<open>C2: a series of samples of a counter whose values never decrease, with clocks that compare
  different, makes one metric visible per step, in order and dated by the earlier sample, and these
  add up to the difference of the last and the first value: no increment is lost or counted
  twice.\<close>

theorem lpush_counter_series:
  assumes "alloc_ok al" and "l_nodes metrics = map (counter_sample name i) (p # ps)"
    and "\<forall>d\<in>set (l_nodes (s_delta s)). \<not> (m_id d = i \<and> m_name d = name)"
    and "successively (\<lambda>a b. timecmp (fst b) (fst a) \<noteq> 0) (p # ps)"
    and "sorted (map (\<lambda>p. unat (snd p)) (p # ps))"
  shows "\<exists>s' metrics' al' new. monikor_metric_store_lpush s metrics al = (s', metrics', 0, al')
    \<and> l_nodes (s_current s') = l_nodes (s_current s) @ new \<and> length new = length ps
    \<and> new = counter_deltas name i (p # ps)
    \<and> sum_list (map metric_int new) = unat (snd (last (p # ps))) - unat (snd p)"
proof -
  let ?a = "counter_sample name i p"
  have fresh: "\<forall>d\<in>set (l_nodes (s_delta s)). \<not> same_key d ?a"
    using assms(3) by (simp add: same_key_def)
  obtain al1 where 1: "alloc_ok al1" "monikor_metric_store_push s ?a al =
      (s\<lparr>s_delta := monikor_metric_list_push_node (s_delta s) ?a\<rparr>, 0, al1)"
    by (rule push_first_sample [OF assms(1) fresh sample_delta(1)])
  have nodes: "l_nodes metrics = ?a # map (counter_sample name i) ps" using assms(2) by simp
  obtain rest where rest: "l_nodes rest = map (counter_sample name i) ps"
    "lpush_loop s metrics 0 al
     = lpush_loop (s\<lparr>s_delta := monikor_metric_list_push_node (s_delta s) ?a\<rparr>) rest 0 al1"
    by (rule lpush_loop_step [OF nodes 1(2)])
  show ?thesis
    using lpush_counter_loop [OF 1(1) holds_sample_first [OF fresh] rest(1) assms(4), of 0]
      counter_deltas_sum [OF assms(5), of name i] counter_deltas_length [of name i p ps]
    by (auto simp: monikor_metric_store_lpush_def rest(2))
qed

definition sample_series :: mlist where
  "sample_series = foldl monikor_metric_list_push_node monikor_metric_list_init
     (map (counter_sample ''c'' 0) [(\<lparr>tv_sec = 10, tv_usec = 0\<rparr>, 100), (\<lparr>tv_sec = 20, tv_usec = 0\<rparr>, 130),
                                    (\<lparr>tv_sec = 30, tv_usec = 0\<rparr>, 150)])"

theorem lpush_counter_series_witness:
  "\<exists>s' metrics' al' new. monikor_metric_store_lpush
      \<lparr>s_current = monikor_metric_list_init, s_delta = monikor_metric_list_init,
       s_cache = monikor_metric_list_init\<rparr> sample_series [] = (s', metrics', 0, al')
    \<and> l_nodes (s_current s') = new \<and> sum_list (map metric_int new) = 50
    \<and> map m_value new = [VInt 30, VInt 20]"
  using lpush_counter_series [of "[]" sample_series "''c''" 0 "(\<lparr>tv_sec = 10, tv_usec = 0\<rparr>, 100)"
      "[(\<lparr>tv_sec = 20, tv_usec = 0\<rparr>, 130), (\<lparr>tv_sec = 30, tv_usec = 0\<rparr>, 150)]"
      "\<lparr>s_current = monikor_metric_list_init, s_delta = monikor_metric_list_init,
       s_cache = monikor_metric_list_init\<rparr>"]
  by (auto simp: sample_series_def mlist.push_all_elems timecmp_def int_of_long_def)

text \<open>C15: pushing an integer aggregate adds its value, modulo 2^64, to the sum of the current
  metrics of the same identifier and name, and changes no other sum.\<close>

theorem push_aggregate_sums:
  assumes "alloc_ok al" and "m_value m = VInt v" and "\<not> is_delta m"
    and "m_flags m AND MONIKOR_METRIC_AGGREGATE \<noteq> 0"
  shows "\<exists>s' al'. monikor_metric_store_push s m al = (s', 0, al')
    \<and> s_delta s' = s_delta s \<and> s_cache s' = s_cache s
    \<and> key_sum i name (l_nodes (s_current s')) = key_sum i name (l_nodes (s_current s))
        + (if i = m_id m \<and> name = m_name m then v else 0)"
proof (cases "find_first (\<lambda>node. m_id node = m_id m \<and> m_name node = m_name m
    \<and> snd (monikor_metric_add node m) = 0) (l_nodes (s_current s))")
  case None
  from assms(1) obtain al' where "monikor_metric_list_push (s_current s) m al =
      (monikor_metric_list_push_node (s_current s) m, 0, al')" by (rule list_push_ok)
  then show ?thesis
    using None assms(2-4)
    by (auto simp: monikor_metric_store_push.simps [of s m al] monikor_metric_store_push_aggregate_def
        key_sum_def)
next
  case (Some k)
  let ?n = "l_nodes (s_current s) ! k"
  from find_first_SomeD [OF Some] have k: "k < length (l_nodes (s_current s))" "m_id ?n = m_id m"
    "m_name ?n = m_name m" "snd (monikor_metric_add ?n m) = 0" by simp_all
  from k(4) assms(2) obtain x where x: "m_value ?n = VInt x"
    by (cases "m_value ?n") (auto simp: monikor_metric_add_def)
  have "monikor_metric_add ?n m = (?n\<lparr>m_value := VInt (x + v)\<rparr>, 0)"
    by (simp add: monikor_metric_add_def x assms(2))
  moreover have "key_sum i name ((l_nodes (s_current s))[k := ?n\<lparr>m_value := VInt (x + v)\<rparr>]) =
      key_sum i name (l_nodes (s_current s)) + (if m_id m = i \<and> m_name m = name then v else 0)"
    using key_sum_update [of k "l_nodes (s_current s)" "?n\<lparr>m_value := VInt (x + v)\<rparr>" x v i name] k x
    by simp
  ultimately show ?thesis
    using Some assms(3,4)
    by (auto simp: monikor_metric_store_push.simps [of s m al] monikor_metric_store_push_aggregate_def Let_def)
qed

theorem push_aggregate_sums_witness:
  "\<exists>s' al'. monikor_metric_store_push
      \<lparr>s_current = monikor_metric_list_push_node monikor_metric_list_init
         \<lparr>m_name = ''a'', m_id = 2, m_clock = \<lparr>tv_sec = 1, tv_usec = 0\<rparr>, m_value = VInt 10, m_flags = 4\<rparr>,
       s_delta = monikor_metric_list_init, s_cache = monikor_metric_list_init\<rparr>
      \<lparr>m_name = ''a'', m_id = 2, m_clock = \<lparr>tv_sec = 9, tv_usec = 0\<rparr>, m_value = VInt 32, m_flags = 4\<rparr> []
     = (s', 0, al') \<and> key_sum 2 ''a'' (l_nodes (s_current s')) = 42"
  using push_aggregate_sums [of "[]"
      "\<lparr>m_name = ''a'', m_id = 2, m_clock = \<lparr>tv_sec = 9, tv_usec = 0\<rparr>, m_value = VInt 32, m_flags = 4\<rparr>" 32
      "\<lparr>s_current = monikor_metric_list_push_node monikor_metric_list_init
         \<lparr>m_name = ''a'', m_id = 2, m_clock = \<lparr>tv_sec = 1, tv_usec = 0\<rparr>, m_value = VInt 10, m_flags = 4\<rparr>,
       s_delta = monikor_metric_list_init, s_cache = monikor_metric_list_init\<rparr>" 2 "''a''"]
  by (auto simp: flag_simps key_sum_def)

text \<open>C14: evicting the cache never runs out of metrics to free, and drops the fewest of the oldest
  metrics that bring its size within the bound.\<close>

theorem evict_cache_minimal:
  assumes "store_inv s"
  shows "\<exists>k s'. monikor_metric_store_evict_cache s max_size = Some (s', of_nat k)
    \<and> l_nodes (s_cache s') = drop k (l_nodes (s_cache s)) \<and> k \<le> length (l_nodes (s_cache s))
    \<and> nodes_data_size (l_nodes (s_cache s')) \<le> max_size
    \<and> (\<forall>j<k. max_size < nodes_data_size (drop j (l_nodes (s_cache s))))
    \<and> s_current s' = s_current s \<and> s_delta s' = s_delta s"
proof -
  have "list_inv (s_cache s)" using assms by (simp add: store_inv_def)
  then obtain k cache' where k: "evict_cache_loop (s_cache s) max_size 0 = Some (cache', 0 + of_nat k)"
    "l_nodes cache' = drop k (l_nodes (s_cache s))" "k \<le> length (l_nodes (s_cache s))" "list_inv cache'"
    "l_data_size cache' \<le> max_size"
    "\<forall>j<k. max_size < nodes_data_size (drop j (l_nodes (s_cache s)))"
    by (rule evict_cache_loop_spec)
  then show ?thesis
    by (intro exI [of _ k] exI [of _ "s\<lparr>s_cache := cache'\<rparr>"])
      (simp add: monikor_metric_store_evict_cache_def list_inv_def)
qed

theorem evict_cache_minimal_witness:
  "\<exists>k s'. monikor_metric_store_evict_cache
      \<lparr>s_current = monikor_metric_list_init, s_delta = monikor_metric_list_init,
       s_cache = monikor_metric_list_push_node monikor_metric_list_init
         \<lparr>m_name = ''a'', m_id = 2, m_clock = \<lparr>tv_sec = 1, tv_usec = 0\<rparr>, m_value = VInt 10, m_flags = 0\<rparr>\<rparr> 72
    = Some (s', of_nat k) \<and> nodes_data_size (l_nodes (s_cache s')) \<le> 72"
  using evict_cache_minimal [of "\<lparr>s_current = monikor_metric_list_init, s_delta = monikor_metric_list_init,
       s_cache = monikor_metric_list_push_node monikor_metric_list_init
         \<lparr>m_name = ''a'', m_id = 2, m_clock = \<lparr>tv_sec = 1, tv_usec = 0\<rparr>, m_value = VInt 10, m_flags = 0\<rparr>\<rparr>" 72]
  by (auto simp: store_inv_def inv_intros flag_simps)

text \<open>when the agent's clocks are less than 2^31 seconds apart, evicting the samples drops
  exactly those older than the given clock and keeps the order of the rest.\<close>

theorem evict_delta_drops_older:
  assumes "\<forall>m\<in>set (l_nodes (s_delta s)). clocks_close (m_clock m) clock"
  shows "l_nodes (s_delta (fst (monikor_metric_store_evict_delta s clock))) =
      filter (\<lambda>m. \<not> clock_less (m_clock m) clock) (l_nodes (s_delta s))
    \<and> snd (monikor_metric_store_evict_delta s clock) =
      of_nat (length (filter (\<lambda>m. clock_less (m_clock m) clock) (l_nodes (s_delta s))))"
proof -
  obtain l n where r: "monikor_metric_list_remove_if (s_delta s) (evict_delta_predicate clock) = (l, n)"
    by force
  have p: "evict_delta_predicate clock m = clock_less (m_clock m) clock" if "m \<in> set (l_nodes (s_delta s))" for m
    using assms that by (simp add: evict_delta_predicate_def timecmp_less)
  have "filter (\<lambda>m. \<not> evict_delta_predicate clock m) (l_nodes (s_delta s)) =
      filter (\<lambda>m. \<not> clock_less (m_clock m) clock) (l_nodes (s_delta s))"
    "filter (evict_delta_predicate clock) (l_nodes (s_delta s)) =
      filter (\<lambda>m. clock_less (m_clock m) clock) (l_nodes (s_delta s))"
    by (rule filter_cong; simp add: p)+
  then show ?thesis
    using list_remove_if_nodes [OF r] r by (simp add: monikor_metric_store_evict_delta_def)
qed

theorem evict_delta_drops_older_witness:
  "map m_id (l_nodes (s_delta (fst (monikor_metric_store_evict_delta
      \<lparr>s_current = monikor_metric_list_init,
       s_delta = foldl monikor_metric_list_push_node monikor_metric_list_init
         [counter_sample ''a'' 1 (\<lparr>tv_sec = 5, tv_usec = 7\<rparr>, 0), counter_sample ''a'' 2 (\<lparr>tv_sec = 5, tv_usec = 8\<rparr>, 0)],
       s_cache = monikor_metric_list_init\<rparr>
      \<lparr>tv_sec = 5, tv_usec = 8\<rparr>)))) = [2]"
  by (subst evict_delta_drops_older [THEN conjunct1])
    (simp_all add: mlist.push_all_elems clocks_close_def clock_less_def)

text \<open>bringing the cache back puts its metrics, the older ones, in front of the current ones,
  and leaves nothing in the cache; caching them again restores that order.\<close>

theorem uncache_older_first:
  "l_nodes (s_current (monikor_metric_store_uncache s)) = l_nodes (s_cache s) @ l_nodes (s_current s)
   \<and> l_nodes (s_cache (monikor_metric_store_uncache s)) = []
   \<and> l_nodes (s_cache (monikor_metric_store_cache (monikor_metric_store_uncache s)))
       = l_nodes (s_cache s) @ l_nodes (s_current s)
   \<and> s_delta (monikor_metric_store_uncache s) = s_delta s"
  by (simp add: uncache_nodes cache_nodes)

text \<open>a sample whose type differs from that of the sample it is paired with is refused with -1
  and stored nowhere: the store is unchanged and the caller has lost its metric.\<close>

theorem push_delta_type_mismatch:
  assumes "is_delta m" and "find_first (is_cached_metric m) (l_nodes (s_delta s)) = Some k"
    and "m_type (l_nodes (s_delta s) ! k) \<noteq> m_type m"
  shows "monikor_metric_store_push s m al = (s, -1, al)"
  using assms
  by (simp add: monikor_metric_store_push.simps [of s m al] monikor_metric_store_push_delta.simps [of s m al]
      monikor_metric_compute_delta_def)

theorem push_delta_type_mismatch_witness:
  "\<exists>s m. is_delta m \<and> l_nodes (s_delta s) \<noteq> [] \<and> monikor_metric_store_push s m [] = (s, -1, [])"
  by (intro exI conjI, rule_tac [3] push_delta_type_mismatch [where k = 0
      and m = "\<lparr>m_name = ''a'', m_id = 1, m_clock = \<lparr>tv_sec = 2, tv_usec = 0\<rparr>, m_value = VFloat 0, m_flags = 1\<rparr>"
      and s = "\<lparr>s_current = monikor_metric_list_init,
        s_delta = monikor_metric_list_push_node monikor_metric_list_init
          (counter_sample ''a'' 1 (\<lparr>tv_sec = 1, tv_usec = 0\<rparr>, 0)),
        s_cache = monikor_metric_list_init\<rparr>"])
    (simp_all add: flag_simps is_cached_metric_def timecmp_def int_of_long_def)

text \<open>\<open>_timecmp\<close> returns the difference of the seconds as an \<open>int\<close>: two different
  clocks a multiple of 2^32 seconds apart compare equal.\<close>

theorem timecmp_wraps:
  "timecmp \<lparr>tv_sec = x + 2 ^ 32 * k, tv_usec = u\<rparr> \<lparr>tv_sec = x, tv_usec = u\<rparr> = 0"
proof -
  have "2 ^ 32 * k = push_bit 32 k" by (simp only: push_bit_eq_mult mult.commute)
  moreover have "(ucast (push_bit 32 k :: clong) :: cint) = 0"
    by (rule bit_word_eqI) (simp only: bit_simps, simp)
  ultimately have "(ucast (2 ^ 32 * k :: clong) :: cint) = 0" by (simp only:)
  then show ?thesis by (simp add: timecmp_def int_of_long_def)
qed

end
