(* ===== verification/Strl.thy ===== *)
theory Strl
  imports Counted_List
begin

text \<open>
  String lists, \<open>include/strl.h\<close> and \<open>src/utils/strl.c\<close>: the strings in link order and the
  size kept beside the links, and the splitting of a dotted key into its components.
\<close>

record strl =
  sl_strs :: "string list"
  sl_size :: u64

definition strl_init :: strl where
  "strl_init = \<lparr>sl_strs = [], sl_size = 0\<rparr>"

definition strl_new :: "alloc \<Rightarrow> strl option \<times> alloc" where
  "strl_new = or_null malloc (\<lambda>_. alloc_ret \<lparr>sl_strs = [], sl_size = 0\<rparr>)"

definition strl_node_new :: "string \<Rightarrow> alloc \<Rightarrow> string option \<times> alloc" where
  "strl_node_new s = or_null malloc (\<lambda>_. or_null (strdup s) alloc_ret)"

text \<open>Linking a node that could be allocated.\<close>

definition strl_link :: "strl \<Rightarrow> string \<Rightarrow> strl" where
  "strl_link l s = l\<lparr>sl_strs := sl_strs l @ [s], sl_size := sl_size l + 1\<rparr>"

definition strl_push :: "strl \<Rightarrow> string \<Rightarrow> alloc \<Rightarrow> strl \<times> cint \<times> alloc" where
  "strl_push l s al =
     (case strl_node_new s al of
        (None, al) \<Rightarrow> (l, -1, al)
      | (Some new, al) \<Rightarrow> (strl_link l new, 0, al))"

text \<open>The variable arguments before the terminating null pointer.\<close>

fun strl_vpush_loop :: "strl \<Rightarrow> string list \<Rightarrow> cint \<Rightarrow> alloc \<Rightarrow> strl \<times> cint \<times> alloc" where
  "strl_vpush_loop l [] n al = (l, n, al)"
| "strl_vpush_loop l (s # ap) n al =
     (case strl_push l s al of
        (l, r, al) \<Rightarrow> strl_vpush_loop l ap (if r = 0 then n + 1 else n) al)"

definition strl_vpush_many :: "strl \<Rightarrow> string list \<Rightarrow> alloc \<Rightarrow> strl \<times> cint \<times> alloc" where
  "strl_vpush_many l ap = strl_vpush_loop l ap 0"

definition strl_push_many :: "strl \<Rightarrow> string list \<Rightarrow> alloc \<Rightarrow> strl \<times> cint \<times> alloc" where
  "strl_push_many l ap al = strl_vpush_many l ap al"

definition strl_concat :: "strl \<Rightarrow> strl \<Rightarrow> strl \<times> strl" where
  "strl_concat head tail =
     (head\<lparr>sl_strs := sl_strs head @ sl_strs tail, sl_size := sl_size head + sl_size tail\<rparr>,
      tail\<lparr>sl_strs := [], sl_size := 0\<rparr>)"

definition strl_apply :: "strl \<Rightarrow> (string \<Rightarrow> 'd \<Rightarrow> 'd) \<Rightarrow> 'd \<Rightarrow> 'd" where
  "strl_apply l f world = fold f (sl_strs l) world"

definition strl_apply_data :: "strl \<Rightarrow> (string \<Rightarrow> 'd \<Rightarrow> 'd) \<Rightarrow> 'd \<Rightarrow> 'd" where
  "strl_apply_data l f data = fold f (sl_strs l) data"

fun contains_loop :: "string list \<Rightarrow> string \<Rightarrow> cint" where
  "contains_loop [] s = 0"
| "contains_loop (x # xs) s = (if x = s then 1 else contains_loop xs s)"

definition strl_contains :: "strl \<Rightarrow> string \<Rightarrow> cint" where
  "strl_contains l s = contains_loop (sl_strs l) s"

text \<open>\<open>strtok_r\<close>: the next token and what follows the separator that ended it.\<close>

definition strtok :: "string \<Rightarrow> string \<Rightarrow> (string \<times> string) option" where
  "strtok sep s =
     (let s = dropWhile (\<lambda>c. c \<in> set sep) s
      in if s = [] then None
         else Some (takeWhile (\<lambda>c. c \<notin> set sep) s, drop 1 (dropWhile (\<lambda>c. c \<notin> set sep) s)))"

lemma length_tail_dropWhile: "s \<noteq> [] \<Longrightarrow> length (drop 1 (dropWhile P s)) < length s"
proof -
  assume "s \<noteq> []"
  then have "0 < length s" by simp
  moreover have "length (drop 1 (dropWhile P s)) = length (dropWhile P s) - 1" by simp
  moreover note length_dropWhile_le [of P s]
  ultimately show ?thesis by linarith
qed

lemma strtok_shorter:
  assumes "strtok sep s = Some (t, rest)"
  shows "length rest < length s"
proof -
  define u where "u = dropWhile (\<lambda>c. c \<in> set sep) s"
  from assms have "u \<noteq> []" and "rest = drop 1 (dropWhile (\<lambda>c. c \<notin> set sep) u)"
    by (simp_all add: strtok_def Let_def flip: u_def split: if_split_asm)
  then have "length rest < length u" by (metis length_tail_dropWhile)
  also have "length u \<le> length s" by (simp only: u_def length_dropWhile_le)
  finally show ?thesis .
qed

text \<open>The loop over the tokens; \<open>None\<close>: a push failed.\<close>

function separated_loop :: "string \<Rightarrow> string \<Rightarrow> strl \<Rightarrow> alloc \<Rightarrow> strl option \<times> alloc" where
  "separated_loop sep s l al =
     (case strtok sep s of
        None \<Rightarrow> (Some l, al)
      | Some (str, s) \<Rightarrow>
          (case strl_push l str al of
             (l, r, al) \<Rightarrow> if r \<noteq> 0 then (None, al) else separated_loop sep s l al))"
  by pat_completeness auto
termination
  by (relation "measure (\<lambda>(sep, s, l, al). length s)") (auto dest: strtok_shorter)

declare separated_loop.simps [simp del]

definition strl_from_separated_string :: "string \<Rightarrow> string \<Rightarrow> alloc \<Rightarrow> strl option \<times> alloc" where
  "strl_from_separated_string sc sep =
     or_null (strdup sc) (\<lambda>s. or_null strl_new (separated_loop sep s))"

subsection \<open>Lemmas\<close>

definition strl_inv :: "strl \<Rightarrow> bool" where
  "strl_inv l \<longleftrightarrow> sl_size l = of_nat (length (sl_strs l))"

interpretation strl: counted_list sl_strs sl_size strl_init strl_link strl_concat strl_inv
  by unfold_locales (auto simp: strl_inv_def strl_init_def strl_link_def strl_concat_def)

lemma strl_push_cases:
  assumes "strl_push l s al = (l', r, al')"
  obtains (nomem) "l' = l" and "r = -1" | (pushed) "l' = strl_link l s" and "r = 0"
  using assms
  by (auto simp: strl_push_def strl_node_new_def or_null_def split: prod.splits option.splits
      dest: strdup_Some)

lemma strl_push_ok:
  assumes "alloc_ok al"
  obtains al' where "strl_push l s al = (strl_link l s, 0, al')" and "alloc_ok al'"
proof -
  from assms obtain j al1 where 1: "malloc al = (Some j, al1)" "alloc_ok al1" by (rule alloc_ok_malloc)
  from 1(2) obtain al2 where "strdup s al1 = (Some s, al2)" "alloc_ok al2" by (rule alloc_ok_strdup)
  with 1 show ?thesis
    by (intro that [of al2]) (simp_all add: strl_push_def strl_node_new_def alloc_simps alloc_ret_def)
qed

lemma strl_new_ok:
  assumes "alloc_ok al"
  obtains al' where "strl_new al = (Some strl_init, al')" and "alloc_ok al'"
proof -
  from assms obtain j al1 where "malloc al = (Some j, al1)" "alloc_ok al1" by (rule alloc_ok_malloc)
  then show ?thesis
    by (intro that [of al1]) (simp_all add: strl_new_def strl_init_def alloc_simps alloc_ret_def)
qed

lemma strl_contains_iff: "strl_contains l s = 1 \<longleftrightarrow> s \<in> set (sl_strs l)"
proof -
  have "contains_loop xs s = 1 \<longleftrightarrow> s \<in> set xs" for xs by (induction xs) auto
  then show ?thesis by (simp add: strl_contains_def)
qed

text \<open>The tokens, without the allocator.\<close>

function tokens :: "string \<Rightarrow> string \<Rightarrow> string list" where
  "tokens sep s = (case strtok sep s of None \<Rightarrow> [] | Some (t, rest) \<Rightarrow> t # tokens sep rest)"
  by pat_completeness auto
termination
  by (relation "measure (\<lambda>(sep, s). length s)") (auto dest: strtok_shorter)

declare tokens.simps [simp del]

lemma separated_loop_ok:
  "alloc_ok al \<Longrightarrow> \<exists>al'. alloc_ok al' \<and> separated_loop sep s l al = (Some (foldl strl_link l (tokens sep s)), al')"
proof (induction s arbitrary: l al rule: measure_induct_rule [where f = length])
  case (less s)
  show ?case
  proof (cases "strtok sep s")
    case None
    with less.prems show ?thesis by (simp add: separated_loop.simps [of sep s] tokens.simps [of sep s])
  next
    case (Some p)
    obtain t rest where p: "p = (t, rest)" by force
    obtain al1 where 1: "strl_push l t al = (strl_link l t, 0, al1)" "alloc_ok al1"
      using less.prems by (rule strl_push_ok)
    have "length rest < length s" using strtok_shorter Some p by blast
    from less.IH [OF this 1(2)] Some p 1(1) show ?thesis
      by (simp add: separated_loop.simps [of sep s] tokens.simps [of sep s])
  qed
qed

lemma from_separated_ok:
  assumes "alloc_ok al"
  obtains l al' where "strl_from_separated_string sc sep al = (Some l, al')" and "alloc_ok al'"
    and "sl_strs l = tokens sep sc" and "strl_inv l"
proof -
  obtain al1 where 1: "strdup sc al = (Some sc, al1)" "alloc_ok al1"
    using assms by (rule alloc_ok_strdup)
  obtain al2 where 2: "strl_new al1 = (Some strl_init, al2)" "alloc_ok al2"
    using 1(2) by (rule strl_new_ok)
  obtain al3 where 3: "alloc_ok al3"
    "separated_loop sep sc strl_init al2 = (Some (foldl strl_link strl_init (tokens sep sc)), al3)"
    using separated_loop_ok [OF 2(2)] by blast
  show ?thesis
  proof (rule that)
    show "strl_from_separated_string sc sep al = (Some (foldl strl_link strl_init (tokens sep sc)), al3)"
      by (simp add: strl_from_separated_string_def alloc_simps 1 2 3)
    show "strl_inv (foldl strl_link strl_init (tokens sep sc))"
      by (rule strl.push_all_invar) (rule strl.empty_ok)
  qed (simp_all add: 3 strl.push_all_elems strl.empty_ok)
qed

text \<open>Tokens of components joined by one separator character.\<close>

fun join :: "char \<Rightarrow> string list \<Rightarrow> string" where
  "join c [] = []"
| "join c [s] = s"
| "join c (s # t # ss) = s @ c # join c (t # ss)"

definition component_ok :: "char \<Rightarrow> string \<Rightarrow> bool" where
  "component_ok c s \<longleftrightarrow> s \<noteq> [] \<and> c \<notin> set s"

lemma component_ne: "component_ok c s \<Longrightarrow> \<exists>x xs. s = x # xs \<and> x \<noteq> c"
  by (cases s) (auto simp: component_ok_def)

lemma takeWhile_component:
  "c \<notin> set s \<Longrightarrow> takeWhile (\<lambda>x. x \<noteq> c) (s @ c # r) = s"
  "c \<notin> set s \<Longrightarrow> dropWhile (\<lambda>x. x \<noteq> c) (s @ c # r) = c # r"
  "c \<notin> set s \<Longrightarrow> takeWhile (\<lambda>x. x \<noteq> c) s = s"
  "c \<notin> set s \<Longrightarrow> dropWhile (\<lambda>x. x \<noteq> c) s = []"
  by (induction s) auto

lemma strtok_component:
  assumes "component_ok c s"
  shows "strtok [c] (s @ c # r) = Some (s, r)" and "strtok [c] s = Some (s, [])"
proof -
  have ne: "s \<noteq> []" and c: "c \<notin> set s" using assms by (simp_all add: component_ok_def)
  have d: "dropWhile (\<lambda>y. y = c) (s @ r') = s @ r'" for r' using assms by (cases s) (auto simp: component_ok_def)
  show "strtok [c] (s @ c # r) = Some (s, r)" "strtok [c] s = Some (s, [])"
    using takeWhile_component [OF c] ne d [of "[]"]
    by (simp_all add: strtok_def Let_def d del: dropWhile_eq_Nil_conv takeWhile_eq_all_conv)
qed

lemma strtok_Nil [simp]: "strtok sep [] = None"
  by (simp add: strtok_def)

lemma tokens_join: "\<forall>s\<in>set ss. component_ok c s \<Longrightarrow> tokens [c] (join c ss) = ss"
proof (induction c ss rule: join.induct)
  case (1 c)
  then show ?case by (simp add: tokens.simps [of "[c]" "[]"])
next
  case (2 c s)
  then have "strtok [c] s = Some (s, [])" by (simp add: strtok_component)
  then show ?case by (simp add: tokens.simps [of "[c]" s] tokens.simps [of "[c]" "[]"])
next
  case (3 c s t ss)
  then have "strtok [c] (s @ c # join c (t # ss)) = Some (s, join c (t # ss))"
    by (simp add: strtok_component)
  with 3 show ?case by (simp add: tokens.simps [of "[c]" "s @ c # join c (t # ss)"])
qed

subsection \<open>Properties\<close>

text \<open>splitting a key whose components are not empty and hold no separator gives back its
  components, in order, with the right size.\<close>

theorem separated_roundtrip:
  assumes "alloc_ok al" and "\<forall>s\<in>set ss. component_ok c s"
  shows "\<exists>l. fst (strl_from_separated_string (join c ss) [c] al) = Some l \<and> sl_strs l = ss
    \<and> sl_size l = of_nat (length ss)"
proof -
  obtain l al' where "strl_from_separated_string (join c ss) [c] al = (Some l, al')"
    "sl_strs l = tokens [c] (join c ss)" "strl_inv l"
    using from_separated_ok [OF assms(1)] by metis
  then show ?thesis using tokens_join [OF assms(2)] by (simp add: strl_inv_def)
qed

theorem separated_roundtrip_witness:
  "\<exists>l. fst (strl_from_separated_string ''server.url'' ''.'' []) = Some l
    \<and> sl_strs l = [''server'', ''url''] \<and> sl_size l = 2"
  using separated_roundtrip [of "[]" "[''server'', ''url'']" "CHR ''.''"]
  by (simp add: component_ok_def)

text \<open>appending a string list to another moves all its strings, in order, and leaves it empty;
  both sizes are right.\<close>

theorem strl_concat_moves:
  assumes "strl_inv h" and "strl_inv t" and "strl_concat h t = (h', t')"
  shows "sl_strs h' = sl_strs h @ sl_strs t \<and> sl_strs t' = [] \<and> strl_inv h' \<and> strl_inv t'"
  using strl.concat_elems [of h t] strl.concat_invar [of h t] assms by simp

theorem strl_concat_moves_witness:
  "sl_strs (fst (strl_concat (strl_link strl_init ''a'') (strl_link strl_init ''b''))) = [''a'', ''b'']"
  by (subst strl_concat_moves [of "strl_link strl_init ''a''" "strl_link strl_init ''b''", OF _ _ prod.collapse [symmetric], THEN conjunct1])
    (simp_all add: strl_inv_def strl_link_def strl_init_def)

end
