(* ===== verification/Config_Dict.thy ===== *)
theory Config_Dict
  imports Strl
begin

text \<open>
  Configuration dictionaries, \<open>include/config.h\<close> and \<open>src/config/config_dict.c\<close>.  A pointer to an
  element is the list of the elements from it on, so the null pointer is the empty list; the tag
  and the union of an element are one value.
\<close>

datatype cfg_value =
    MONIKOR_CFG_DICT "(string option \<times> cfg_value) list"
  | MONIKOR_CFG_LIST strl
  | MONIKOR_CFG_SCALAR "string option"

type_synonym cfg_dict = "(string option \<times> cfg_value) list"

definition monikor_config_dict_new :: "alloc \<Rightarrow> cfg_dict option \<times> alloc" where
  "monikor_config_dict_new = or_null malloc (\<lambda>_. alloc_ret [(None, MONIKOR_CFG_DICT [])])"

text \<open>\<open>while (sub && (!sub->key || strcmp(k->str, sub->key))) sub = sub->next\<close>\<close>

fun seek_key :: "string \<Rightarrow> cfg_dict \<Rightarrow> cfg_dict" where
  "seek_key k [] = []"
| "seek_key k ((key, v) # rest) = (if key = None \<or> k \<noteq> the key then seek_key k rest else (key, v) # rest)"

fun subdict_loop :: "cfg_dict \<Rightarrow> string list \<Rightarrow> cfg_dict" where
  "subdict_loop sub [] = sub"
| "subdict_loop sub (k # ks) =
     (case seek_key k sub of
        [] \<Rightarrow> []
      | (key, v) # rest \<Rightarrow>
          if ks = [] then (key, v) # rest
          else (case v of MONIKOR_CFG_DICT d \<Rightarrow> subdict_loop d ks | _ \<Rightarrow> []))"

definition monikor_config_get_subdict :: "cfg_dict \<Rightarrow> strl option \<Rightarrow> cfg_dict" where
  "monikor_config_get_subdict dict keys =
     (case keys of None \<Rightarrow> [] | Some l \<Rightarrow> if dict = [] then [] else subdict_loop dict (sl_strs l))"

text \<open>The element found, not the dictionary it holds.\<close>

definition monikor_config_dict_get_dict :: "cfg_dict \<Rightarrow> string \<Rightarrow> alloc \<Rightarrow> cfg_dict \<times> alloc" where
  "monikor_config_dict_get_dict dict key al =
     (case strl_from_separated_string key ''.'' al of
        (None, al) \<Rightarrow> ([], al)
      | (Some keys, al) \<Rightarrow>
          (let d = monikor_config_get_subdict dict (Some keys)
           in (case d of (_, MONIKOR_CFG_DICT _) # _ \<Rightarrow> d | _ \<Rightarrow> [], al)))"

definition monikor_config_dict_get_list :: "cfg_dict \<Rightarrow> string \<Rightarrow> alloc \<Rightarrow> strl option \<times> alloc" where
  "monikor_config_dict_get_list dict key al =
     (case strl_from_separated_string key ''.'' al of
        (None, al) \<Rightarrow> (None, al)
      | (Some keys, al) \<Rightarrow>
          (case monikor_config_get_subdict dict (Some keys) of
             (_, MONIKOR_CFG_LIST l) # _ \<Rightarrow> Some l | _ \<Rightarrow> None, al))"

definition monikor_config_dict_get_scalar :: "cfg_dict \<Rightarrow> string \<Rightarrow> alloc \<Rightarrow> string option \<times> alloc" where
  "monikor_config_dict_get_scalar dict key al =
     (case strl_from_separated_string key ''.'' al of
        (None, al) \<Rightarrow> (None, al)
      | (Some keys, al) \<Rightarrow>
          (case monikor_config_get_subdict dict (Some keys) of
             (_, MONIKOR_CFG_SCALAR v) # _ \<Rightarrow> v | _ \<Rightarrow> None, al))"

subsection \<open>The dictionary as a map of maps\<close>

text \<open>What the lookups promise: each component selects the first element of that name.\<close>

fun value_at :: "cfg_dict \<Rightarrow> string list \<Rightarrow> cfg_value option" where
  "value_at d [] = None"
| "value_at d [k] = map_of d (Some k)"
| "value_at d (k # ks) =
     (case map_of d (Some k) of Some (MONIKOR_CFG_DICT d') \<Rightarrow> value_at d' ks | _ \<Rightarrow> None)"

definition scalar_at :: "cfg_dict \<Rightarrow> string list \<Rightarrow> string option" where
  "scalar_at d ks = (case value_at d ks of Some (MONIKOR_CFG_SCALAR v) \<Rightarrow> v | _ \<Rightarrow> None)"

lemma seek_key_map_of:
  "map_of d (Some k) = (case seek_key k d of [] \<Rightarrow> None | (_, v) # _ \<Rightarrow> Some v)"
  by (induction k d rule: seek_key.induct) (auto split: list.splits)

lemma subdict_loop_value:
  "ks \<noteq> [] \<Longrightarrow> value_at d ks = (case subdict_loop d ks of [] \<Rightarrow> None | (_, v) # _ \<Rightarrow> Some v)"
proof (induction d ks rule: value_at.induct)
  case (2 d k)
  then show ?case by (auto simp: seek_key_map_of split: list.splits)
next
  case (3 d k k' ks)
  show ?case
  proof (cases "seek_key k d")
    case Nil
    then show ?thesis by (simp add: seek_key_map_of)
  next
    case (Cons e rest)
    obtain key v where e: "e = (key, v)" by force
    have m: "map_of d (Some k) = Some v" by (simp add: seek_key_map_of Cons e)
    show ?thesis
      by (cases v) (use 3 m in \<open>simp_all add: Cons e\<close>)
  qed
qed simp

lemma subdict_loop_Nil [simp]: "subdict_loop [] (k # ks) = []"
  by simp

lemma get_subdict_value:
  assumes "sl_strs l \<noteq> []"
  shows "value_at d (sl_strs l) =
    (case monikor_config_get_subdict d (Some l) of [] \<Rightarrow> None | (_, v) # _ \<Rightarrow> Some v)"
  using subdict_loop_value [OF assms, of d] assms
  by (cases "sl_strs l") (auto simp: monikor_config_get_subdict_def)

lemma key_split:
  assumes "alloc_ok al" and "\<forall>k\<in>set ks. component_ok CHR ''.'' k"
  obtains l al' where "strl_from_separated_string (join CHR ''.'' ks) ''.'' al = (Some l, al')"
    and "alloc_ok al'" and "sl_strs l = ks"
  using from_separated_ok [OF assms(1)] tokens_join [OF assms(2)] by metis

lemma get_scalar_ok:
  assumes "alloc_ok al" and "\<forall>k\<in>set ks. component_ok CHR ''.'' k" and "ks \<noteq> []"
  obtains al' where "monikor_config_dict_get_scalar d (join CHR ''.'' ks) al = (scalar_at d ks, al')"
    and "alloc_ok al'"
proof -
  obtain l al' where l: "strl_from_separated_string (join CHR ''.'' ks) ''.'' al = (Some l, al')"
    "alloc_ok al'" "sl_strs l = ks" using key_split [OF assms(1,2)] by metis
  have "monikor_config_dict_get_scalar d (join CHR ''.'' ks) al = (scalar_at d ks, al')"
    using get_subdict_value [of l d] assms(3)
    by (auto simp: monikor_config_dict_get_scalar_def scalar_at_def l split: list.splits cfg_value.splits)
  with l(2) show ?thesis using that by blast
qed

subsection \<open>Properties\<close>

text \<open>with memory available, the three lookups with a dotted key return what the path of its
  components selects in the dictionary of dictionaries (the first element of each name), and
  null when there is nothing or when its kind is another one.\<close>

theorem dict_lookup_path:
  assumes "alloc_ok al" and "\<forall>k\<in>set ks. component_ok CHR ''.'' k" and "ks \<noteq> []"
  shows "fst (monikor_config_dict_get_scalar d (join CHR ''.'' ks) al) =
      (case value_at d ks of Some (MONIKOR_CFG_SCALAR v) \<Rightarrow> v | _ \<Rightarrow> None)
    \<and> fst (monikor_config_dict_get_list d (join CHR ''.'' ks) al) =
      (case value_at d ks of Some (MONIKOR_CFG_LIST l) \<Rightarrow> Some l | _ \<Rightarrow> None)
    \<and> map snd (take 1 (fst (monikor_config_dict_get_dict d (join CHR ''.'' ks) al))) =
      (case value_at d ks of Some (MONIKOR_CFG_DICT s) \<Rightarrow> [MONIKOR_CFG_DICT s] | _ \<Rightarrow> [])"
proof -
  obtain l al' where l: "strl_from_separated_string (join CHR ''.'' ks) ''.'' al = (Some l, al')"
    "sl_strs l = ks" using key_split [OF assms(1,2)] by metis
  show ?thesis
    using get_subdict_value [of l d] assms(3)
    by (auto simp: monikor_config_dict_get_scalar_def monikor_config_dict_get_list_def
        monikor_config_dict_get_dict_def Let_def l split: list.splits cfg_value.splits)
qed

definition sample_config :: cfg_dict where
  "sample_config =
    [(Some ''hostid'', MONIKOR_CFG_SCALAR (Some ''h1'')),
     (Some ''server'', MONIKOR_CFG_DICT
        [(Some ''url'', MONIKOR_CFG_SCALAR (Some ''http://a'')),
         (Some ''timeout'', MONIKOR_CFG_SCALAR (Some ''7''))]),
     (Some ''hostid'', MONIKOR_CFG_SCALAR (Some ''h2''))]"

theorem dict_lookup_path_witness:
  "fst (monikor_config_dict_get_scalar sample_config ''server.timeout'' []) = Some ''7''
   \<and> fst (monikor_config_dict_get_list sample_config ''server.timeout'' []) = None"
  using dict_lookup_path [of "[]" "[''server'', ''timeout'']" sample_config]
  by (simp add: component_ok_def sample_config_def)

end
