(* ===== verification/Config_Parse.thy ===== *)
theory Config_Parse
  imports Config_Dict
begin

text \<open>
  Building a configuration from YAML events: \<open>src/config/config_parse_key.c\<close>,
  \<open>config_parse_list.c\<close>, \<open>config_parse_mapping.c\<close> and \<open>config_parser.c\<close>.

  libyaml is not part of the agent: the parser is the list of the events it still has to deliver,
  and a call of \<open>yaml_parser_parse\<close> fails when the list is used up.  The mutual recursion follows
  the nesting of the document; the number that bounds its depth and length is larger than the
  number of events in every call the properties consider, and reaching 0 gives \<open>None\<close>, like a
  null pointer that is dereferenced.  \<open>Some (None, al)\<close> is the return code 1, after which the
  configuration is freed.
\<close>

datatype yaml_event =
    YAML_NO_EVENT
  | YAML_STREAM_START_EVENT
  | YAML_STREAM_END_EVENT
  | YAML_DOCUMENT_START_EVENT
  | YAML_DOCUMENT_END_EVENT
  | YAML_ALIAS_EVENT
  | YAML_SCALAR_EVENT string
  | YAML_SEQUENCE_START_EVENT
  | YAML_SEQUENCE_END_EVENT
  | YAML_MAPPING_START_EVENT
  | YAML_MAPPING_END_EVENT

type_synonym parser = "yaml_event list"

fun config_parse_list :: "parser \<Rightarrow> strl \<Rightarrow> alloc \<Rightarrow> (strl \<times> parser) option \<times> alloc" where
  "config_parse_list [] l al = (None, al)"
| "config_parse_list (ev # p) l al =
     (if ev = YAML_SEQUENCE_END_EVENT then (Some (l, p), al)
      else (case ev of
              YAML_SCALAR_EVENT s \<Rightarrow>
                (case strl_push l s al of
                   (l, r, al) \<Rightarrow> if r \<noteq> 0 then (None, al) else config_parse_list p l al)
            | _ \<Rightarrow> (None, al)))"

text \<open>
  \<open>config_parse_key\<close> fills the element \<open>dict\<close> points to.  In \<open>config_parse_mapping\<close> the chain
  starts at \<open>dict\<close>, which may be null; \<open>elms\<close> are its elements filled so far (\<open>elm\<close> is the
  last of them) and \<open>next\<close> what follows them.
\<close>

fun config_parse_key ::
    "nat \<Rightarrow> parser \<Rightarrow> string \<Rightarrow> alloc \<Rightarrow> (((string option \<times> cfg_value) \<times> parser) option \<times> alloc) option"
and config_parse_mapping ::
    "nat \<Rightarrow> parser \<Rightarrow> cfg_dict \<Rightarrow> cfg_dict \<Rightarrow> alloc \<Rightarrow> ((cfg_dict \<times> parser) option \<times> alloc) option" where
  "config_parse_key 0 p key al = None"
| "config_parse_key (Suc n) p key al =
     (case strdup key al of (k, al) \<Rightarrow>
      (case p of
         [] \<Rightarrow> Some (None, al)
       | YAML_SCALAR_EVENT s # p \<Rightarrow>
           (case strdup s al of (v, al) \<Rightarrow> Some (Some ((k, MONIKOR_CFG_SCALAR v), p), al))
       | YAML_SEQUENCE_START_EVENT # p \<Rightarrow>
           (case strl_new al of
              (None, al) \<Rightarrow> Some (None, al)
            | (Some l, al) \<Rightarrow>
                (case config_parse_list p l al of
                   (None, al) \<Rightarrow> Some (None, al)
                 | (Some (l, p), al) \<Rightarrow> Some (Some ((k, MONIKOR_CFG_LIST l), p), al)))
       | YAML_MAPPING_START_EVENT # p \<Rightarrow>
           (case monikor_config_dict_new al of
              (None, al) \<Rightarrow> Some (None, al)
            | (Some sub, al) \<Rightarrow>
                (case config_parse_mapping n p [] sub al of
                   None \<Rightarrow> None
                 | Some (None, al) \<Rightarrow> Some (None, al)
                 | Some (Some (sub, p), al) \<Rightarrow> Some (Some ((k, MONIKOR_CFG_DICT sub), p), al)))
       | _ # p \<Rightarrow> Some (None, al)))"
| "config_parse_mapping 0 p elms next al = None"
| "config_parse_mapping (Suc n) p elms next al =
     (case p of
        [] \<Rightarrow> Some (None, al)
      | YAML_MAPPING_END_EVENT # p \<Rightarrow> Some (Some (elms @ next, p), al)
      | YAML_SCALAR_EVENT key # p \<Rightarrow>
          (if elms \<noteq> [] then
             (case monikor_config_dict_new al of
                (None, al) \<Rightarrow> None
              | (Some _, al) \<Rightarrow>
                  (case config_parse_key n p key al of
                     None \<Rightarrow> None
                   | Some (None, al) \<Rightarrow> Some (None, al)
                   | Some (Some (elm, p), al) \<Rightarrow> config_parse_mapping n p (elms @ [elm]) [] al))
           else if next = [] then None
           else
             (case config_parse_key n p key al of
                None \<Rightarrow> None
              | Some (None, al) \<Rightarrow> Some (None, al)
              | Some (Some (elm, p), al) \<Rightarrow> config_parse_mapping n p [elm] (tl next) al))
      | _ # p \<Rightarrow> Some (None, al))"

fun parse_file_loop :: "nat \<Rightarrow> parser \<Rightarrow> cfg_dict \<Rightarrow> alloc \<Rightarrow> (cfg_dict option \<times> alloc) option" where
  "parse_file_loop 0 p cfg al = None"
| "parse_file_loop (Suc n) p cfg al =
     (case p of
        [] \<Rightarrow> Some (None, al)
      | ev # p \<Rightarrow>
          (if ev = YAML_STREAM_END_EVENT then Some (Some cfg, al)
           else (case ev of
                   YAML_STREAM_START_EVENT \<Rightarrow> parse_file_loop n p cfg al
                 | YAML_DOCUMENT_START_EVENT \<Rightarrow> parse_file_loop n p cfg al
                 | YAML_DOCUMENT_END_EVENT \<Rightarrow> parse_file_loop n p cfg al
                 | YAML_MAPPING_START_EVENT \<Rightarrow>
                     (case config_parse_mapping (length p + 1) p [] cfg al of
                        None \<Rightarrow> None
                      | Some (None, al) \<Rightarrow> Some (None, al)
                      | Some (Some (cfg, p), al) \<Rightarrow> parse_file_loop n p cfg al)
                 | _ \<Rightarrow> Some (None, al))))"

text \<open>\<open>None\<close> instead of the events: \<open>yaml_parser_initialize\<close> failed.\<close>

definition monikor_parse_config_file ::
  "parser option \<Rightarrow> cfg_dict \<Rightarrow> alloc \<Rightarrow> (cfg_dict option \<times> alloc) option" where
  "monikor_parse_config_file fh cfg al =
     (case fh of
        None \<Rightarrow> Some (None, al)
      | Some p \<Rightarrow> parse_file_loop (length p + 1) p cfg al)"

subsection \<open>Every call returns\<close>

lemma config_parse_list_shorter:
  "config_parse_list p l al = (Some (l', p'), al') \<Longrightarrow> length p' < length p"
proof (induction p l al rule: config_parse_list.induct)
  case (2 ev p l al)
  show ?case
  proof (cases ev)
    case (YAML_SCALAR_EVENT s)
    obtain l1 r al1 where "strl_push l s al = (l1, r, al1)" by (metis prod_cases3)
    with 2 YAML_SCALAR_EVENT show ?thesis by (force split: if_splits)
  qed (use 2(2) in simp_all)
qed simp

lemma config_parse_list_alloc_ok:
  "alloc_ok al \<Longrightarrow> alloc_ok (snd (config_parse_list p l al))"
proof (induction p l al rule: config_parse_list.induct)
  case (2 ev p l al)
  show ?case
  proof (cases ev)
    case (YAML_SCALAR_EVENT s)
    obtain al1 where "strl_push l s al = (strl_link l s, 0, al1)" "alloc_ok al1"
      using 2(2) by (rule strl_push_ok)
    with 2(1) YAML_SCALAR_EVENT show ?thesis by simp
  qed (use 2(2) in simp_all)
qed simp

lemma dict_new_ok:
  assumes "alloc_ok al"
  obtains al' where "monikor_config_dict_new al = (Some [(None, MONIKOR_CFG_DICT [])], al')" and "alloc_ok al'"
proof -
  from assms obtain j al1 where "malloc al = (Some j, al1)" "alloc_ok al1" by (rule alloc_ok_malloc)
  then show ?thesis
    by (intro that [of al1]) (simp_all add: monikor_config_dict_new_def alloc_simps alloc_ret_def)
qed

text \<open>With memory, the parser never dereferences null and the bound is never reached.\<close>

lemma parse_key_mapping_total:
  "length p < n \<Longrightarrow> alloc_ok al \<Longrightarrow> \<exists>r al'. config_parse_key n p key al = Some (r, al') \<and> alloc_ok al'
     \<and> (\<forall>e p'. r = Some (e, p') \<longrightarrow> length p' < length p)"
  "length p < n \<Longrightarrow> alloc_ok al \<Longrightarrow> elms @ nx \<noteq> [] \<Longrightarrow>
     \<exists>r al'. config_parse_mapping n p elms nx al = Some (r, al') \<and> alloc_ok al'
     \<and> (\<forall>d p'. r = Some (d, p') \<longrightarrow> length p' < length p \<and> d \<noteq> [])"
proof (induction n arbitrary: p al key elms nx)
  case (Suc n)
  {
    case 1
    obtain al1 where k: "strdup key al = (Some key, al1)" "alloc_ok al1"
      using 1(2) by (rule alloc_ok_strdup)
    show ?case
    proof (cases p)
      case Nil
      with k show ?thesis by simp
    next
      case (Cons ev q)
      show ?thesis
      proof (cases ev)
        case (YAML_SCALAR_EVENT s)
        obtain al2 where "strdup s al1 = (Some s, al2)" "alloc_ok al2"
          using k(2) by (rule alloc_ok_strdup)
        with k Cons YAML_SCALAR_EVENT show ?thesis by simp
      next
        case YAML_SEQUENCE_START_EVENT
        obtain al2 where 2: "strl_new al1 = (Some strl_init, al2)" "alloc_ok al2"
          using k(2) by (rule strl_new_ok)
        obtain r al3 where 3: "config_parse_list q strl_init al2 = (r, al3)" by force
        have "alloc_ok al3" using config_parse_list_alloc_ok [OF 2(2), of q strl_init] 3 by simp
        with k 2 3 Cons YAML_SEQUENCE_START_EVENT show ?thesis
          by (cases r) (auto dest: config_parse_list_shorter)
      next
        case YAML_MAPPING_START_EVENT
        obtain al2 where 2: "monikor_config_dict_new al1 = (Some [(None, MONIKOR_CFG_DICT [])], al2)"
          "alloc_ok al2" using k(2) by (rule dict_new_ok)
        have "length q < n" using 1(1) Cons by simp
        from Suc(2) [OF this 2(2), of "[]" "[(None, MONIKOR_CFG_DICT [])]"] k 2 Cons YAML_MAPPING_START_EVENT
        show ?thesis by (auto split: option.splits)
      qed (use k Cons in simp_all)
    qed
  next
    case 2
    show ?case
    proof (cases p)
      case Nil
      with 2 show ?thesis by simp
    next
      case (Cons ev q)
      have q: "length q < n" using "2"(1) Cons by simp
      have step: "\<exists>r al'. (case config_parse_key n q k mem of None \<Rightarrow> None
            | Some (None, al) \<Rightarrow> Some (None, al)
            | Some (Some (elm, p), al) \<Rightarrow> config_parse_mapping n p (es @ [elm]) t al) = Some (r, al')
          \<and> alloc_ok al' \<and> (\<forall>d p'. r = Some (d, p') \<longrightarrow> length p' < length p \<and> d \<noteq> [])"
        if mem: "alloc_ok mem" for k mem es t
      proof -
        obtain r al1 where r: "config_parse_key n q k mem = Some (r, al1)" "alloc_ok al1"
          "\<forall>e p'. r = Some (e, p') \<longrightarrow> length p' < length q"
          using Suc(1) [OF q mem] by blast
        show ?thesis
        proof (cases r)
          case None
          with r show ?thesis by simp
        next
          case (Some a)
          obtain e p' where a: "a = (e, p')" by (rule prod.exhaust)
          have l: "length p' < length q" using r(3) Some a by simp
          with q have "length p' < n" by simp
          from Suc(2) [OF this r(2), of "es @ [e]" t] obtain r2 al2 where
            "config_parse_mapping n p' (es @ [e]) t al1 = Some (r2, al2)" "alloc_ok al2"
            "\<forall>d p''. r2 = Some (d, p'') \<longrightarrow> length p'' < length p' \<and> d \<noteq> []" by auto
          with l show ?thesis
            by (intro exI [of _ r2] exI [of _ al2]) (auto simp: r(1) Some a Cons)
        qed
      qed
      show ?thesis
      proof (cases ev)
        case (YAML_SCALAR_EVENT k)
        obtain al1 where "monikor_config_dict_new al = (Some [(None, MONIKOR_CFG_DICT [])], al1)" "alloc_ok al1"
          using "2"(2) by (rule dict_new_ok)
        with step [where mem = al1 and k = k and es = elms and t = "[]"]
          step [where mem = al and k = k and es = "[]" and t = "tl nx", unfolded append_Nil] "2"(2,3) Cons YAML_SCALAR_EVENT
        show ?thesis by simp
      qed (use 2 Cons in simp_all)
    qed
  }
qed simp_all

subsection \<open>Printing a configuration\<close>

fun print_value :: "cfg_value \<Rightarrow> yaml_event list"
and print_elms :: "cfg_dict \<Rightarrow> yaml_event list" where
  "print_value (MONIKOR_CFG_SCALAR v) = (case v of Some s \<Rightarrow> [YAML_SCALAR_EVENT s] | None \<Rightarrow> [])"
| "print_value (MONIKOR_CFG_LIST l) =
     YAML_SEQUENCE_START_EVENT # map YAML_SCALAR_EVENT (sl_strs l) @ [YAML_SEQUENCE_END_EVENT]"
| "print_value (MONIKOR_CFG_DICT d) = YAML_MAPPING_START_EVENT # print_elms d @ [YAML_MAPPING_END_EVENT]"
| "print_elms [] = []"
| "print_elms ((key, v) # d) =
     (case key of Some k \<Rightarrow> YAML_SCALAR_EVENT k # print_value v @ print_elms d | None \<Rightarrow> print_elms d)"

definition print_file :: "cfg_dict \<Rightarrow> yaml_event list" where
  "print_file d =
     [YAML_STREAM_START_EVENT, YAML_DOCUMENT_START_EVENT, YAML_MAPPING_START_EVENT] @ print_elms d
     @ [YAML_MAPPING_END_EVENT, YAML_DOCUMENT_END_EVENT, YAML_STREAM_END_EVENT]"

text \<open>
  The trees the parser builds: every element has its key and scalar, and an empty mapping is one
  fresh element.
\<close>

definition fresh_dict :: cfg_dict where
  "fresh_dict = [(None, MONIKOR_CFG_DICT [])]"

fun value_ok :: "cfg_value \<Rightarrow> bool"
and elms_ok :: "cfg_dict \<Rightarrow> bool" where
  "value_ok (MONIKOR_CFG_SCALAR v) \<longleftrightarrow> v \<noteq> None"
| "value_ok (MONIKOR_CFG_LIST l) \<longleftrightarrow> sl_size l = of_nat (length (sl_strs l))"
| "value_ok (MONIKOR_CFG_DICT d) \<longleftrightarrow> d = fresh_dict \<or> d \<noteq> [] \<and> elms_ok d"
| "elms_ok [] \<longleftrightarrow> True"
| "elms_ok ((key, v) # d) \<longleftrightarrow> key \<noteq> None \<and> value_ok v \<and> elms_ok d"

lemma parse_list_print:
  "alloc_ok al \<Longrightarrow> \<exists>al'. alloc_ok al' \<and>
     config_parse_list (map YAML_SCALAR_EVENT ss @ YAML_SEQUENCE_END_EVENT # rest) l al =
       (Some (foldl strl_link l ss, rest), al')"
proof (induction ss arbitrary: l al)
  case (Cons s ss)
  obtain al1 where 1: "strl_push l s al = (strl_link l s, 0, al1)" "alloc_ok al1"
    using Cons.prems by (rule strl_push_ok)
  from Cons.IH [OF 1(2), of "strl_link l s"] 1(1) show ?case by simp
qed simp

lemma foldl_link_init:
  assumes "sl_size l = of_nat (length (sl_strs l))"
  shows "foldl strl_link strl_init (sl_strs l) = l"
proof -
  let ?m = "foldl strl_link strl_init (sl_strs l)"
  have "strl_inv strl_init" by (rule strl.empty_ok)
  then have "strl_inv ?m" by (rule strl.push_all_invar)
  moreover have "sl_strs ?m = sl_strs l" by (simp add: strl.push_all_elems strl.empty_ok)
  ultimately show ?thesis using assms by (simp add: strl_inv_def)
qed

text \<open>What the two mutually recursive parsers read back, with enough fuel.\<close>

definition reads_value :: "cfg_value \<Rightarrow> bool" where
  "reads_value v \<longleftrightarrow> (\<forall>n rest key al. length (print_value v @ rest) < n \<longrightarrow> alloc_ok al \<longrightarrow>
     (\<exists>al'. alloc_ok al' \<and>
        config_parse_key n (print_value v @ rest) key al = Some (Some ((Some key, v), rest), al')))"

definition reads_elms :: "cfg_dict \<Rightarrow> bool" where
  "reads_elms d \<longleftrightarrow> (\<forall>n rest elms al. length (print_elms d @ YAML_MAPPING_END_EVENT # rest) < n \<longrightarrow> alloc_ok al \<longrightarrow>
     elms \<noteq> [] \<longrightarrow>
     (\<exists>al'. alloc_ok al' \<and>
        config_parse_mapping n (print_elms d @ YAML_MAPPING_END_EVENT # rest) elms [] al
        = Some (Some (elms @ d, rest), al')))"

lemma reads_first:
  assumes "reads_value v" and "reads_elms d"
    and "length (print_elms ((Some k, v) # d) @ YAML_MAPPING_END_EVENT # rest) < n" and "alloc_ok al"
  shows "\<exists>al'. alloc_ok al' \<and>
    config_parse_mapping n (print_elms ((Some k, v) # d) @ YAML_MAPPING_END_EVENT # rest) [] [x] al
    = Some (Some ((Some k, v) # d, rest), al')"
proof (cases n)
  case (Suc m)
  let ?tail = "print_elms d @ YAML_MAPPING_END_EVENT # rest"
  have l: "length (print_value v @ ?tail) < m" "length ?tail < m" using assms(3) Suc by simp_all
  obtain al1 where 1: "config_parse_key m (print_value v @ ?tail) k al = Some (Some ((Some k, v), ?tail), al1)"
    "alloc_ok al1" using assms(1,4) l(1) unfolding reads_value_def by blast
  obtain al2 where "config_parse_mapping m ?tail [(Some k, v)] [] al1 = Some (Some ([(Some k, v)] @ d, rest), al2)"
    "alloc_ok al2" using assms(2) l(2) 1(2) unfolding reads_elms_def by blast
  with 1 Suc show ?thesis by simp
qed (use assms(3) in simp)

lemma reads_next:
  assumes "reads_value v" and "reads_elms d"
  shows "reads_elms ((Some k, v) # d)"
  unfolding reads_elms_def
proof (intro allI impI)
  fix n rest al and elms :: cfg_dict
  assume n: "length (print_elms ((Some k, v) # d) @ YAML_MAPPING_END_EVENT # rest) < n" and al: "alloc_ok al"
    and e: "elms \<noteq> []"
  let ?tail = "print_elms d @ YAML_MAPPING_END_EVENT # rest"
  obtain m where m: "n = Suc m" using n by (cases n) auto
  have l: "length (print_value v @ ?tail) < m" "length ?tail < m" using n m by simp_all
  obtain al0 where 0: "monikor_config_dict_new al = (Some [(None, MONIKOR_CFG_DICT [])], al0)" "alloc_ok al0"
    using al by (rule dict_new_ok)
  obtain al1 where 1: "config_parse_key m (print_value v @ ?tail) k al0 = Some (Some ((Some k, v), ?tail), al1)"
    "alloc_ok al1" using assms(1) 0(2) l(1) unfolding reads_value_def by blast
  obtain al2 where "config_parse_mapping m ?tail (elms @ [(Some k, v)]) [] al1
      = Some (Some ((elms @ [(Some k, v)]) @ d, rest), al2)" "alloc_ok al2"
    using assms(2) l(2) 1(2) unfolding reads_elms_def by blast
  with 0 1 m e show "\<exists>al'. alloc_ok al' \<and>
      config_parse_mapping n (print_elms ((Some k, v) # d) @ YAML_MAPPING_END_EVENT # rest) elms [] al
      = Some (Some (elms @ (Some k, v) # d, rest), al')" by simp
qed

lemma reads_scalar: "reads_value (MONIKOR_CFG_SCALAR (Some s))"
  unfolding reads_value_def
proof (intro allI impI)
  fix n rest key al
  assume n: "length (print_value (MONIKOR_CFG_SCALAR (Some s)) @ rest) < n" and al: "alloc_ok al"
  obtain m where m: "n = Suc m" using n by (cases n) auto
  obtain al1 where 1: "strdup key al = (Some key, al1)" "alloc_ok al1" using al by (rule alloc_ok_strdup)
  obtain al2 where "strdup s al1 = (Some s, al2)" "alloc_ok al2" using 1(2) by (rule alloc_ok_strdup)
  with 1 m show "\<exists>al'. alloc_ok al' \<and> config_parse_key n (print_value (MONIKOR_CFG_SCALAR (Some s)) @ rest) key al
      = Some (Some ((Some key, MONIKOR_CFG_SCALAR (Some s)), rest), al')" by simp
qed

lemma reads_list:
  assumes "sl_size l = of_nat (length (sl_strs l))"
  shows "reads_value (MONIKOR_CFG_LIST l)"
  unfolding reads_value_def
proof (intro allI impI)
  fix n rest key al
  assume n: "length (print_value (MONIKOR_CFG_LIST l) @ rest) < n" and al: "alloc_ok al"
  obtain m where m: "n = Suc m" using n by (cases n) auto
  obtain al1 where 1: "strdup key al = (Some key, al1)" "alloc_ok al1" using al by (rule alloc_ok_strdup)
  obtain al2 where 2: "strl_new al1 = (Some strl_init, al2)" "alloc_ok al2" using 1(2) by (rule strl_new_ok)
  from parse_list_print [OF 2(2), of "sl_strs l" rest strl_init] 1 2 m foldl_link_init [OF assms]
  show "\<exists>al'. alloc_ok al' \<and> config_parse_key n (print_value (MONIKOR_CFG_LIST l) @ rest) key al
      = Some (Some ((Some key, MONIKOR_CFG_LIST l), rest), al')" by auto
qed

lemma reads_dict:
  assumes "\<And>n rest al. length (print_elms d @ YAML_MAPPING_END_EVENT # rest) < n \<Longrightarrow> alloc_ok al \<Longrightarrow>
    \<exists>al'. alloc_ok al' \<and> config_parse_mapping n (print_elms d @ YAML_MAPPING_END_EVENT # rest) []
        [(None, MONIKOR_CFG_DICT [])] al = Some (Some (d, rest), al')"
  shows "reads_value (MONIKOR_CFG_DICT d)"
  unfolding reads_value_def
proof (intro allI impI)
  fix n rest key al
  assume n: "length (print_value (MONIKOR_CFG_DICT d) @ rest) < n" and al: "alloc_ok al"
  obtain m where m: "n = Suc m" using n by (cases n) auto
  obtain al1 where 1: "strdup key al = (Some key, al1)" "alloc_ok al1" using al by (rule alloc_ok_strdup)
  obtain al2 where 2: "monikor_config_dict_new al1 = (Some [(None, MONIKOR_CFG_DICT [])], al2)" "alloc_ok al2"
    using 1(2) by (rule dict_new_ok)
  have "length (print_elms d @ YAML_MAPPING_END_EVENT # rest) < m" using n m by simp
  from assms [OF this 2(2)] 1 2 m
  show "\<exists>al'. alloc_ok al' \<and> config_parse_key n (print_value (MONIKOR_CFG_DICT d) @ rest) key al
      = Some (Some ((Some key, MONIKOR_CFG_DICT d), rest), al')" by auto
qed

lemma reads_fresh:
  assumes "length (print_elms fresh_dict @ YAML_MAPPING_END_EVENT # rest) < n"
  shows "config_parse_mapping n (print_elms fresh_dict @ YAML_MAPPING_END_EVENT # rest) []
    [(None, MONIKOR_CFG_DICT [])] al = Some (Some (fresh_dict, rest), al)"
  using assms by (cases n) (simp_all add: fresh_dict_def)

lemma reads_Nil: "reads_elms []"
  unfolding reads_elms_def
proof (intro allI impI)
  fix n rest al and elms :: cfg_dict
  assume "length (print_elms [] @ YAML_MAPPING_END_EVENT # rest) < n" "alloc_ok al"
  then show "\<exists>al'. alloc_ok al' \<and> config_parse_mapping n (print_elms [] @ YAML_MAPPING_END_EVENT # rest)
      elms [] al = Some (Some (elms @ [], rest), al')" by (cases n) auto
qed

lemma reads_elms_all: "elms_ok d \<Longrightarrow> \<forall>e\<in>set d. reads_value (snd e) \<Longrightarrow> reads_elms d"
  by (induction d) (auto intro: reads_Nil reads_next)

lemma reads_all: "value_ok v \<Longrightarrow> reads_value v" "elms_ok d \<Longrightarrow> \<forall>e\<in>set d. reads_value (snd e)"
proof (induction v and d rule: print_value_print_elms.induct)
  case (3 d)
  show ?case
  proof (rule reads_dict)
    fix n rest al
    assume n: "length (print_elms d @ YAML_MAPPING_END_EVENT # rest) < n" and al: "alloc_ok al"
    show "\<exists>al'. alloc_ok al' \<and> config_parse_mapping n (print_elms d @ YAML_MAPPING_END_EVENT # rest) []
        [(None, MONIKOR_CFG_DICT [])] al = Some (Some (d, rest), al')"
    proof (cases "d = fresh_dict")
      case True
      then show ?thesis using reads_fresh n al by blast
    next
      case False
      then obtain k v d' where d: "d = (Some k, v) # d'" and ok: "elms_ok d" "elms_ok d'"
        using 3(2) by (cases d) auto
      have r: "\<forall>e\<in>set d. reads_value (snd e)" using 3(1) ok(1) by blast
      then have "reads_value v" and "reads_elms d'" using d ok(2) by (simp_all add: reads_elms_all)
      from reads_first [OF this, of k rest n al] n al d show ?thesis by blast
    qed
  qed
qed (auto intro: reads_scalar reads_list)

lemma reads_file_dict:
  assumes "value_ok (MONIKOR_CFG_DICT d)" and "alloc_ok al"
    and "length (print_elms d @ YAML_MAPPING_END_EVENT # rest) < n"
  shows "\<exists>al'. alloc_ok al' \<and> config_parse_mapping n (print_elms d @ YAML_MAPPING_END_EVENT # rest) []
    fresh_dict al = Some (Some (d, rest), al')"
proof (cases "d = fresh_dict")
  case True
  then show ?thesis using reads_fresh [of rest n al] assms(2,3) by (auto simp: fresh_dict_def)
next
  case False
  then obtain k v d' where d: "d = (Some k, v) # d'" and ok: "elms_ok d" "elms_ok d'"
    using assms(1) by (cases d) auto
  have "\<forall>e\<in>set d. reads_value (snd e)" using reads_all(2) ok(1) by blast
  then have "reads_value v" and "reads_elms d'" using d ok(2) by (simp_all add: reads_elms_all)
  from reads_first [OF this, of k rest n al] assms(2,3) d show ?thesis by (auto simp: fresh_dict_def)
qed

lemma parse_print_config_mem:
  assumes "alloc_ok al" and "value_ok (MONIKOR_CFG_DICT d)"
  shows "\<exists>al'. monikor_parse_config_file (Some (print_file d)) fresh_dict al = Some (Some d, al') \<and> alloc_ok al'"
proof -
  let ?rest = "[YAML_DOCUMENT_END_EVENT, YAML_STREAM_END_EVENT]"
  let ?n = "length (print_elms d @ YAML_MAPPING_END_EVENT # ?rest) + 1"
  obtain al' where "config_parse_mapping ?n (print_elms d @ YAML_MAPPING_END_EVENT # ?rest) [] fresh_dict al
      = Some (Some (d, ?rest), al')" and ok: "alloc_ok al'"
    using reads_file_dict [OF assms(2,1), of ?rest ?n] by auto
  moreover have "parse_file_loop (Suc (Suc k)) ?rest d al' = Some (Some d, al')" for k
    by simp
  ultimately have "parse_file_loop (Suc (Suc (Suc (Suc (Suc k))))) (print_file d) fresh_dict al = Some (Some d, al')" for k
    by (simp add: print_file_def del: config_parse_mapping.simps)
  from this [of "length (print_elms d) + 2"] show ?thesis
    using ok by (simp add: monikor_parse_config_file_def print_file_def del: parse_file_loop.simps)
qed

subsection \<open>Properties\<close>

text \<open>C19: parsing the events of a document that holds a configuration gives back exactly that
  configuration, with its keys in order, nested dictionaries, lists and scalars.\<close>

theorem parse_print_config:
  assumes "alloc_ok al" and "value_ok (MONIKOR_CFG_DICT d)"
  shows "\<exists>al'. monikor_parse_config_file (Some (print_file d)) fresh_dict al = Some (Some d, al')"
  using parse_print_config_mem [OF assms] by blast

lemma sample_config_ok: "value_ok (MONIKOR_CFG_DICT sample_config)"
  by (simp add: sample_config_def)

theorem parse_print_config_witness:
  "\<exists>al'. monikor_parse_config_file (Some (print_file sample_config)) fresh_dict [] = Some (Some sample_config, al')"
  using parse_print_config [of "[]" sample_config] sample_config_ok by simp

lemma parse_file_loop_total:
  "length p < n \<Longrightarrow> alloc_ok al \<Longrightarrow> cfg \<noteq> [] \<Longrightarrow> \<exists>r al'. parse_file_loop n p cfg al = Some (r, al')"
proof (induction n arbitrary: p cfg al)
  case (Suc n)
  show ?case
  proof (cases p)
    case Nil
    then show ?thesis by simp
  next
    case (Cons ev q)
    have q: "length q < n" using Suc.prems Cons by simp
    show ?thesis
    proof (cases ev)
      case YAML_MAPPING_START_EVENT
      obtain r al1 where r: "config_parse_mapping (length q + 1) q [] cfg al = Some (r, al1)" "alloc_ok al1"
        "\<forall>d p'. r = Some (d, p') \<longrightarrow> length p' < length q \<and> d \<noteq> []"
        using parse_key_mapping_total(2) [of q "length q + 1" al "[]" cfg] Suc.prems(2,3) by auto
      show ?thesis
      proof (cases r)
        case None
        with r Cons YAML_MAPPING_START_EVENT show ?thesis by simp
      next
        case (Some a)
        obtain d p' where a: "a = (d, p')" by (rule prod.exhaust)
        have "length p' < n" "d \<noteq> []" using r(3) Some a q by force+
        from Suc.IH [OF this(1) r(2) this(2)] show ?thesis
          using r(1) Some a Cons YAML_MAPPING_START_EVENT by simp
      qed
    qed (use Suc.IH [OF q Suc.prems(2,3)] Cons in simp_all)
  qed
qed simp

text \<open>C35: whatever the events are, parsing a file returns (the nesting bound is never reached and no
  null pointer is dereferenced), as long as memory is available.\<close>

theorem parse_file_total:
  assumes "alloc_ok al" and "cfg \<noteq> []"
  shows "monikor_parse_config_file fh cfg al \<noteq> None"
proof (cases fh)
  case (Some p)
  then show ?thesis
    using parse_file_loop_total [of p "length p + 1" al cfg] assms
    by (auto simp: monikor_parse_config_file_def)
qed (simp add: monikor_parse_config_file_def)

theorem parse_file_total_witness:
  "monikor_parse_config_file (Some [YAML_STREAM_START_EVENT, YAML_MAPPING_START_EVENT, YAML_ALIAS_EVENT])
     fresh_dict [] \<noteq> None"
  by (rule parse_file_total) (simp_all add: fresh_dict_def)

text \<open>when the memory for the element of a second key cannot be allocated, the null pointer is
  handed on and dereferenced.\<close>

theorem second_key_out_of_memory:
  "config_parse_mapping 6
     [YAML_SCALAR_EVENT ''a'', YAML_SCALAR_EVENT ''1'', YAML_SCALAR_EVENT ''b'', YAML_SCALAR_EVENT ''2'',
      YAML_MAPPING_END_EVENT] [] fresh_dict [Some 0, Some 0, None] = None
   \<and> config_parse_mapping 6
     [YAML_SCALAR_EVENT ''a'', YAML_SCALAR_EVENT ''1'', YAML_SCALAR_EVENT ''b'', YAML_SCALAR_EVENT ''2'',
      YAML_MAPPING_END_EVENT] [] fresh_dict [Some 0, Some 0]
     = Some (Some ([(Some ''a'', MONIKOR_CFG_SCALAR (Some ''1'')), (Some ''b'', MONIKOR_CFG_SCALAR (Some ''2''))],
                   []), [])"
  by (simp add: numeral_eq_Suc strdup_def monikor_config_dict_new_def or_null_def alloc_ret_def fresh_dict_def)

end
