(* ===== verification/Setup_Config.thy ===== *)
theory Setup_Config
  imports Config_Parse
begin

text \<open>
  The agent's settings, \<open>include/config.h\<close>, \<open>src/config/config.c\<close> and
  \<open>src/config/setup_config.c\<close>: reading the configuration file into a dictionary and deriving the
  settings from it.  \<open>None\<close> is an access outside a string.

  Three parts of the environment are parameters: the YAML events of a file (\<open>None\<close>: it cannot be
  opened) and the entries of a directory (\<open>None\<close>: it cannot be opened).  The C library functions
  behave as the GNU library documents: \<open>atoi\<close> saturates to \<open>long\<close> and keeps the low 32
  bits, \<open>strtoul\<close> saturates.
\<close>

record config =
  cf_full_config :: cfg_dict
  cf_config_path :: string
  cf_hostname :: "string option"
  cf_user :: "string option"
  cf_group :: "string option"
  cf_run_dir :: string
  cf_pidfile :: string
  cf_daemonize :: u8
  cf_mod_path :: string
  cf_mod_config_path :: string
  cf_modules :: "strl option"
  cf_hostid :: "string option"
  cf_quanta_token :: "string option"
  cf_url :: "string option"
  cf_timeout :: cint
  cf_max_send_size :: u64
  cf_proxy_url :: "string option"
  cf_listen_path :: "string option"
  cf_listen_user :: "string option"
  cf_listen_group :: "string option"
  cf_listen_mode :: u32
  cf_log_level :: cint
  cf_log_file :: "string option"
  cf_cache_max_size :: cint
  cf_poll_interval :: cint
  cf_update_interval :: cint

definition MONIKOR_DEFAULT_RUN_DIR :: string where "MONIKOR_DEFAULT_RUN_DIR = ''/''"
definition MONIKOR_DEFAULT_PIDFILE :: string where "MONIKOR_DEFAULT_PIDFILE = ''/tmp/monikor.pid''"
definition MONIKOR_DEFAULT_CONFIG_PATH :: string where
  "MONIKOR_DEFAULT_CONFIG_PATH = ''/etc/monikor/monikor.yml''"
definition MONIKOR_DEFAULT_MODULES_PATH :: string where
  "MONIKOR_DEFAULT_MODULES_PATH = ''/usr/lib/monikor/modules''"
definition MONIKOR_DEFAULT_MODULES_CONFIG_PATH :: string where
  "MONIKOR_DEFAULT_MODULES_CONFIG_PATH = ''/etc/monikor/mod.d''"
definition MONIKOR_DEFAULT_POLL_INTERVAL :: cint where "MONIKOR_DEFAULT_POLL_INTERVAL = 60"
definition MONIKOR_DEFAULT_UPDATE_INTERVAL :: cint where "MONIKOR_DEFAULT_UPDATE_INTERVAL = 30"
definition MONIKOR_DEFAULT_SERVER_TIMEOUT :: cint where "MONIKOR_DEFAULT_SERVER_TIMEOUT = 5"
definition MONIKOR_DEFAULT_SERVER_MAX_SEND_SIZE :: u64 where
  "MONIKOR_DEFAULT_SERVER_MAX_SEND_SIZE = 5 * 1024 * 1024"
definition MONIKOR_DEFAULT_MAX_CACHE_SIZE :: cint where
  "MONIKOR_DEFAULT_MAX_CACHE_SIZE = 30 * 1024 * 1024"
definition MONIKOR_DEFAULT_LISTEN_MODE :: u32 where "MONIKOR_DEFAULT_LISTEN_MODE = 432"
definition MONIKOR_CONFIG_EXT :: string where "MONIKOR_CONFIG_EXT = ''.yml''"

text \<open>The settings \<open>monikor_config_new\<close> leaves unset hold \<open>junk\<close>'s values.\<close>

definition monikor_config_new :: "config \<Rightarrow> alloc \<Rightarrow> config option \<times> alloc" where
  "monikor_config_new junk al =
     (case malloc al of
        (None, al) \<Rightarrow> (None, al)
      | (Some _, al) \<Rightarrow>
          (case monikor_config_dict_new al of
             (full, al) \<Rightarrow>
               (Some (junk\<lparr>
                  cf_full_config := (case full of None \<Rightarrow> [] | Some d \<Rightarrow> d),
                  cf_config_path := MONIKOR_DEFAULT_CONFIG_PATH, cf_user := None, cf_group := None,
                  cf_run_dir := MONIKOR_DEFAULT_RUN_DIR, cf_daemonize := 0, cf_url := None,
                  cf_proxy_url := None, cf_mod_path := [], cf_mod_config_path := [], cf_modules := None,
                  cf_quanta_token := None, cf_hostid := None, cf_listen_path := None,
                  cf_listen_user := None, cf_listen_group := None,
                  cf_listen_mode := MONIKOR_DEFAULT_LISTEN_MODE, cf_log_level := 5, cf_log_file := None,
                  cf_cache_max_size := MONIKOR_DEFAULT_MAX_CACHE_SIZE\<rparr>), al)))"

definition log_level_mappings :: "(string \<times> string) list" where
  "log_level_mappings =
     [(''emerg'', ''EMERG''), (''alert'', ''ALERT''), (''critical'', ''CRITICAL''), (''error'', ''ERROR''),
      (''warning'', ''WARNING''), (''notice'', ''NOTICE''), (''info'', ''INFO''), (''debug'', ''DEBUG'')]"

definition is_digit :: "char \<Rightarrow> bool" where
  "is_digit c \<longleftrightarrow> 48 \<le> (of_char c :: nat) \<and> (of_char c :: nat) \<le> 57"

fun digits_only :: "string \<Rightarrow> bool" where
  "digits_only [] = True"
| "digits_only (c # s) = (if \<not> is_digit c then False else digits_only s)"

definition is_number :: "string option \<Rightarrow> bool" where
  "is_number str = (case str of None \<Rightarrow> False | Some s \<Rightarrow> digits_only s)"

definition is_true :: "string option \<Rightarrow> bool" where
  "is_true str = (case str of None \<Rightarrow> False | Some s \<Rightarrow> s = ''true'' \<or> s = ''yes'')"

definition digits_val :: "string \<Rightarrow> nat" where
  "digits_val s = foldl (\<lambda>n c. 10 * n + (of_char c - 48)) 0 s"

text \<open>\<open>atoi\<close> of a string of digits, the only strings it is called with.\<close>

definition atoi :: "string \<Rightarrow> cint" where
  "atoi s = of_nat (min (digits_val s) (2 ^ 63 - 1))"

text \<open>\<open>strtoul(s, &end, 0)\<close>: the value and the rest.\<close>

definition digit_value :: "char \<Rightarrow> nat" where
  "digit_value c =
     (let n = of_char c in
      if 48 \<le> n \<and> n \<le> 57 then n - 48
      else if 97 \<le> n \<and> n \<le> 122 then n - 87
      else if 65 \<le> n \<and> n \<le> 90 then n - 55 else 99)"

definition c_isspace :: "char \<Rightarrow> bool" where
  "c_isspace c \<longleftrightarrow> (let n = (of_char c :: nat) in n = 32 \<or> 9 \<le> n \<and> n \<le> 13)"

definition read_digits :: "nat \<Rightarrow> string \<Rightarrow> nat \<times> string" where
  "read_digits base s =
     (foldl (\<lambda>n c. base * n + digit_value c) 0 (takeWhile (\<lambda>c. digit_value c < base) s),
      dropWhile (\<lambda>c. digit_value c < base) s)"

definition strtoul_0 :: "string \<Rightarrow> u64 \<times> string" where
  "strtoul_0 str =
     (let s = dropWhile c_isspace str;
          neg = (s \<noteq> [] \<and> hd s = CHR ''-'');
          s = (if s \<noteq> [] \<and> (hd s = CHR ''-'' \<or> hd s = CHR ''+'') then tl s else s);
          hex = (case s of c # d # e # _ \<Rightarrow> c = CHR ''0'' \<and> (d = CHR ''x'' \<or> d = CHR ''X'') \<and> digit_value e < 16
                         | _ \<Rightarrow> False);
          (base, t) = (if hex then (16, drop 2 s) else if s \<noteq> [] \<and> hd s = CHR ''0'' then (8, s) else (10, s));
          (n, rest) = read_digits base t
      in if t = rest then (0, str)
         else if 2 ^ 64 - 1 < n then (2 ^ 64 - 1, rest)
         else (if neg then - of_nat n else of_nat n, rest))"

subsection \<open>The settings, one group at a time\<close>

definition monikor_setup_config_user :: "config \<Rightarrow> alloc \<Rightarrow> config \<times> alloc" where
  "monikor_setup_config_user cfg al =
     (case monikor_config_dict_get_scalar (cf_full_config cfg) ''user'' al of (user, al) \<Rightarrow>
      (case monikor_config_dict_get_scalar (cf_full_config cfg) ''group'' al of (grp, al) \<Rightarrow>
       (cfg\<lparr>cf_user := user, cf_group := grp\<rparr>, al)))"

definition monikor_setup_config_hostname :: "config \<Rightarrow> alloc \<Rightarrow> config \<times> alloc" where
  "monikor_setup_config_hostname cfg al =
     (case monikor_config_dict_get_scalar (cf_full_config cfg) ''hostname'' al of (h, al) \<Rightarrow>
       (cfg\<lparr>cf_hostname := h\<rparr>, al))"

definition monikor_config_setup_run_dir :: "config \<Rightarrow> alloc \<Rightarrow> config \<times> alloc" where
  "monikor_config_setup_run_dir cfg al =
     (case monikor_config_dict_get_scalar (cf_full_config cfg) ''directory'' al of (d, al) \<Rightarrow>
       (cfg\<lparr>cf_run_dir := (case d of None \<Rightarrow> MONIKOR_DEFAULT_RUN_DIR | Some d \<Rightarrow> d)\<rparr>, al))"

definition monikor_config_setup_pidfile :: "config \<Rightarrow> alloc \<Rightarrow> config \<times> alloc" where
  "monikor_config_setup_pidfile cfg al =
     (case monikor_config_dict_get_scalar (cf_full_config cfg) ''pidfile'' al of (p, al) \<Rightarrow>
       (cfg\<lparr>cf_pidfile := (case p of None \<Rightarrow> MONIKOR_DEFAULT_PIDFILE | Some p \<Rightarrow> p)\<rparr>, al))"

definition monikor_setup_config_daemonize :: "config \<Rightarrow> alloc \<Rightarrow> config \<times> alloc" where
  "monikor_setup_config_daemonize cfg al =
     (case monikor_config_dict_get_scalar (cf_full_config cfg) ''daemonize'' al of (d, al) \<Rightarrow>
       (cfg\<lparr>cf_daemonize := (if is_true d then 1 else 0)\<rparr>, al))"

definition get_log_level_from_str :: "string option \<Rightarrow> cint" where
  "get_log_level_from_str level =
     (case level of
        None \<Rightarrow> -1
      | Some s \<Rightarrow>
          (case find_first (\<lambda>(lower, upper). s = lower \<or> s = upper) log_level_mappings of
             Some i \<Rightarrow> of_nat i
           | None \<Rightarrow> -1))"

definition LOG_NOTICE :: cint where "LOG_NOTICE = 5"

definition monikor_setup_config_logger :: "config \<Rightarrow> alloc \<Rightarrow> config \<times> alloc" where
  "monikor_setup_config_logger cfg al =
     (case monikor_config_dict_get_scalar (cf_full_config cfg) ''logger.level'' al of (level, al) \<Rightarrow>
      (let cfg = cfg\<lparr>cf_log_level := get_log_level_from_str level\<rparr>;
           cfg = (if cf_log_level cfg = -1 then cfg\<lparr>cf_log_level := LOG_NOTICE\<rparr> else cfg)
       in case monikor_config_dict_get_scalar (cf_full_config cfg) ''logger.file'' al of (file, al) \<Rightarrow>
         (let cfg = cfg\<lparr>cf_log_file := file\<rparr>;
              cfg = (if file = Some ''syslog'' then cfg\<lparr>cf_log_file := None\<rparr> else cfg)
          in (cfg, al))))"

definition get_interval :: "cfg_dict \<Rightarrow> string \<Rightarrow> alloc \<Rightarrow> cint \<times> alloc" where
  "get_interval config name al =
     (case monikor_config_dict_get_scalar config name al of (interval, al) \<Rightarrow>
       (if is_number interval then (atoi (the interval), al) else (-1, al)))"

definition monikor_setup_config_interval :: "config \<Rightarrow> alloc \<Rightarrow> config \<times> alloc" where
  "monikor_setup_config_interval cfg al =
     (case get_interval (cf_full_config cfg) ''poll_interval'' al of (interval, al) \<Rightarrow>
      (let cfg = cfg\<lparr>cf_poll_interval := (if interval = -1 then MONIKOR_DEFAULT_POLL_INTERVAL else interval)\<rparr>
       in case get_interval (cf_full_config cfg) ''update_interval'' al of (interval, al) \<Rightarrow>
         (cfg\<lparr>cf_update_interval := (if interval = -1 then MONIKOR_DEFAULT_UPDATE_INTERVAL else interval)\<rparr>, al)))"

definition is_module_config :: "string \<Rightarrow> bool" where
  "is_module_config name =
     (if length name \<le> length MONIKOR_CONFIG_EXT then False
      else drop (length name - length MONIKOR_CONFIG_EXT) name = MONIKOR_CONFIG_EXT)"

text \<open>\<open>if (path[path_len - 1] == '/') path[path_len - 1] = 0\<close>\<close>

definition strip_slash :: "string \<Rightarrow> string option" where
  "strip_slash path =
     (if path = [] then None
      else Some (if path ! (length path - 1) = CHR ''/'' then take (length path - 1) path else path))"

definition monikor_setup_config_modules_path :: "config \<Rightarrow> alloc \<Rightarrow> (config \<times> alloc) option" where
  "monikor_setup_config_modules_path cfg al =
     (case monikor_config_dict_get_scalar (cf_full_config cfg) ''modules.path'' al of (mod_path, al) \<Rightarrow>
      (case monikor_config_dict_get_scalar (cf_full_config cfg) ''modules.config_path'' al of (config_path, al) \<Rightarrow>
       do {
         path \<leftarrow> strip_slash (case mod_path of None \<Rightarrow> MONIKOR_DEFAULT_MODULES_PATH | Some p \<Rightarrow> p);
         cpath \<leftarrow> strip_slash (case config_path of None \<Rightarrow> MONIKOR_DEFAULT_MODULES_CONFIG_PATH | Some p \<Rightarrow> p);
         Some (cfg\<lparr>cf_mod_path := path, cf_mod_config_path := cpath\<rparr>, al) }))"

text \<open>What precedes the first occurrence of \<open>t\<close> (\<open>*strstr(s, t) = 0\<close>).\<close>

fun before_first :: "string \<Rightarrow> string \<Rightarrow> string" where
  "before_first t [] = []"
| "before_first t (c # s) = (if take (length t) (c # s) = t then [] else c # before_first t s)"

fun modules_loop :: "string list \<Rightarrow> strl \<Rightarrow> alloc \<Rightarrow> strl \<times> alloc" where
  "modules_loop [] l al = (l, al)"
| "modules_loop (d_name # entries) l al =
     (if is_module_config d_name then
        (case strl_push l (before_first MONIKOR_CONFIG_EXT d_name) al of
           (l, _, al) \<Rightarrow> modules_loop entries l al)
      else modules_loop entries l al)"

definition monikor_setup_config_modules ::
  "(string \<Rightarrow> string list option) \<Rightarrow> config \<Rightarrow> alloc \<Rightarrow> (config \<times> alloc) option" where
  "monikor_setup_config_modules dir cfg al = do {
     (cfg, al) \<leftarrow> monikor_setup_config_modules_path cfg al;
     (case strl_new al of
        (None, al) \<Rightarrow> Some (cfg\<lparr>cf_modules := None\<rparr>, al)
      | (Some l, al) \<Rightarrow>
          (case dir (cf_mod_config_path cfg) of
             None \<Rightarrow> Some (cfg\<lparr>cf_modules := Some l\<rparr>, al)
           | Some entries \<Rightarrow>
               (case modules_loop entries l al of
                  (l, al) \<Rightarrow> Some (cfg\<lparr>cf_modules := Some l\<rparr>, al)))) }"

definition monikor_setup_config_server :: "config \<Rightarrow> alloc \<Rightarrow> config \<times> alloc" where
  "monikor_setup_config_server cfg al =
     (case monikor_config_dict_get_scalar (cf_full_config cfg) ''server.url'' al of (url, al) \<Rightarrow>
      (case monikor_config_dict_get_scalar (cf_full_config cfg) ''server.proxy_url'' al of (proxy, al) \<Rightarrow>
      (case monikor_config_dict_get_scalar (cf_full_config cfg) ''server.timeout'' al of (timeout, al) \<Rightarrow>
      (case monikor_config_dict_get_scalar (cf_full_config cfg) ''server.max_send_size'' al of (max_send_size, al) \<Rightarrow>
       (cfg\<lparr>cf_url := url, cf_proxy_url := proxy,
            cf_timeout := (if is_number timeout then atoi (the timeout) else MONIKOR_DEFAULT_SERVER_TIMEOUT),
            cf_max_send_size := (if is_number max_send_size then size_of_int (atoi (the max_send_size))
                                 else MONIKOR_DEFAULT_SERVER_MAX_SEND_SIZE)\<rparr>, al)))))"

definition monikor_setup_config_listen :: "config \<Rightarrow> alloc \<Rightarrow> config \<times> alloc" where
  "monikor_setup_config_listen cfg al =
     (case monikor_config_dict_get_scalar (cf_full_config cfg) ''listen.path'' al of (path, al) \<Rightarrow>
      (case monikor_config_dict_get_scalar (cf_full_config cfg) ''listen.user'' al of (user, al) \<Rightarrow>
      (case monikor_config_dict_get_scalar (cf_full_config cfg) ''listen.group'' al of (grp, al) \<Rightarrow>
      (case monikor_config_dict_get_scalar (cf_full_config cfg) ''listen.mode'' al of (mode, al) \<Rightarrow>
       (let cfg = cfg\<lparr>cf_listen_path := path, cf_listen_user := user, cf_listen_group := grp\<rparr>
        in case mode of
             None \<Rightarrow> (cfg, al)
           | Some m \<Rightarrow>
               (case strtoul_0 m of (v, end) \<Rightarrow>
                 (cfg\<lparr>cf_listen_mode := (if end \<noteq> [] then MONIKOR_DEFAULT_LISTEN_MODE else ucast v)\<rparr>, al)))))))"

definition monikor_setup_quanta_token :: "config \<Rightarrow> alloc \<Rightarrow> config \<times> alloc" where
  "monikor_setup_quanta_token cfg al =
     (case monikor_config_dict_get_scalar (cf_full_config cfg) ''quanta_token'' al of (token, al) \<Rightarrow>
       (cfg\<lparr>cf_quanta_token := token\<rparr>, al))"

definition monikor_setup_hostid :: "config \<Rightarrow> alloc \<Rightarrow> config \<times> alloc" where
  "monikor_setup_hostid cfg al =
     (case monikor_config_dict_get_scalar (cf_full_config cfg) ''hostid'' al of (hostid, al) \<Rightarrow>
       (if hostid \<noteq> None \<and> the hostid \<noteq> [] then (cfg\<lparr>cf_hostid := hostid\<rparr>, al) else (cfg, al)))"

definition monikor_setup_cache_size :: "config \<Rightarrow> alloc \<Rightarrow> config \<times> alloc" where
  "monikor_setup_cache_size cfg al =
     (case monikor_config_dict_get_scalar (cf_full_config cfg) ''cache.max_size_mb'' al of (mb, al) \<Rightarrow>
       (if is_number mb then (cfg\<lparr>cf_cache_max_size := atoi (the mb) * 1024 * 1024\<rparr>, al)
        else (cfg\<lparr>cf_cache_max_size := MONIKOR_DEFAULT_MAX_CACHE_SIZE\<rparr>, al)))"

definition monikor_setup_config ::
  "(string \<Rightarrow> string list option) \<Rightarrow> config \<Rightarrow> alloc \<Rightarrow> (config \<times> alloc) option" where
  "monikor_setup_config dir cfg al =
     (case monikor_setup_config_hostname cfg al of (cfg, al) \<Rightarrow>
      (case monikor_setup_config_user cfg al of (cfg, al) \<Rightarrow>
      (case monikor_config_setup_run_dir cfg al of (cfg, al) \<Rightarrow>
      (case monikor_config_setup_pidfile cfg al of (cfg, al) \<Rightarrow>
      (case monikor_setup_config_daemonize cfg al of (cfg, al) \<Rightarrow>
       do {
         (cfg, al) \<leftarrow> monikor_setup_config_modules dir cfg al;
         (case monikor_setup_config_server cfg al of (cfg, al) \<Rightarrow>
          (case monikor_setup_config_logger cfg al of (cfg, al) \<Rightarrow>
          (case monikor_setup_config_interval cfg al of (cfg, al) \<Rightarrow>
          (case monikor_setup_config_listen cfg al of (cfg, al) \<Rightarrow>
          (case monikor_setup_quanta_token cfg al of (cfg, al) \<Rightarrow>
          (case monikor_setup_hostid cfg al of (cfg, al) \<Rightarrow>
           Some (monikor_setup_cache_size cfg al))))))) })))))"

subsection \<open>Loading a file\<close>

definition monikor_load_config_dict ::
  "(string \<Rightarrow> parser option option) \<Rightarrow> string \<Rightarrow> cfg_dict \<Rightarrow> alloc \<Rightarrow> (cfg_dict option \<times> alloc) option" where
  "monikor_load_config_dict files path cfg al =
     (case files path of
        None \<Rightarrow> Some (None, al)
      | Some fh \<Rightarrow>
          (case monikor_parse_config_file fh cfg al of
             None \<Rightarrow> None
           | Some (None, al) \<Rightarrow> Some (None, al)
           | Some (Some cfg, al) \<Rightarrow> Some (Some cfg, al)))"

definition monikor_load_config ::
  "(string \<Rightarrow> parser option option) \<Rightarrow> (string \<Rightarrow> string list option) \<Rightarrow> config \<Rightarrow> string option \<Rightarrow> alloc
    \<Rightarrow> (config option \<times> alloc) option" where
  "monikor_load_config files dir junk config_path al =
     (case monikor_config_new junk al of
        (None, al) \<Rightarrow> Some (None, al)
      | (Some cfg, al) \<Rightarrow>
          (let cfg = (case config_path of Some p \<Rightarrow> cfg\<lparr>cf_config_path := p\<rparr> | None \<Rightarrow> cfg)
           in case monikor_load_config_dict files (cf_config_path cfg) (cf_full_config cfg) al of
                None \<Rightarrow> None
              | Some (None, al) \<Rightarrow> Some (None, al)
              | Some (Some d, al) \<Rightarrow> do {
                  (cfg, al) \<leftarrow> monikor_setup_config dir (cfg\<lparr>cf_full_config := d\<rparr>) al;
                  Some (Some cfg, al) }))"

definition monikor_load_mod_config ::
  "(string \<Rightarrow> parser option option) \<Rightarrow> string \<Rightarrow> string \<Rightarrow> alloc \<Rightarrow> (cfg_dict option \<times> alloc) option" where
  "monikor_load_mod_config files mod_config_path mod_name al =
     (case monikor_config_dict_new al of
        (None, al) \<Rightarrow> Some (None, al)
      | (Some cfg, al) \<Rightarrow>
          (case strdup (mod_config_path @ ''/'' @ mod_name @ MONIKOR_CONFIG_EXT) al of
             (None, al) \<Rightarrow> Some (None, al)
           | (Some config_path, al) \<Rightarrow> monikor_load_config_dict files config_path cfg al))"

subsection \<open>What the settings are\<close>

definition number_setting :: "cfg_dict \<Rightarrow> string list \<Rightarrow> cint \<Rightarrow> cint" where
  "number_setting d ks dflt =
     (case scalar_at d ks of None \<Rightarrow> dflt | Some s \<Rightarrow> if digits_only s then atoi s else dflt)"

definition string_setting :: "cfg_dict \<Rightarrow> string list \<Rightarrow> string \<Rightarrow> string" where
  "string_setting d ks dflt = (case scalar_at d ks of None \<Rightarrow> dflt | Some s \<Rightarrow> s)"

text \<open>
  With memory, a lookup is a function of the dictionary, and leaves memory available: two rewrite
  rules with which the simplifier runs the whole configuration.
\<close>

lemma getter:
  assumes "alloc_ok al" and "tokens ''.'' key \<noteq> []"
  shows "fst (monikor_config_dict_get_scalar d key al) = scalar_at d (tokens ''.'' key)"
proof -
  obtain l al' where l: "strl_from_separated_string key ''.'' al = (Some l, al')" "sl_strs l = tokens ''.'' key"
    using from_separated_ok [OF assms(1)] by metis
  show ?thesis
    using get_subdict_value [of l d] l assms(2)
    by (auto simp: monikor_config_dict_get_scalar_def scalar_at_def split: list.splits cfg_value.splits)
qed

lemma getter_mem:
  assumes "alloc_ok al"
  shows "alloc_ok (snd (monikor_config_dict_get_scalar d key al))"
  by (rule from_separated_ok [OF assms, of key "''.''"]) (simp add: monikor_config_dict_get_scalar_def)

lemma key_tokens:
  "tokens ''.'' ''user'' = [''user'']" "tokens ''.'' ''group'' = [''group'']"
  "tokens ''.'' ''hostname'' = [''hostname'']" "tokens ''.'' ''directory'' = [''directory'']"
  "tokens ''.'' ''pidfile'' = [''pidfile'']" "tokens ''.'' ''daemonize'' = [''daemonize'']"
  "tokens ''.'' ''logger.level'' = [''logger'', ''level'']" "tokens ''.'' ''logger.file'' = [''logger'', ''file'']"
  "tokens ''.'' ''poll_interval'' = [''poll_interval'']" "tokens ''.'' ''update_interval'' = [''update_interval'']"
  "tokens ''.'' ''modules.path'' = [''modules'', ''path'']"
  "tokens ''.'' ''modules.config_path'' = [''modules'', ''config_path'']"
  "tokens ''.'' ''server.url'' = [''server'', ''url'']" "tokens ''.'' ''server.proxy_url'' = [''server'', ''proxy_url'']"
  "tokens ''.'' ''server.timeout'' = [''server'', ''timeout'']"
  "tokens ''.'' ''server.max_send_size'' = [''server'', ''max_send_size'']"
  "tokens ''.'' ''listen.path'' = [''listen'', ''path'']" "tokens ''.'' ''listen.user'' = [''listen'', ''user'']"
  "tokens ''.'' ''listen.group'' = [''listen'', ''group'']" "tokens ''.'' ''listen.mode'' = [''listen'', ''mode'']"
  "tokens ''.'' ''quanta_token'' = [''quanta_token'']" "tokens ''.'' ''hostid'' = [''hostid'']"
  "tokens ''.'' ''cache.max_size_mb'' = [''cache'', ''max_size_mb'']"
  by (simp_all add: tokens.simps strtok_def)

lemmas getters = getter getter_mem key_tokens split_beta

lemma user_ok:
  "alloc_ok al \<Longrightarrow> cf_full_config cfg = d \<Longrightarrow> fst (monikor_setup_config_user cfg al) =
     cfg\<lparr>cf_user := scalar_at d [''user''], cf_group := scalar_at d [''group'']\<rparr>"
  "alloc_ok al \<Longrightarrow> alloc_ok (snd (monikor_setup_config_user cfg al))"
  by (simp_all add: monikor_setup_config_user_def getters)

lemma hostname_ok:
  "alloc_ok al \<Longrightarrow> cf_full_config cfg = d \<Longrightarrow> fst (monikor_setup_config_hostname cfg al) =
     cfg\<lparr>cf_hostname := scalar_at d [''hostname'']\<rparr>"
  "alloc_ok al \<Longrightarrow> alloc_ok (snd (monikor_setup_config_hostname cfg al))"
  by (simp_all add: monikor_setup_config_hostname_def getters)

lemma run_dir_ok:
  "alloc_ok al \<Longrightarrow> cf_full_config cfg = d \<Longrightarrow> fst (monikor_config_setup_run_dir cfg al) =
     cfg\<lparr>cf_run_dir := string_setting d [''directory''] MONIKOR_DEFAULT_RUN_DIR\<rparr>"
  "alloc_ok al \<Longrightarrow> alloc_ok (snd (monikor_config_setup_run_dir cfg al))"
  by (simp_all add: monikor_config_setup_run_dir_def string_setting_def getters)

lemma pidfile_ok:
  "alloc_ok al \<Longrightarrow> cf_full_config cfg = d \<Longrightarrow> fst (monikor_config_setup_pidfile cfg al) =
     cfg\<lparr>cf_pidfile := string_setting d [''pidfile''] MONIKOR_DEFAULT_PIDFILE\<rparr>"
  "alloc_ok al \<Longrightarrow> alloc_ok (snd (monikor_config_setup_pidfile cfg al))"
  by (simp_all add: monikor_config_setup_pidfile_def string_setting_def getters)

lemma daemonize_ok:
  "alloc_ok al \<Longrightarrow> cf_full_config cfg = d \<Longrightarrow> fst (monikor_setup_config_daemonize cfg al) =
     cfg\<lparr>cf_daemonize := (if is_true (scalar_at d [''daemonize'']) then 1 else 0)\<rparr>"
  "alloc_ok al \<Longrightarrow> alloc_ok (snd (monikor_setup_config_daemonize cfg al))"
  by (simp_all add: monikor_setup_config_daemonize_def getters)

lemma quanta_token_ok:
  "alloc_ok al \<Longrightarrow> cf_full_config cfg = d \<Longrightarrow> fst (monikor_setup_quanta_token cfg al) =
     cfg\<lparr>cf_quanta_token := scalar_at d [''quanta_token'']\<rparr>"
  "alloc_ok al \<Longrightarrow> alloc_ok (snd (monikor_setup_quanta_token cfg al))"
  by (simp_all add: monikor_setup_quanta_token_def getters)

lemma hostid_ok:
  "alloc_ok al \<Longrightarrow> cf_full_config cfg = d \<Longrightarrow> fst (monikor_setup_hostid cfg al) =
     cfg\<lparr>cf_hostid := (if scalar_at d [''hostid''] \<in> {None, Some []} then cf_hostid cfg
                       else scalar_at d [''hostid''])\<rparr>"
  "alloc_ok al \<Longrightarrow> alloc_ok (snd (monikor_setup_hostid cfg al))"
  by (auto simp: monikor_setup_hostid_def getters)

lemma interval_ok:
  "alloc_ok al \<Longrightarrow> tokens ''.'' k \<noteq> [] \<Longrightarrow> fst (get_interval d k al) = number_setting d (tokens ''.'' k) (-1)"
  "alloc_ok al \<Longrightarrow> alloc_ok (snd (get_interval d k al))"
  by (auto simp: get_interval_def number_setting_def is_number_def getters split: option.splits)

definition interval_setting :: "cfg_dict \<Rightarrow> string list \<Rightarrow> cint \<Rightarrow> cint" where
  "interval_setting d ks dflt = (if number_setting d ks (-1) = -1 then dflt else number_setting d ks (-1))"

lemma intervals_ok:
  "alloc_ok al \<Longrightarrow> cf_full_config cfg = d \<Longrightarrow> fst (monikor_setup_config_interval cfg al) =
     cfg\<lparr>cf_poll_interval := interval_setting d [''poll_interval''] MONIKOR_DEFAULT_POLL_INTERVAL,
         cf_update_interval := interval_setting d [''update_interval''] MONIKOR_DEFAULT_UPDATE_INTERVAL\<rparr>"
  "alloc_ok al \<Longrightarrow> alloc_ok (snd (monikor_setup_config_interval cfg al))"
  by (simp_all add: monikor_setup_config_interval_def interval_setting_def interval_ok key_tokens split_beta Let_def)

definition cache_setting :: "cfg_dict \<Rightarrow> cint" where
  "cache_setting d =
     (case scalar_at d [''cache'', ''max_size_mb''] of
        Some s \<Rightarrow> if digits_only s then atoi s * 1024 * 1024 else MONIKOR_DEFAULT_MAX_CACHE_SIZE
      | None \<Rightarrow> MONIKOR_DEFAULT_MAX_CACHE_SIZE)"

lemma cache_size_ok:
  "alloc_ok al \<Longrightarrow> cf_full_config cfg = d \<Longrightarrow> fst (monikor_setup_cache_size cfg al) =
     cfg\<lparr>cf_cache_max_size := cache_setting d\<rparr>"
  by (auto simp: monikor_setup_cache_size_def cache_setting_def is_number_def getters split: option.splits)

definition log_level_setting :: "cfg_dict \<Rightarrow> cint" where
  "log_level_setting d =
     (let l = get_log_level_from_str (scalar_at d [''logger'', ''level'']) in if l = -1 then LOG_NOTICE else l)"

definition log_file_setting :: "cfg_dict \<Rightarrow> string option" where
  "log_file_setting d =
     (let f = scalar_at d [''logger'', ''file''] in if f = Some ''syslog'' then None else f)"

lemma logger_ok:
  "alloc_ok al \<Longrightarrow> cf_full_config cfg = d \<Longrightarrow> fst (monikor_setup_config_logger cfg al) =
     cfg\<lparr>cf_log_level := log_level_setting d, cf_log_file := log_file_setting d\<rparr>"
  "alloc_ok al \<Longrightarrow> alloc_ok (snd (monikor_setup_config_logger cfg al))"
  by (simp_all add: monikor_setup_config_logger_def log_level_setting_def log_file_setting_def getters Let_def)

definition send_size_setting :: "cfg_dict \<Rightarrow> u64" where
  "send_size_setting d =
     (case scalar_at d [''server'', ''max_send_size''] of
        Some s \<Rightarrow> if digits_only s then size_of_int (atoi s) else MONIKOR_DEFAULT_SERVER_MAX_SEND_SIZE
      | None \<Rightarrow> MONIKOR_DEFAULT_SERVER_MAX_SEND_SIZE)"

lemma server_ok:
  "alloc_ok al \<Longrightarrow> cf_full_config cfg = d \<Longrightarrow> fst (monikor_setup_config_server cfg al) =
     cfg\<lparr>cf_url := scalar_at d [''server'', ''url''],
         cf_proxy_url := scalar_at d [''server'', ''proxy_url''],
         cf_timeout := number_setting d [''server'', ''timeout''] MONIKOR_DEFAULT_SERVER_TIMEOUT,
         cf_max_send_size := send_size_setting d\<rparr>"
  "alloc_ok al \<Longrightarrow> alloc_ok (snd (monikor_setup_config_server cfg al))"
  by (auto simp: monikor_setup_config_server_def number_setting_def send_size_setting_def is_number_def getters
      split: option.splits)

definition listen_mode_setting :: "cfg_dict \<Rightarrow> u32 \<Rightarrow> u32" where
  "listen_mode_setting d mode0 =
     (case scalar_at d [''listen'', ''mode''] of
        Some m \<Rightarrow> if snd (strtoul_0 m) = [] then ucast (fst (strtoul_0 m)) else MONIKOR_DEFAULT_LISTEN_MODE
      | None \<Rightarrow> mode0)"

lemma listen_ok:
  "alloc_ok al \<Longrightarrow> cf_full_config cfg = d \<Longrightarrow> fst (monikor_setup_config_listen cfg al) =
     cfg\<lparr>cf_listen_path := scalar_at d [''listen'', ''path''],
         cf_listen_user := scalar_at d [''listen'', ''user''],
         cf_listen_group := scalar_at d [''listen'', ''group''],
         cf_listen_mode := listen_mode_setting d (cf_listen_mode cfg)\<rparr>"
  "alloc_ok al \<Longrightarrow> alloc_ok (snd (monikor_setup_config_listen cfg al))"
  by (auto simp: monikor_setup_config_listen_def listen_mode_setting_def getters Let_def split: option.splits)

text \<open>The modules.\<close>

lemma modules_loop_ok:
  "alloc_ok al \<Longrightarrow> fst (modules_loop es l al) =
       foldl strl_link l (map (before_first MONIKOR_CONFIG_EXT) (filter is_module_config es))
     \<and> alloc_ok (snd (modules_loop es l al))"
proof (induction es arbitrary: l al)
  case (Cons e es)
  obtain al1 where "strl_push l (before_first MONIKOR_CONFIG_EXT e) al =
      (strl_link l (before_first MONIKOR_CONFIG_EXT e), 0, al1)" "alloc_ok al1"
    using Cons.prems by (rule strl_push_ok)
  with Cons.IH [of al1] Cons.IH [OF Cons.prems] show ?case by auto
qed simp

lemma before_first_suffix: "CHR ''.'' \<notin> set base \<Longrightarrow> before_first ''.yml'' (base @ ''.yml'') = base"
proof (induction base)
  case (Cons c base)
  then have "c \<noteq> CHR ''.''" and "before_first ''.yml'' (base @ ''.yml'') = base" by auto
  then show ?case by simp
qed simp

lemma is_module_config_suffix: "is_module_config (base @ ''.yml'') \<longleftrightarrow> base \<noteq> []"
  by (simp add: is_module_config_def MONIKOR_CONFIG_EXT_def)

definition module_names :: "string list option \<Rightarrow> string list" where
  "module_names entries =
     (case entries of None \<Rightarrow> [] | Some es \<Rightarrow> map (before_first MONIKOR_CONFIG_EXT) (filter is_module_config es))"

text \<open>A path setting, which must not be empty, without its final slash.\<close>

definition path_setting :: "cfg_dict \<Rightarrow> string list \<Rightarrow> string \<Rightarrow> string option" where
  "path_setting d ks dflt = strip_slash (string_setting d ks dflt)"

lemma modules_path_ok:
  assumes "alloc_ok al" and "cf_full_config cfg = d"
    and "path_setting d [''modules'', ''path''] MONIKOR_DEFAULT_MODULES_PATH = Some p"
    and "path_setting d [''modules'', ''config_path''] MONIKOR_DEFAULT_MODULES_CONFIG_PATH = Some cp"
  shows "\<exists>al'. alloc_ok al' \<and>
    monikor_setup_config_modules_path cfg al = Some (cfg\<lparr>cf_mod_path := p, cf_mod_config_path := cp\<rparr>, al')"
  using assms by (simp add: monikor_setup_config_modules_path_def path_setting_def string_setting_def getters)

lemma modules_ok:
  assumes "alloc_ok al" and "cf_full_config cfg = d"
    and "path_setting d [''modules'', ''path''] MONIKOR_DEFAULT_MODULES_PATH = Some p"
    and "path_setting d [''modules'', ''config_path''] MONIKOR_DEFAULT_MODULES_CONFIG_PATH = Some cp"
  shows "\<exists>al'. alloc_ok al' \<and> monikor_setup_config_modules dir cfg al =
    Some (cfg\<lparr>cf_mod_path := p, cf_mod_config_path := cp,
              cf_modules := Some (foldl strl_link strl_init (module_names (dir cp)))\<rparr>, al')"
proof -
  obtain al1 where 1: "alloc_ok al1"
    "monikor_setup_config_modules_path cfg al = Some (cfg\<lparr>cf_mod_path := p, cf_mod_config_path := cp\<rparr>, al1)"
    using modules_path_ok [OF assms] by blast
  obtain al2 where 2: "strl_new al1 = (Some strl_init, al2)" "alloc_ok al2"
    using 1(1) by (rule strl_new_ok)
  show ?thesis
    using 1 2 modules_loop_ok [OF 2(2)]
    by (cases "dir cp") (simp_all add: monikor_setup_config_modules_def module_names_def split_beta)
qed

text \<open>All settings at once: the settings for \<open>d\<close>, with the values \<open>c0\<close> had where \<open>d\<close> has none.\<close>

definition settings_of :: "(string \<Rightarrow> string list option) \<Rightarrow> cfg_dict \<Rightarrow> string \<Rightarrow> string \<Rightarrow> config \<Rightarrow> config" where
  "settings_of dir d p cp c0 =
     c0\<lparr>cf_hostname := scalar_at d [''hostname''],
        cf_user := scalar_at d [''user''], cf_group := scalar_at d [''group''],
        cf_run_dir := string_setting d [''directory''] MONIKOR_DEFAULT_RUN_DIR,
        cf_pidfile := string_setting d [''pidfile''] MONIKOR_DEFAULT_PIDFILE,
        cf_daemonize := (if is_true (scalar_at d [''daemonize'']) then 1 else 0),
        cf_mod_path := p, cf_mod_config_path := cp,
        cf_modules := Some (foldl strl_link strl_init (module_names (dir cp))),
        cf_hostid := (if scalar_at d [''hostid''] \<in> {None, Some []} then cf_hostid c0 else scalar_at d [''hostid'']),
        cf_quanta_token := scalar_at d [''quanta_token''],
        cf_url := scalar_at d [''server'', ''url''],
        cf_timeout := number_setting d [''server'', ''timeout''] MONIKOR_DEFAULT_SERVER_TIMEOUT,
        cf_max_send_size := send_size_setting d,
        cf_proxy_url := scalar_at d [''server'', ''proxy_url''],
        cf_listen_path := scalar_at d [''listen'', ''path''],
        cf_listen_user := scalar_at d [''listen'', ''user''],
        cf_listen_group := scalar_at d [''listen'', ''group''],
        cf_listen_mode := listen_mode_setting d (cf_listen_mode c0),
        cf_log_level := log_level_setting d, cf_log_file := log_file_setting d,
        cf_cache_max_size := cache_setting d,
        cf_poll_interval := interval_setting d [''poll_interval''] MONIKOR_DEFAULT_POLL_INTERVAL,
        cf_update_interval := interval_setting d [''update_interval''] MONIKOR_DEFAULT_UPDATE_INTERVAL\<rparr>"

text \<open>Running one group of settings after another.\<close>

lemma then_setup:
  assumes "fst m = b" and "alloc_ok (snd m)"
    and "\<And>al. alloc_ok al \<Longrightarrow> \<exists>al'. g b al = Some (r, al') \<and> alloc_ok al'"
  shows "\<exists>al'. (case m of (c, al) \<Rightarrow> g c al) = Some (r, al') \<and> alloc_ok al'"
  using assms by (simp add: split_beta)

lemma then_bind:
  assumes "\<exists>al. alloc_ok al \<and> m = Some (b, al)" and "\<And>al. alloc_ok al \<Longrightarrow> \<exists>al'. g b al = Some (r, al') \<and> alloc_ok al'"
  shows "\<exists>al'. (m \<bind> (\<lambda>(c, al). g c al)) = Some (r, al') \<and> alloc_ok al'"
  using assms by auto

lemma last_setup: "fst m = r \<Longrightarrow> alloc_ok (snd m) \<Longrightarrow> \<exists>al'. Some m = Some (r, al') \<and> alloc_ok al'"
  by (cases m) simp

lemma setup_config_ok:
  assumes "alloc_ok al" and d: "cf_full_config cfg = d"
    and "path_setting d [''modules'', ''path''] MONIKOR_DEFAULT_MODULES_PATH = Some p"
    and "path_setting d [''modules'', ''config_path''] MONIKOR_DEFAULT_MODULES_CONFIG_PATH = Some cp"
  shows "\<exists>al'. monikor_setup_config dir cfg al = Some (settings_of dir d p cp cfg, al') \<and> alloc_ok al'"
  unfolding monikor_setup_config_def
  apply (rule then_setup, rule hostname_ok(1) [where d = d], rule assms(1), rule d, rule hostname_ok(2), rule assms(1))
  apply (rule then_setup, erule user_ok(1) [where d = d], simp add: d, erule user_ok(2))
  apply (rule then_setup, erule run_dir_ok(1) [where d = d], simp add: d, erule run_dir_ok(2))
  apply (rule then_setup, erule pidfile_ok(1) [where d = d], simp add: d, erule pidfile_ok(2))
  apply (rule then_setup, erule daemonize_ok(1) [where d = d], simp add: d, erule daemonize_ok(2))
  apply (rule then_bind, erule modules_ok [of _ _ d p cp dir], simp add: d, rule assms(3), rule assms(4))
  apply (rule then_setup, erule server_ok(1) [where d = d], simp add: d, erule server_ok(2))
  apply (rule then_setup, erule logger_ok(1) [where d = d], simp add: d, erule logger_ok(2))
  apply (rule then_setup, erule intervals_ok(1) [where d = d], simp add: d, erule intervals_ok(2))
  apply (rule then_setup, erule listen_ok(1) [where d = d], simp add: d, erule listen_ok(2))
  apply (rule then_setup, erule quanta_token_ok(1) [where d = d], simp add: d, erule quanta_token_ok(2))
  apply (rule then_setup, erule hostid_ok(1) [where d = d], simp add: d, erule hostid_ok(2))
  apply (rule last_setup, subst cache_size_ok [where d = d], assumption, simp add: d)
   apply (rule config.equality)
                       apply (simp_all add: d settings_of_def)
  apply (simp add: monikor_setup_cache_size_def getters)
  done

lemma load_config_ok:
  assumes "alloc_ok al" and "files path = Some (Some (print_file d))" and "value_ok (MONIKOR_CFG_DICT d)"
    and "path_setting d [''modules'', ''path''] MONIKOR_DEFAULT_MODULES_PATH = Some p"
    and "path_setting d [''modules'', ''config_path''] MONIKOR_DEFAULT_MODULES_CONFIG_PATH = Some cp"
  shows "\<exists>c0 c al'. monikor_load_config files dir junk (Some path) al = Some (Some c, al')
    \<and> c = settings_of dir d p cp c0 \<and> cf_full_config c0 = d \<and> cf_hostid c0 = None
    \<and> cf_listen_mode c0 = MONIKOR_DEFAULT_LISTEN_MODE \<and> alloc_ok al'"
proof -
  obtain j al1 where 1: "malloc al = (Some j, al1)" "alloc_ok al1" using assms(1) by (rule alloc_ok_malloc)
  obtain al2 where 2: "monikor_config_dict_new al1 = (Some fresh_dict, al2)" "alloc_ok al2"
    using 1(2) unfolding fresh_dict_def by (rule dict_new_ok)
  obtain c0 where c0: "monikor_config_new junk al = (Some c0, al2)" "cf_full_config c0 = fresh_dict"
    "cf_hostid c0 = None" "cf_listen_mode c0 = MONIKOR_DEFAULT_LISTEN_MODE"
    by (simp add: monikor_config_new_def 1 2)
  obtain al3 where 3: "monikor_parse_config_file (Some (print_file d)) fresh_dict al2 = Some (Some d, al3)"
    "alloc_ok al3" using parse_print_config_mem [OF 2(2) assms(3)] by blast
  let ?c = "c0\<lparr>cf_config_path := path, cf_full_config := d\<rparr>"
  obtain al4 where "monikor_setup_config dir ?c al3 = Some (settings_of dir d p cp ?c, al4)" "alloc_ok al4"
    using setup_config_ok [OF 3(2) _ assms(4,5), of ?c dir] by auto
  then show ?thesis
    using c0 3 assms(2)
    by (intro exI [of _ ?c] exI [of _ "settings_of dir d p cp ?c"] exI [of _ al4])
      (simp add: monikor_load_config_def monikor_load_config_dict_def)
qed

subsection \<open>Properties\<close>



text \<open>the modules of a directory are its configuration files without their extension, in
  directory order; every other entry is ignored.\<close>

theorem module_files_listed:
  assumes "\<forall>b\<in>set bases. CHR ''.'' \<notin> set b \<and> b \<noteq> []" and "\<forall>e\<in>set others. \<not> is_module_config e"
    and "alloc_ok al"
  shows "sl_strs (fst (modules_loop (map (\<lambda>b. b @ MONIKOR_CONFIG_EXT) bases @ others) strl_init al)) = bases"
proof -
  have "filter is_module_config (map (\<lambda>b. b @ MONIKOR_CONFIG_EXT) bases @ others) = map (\<lambda>b. b @ MONIKOR_CONFIG_EXT) bases"
    using assms(1,2) is_module_config_suffix by (auto simp: filter_empty_conv MONIKOR_CONFIG_EXT_def filter_id_conv)
  moreover have "map (before_first MONIKOR_CONFIG_EXT) (map (\<lambda>b. b @ MONIKOR_CONFIG_EXT) bases) = bases"
    using assms(1) before_first_suffix by (simp add: MONIKOR_CONFIG_EXT_def map_idI)
  ultimately show ?thesis
    using modules_loop_ok [OF assms(3)] by (simp add: strl.push_all_elems strl.empty_ok)
qed

theorem module_files_listed_witness:
  "sl_strs (fst (modules_loop [''cpu.yml'', ''disk.yml'', ''README''] strl_init [])) = [''cpu'', ''disk'']"
  using module_files_listed [of "[''cpu'', ''disk'']" "[''README'']" "[]"]
  by (simp add: MONIKOR_CONFIG_EXT_def is_module_config_def)

text \<open>the extension is cut at its first occurrence in the name, not at its end: a module file
  \<open>a.yml.b.yml\<close> is loaded under the name of another one.\<close>

theorem module_name_cut_at_first_extension:
  "sl_strs (fst (modules_loop [''a.yml.b.yml'', ''a.yml''] strl_init [])) = [''a'', ''a'']"
  by (simp add: MONIKOR_CONFIG_EXT_def is_module_config_def strl_push_def strl_node_new_def or_null_def
      strdup_def alloc_ret_def strl_link_def strl_init_def)

lemma size_of_int_scast: "size_of_int i = of_int (sint i)"
proof -
  have "size_of_int i = scast i" by (rule bit_word_eqI) (auto simp: size_of_int_def bit_simps min_def)
  also have "\<dots> = of_int (sint i)" by simp
  finally show ?thesis .
qed

lemma cache_setting_overflow:
  assumes "digits_only s" and "scalar_at d [''cache'', ''max_size_mb''] = Some s" and "digits_val s < 4096"
  shows "(digits_val s < 2048 \<longrightarrow> unat (size_of_int (cache_setting d)) = digits_val s * 2 ^ 20)
    \<and> (2048 \<le> digits_val s \<longrightarrow> 2 ^ 63 < unat (size_of_int (cache_setting d)))"
proof -
  define n where "n = digits_val s * 2 ^ 20"
  have "cache_setting d = of_nat n"
    using assms by (simp add: cache_setting_def atoi_def n_def)
  then have s: "sint (cache_setting d) = signed_take_bit 31 (int n)"
    by (simp add: signed_of_nat)
  have n: "n < 2 ^ 32" using assms(3) by (simp add: n_def)
  show ?thesis
  proof (intro conjI impI)
    assume "digits_val s < 2048"
    then have "n < 2 ^ 31" by (simp add: n_def)
    then have "sint (cache_setting d) = int n" using s by (simp add: signed_take_bit_int_eq_self)
    then have "size_of_int (cache_setting d) = of_nat n" by (simp add: size_of_int_scast)
    then have "unat (size_of_int (cache_setting d)) = n"
      using n by (simp add: unat_of_nat take_bit_nat_eq_self)
    then show "unat (size_of_int (cache_setting d)) = digits_val s * 2 ^ 20" by (simp only: n_def)
  next
    assume "2048 \<le> digits_val s"
    then have big: "2 ^ 31 \<le> n" by (simp add: n_def)
    have "int n + 2147483648 = (int n - 2147483648) + 4294967296" by simp
    then have "(int n + 2147483648) mod 4294967296 = (int n - 2147483648) mod 4294967296"
      by (simp only: mod_add_self2)
    also have "\<dots> = int n - 2147483648" using big n by simp
    finally have "signed_take_bit 31 (int n) = int n - 2 ^ 32"
      by (simp add: signed_take_bit_eq_take_bit_shift take_bit_eq_mod)
    then have "size_of_int (cache_setting d) = of_int (int n - 2 ^ 32)"
      by (simp add: size_of_int_scast s)
    also have "\<dots> = of_int (int (2 ^ 64 + n - 2 ^ 32))" by simp
    also have "\<dots> = (of_nat (2 ^ 64 + n - 2 ^ 32) :: u64)" by (rule of_int_of_nat_eq)
    finally have m: "size_of_int (cache_setting d) = of_nat (2 ^ 64 + n - 2 ^ 32)" .
    have "2 ^ 64 + n - 2 ^ 32 < (2::nat) ^ 64" using n by simp
    then have "unat (size_of_int (cache_setting d)) = 2 ^ 64 + n - 2 ^ 32"
      unfolding m by (rule unat_of_nat_u64)
    then show "2 ^ 63 < unat (size_of_int (cache_setting d))" using big by simp
  qed
qed

text \<open>a cache size of 2048 to 4095 megabytes overflows the \<open>int\<close> that holds it: as the
  \<open>size_t\<close> bound of the eviction it exceeds 2^63, so the cache is never evicted; below 2048 the
  bound is the configured one.\<close>

theorem cache_size_overflow:
  assumes "alloc_ok al" and "digits_only s" and "digits_val s < 4096"
    and "scalar_at (cf_full_config cfg) [''cache'', ''max_size_mb''] = Some s"
  shows "let bound = size_of_int (cf_cache_max_size (fst (monikor_setup_cache_size cfg al))) in
    (digits_val s < 2048 \<longrightarrow> unat bound = digits_val s * 2 ^ 20) \<and> (2048 \<le> digits_val s \<longrightarrow> 2 ^ 63 < unat bound)"
  using cache_setting_overflow [OF assms(2,4,3)] cache_size_ok [OF assms(1) refl, of cfg] by (simp add: Let_def)

theorem cache_size_overflow_witness:
  "\<forall>cfg. 2 ^ 63 < unat (size_of_int (cf_cache_max_size (fst (monikor_setup_cache_size (cfg\<lparr>cf_full_config :=
     [(Some ''cache'', MONIKOR_CFG_DICT [(Some ''max_size_mb'', MONIKOR_CFG_SCALAR (Some ''2048''))])]\<rparr>) []))))"
  (is "\<forall>cfg. ?P cfg")
proof
  fix cfg :: config
  show "?P cfg"
    using cache_size_overflow [of "[]" "''2048''" "cfg\<lparr>cf_full_config :=
      [(Some ''cache'', MONIKOR_CFG_DICT [(Some ''max_size_mb'', MONIKOR_CFG_SCALAR (Some ''2048''))])]\<rparr>"]
    by (simp add: is_digit_def scalar_at_def digits_val_def Let_def)
qed

end
