(* ===== verification/Agent.thy ===== *)
theory Agent
  imports Metric_Store Setup_Config
begin

text \<open>
  The state of the agent (\<open>monikor_s\<close> of \<open>include/monikor.h\<close>) and the small operations on it:
  \<open>src/core/metrics.c\<close>, \<open>control.c\<close>, \<open>evict.c\<close> and the clock and backoff of \<open>update.c\<close>.

  The requests in flight are the metric sends in libcurl's multi handle, oldest first: appending
  to them and taking one out is what theory \<open>IO_List\<close> shows of the list of curl handlers.
  The static buffer of
  \<open>info_module.c\<close> is a field too.  Clock readings are arguments.  What the agent writes to its log is not modelled.
\<close>

subsection \<open>State\<close>

text \<open>\<open>send_data_t\<close>, with the options \<open>setup_curl_request\<close> gives to libcurl.\<close>

record request =
  rq_metrics :: mlist
  rq_headers :: "string list"
  rq_response :: string
  rq_error :: string
  rq_data :: "u8 list"
  rq_data_size :: u64
  rq_url :: "string option"
  rq_timeout :: cint
  rq_proxy :: "string option"

text \<open>
  A GET request in flight for a module (\<open>http_response_t\<close> with the options of its transfer); the
  callback is one of the functions that are passed to \<open>monikor_http_get\<close>.
\<close>

datatype http_callback = HANDLE_CLOUD_INSTANCE_ID | APACHE_FETCH_METRICS | NGINX_POLL_METRICS

record http_response =
  hr_code :: clong
  hr_data :: "string option"
  hr_size :: u64
  hr_callback :: http_callback

record http_request =
  hq_url :: string
  hq_timeout :: clong
  hq_headers :: "string list"
  hq_response :: http_response

text \<open>
  \<open>monikor_mod_t\<close>: \<open>md_data\<close> is what its init function returned, \<open>md_dhandle\<close> the path of its library
  and the functions are named by their symbols (\<open>None\<close>: null).
\<close>

record modul =
  md_name :: string
  md_data :: "nat option"
  md_poll_interval :: cint
  md_last_clock :: timeval
  md_config :: "cfg_dict option"
  md_dhandle :: "string option"
  md_init :: "string option"
  md_poll :: "string option"
  md_cleanup :: "string option"

text \<open>
  \<open>struct monikor_s\<close> without its server and handler lists, which have their own theories.
  \<open>mn_instance_id\<close> is the static buffer of \<open>set_instance_id_as_hostid\<close>, \<open>mn_hostid_shared\<close> says that
  \<open>config->hostid\<close> points to it.
\<close>

record agent =
  mn_config :: config
  mn_modules :: "modul list"
  mn_metrics :: store
  mn_requests :: "request list"
  mn_http :: "http_request list"
  mn_last_clock :: timeval
  mn_backoff_count :: u64
  mn_next_update :: clong
  mn_flags :: u8
  mn_instance_id :: string
  mn_hostid_shared :: bool

definition MONIKOR_FLAG_RELOAD :: u8 where "MONIKOR_FLAG_RELOAD = 1"

subsection \<open>Pushing, flushing, reload requests\<close>

text \<open>The metric is null when it could not be built.\<close>

definition monikor_metric_push :: "agent \<Rightarrow> metric option \<Rightarrow> alloc \<Rightarrow> agent \<times> cint \<times> alloc" where
  "monikor_metric_push mon m al =
     (case m of
        None \<Rightarrow> (mon, 0, al)
      | Some m \<Rightarrow>
          (case monikor_metric_store_push (mn_metrics mon) m al of
             (s, _, al) \<Rightarrow> (mon\<lparr>mn_metrics := s\<rparr>, 1, al)))"

definition monikor_flag_reload :: "agent \<Rightarrow> agent" where
  "monikor_flag_reload mon = mon\<lparr>mn_flags := mn_flags mon OR MONIKOR_FLAG_RELOAD\<rparr>"

definition monikor_flush_all :: "agent \<Rightarrow> agent" where
  "monikor_flush_all mon = mon\<lparr>mn_metrics := monikor_metric_store_flush_all (mn_metrics mon)\<rparr>"

subsection \<open>Eviction\<close>

text \<open>\<open>3 * poll_interval\<close> is an \<open>int\<close> product.\<close>

definition monikor_evict_metrics :: "timeval \<Rightarrow> agent \<Rightarrow> (agent \<times> u64) option" where
  "monikor_evict_metrics now mon =
     (let max_delta_clock = now\<lparr>tv_sec := tv_sec now - size_of_int (3 * cf_poll_interval (mn_config mon))\<rparr>
      in case monikor_metric_store_evict_delta (mn_metrics mon) max_delta_clock of
           (s, n) \<Rightarrow> do {
             (s, k) \<leftarrow> monikor_metric_store_evict_cache s (size_of_int (cf_cache_max_size (mn_config mon)));
             Some (mon\<lparr>mn_metrics := s\<rparr>, n + k) })"

subsection \<open>The update clock and its backoff\<close>

definition MONIKOR_UPDATE_BACKOFF_COUNT_MAX :: u64 where "MONIKOR_UPDATE_BACKOFF_COUNT_MAX = 15"
definition MONIKOR_UPDATE_BACKOFF_EXP :: nat where "MONIKOR_UPDATE_BACKOFF_EXP = 2"

text \<open>\<open>(time_t)powf(2, n)\<close>: powers of two are exact floats; from \<open>2^63\<close> on the value does not fit
  and the conversion gives the \<open>long\<close> that x86-64 uses for every such value.\<close>

definition powf_time :: "nat \<Rightarrow> u64 \<Rightarrow> clong" where
  "powf_time b n = (if b ^ unat n < 2 ^ 63 then of_nat (b ^ unat n) else 0x8000000000000000)"

definition monikor_update_init :: "timeval \<Rightarrow> clong \<Rightarrow> agent \<Rightarrow> agent" where
  "monikor_update_init now t mon = mon\<lparr>mn_last_clock := now, mn_next_update := t\<rparr>"

definition monikor_update_backoff :: "agent \<Rightarrow> agent" where
  "monikor_update_backoff mon =
     (let mon =
        (if mn_backoff_count mon > 0 then
           let backoff_sec = size_of_int (cf_update_interval (mn_config mon));
               backoff_sec = backoff_sec * powf_time MONIKOR_UPDATE_BACKOFF_EXP (mn_backoff_count mon)
           in mon\<lparr>mn_next_update := mn_next_update mon + backoff_sec,
                  mn_metrics := monikor_metric_store_flush_all (mn_metrics mon)\<rparr>
         else mon)
      in if mn_backoff_count mon < MONIKOR_UPDATE_BACKOFF_COUNT_MAX
         then mon\<lparr>mn_backoff_count := mn_backoff_count mon + 1\<rparr> else mon)"

definition monikor_update_success :: "agent \<Rightarrow> agent" where
  "monikor_update_success mon = mon\<lparr>mn_backoff_count := 0\<rparr>"

subsection \<open>Lemmas\<close>

definition agent_inv :: "agent \<Rightarrow> bool" where
  "agent_inv mon \<longleftrightarrow> store_inv (mn_metrics mon)
     \<and> (\<forall>r\<in>set (mn_requests mon). list_inv (rq_metrics r) \<and> (\<forall>m\<in>set (l_nodes (rq_metrics r)). \<not> is_delta m))"

lemma metric_push_inv:
  "monikor_metric_push mon m al = (mon', r, al') \<Longrightarrow> agent_inv mon \<Longrightarrow> agent_inv mon'"
  by (auto simp: monikor_metric_push_def agent_inv_def dest: push_inv split: option.splits prod.splits)

lemma flush_all_agent_inv: "agent_inv mon \<Longrightarrow> agent_inv (monikor_flush_all mon)"
  by (simp add: agent_inv_def monikor_flush_all_def inv_intros)

lemma flag_reload_inv: "agent_inv mon \<Longrightarrow> agent_inv (monikor_flag_reload mon)"
  by (simp add: agent_inv_def monikor_flag_reload_def)

lemma update_init_inv: "agent_inv mon \<Longrightarrow> agent_inv (monikor_update_init now t mon)"
  by (simp add: agent_inv_def monikor_update_init_def)

lemma update_success_inv: "agent_inv mon \<Longrightarrow> agent_inv (monikor_update_success mon)"
  by (simp add: agent_inv_def monikor_update_success_def)

lemma update_backoff_inv: "agent_inv mon \<Longrightarrow> agent_inv (monikor_update_backoff mon)"
  by (simp add: agent_inv_def monikor_update_backoff_def Let_def inv_intros)

text \<open>Eviction never fails on a store whose counters are right.\<close>

lemma evict_metrics_ok:
  assumes "agent_inv mon"
  obtains mon' n k where "monikor_evict_metrics now mon = Some (mon', n)" and "agent_inv mon'"
    and "mon' = mon\<lparr>mn_metrics := mn_metrics mon'\<rparr>"
    and "s_current (mn_metrics mon') = s_current (mn_metrics mon)"
    and "l_nodes (s_cache (mn_metrics mon')) = drop k (l_nodes (s_cache (mn_metrics mon)))"
    and "l_data_size (s_cache (mn_metrics mon')) \<le> size_of_int (cf_cache_max_size (mn_config mon))"
proof -
  let ?clock = "now\<lparr>tv_sec := tv_sec now - size_of_int (3 * cf_poll_interval (mn_config mon))\<rparr>"
  obtain s n where s: "monikor_metric_store_evict_delta (mn_metrics mon) ?clock = (s, n)"
    by force
  have si: "store_inv s"
    using evict_delta_inv [of "mn_metrics mon" ?clock] assms s by (simp add: agent_inv_def)
  have sf: "s_current s = s_current (mn_metrics mon)" "s_cache s = s_cache (mn_metrics mon)"
    using s by (auto simp: monikor_metric_store_evict_delta_def split: prod.splits)
  let ?max = "size_of_int (cf_cache_max_size (mn_config mon))"
  have "list_inv (s_cache s)" using si by (simp add: store_inv_def)
  then obtain k c where c: "evict_cache_loop (s_cache s) ?max 0 = Some (c, 0 + of_nat k)"
    "l_nodes c = drop k (l_nodes (s_cache s))" "l_data_size c \<le> ?max"
    by (rule evict_cache_loop_spec)
  then have e: "monikor_metric_store_evict_cache s ?max = Some (s\<lparr>s_cache := c\<rparr>, of_nat k)"
    by (simp add: monikor_metric_store_evict_cache_def)
  from evict_cache_inv [OF si e] assms have "agent_inv (mon\<lparr>mn_metrics := s\<lparr>s_cache := c\<rparr>\<rparr>)"
    by (simp add: agent_inv_def)
  with that [of "mon\<lparr>mn_metrics := s\<lparr>s_cache := c\<rparr>\<rparr>" "n + of_nat k" k] show ?thesis
    using s e c sf by (simp add: monikor_evict_metrics_def Let_def)
qed

subsection \<open>Properties\<close>

lemma powf_time_small: "n \<le> 15 \<Longrightarrow> powf_time 2 n = 2 ^ unat n"
proof -
  assume "n \<le> 15"
  then have "unat n \<le> 15" by (simp add: word_le_nat_alt)
  then have "(2::nat) ^ unat n \<le> 2 ^ 15" by (intro power_increasing) simp_all
  then show ?thesis by (simp add: powf_time_def)
qed

text \<open>C32: starting from a count of at most 15, a series of rejected sends delays the next update
  by at most \<open>2^15\<close> update intervals each and keeps the count at most 15; the first rejection does
  not delay, and a success starts over.\<close>

theorem backoff_bounded:
  assumes "mn_backoff_count mon \<le> 15" and "0 \<le> sint (cf_update_interval (mn_config mon))"
  shows "mn_backoff_count (monikor_update_backoff mon) \<le> 15
    \<and> (\<exists>d. mn_next_update (monikor_update_backoff mon) = mn_next_update mon + of_nat d
        \<and> d \<le> nat (sint (cf_update_interval (mn_config mon))) * 2 ^ 15
        \<and> (mn_backoff_count mon = 0 \<longrightarrow> d = 0)
        \<and> (0 < mn_backoff_count mon \<longrightarrow>
            d = nat (sint (cf_update_interval (mn_config mon))) * 2 ^ unat (mn_backoff_count mon)))
    \<and> mn_backoff_count (monikor_update_success (monikor_update_backoff mon)) = 0"
proof -
  let ?i = "nat (sint (cf_update_interval (mn_config mon)))" and ?n = "mn_backoff_count mon"
  have n: "unat ?n \<le> 15" using assms(1) by (simp add: word_le_nat_alt)
  have "size_of_int (cf_update_interval (mn_config mon)) = of_nat ?i"
    using assms(2) by (simp add: size_of_int_scast)
  then have delay: "mn_next_update (monikor_update_backoff mon)
      = mn_next_update mon + of_nat (if 0 < ?n then ?i * 2 ^ unat ?n else 0)"
    using assms(1) by (simp add: monikor_update_backoff_def Let_def MONIKOR_UPDATE_BACKOFF_EXP_def powf_time_small)
  have "mn_backoff_count (monikor_update_backoff mon) = (if ?n < 15 then ?n + 1 else ?n)"
    by (simp add: monikor_update_backoff_def Let_def MONIKOR_UPDATE_BACKOFF_COUNT_MAX_def)
  moreover have "?n < 15 \<Longrightarrow> ?n + 1 \<le> 15" by (rule inc_le)
  ultimately have "mn_backoff_count (monikor_update_backoff mon) \<le> 15" using assms(1) by auto
  moreover have "?i * 2 ^ unat ?n \<le> ?i * 2 ^ 15" using n by (intro mult_le_mono2 power_increasing) simp_all
  ultimately show ?thesis
    using delay by (intro conjI exI [of _ "if 0 < ?n then ?i * 2 ^ unat ?n else 0"])
      (auto simp: monikor_update_success_def word_neq_0_conv)
qed

text \<open>An agent with the default settings of a configuration and nothing in its lists.\<close>

definition sample_settings :: config where
  "sample_settings =
     \<lparr>cf_full_config = [], cf_config_path = ''/c.yml'', cf_hostname = Some ''h'', cf_user = None, cf_group = None,
      cf_run_dir = ''/'', cf_pidfile = ''/p'', cf_daemonize = 0, cf_mod_path = ''/m'', cf_mod_config_path = ''/d'',
      cf_modules = None, cf_hostid = None, cf_quanta_token = None, cf_url = Some ''http://a'', cf_timeout = 5,
      cf_max_send_size = 5242880, cf_proxy_url = None, cf_listen_path = None, cf_listen_user = None,
      cf_listen_group = None, cf_listen_mode = 432, cf_log_level = 5, cf_log_file = None,
      cf_cache_max_size = 31457280, cf_poll_interval = 60, cf_update_interval = 30\<rparr>"

definition empty_store :: store where
  "empty_store = \<lparr>s_current = monikor_metric_list_init, s_delta = monikor_metric_list_init,
     s_cache = monikor_metric_list_init\<rparr>"

definition sample_agent :: agent where
  "sample_agent = \<lparr>mn_config = sample_settings, mn_modules = [], mn_metrics = empty_store, mn_requests = [], mn_http = [],
     mn_last_clock = \<lparr>tv_sec = 1000, tv_usec = 0\<rparr>, mn_backoff_count = 3, mn_next_update = 1030, mn_flags = 0, mn_instance_id = '''', mn_hostid_shared = False\<rparr>"

lemma empty_store_inv [simp]: "store_inv empty_store"
  by (simp add: empty_store_def store_inv_def list_init_inv)

lemma sample_agent_inv: "agent_inv sample_agent"
  by (simp add: sample_agent_def agent_inv_def)

theorem backoff_bounded_witness:
  "mn_backoff_count (monikor_update_backoff sample_agent) \<le> 15
    \<and> (\<exists>d. mn_next_update (monikor_update_backoff sample_agent) = 1030 + of_nat d \<and> d = 240)"
  using backoff_bounded [of sample_agent] by (auto simp: sample_agent_def sample_settings_def)

text \<open>\<open>monikor_update_init\<close> does not set the backoff count, which starts as whatever the memory
  of the agent holds.  From a count above 15 the cap has no effect: every rejected send keeps the
  count and moves the next update by \<open>2^n\<close> update intervals, however large.\<close>

theorem backoff_count_uninitialized:
  assumes "15 < mn_backoff_count mon" and "unat (mn_backoff_count mon) < 63"
  shows "mn_backoff_count (monikor_update_backoff (monikor_update_init now t mon)) = mn_backoff_count mon
    \<and> mn_next_update (monikor_update_backoff (monikor_update_init now t mon))
        = t + size_of_int (cf_update_interval (mn_config mon)) * 2 ^ unat (mn_backoff_count mon)"
proof -
  have "(2::nat) ^ unat (mn_backoff_count mon) < 2 ^ 63"
    using assms(2) by (intro power_strict_increasing) simp_all
  moreover have "0 < mn_backoff_count mon" "\<not> mn_backoff_count mon < 15"
    using assms(1) by (auto intro: order.strict_trans1 [rotated] simp: word_neq_0_conv [symmetric])
  ultimately show ?thesis
    by (simp add: monikor_update_init_def monikor_update_backoff_def Let_def powf_time_def
        MONIKOR_UPDATE_BACKOFF_COUNT_MAX_def MONIKOR_UPDATE_BACKOFF_EXP_def)
qed

theorem backoff_count_uninitialized_witness:
  "mn_next_update (monikor_update_backoff (monikor_update_init \<lparr>tv_sec = 1, tv_usec = 0\<rparr> 1
     (sample_agent\<lparr>mn_backoff_count := 50\<rparr>))) = 1 + 30 * 2 ^ 50"
  using backoff_count_uninitialized [of "sample_agent\<lparr>mn_backoff_count := 50\<rparr>"]
  by (simp add: sample_agent_def sample_settings_def size_of_int_scast)

end
