(* ===== verification/IO_Poll.thy ===== *)
theory IO_Poll
  imports IO_List Agent
begin

text \<open>
  The event loop of the agent: \<open>src/io_handler/monikor.c\<close> and \<open>poll.c\<close>.

  A callback is a name (the type variables of the lists of handlers); \<open>callbacks\<close> says what each name
  does to the lists and to the rest of the program's state, given the address of its handler.  A
  callback may end the process (\<open>Exited\<close>).  \<open>None\<close> is undefined behaviour, following a null pointer or
  a pointer to freed memory, or a loop that does not end.  \<open>select\<close>, \<open>waitpid\<close>, \<open>kill\<close> and libcurl's multi
  interface are parameters.
\<close>

subsection \<open>State and callbacks\<close>

record ('i, 'c, 'p, 's) io_world =
  iw_lists :: "('i, 'c, 'p) handler_lists"
  iw_state :: 's

datatype 'w outcome = Running 'w | Exited 'w

record ('i, 'c, 'p, 's) callbacks =
  cb_io :: "'i \<Rightarrow> nat \<Rightarrow> u8 \<Rightarrow> ('i, 'c, 'p, 's) io_world \<Rightarrow> ('i, 'c, 'p, 's) io_world outcome option"
  cb_curl :: "'c \<Rightarrow> nat \<Rightarrow> cint \<Rightarrow> ('i, 'c, 'p, 's) io_world \<Rightarrow> ('i, 'c, 'p, 's) io_world outcome option"
  cb_process :: "'p \<Rightarrow> nat \<Rightarrow> cint \<Rightarrow> ('i, 'c, 'p, 's) io_world \<Rightarrow> ('i, 'c, 'p, 's) io_world outcome option"

definition io_of :: "('i, 'c, 'p, 's) io_world \<Rightarrow> 'i io_handler dll" where
  "io_of w = hl_io (iw_lists w)"

definition processes_of :: "('i, 'c, 'p, 's) io_world \<Rightarrow> 'p process_handler dll" where
  "processes_of w = hl_processes (iw_lists w)"

definition with_io :: "'i io_handler dll \<Rightarrow> ('i, 'c, 'p, 's) io_world \<Rightarrow> ('i, 'c, 'p, 's) io_world" where
  "with_io l w = w\<lparr>iw_lists := (iw_lists w)\<lparr>hl_io := l\<rparr>\<rparr>"

definition with_processes :: "'p process_handler dll \<Rightarrow> ('i, 'c, 'p, 's) io_world \<Rightarrow> ('i, 'c, 'p, 's) io_world" where
  "with_processes l w = w\<lparr>iw_lists := (iw_lists w)\<lparr>hl_processes := l\<rparr>\<rparr>"

text \<open>\<open>free(p)\<close>, and a new node at an address.\<close>

definition dll_free :: "'a dll \<Rightarrow> nat \<Rightarrow> 'a dll" where
  "dll_free l a = l\<lparr>dl_heap := (dl_heap l)(a := None)\<rparr>"

definition dll_alloc :: "'a dll \<Rightarrow> nat \<Rightarrow> 'a dnode \<Rightarrow> 'a dll" where
  "dll_alloc l a n = l\<lparr>dl_heap := (dl_heap l)(a := Some n)\<rparr>"

lemma dll_is_heap_update:
  "a \<notin> set xs \<Longrightarrow> dll_is (dll_free l a) xs \<longleftrightarrow> dll_is l xs"
  "a \<notin> set xs \<Longrightarrow> dll_is (dll_alloc l a n) xs \<longleftrightarrow> dll_is l xs"
  by (simp_all add: dll_is_def dll_free_def dll_alloc_def)

lemma world_simps [simp]:
  "io_of (with_io l w) = l" "processes_of (with_processes l' w) = l'"
  "io_of (with_processes l' w) = io_of w" "processes_of (with_io l w) = processes_of w"
  "iw_state (with_io l w) = iw_state w" "iw_state (with_processes l' w) = iw_state w"
  by (simp_all add: io_of_def processes_of_def with_io_def with_processes_def)

subsection \<open>Registering handlers\<close>

definition monikor_register_io_handler ::
  "nat \<Rightarrow> ('i, 'c, 'p, 's) io_world \<Rightarrow> ('i, 'c, 'p, 's) io_world option" where
  "monikor_register_io_handler handler w = do { l \<leftarrow> monikor_io_handler_list_push (io_of w) handler; Some (with_io l w) }"

definition monikor_unregister_io_handler ::
  "nat \<Rightarrow> ('i, 'c, 'p, 's) io_world \<Rightarrow> ('i, 'c, 'p, 's) io_world option" where
  "monikor_unregister_io_handler handler w = do { l \<leftarrow> monikor_io_handler_list_remove (io_of w) handler; Some (with_io l w) }"

definition monikor_register_process ::
  "nat \<Rightarrow> ('i, 'c, 'p, 's) io_world \<Rightarrow> ('i, 'c, 'p, 's) io_world option" where
  "monikor_register_process handler w =
     do { l \<leftarrow> monikor_io_handler_list_push_process (processes_of w) handler; Some (with_processes l w) }"

definition monikor_unregister_process ::
  "nat \<Rightarrow> ('i, 'c, 'p, 's) io_world \<Rightarrow> ('i, 'c, 'p, 's) io_world option" where
  "monikor_unregister_process handler w =
     do { l \<leftarrow> monikor_io_handler_list_remove_process (processes_of w) handler; Some (with_processes l w) }"

subsection \<open>Child processes\<close>

partial_function (option) watched_loop :: "'p process_handler dll \<Rightarrow> nat option \<Rightarrow> cint \<Rightarrow> bool option" where
  "watched_loop l handler pid =
     (case handler of
        None \<Rightarrow> Some False
      | Some a \<Rightarrow> do { n \<leftarrow> dl_heap l a;
                      if ph_pid (dn_data n) = pid then Some True else watched_loop l (dn_next n) pid })"

definition monikor_process_watched :: "('i, 'c, 'p, 's) io_world \<Rightarrow> cint \<Rightarrow> bool option" where
  "monikor_process_watched w pid = watched_loop (processes_of w) (dl_first (processes_of w)) pid"

text \<open>\<open>handler->next\<close> is read after the callback.\<close>

partial_function (option) exited_loop ::
  "('i, 'c, 'p, 's) callbacks \<Rightarrow> cint \<Rightarrow> cint \<Rightarrow> nat option \<Rightarrow> ('i, 'c, 'p, 's) io_world
     \<Rightarrow> ('i, 'c, 'p, 's) io_world outcome option" where
  "exited_loop cbs pid status handler w =
     (case handler of
        None \<Rightarrow> Some (Running w)
      | Some a \<Rightarrow> do {
          n \<leftarrow> dl_heap (processes_of w) a;
          if ph_pid (dn_data n) \<noteq> pid then exited_loop cbs pid status (dn_next n) w
          else do {
            r \<leftarrow> (case ph_callback (dn_data n) of None \<Rightarrow> Some (Running w) | Some cb \<Rightarrow> cb_process cbs cb a status w);
            case r of
              Exited w \<Rightarrow> Some (Exited w)
            | Running w \<Rightarrow> do { n \<leftarrow> dl_heap (processes_of w) a; exited_loop cbs pid status (dn_next n) w } } })"

text \<open>\<open>waitpid\<close> gives the status, or \<open>None\<close> with the status left 0.\<close>

definition monikor_process_exited ::
  "('i, 'c, 'p, 's) callbacks \<Rightarrow> cint option \<Rightarrow> cint \<Rightarrow> ('i, 'c, 'p, 's) io_world
     \<Rightarrow> ('i, 'c, 'p, 's) io_world outcome option" where
  "monikor_process_exited cbs waitpid pid w = do {
     watched \<leftarrow> monikor_process_watched w pid;
     if \<not> watched then Some (Running w)
     else exited_loop cbs pid (case waitpid of Some status \<Rightarrow> status | None \<Rightarrow> 0) (dl_first (processes_of w)) w }"

definition reap_process_callback ::
  "nat \<Rightarrow> cint \<Rightarrow> ('i, 'c, 'p, 's) io_world \<Rightarrow> ('i, 'c, 'p, 's) io_world outcome option" where
  "reap_process_callback handler status w = do {
     w \<leftarrow> monikor_unregister_process handler w;
     Some (Running (with_processes (dll_free (processes_of w) handler) w)) }"

definition ESRCH :: cint where "ESRCH = 3"

text \<open>\<open>kill\<close> gives the error number when it failed; \<open>addr\<close> is where \<open>malloc\<close> put the handler.\<close>

definition monikor_reap_process ::
  "cint option \<Rightarrow> nat \<Rightarrow> 'p \<Rightarrow> cint \<Rightarrow> ('i, 'c, 'p, 's) io_world \<Rightarrow> alloc
     \<Rightarrow> (('i, 'c, 'p, 's) io_world \<times> cint \<times> alloc) option" where
  "monikor_reap_process kill addr reap_callback pid w al =
     (case monikor_process_handler_new pid (Some reap_callback) al of
        (None, al) \<Rightarrow> Some (w, -1, al)
      | (Some reaper, al) \<Rightarrow> do {
          w \<leftarrow> monikor_register_process addr (with_processes (dll_alloc (processes_of w) addr reaper) w);
          Some (w, if kill \<noteq> None \<and> kill \<noteq> Some ESRCH then -1 else 0, al) })"

subsection \<open>Waiting for events\<close>

text \<open>The sets that select(2) watches, and the greatest descriptor of libcurl's.\<close>

record fd_sets =
  fs_rd :: "cint set"
  fs_wr :: "cint set"

partial_function (option) fd_sets_loop ::
  "'i io_handler dll \<Rightarrow> nat option \<Rightarrow> fd_sets \<Rightarrow> cint \<Rightarrow> (fd_sets \<times> cint) option" where
  "fd_sets_loop l handler fds ndfs =
     (case handler of
        None \<Rightarrow> Some (fds, ndfs + 1)
      | Some a \<Rightarrow> do {
          n \<leftarrow> dl_heap l a;
          let h = dn_data n;
          if ih_fd h = -1 then fd_sets_loop l (dn_next n) fds ndfs
          else if ih_mode h AND MONIKOR_IO_HANDLER_RD \<noteq> 0 then
            fd_sets_loop l (dn_next n) (fds\<lparr>fs_rd := insert (ih_fd h) (fs_rd fds)\<rparr>) (if ndfs <s ih_fd h then ih_fd h else ndfs)
          else if ih_mode h AND MONIKOR_IO_HANDLER_WR \<noteq> 0 then
            fd_sets_loop l (dn_next n) (fds\<lparr>fs_wr := insert (ih_fd h) (fs_wr fds)\<rparr>) (if ndfs <s ih_fd h then ih_fd h else ndfs)
          else fd_sets_loop l (dn_next n) fds ndfs })"

definition set_fd_sets :: "fd_sets \<times> cint \<Rightarrow> ('i, 'c, 'p, 's) io_world \<Rightarrow> (fd_sets \<times> cint) option" where
  "set_fd_sets curl_fdset w =
     (case curl_fdset of (fds, ndfs) \<Rightarrow> fd_sets_loop (io_of w) (dl_first (io_of w)) fds ndfs)"

definition update_timeout_if_needed :: "clong \<Rightarrow> timeval \<Rightarrow> timeval \<times> cint" where
  "update_timeout_if_needed curl_timeout timeout =
     (if curl_timeout = 0 then (timeout, -1)
      else if 0 <s curl_timeout \<and> curl_timeout div 1000 <s tv_sec timeout
      then (\<lparr>tv_sec = curl_timeout div 1000, tv_usec = 1000 * (curl_timeout mod 1000)\<rparr>, 0)
      else (timeout, 0))"

text \<open>A message of libcurl: is it \<open>CURLMSG_DONE\<close>, of which transfer, with what result.\<close>

record curl_msg =
  cm_done :: bool
  cm_easy :: nat
  cm_result :: cint

partial_function (option) find_curl_loop :: "'c curl_handler dll \<Rightarrow> nat option \<Rightarrow> nat \<Rightarrow> nat option option" where
  "find_curl_loop l handler easy =
     (case handler of
        None \<Rightarrow> Some None
      | Some a \<Rightarrow> do { n \<leftarrow> dl_heap l a;
                      if ch_curl (dn_data n) = easy then Some (Some a) else find_curl_loop l (dn_next n) easy })"

definition with_curl :: "'c curl_list \<Rightarrow> ('i, 'c, 'p, 's) io_world \<Rightarrow> ('i, 'c, 'p, 's) io_world" where
  "with_curl c w = w\<lparr>iw_lists := (iw_lists w)\<lparr>hl_curl := c\<rparr>\<rparr>"

definition curl_free :: "'c curl_list \<Rightarrow> nat \<Rightarrow> 'c curl_list" where
  "curl_free c a = c\<lparr>cl_handlers := dll_free (cl_handlers c) a\<rparr>"

text \<open>
  The messages that \<open>curl_multi_info_read\<close> hands out one after another.  The code reads the result of a
  message after its handle has left the multi handle, when libcurl no longer promises that the message
  is there; here the result is what the message held.
\<close>

fun perform_curl_handling ::
  "('i, 'c, 'p, 's) callbacks \<Rightarrow> curl_msg list \<Rightarrow> ('i, 'c, 'p, 's) io_world
     \<Rightarrow> ('i, 'c, 'p, 's) io_world outcome option" where
  "perform_curl_handling cbs [] w = Some (Running w)"
| "perform_curl_handling cbs (msg # msgs) w =
     (if \<not> cm_done msg then perform_curl_handling cbs msgs w
      else do {
        let c = hl_curl (iw_lists w);
        handler \<leftarrow> find_curl_loop (cl_handlers c) (dl_first (cl_handlers c)) (cm_easy msg);
        case handler of
          None \<Rightarrow> perform_curl_handling cbs msgs
                    (with_curl (c\<lparr>cl_multi := removeAll (cm_easy msg) (cl_multi c)\<rparr>) w)
        | Some a \<Rightarrow> do {
            c \<leftarrow> monikor_io_handler_list_remove_curl c a;
            n \<leftarrow> dl_heap (cl_handlers c) a;
            let w = with_curl c w;
            r \<leftarrow> (case ch_callback (dn_data n) of None \<Rightarrow> Some (Running w) | Some cb \<Rightarrow> cb_curl cbs cb a (cm_result msg) w);
            case r of
              Exited w \<Rightarrow> Some (Exited w)
            | Running w \<Rightarrow> perform_curl_handling cbs msgs (with_curl (curl_free (hl_curl (iw_lists w)) a) w) } })"

definition ready_mode :: "fd_sets \<Rightarrow> cint \<Rightarrow> u8" where
  "ready_mode fds fd = (if fd \<in> fs_rd fds then MONIKOR_IO_HANDLER_RD else 0)
     OR (if fd \<in> fs_wr fds then MONIKOR_IO_HANDLER_WR else 0)"

text \<open>The handlers whose descriptor is ready; the next one is remembered before the callback.\<close>

partial_function (option) dispatch_loop ::
  "('i, 'c, 'p, 's) callbacks \<Rightarrow> fd_sets \<Rightarrow> nat option \<Rightarrow> ('i, 'c, 'p, 's) io_world
     \<Rightarrow> ('i, 'c, 'p, 's) io_world outcome option" where
  "dispatch_loop cbs fds handler w =
     (case handler of
        None \<Rightarrow> Some (Running w)
      | Some a \<Rightarrow> do {
          n \<leftarrow> dl_heap (io_of w) a;
          let h = dn_data n;
          let mode = ready_mode fds (ih_fd h);
          r \<leftarrow> (if ih_fd h \<noteq> -1 \<and> mode \<noteq> 0 then
                 (case ih_callback h of None \<Rightarrow> Some (Running w) | Some cb \<Rightarrow> cb_io cbs cb a mode w)
               else Some (Running w));
          case r of
            Exited w \<Rightarrow> Some (Exited w)
          | Running w \<Rightarrow> dispatch_loop cbs fds (dn_next n) w })"

text \<open>One round of libcurl: its messages, its descriptors, its timeout.  One call of select: what it
  returned, whether it was interrupted, the sets it left.\<close>

record curl_round =
  cr_msgs :: "curl_msg list"
  cr_fdset :: "fd_sets \<times> cint"
  cr_timeout :: clong

record select_result =
  sr_err :: cint
  sr_eintr :: bool
  sr_fds :: fd_sets

fun curl_rounds ::
  "('i, 'c, 'p, 's) callbacks \<Rightarrow> curl_round list \<Rightarrow> timeval \<Rightarrow> ('i, 'c, 'p, 's) io_world
     \<Rightarrow> ((('i, 'c, 'p, 's) io_world \<times> timeval \<times> cint) outcome) option" where
  "curl_rounds cbs [] timeout w = None"
| "curl_rounds cbs (cr # rounds) timeout w = do {
     r \<leftarrow> perform_curl_handling cbs (cr_msgs cr) w;
     case r of
       Exited w \<Rightarrow> Some (Exited (w, timeout, 0))
     | Running w \<Rightarrow> do {
         (fds, ndfs) \<leftarrow> set_fd_sets (cr_fdset cr) w;
         case update_timeout_if_needed (cr_timeout cr) timeout of
           (timeout, again) \<Rightarrow>
             if again \<noteq> 0 then curl_rounds cbs rounds timeout w else Some (Running (w, timeout, ndfs)) } }"

fun select_loop :: "select_result list \<Rightarrow> (cint \<times> fd_sets) option" where
  "select_loop [] = None"
| "select_loop (r # rs) = (if sr_err r = -1 \<and> sr_eintr r then select_loop rs else Some (sr_err r, sr_fds r))"

definition monikor_io_handler_poll ::
  "('i, 'c, 'p, 's) callbacks \<Rightarrow> curl_round list \<Rightarrow> select_result list \<Rightarrow> timeval \<Rightarrow> ('i, 'c, 'p, 's) io_world
     \<Rightarrow> (('i, 'c, 'p, 's) io_world outcome \<times> cint) option" where
  "monikor_io_handler_poll cbs rounds selects timeout w = do {
     r \<leftarrow> curl_rounds cbs rounds timeout w;
     case r of
       Exited (w, _) \<Rightarrow> Some (Exited w, 0)
     | Running (w, _, ndfs) \<Rightarrow>
         if ndfs \<le>s 0 then Some (Running w, ndfs)
         else do {
           (err, fds) \<leftarrow> select_loop selects;
           if err \<le>s 0 then Some (Running w, err)
           else do { r \<leftarrow> dispatch_loop cbs fds (dl_first (io_of w)) w; Some (r, err) } } }"

subsection \<open>Following the lists\<close>

definition data_at :: "'a dll \<Rightarrow> nat \<Rightarrow> 'a" where
  "data_at l a = dn_data (the (dl_heap l a))"

lemma watched_chain:
  "dchain (dl_heap l) p xs None \<Longrightarrow>
     watched_loop l (hd_opt xs None) pid = Some (\<exists>a\<in>set xs. ph_pid (data_at l a) = pid)"
proof (induction xs arbitrary: p)
  case Nil
  then show ?case by (simp add: watched_loop.simps)
next
  case (Cons x xs)
  then show ?case by (subst watched_loop.simps) (auto simp: data_at_def)
qed

lemma exited_skip:
  "dchain (dl_heap (processes_of w)) p (xs @ ys) None \<Longrightarrow> \<forall>a\<in>set xs. ph_pid (data_at (processes_of w) a) \<noteq> pid \<Longrightarrow>
     exited_loop cbs pid status (hd_opt (xs @ ys) None) w = exited_loop cbs pid status (hd_opt ys None) w"
proof (induction xs arbitrary: p)
  case Nil
  then show ?case by simp
next
  case (Cons x xs)
  then obtain n where n: "dl_heap (processes_of w) x = Some n" "dn_next n = hd_opt (xs @ ys) None" "ph_pid (dn_data n) \<noteq> pid"
    by (auto simp: data_at_def)
  have "exited_loop cbs pid status (Some x) w = exited_loop cbs pid status (hd_opt (xs @ ys) None) w"
    by (subst exited_loop.simps) (simp add: n)
  moreover have "dchain (dl_heap (processes_of w)) (Some x) (xs @ ys) None" using Cons.prems(1) by simp
  ultimately show ?case using Cons.IH Cons.prems(2) by simp
qed

lemma sint_of_int_cint: "- (2 ^ 31) \<le> i \<Longrightarrow> i < 2 ^ 31 \<Longrightarrow> sint (of_int i :: cint) = i"
  by (simp add: signed_of_int signed_take_bit_int_eq_self)

lemma fd_sets_chain:
  "dchain (dl_heap l) p xs None \<Longrightarrow> (\<And>a. a \<in> set xs \<Longrightarrow> sint (ih_fd (data_at l a)) < 2 ^ 31 - 1) \<Longrightarrow>
   - 1 \<le> sint n \<Longrightarrow> sint n < 2 ^ 31 - 1 \<Longrightarrow>
   \<exists>fds' n'. fd_sets_loop l (hd_opt xs None) fds n = Some (fds', n') \<and> sint n < sint n'
     \<and> fs_rd fds \<subseteq> fs_rd fds' \<and> fs_wr fds \<subseteq> fs_wr fds'
     \<and> (\<forall>a\<in>set xs. let h = data_at l a in ih_fd h \<noteq> -1 \<longrightarrow>
          (ih_mode h AND MONIKOR_IO_HANDLER_RD \<noteq> 0 \<longrightarrow> ih_fd h \<in> fs_rd fds' \<and> sint (ih_fd h) < sint n')
        \<and> (ih_mode h AND MONIKOR_IO_HANDLER_RD = 0 \<and> ih_mode h AND MONIKOR_IO_HANDLER_WR \<noteq> 0
             \<longrightarrow> ih_fd h \<in> fs_wr fds' \<and> sint (ih_fd h) < sint n'))"
proof (induction xs arbitrary: p fds n)
  case Nil
  have "sint (n + 1) = sint n + 1"
  proof -
    have "sint (of_int (sint n + 1) :: cint) = sint n + 1" using Nil(3,4) by (intro sint_of_int_cint) simp_all
    then show ?thesis by simp
  qed
  then show ?case by (simp add: fd_sets_loop.simps)
next
  case (Cons x xs)
  then obtain m where m: "dl_heap l x = Some m" "dn_next m = hd_opt xs None" "data_at l x = dn_data m"
    by (auto simp: data_at_def)
  define h where "h = dn_data m"
  define rd where "rd \<longleftrightarrow> ih_fd h \<noteq> -1 \<and> ih_mode h AND MONIKOR_IO_HANDLER_RD \<noteq> 0"
  define wr where "wr \<longleftrightarrow> ih_fd h \<noteq> -1 \<and> ih_mode h AND MONIKOR_IO_HANDLER_RD = 0 \<and> ih_mode h AND MONIKOR_IO_HANDLER_WR \<noteq> 0"
  define fds1 where "fds1 = (if rd then fds\<lparr>fs_rd := insert (ih_fd h) (fs_rd fds)\<rparr>
    else if wr then fds\<lparr>fs_wr := insert (ih_fd h) (fs_wr fds)\<rparr> else fds)"
  define n1 where "n1 = (if (rd \<or> wr) \<and> n <s ih_fd h then ih_fd h else n)"
  have step: "fd_sets_loop l (Some x) fds n = fd_sets_loop l (hd_opt xs None) fds1 n1"
    by (subst fd_sets_loop.simps) (auto simp: m Let_def h_def [symmetric] rd_def wr_def fds1_def n1_def)
  have n1: "sint n \<le> sint n1" "sint n1 < 2 ^ 31 - 1" "rd \<or> wr \<Longrightarrow> sint (ih_fd h) \<le> sint n1"
    using Cons.prems(2) [of x] Cons.prems(4) m by (auto simp: n1_def h_def word_sless_alt)
  with Cons.prems(3) have "- 1 \<le> sint n1" by simp
  with Cons.IH [of "Some x" n1 fds1] Cons.prems n1(2) obtain fds' n' where
    r: "fd_sets_loop l (hd_opt xs None) fds1 n1 = Some (fds', n')" "sint n1 < sint n'"
    "fs_rd fds1 \<subseteq> fs_rd fds'" "fs_wr fds1 \<subseteq> fs_wr fds'"
    "\<forall>a\<in>set xs. let h = data_at l a in ih_fd h \<noteq> -1 \<longrightarrow>
          (ih_mode h AND MONIKOR_IO_HANDLER_RD \<noteq> 0 \<longrightarrow> ih_fd h \<in> fs_rd fds' \<and> sint (ih_fd h) < sint n')
        \<and> (ih_mode h AND MONIKOR_IO_HANDLER_RD = 0 \<and> ih_mode h AND MONIKOR_IO_HANDLER_WR \<noteq> 0
             \<longrightarrow> ih_fd h \<in> fs_wr fds' \<and> sint (ih_fd h) < sint n')" by auto
  have "fs_rd fds \<subseteq> fs_rd fds1" "fs_wr fds \<subseteq> fs_wr fds1" "rd \<Longrightarrow> ih_fd h \<in> fs_rd fds1" "wr \<Longrightarrow> ih_fd h \<in> fs_wr fds1"
    by (auto simp: fds1_def rd_def wr_def)
  with r n1 m step show ?case
    by (intro exI [of _ fds'] exI [of _ n'])
      (auto simp: Let_def h_def [symmetric] rd_def wr_def)
qed

lemma fd_sets_total: "dchain (dl_heap l) p xs None \<Longrightarrow> \<exists>r. fd_sets_loop l (hd_opt xs None) fds n = Some r"
proof (induction xs arbitrary: p fds n)
  case Nil
  then show ?case by (simp add: fd_sets_loop.simps)
next
  case (Cons x xs)
  from Cons.prems have "dchain (dl_heap l) (Some x) xs None" by simp
  note IH = Cons.IH [OF this]
  from Cons.prems obtain m where "dl_heap l x = Some m" "dn_next m = hd_opt xs None" by auto
  then show ?case using IH by (subst hd_opt_simps, subst fd_sets_loop.simps) (simp add: Let_def)
qed

lemma select_loop_total: "\<exists>sr\<in>set srs. \<not> (sr_err sr = -1 \<and> sr_eintr sr) \<Longrightarrow> \<exists>r. select_loop srs = Some r"
  by (induction srs) auto

text \<open>A poll in which libcurl has no message and its timeout is not 0, and select is not interrupted for ever.\<close>

definition quiet_poll :: "curl_round list \<Rightarrow> select_result list \<Rightarrow> bool" where
  "quiet_poll crs srs \<longleftrightarrow> (\<exists>cr. crs = [cr] \<and> cr_msgs cr = [] \<and> cr_timeout cr \<noteq> 0)
     \<and> (\<exists>sr\<in>set srs. \<not> (sr_err sr = -1 \<and> sr_eintr sr))"

subsection \<open>Callbacks that change the list they are called from\<close>

text \<open>Some callback ends the process in this world.\<close>

definition ends_in :: "('i, 'c, 'p, 's) callbacks \<Rightarrow> ('i, 'c, 'p, 's) io_world \<Rightarrow> bool" where
  "ends_in cbs w' \<longleftrightarrow> (\<exists>cb a mode w. cb_io cbs cb a mode w = Some (Exited w'))"

text \<open>A callback may leave the list as it is, take its own handler out, or append a new one; the handlers
  that may append are told by \<open>grows\<close>, and a handler that was appended does not.  It may also end the process.
  \<open>inv\<close> is what the callbacks keep of a world and its list.\<close>

locale io_rounds =
  fixes cbs :: "('i, 'c, 'p, 's) callbacks"
    and inv :: "('i, 'c, 'p, 's) io_world \<Rightarrow> nat list \<Rightarrow> bool"
    and grows :: "('i, 'c, 'p, 's) io_world \<Rightarrow> nat \<Rightarrow> bool"
  assumes callback_ok: "inv w xs \<Longrightarrow> dll_is (io_of w) xs \<Longrightarrow> a \<in> set xs \<Longrightarrow> ih_callback (data_at (io_of w) a) = Some cb \<Longrightarrow>
      \<exists>r. cb_io cbs cb a mode w = Some r \<and> (\<forall>w'. r = Running w' \<longrightarrow> (\<exists>ys. inv w' ys \<and> dll_is (io_of w') ys
        \<and> (ys = xs \<or> ys = remove1 a xs \<or> grows w a \<and> (\<exists>b. b \<notin> set xs \<and> ys = xs @ [b] \<and> \<not> grows w' b))
        \<and> (\<forall>b\<in>set ys \<inter> set xs. grows w' b = grows w b)))"
begin

definition work :: "('i, 'c, 'p, 's) io_world \<Rightarrow> nat list \<Rightarrow> nat" where
  "work w todo = length todo + length (filter (grows w) todo)"

text \<open>The callback of the next handler leaves less work.\<close>

lemma work_decreases:
  assumes "dll_is (io_of w) (dn @ a # rest)"
    and "ys = dn @ a # rest \<or> ys = remove1 a (dn @ a # rest)
      \<or> grows w a \<and> (\<exists>b. b \<notin> set (dn @ a # rest) \<and> ys = (dn @ a # rest) @ [b] \<and> \<not> grows w' b)"
    and "\<forall>b\<in>set ys \<inter> set (dn @ a # rest). grows w' b = grows w b"
  obtains dn' todo' where "ys = dn' @ todo'" and "hd_opt todo' None = hd_opt rest None" and "work w' todo' < work w (a # rest)"
proof -
  have a: "a \<notin> set dn" "distinct (dn @ a # rest)" using assms(1) by (auto simp: dll_is_def)
  have "set rest \<subseteq> set ys" using assms(2) a by (auto simp: remove1_append)
  then have same: "filter (grows w') rest = filter (grows w) rest"
    using assms(3) by (intro filter_cong refl) auto
  from assms(2) consider "ys = dn @ a # rest" | "ys = dn @ rest" | b where "grows w a" "ys = dn @ a # rest @ [b]" "\<not> grows w' b"
    using a(1) by (auto simp: remove1_append)
  then show ?thesis
  proof cases
    case 1
    with same show ?thesis by (intro that [of "dn @ [a]" rest]) (auto simp: work_def)
  next
    case 2
    with same show ?thesis by (intro that [of dn rest]) (auto simp: work_def)
  next
    case 3
    show ?thesis
    proof (cases rest)
      case Nil
      with 3 show ?thesis by (intro that [of ys "[]"]) (simp_all add: work_def)
    next
      case (Cons c cs)
      then have "hd_opt (rest @ [b]) None = hd_opt rest None" by simp
      moreover have "work w' (rest @ [b]) < work w (a # rest)" using 3(1,3) by (simp add: work_def same)
      ultimately show ?thesis using 3(2) by (intro that [of "dn @ [a]" "rest @ [b]"]) simp_all
    qed
  qed
qed

lemma dispatch_returns:
  assumes "dll_is (io_of w) (dn @ todo)" and "inv w (dn @ todo)"
  shows "\<exists>r. dispatch_loop cbs fds (hd_opt todo None) w = Some r
    \<and> (\<forall>w'. r = Running w' \<longrightarrow> (\<exists>ys. inv w' ys \<and> dll_is (io_of w') ys)) \<and> (\<forall>w'. r = Exited w' \<longrightarrow> ends_in cbs w')"
  using assms
proof (induction "work w todo" arbitrary: dn todo w rule: less_induct)
  case less
  show ?case
  proof (cases todo)
    case Nil
    with less.prems show ?thesis by (auto simp: dispatch_loop.simps)
  next
    case (Cons a rest)
    with less.prems(1) obtain n where n: "dl_heap (io_of w) a = Some n" "dn_next n = hd_opt rest None" by (auto simp: dll_is_def)
    let ?mode = "ready_mode fds (ih_fd (dn_data n))"
    define r where "r = (if ih_fd (dn_data n) \<noteq> -1 \<and> ?mode \<noteq> 0 then
                   (case ih_callback (dn_data n) of None \<Rightarrow> Some (Running w) | Some cb \<Rightarrow> cb_io cbs cb a ?mode w)
                 else Some (Running w))"
    have step: "dispatch_loop cbs fds (hd_opt todo None) w =
        do { r \<leftarrow> r; case r of Exited w \<Rightarrow> Some (Exited w) | Running w \<Rightarrow> dispatch_loop cbs fds (hd_opt rest None) w }"
      unfolding Cons by (subst hd_opt_simps, subst dispatch_loop.simps) (simp add: n Let_def r_def)
    have stay: "\<exists>ys. inv w ys \<and> dll_is (io_of w) ys \<and> ys = dn @ todo" using less.prems by simp
    have "\<exists>r'. r = Some r' \<and> (\<forall>w'. r' = Running w' \<longrightarrow> (\<exists>ys. inv w' ys \<and> dll_is (io_of w') ys
        \<and> (ys = dn @ todo \<or> ys = remove1 a (dn @ todo) \<or> grows w a \<and> (\<exists>b. b \<notin> set (dn @ todo) \<and> ys = (dn @ todo) @ [b] \<and> \<not> grows w' b))
        \<and> (\<forall>b\<in>set ys \<inter> set (dn @ todo). grows w' b = grows w b))) \<and> (\<forall>w'. r' = Exited w' \<longrightarrow> ends_in cbs w')"
    proof (cases "ih_fd (dn_data n) \<noteq> -1 \<and> ?mode \<noteq> 0 \<and> ih_callback (dn_data n) \<noteq> None")
      case True
      then obtain cb where "ih_callback (data_at (io_of w) a) = Some cb" "r = cb_io cbs cb a ?mode w"
        using n(1) by (auto simp: data_at_def r_def)
      with callback_ok [OF less.prems(2,1), of a cb ?mode] Cons show ?thesis by (fastforce simp: ends_in_def)
    next
      case False
      then have "r = Some (Running w)" by (auto simp: r_def)
      with stay show ?thesis by auto
    qed
    then obtain r' where r': "r = Some r'" "\<And>w'. r' = Running w' \<Longrightarrow> \<exists>ys. inv w' ys \<and> dll_is (io_of w') ys
        \<and> (ys = dn @ todo \<or> ys = remove1 a (dn @ todo) \<or> grows w a \<and> (\<exists>b. b \<notin> set (dn @ todo) \<and> ys = (dn @ todo) @ [b] \<and> \<not> grows w' b))
        \<and> (\<forall>b\<in>set ys \<inter> set (dn @ todo). grows w' b = grows w b)" "\<And>w'. r' = Exited w' \<Longrightarrow> ends_in cbs w'" by blast
    show ?thesis
    proof (cases r')
      case (Exited w')
      with step r'(1,3) show ?thesis by simp
    next
      case (Running w')
      with r'(2) obtain ys where ys: "inv w' ys" "dll_is (io_of w') ys"
        "ys = dn @ a # rest \<or> ys = remove1 a (dn @ a # rest)
          \<or> grows w a \<and> (\<exists>b. b \<notin> set (dn @ a # rest) \<and> ys = (dn @ a # rest) @ [b] \<and> \<not> grows w' b)"
        "\<forall>b\<in>set ys \<inter> set (dn @ a # rest). grows w' b = grows w b" unfolding Cons by blast
      obtain dn' todo' where t: "ys = dn' @ todo'" "hd_opt todo' None = hd_opt rest None" "work w' todo' < work w (a # rest)"
        by (rule work_decreases [OF less.prems(1) [unfolded Cons] ys(3,4)])
      from less.hyps [of w' todo' dn'] t(1,3) ys(1,2) Cons step r'(1) Running show ?thesis by (simp add: t(2) [symmetric])
    qed
  qed
qed

lemma poll_returns:
  assumes "dll_is (io_of w) xs" and "inv w xs" and "quiet_poll crs srs"
  shows "\<exists>r e. monikor_io_handler_poll cbs crs srs timeout w = Some (r, e)
    \<and> (\<forall>w'. r = Running w' \<longrightarrow> (\<exists>ys. inv w' ys \<and> dll_is (io_of w') ys)) \<and> (\<forall>w'. r = Exited w' \<longrightarrow> ends_in cbs w')"
proof -
  from assms(3) obtain cr where cr: "crs = [cr]" "cr_msgs cr = []" "cr_timeout cr \<noteq> 0"
    and sr: "\<exists>r. select_loop srs = Some r" using select_loop_total by (auto simp: quiet_poll_def)
  obtain fds n where f: "set_fd_sets (cr_fdset cr) w = Some (fds, n)"
    using fd_sets_total assms(1) by (cases "cr_fdset cr") (fastforce simp: set_fd_sets_def dll_is_def)
  have "snd (update_timeout_if_needed (cr_timeout cr) timeout) = 0" using cr(3) by (simp add: update_timeout_if_needed_def)
  then obtain t where t: "curl_rounds cbs crs timeout w = Some (Running (w, t, n))"
    using cr f by (cases "update_timeout_if_needed (cr_timeout cr) timeout") simp
  obtain e fds' where s: "select_loop srs = Some (e, fds')" using sr by auto
  from dispatch_returns [of w "[]" xs fds'] assms(1,2) obtain r where
    "dispatch_loop cbs fds' (dl_first (io_of w)) w = Some r"
    "\<forall>w'. r = Running w' \<longrightarrow> (\<exists>ys. inv w' ys \<and> dll_is (io_of w') ys)" "\<forall>w'. r = Exited w' \<longrightarrow> ends_in cbs w'" by (auto simp: dll_is_def)
  with t s assms(1,2) show ?thesis by (auto simp: monikor_io_handler_poll_def)
qed

end

text \<open>Callbacks that never append: the contract does not mention the list.\<close>

definition keeps_handlers :: "nat \<Rightarrow> ('i, 'c, 'p, 's) io_world \<Rightarrow> ('i, 'c, 'p, 's) io_world \<Rightarrow> bool" where
  "keeps_handlers a w w' \<longleftrightarrow> (\<forall>xs. dll_is (io_of w) xs \<longrightarrow>
     dll_is (io_of w') xs \<or> dll_is (io_of w') (remove1 a xs))"

locale io_dispatch =
  fixes cbs :: "('i, 'c, 'p, 's) callbacks"
    and inv :: "('i, 'c, 'p, 's) io_world \<Rightarrow> bool"
  assumes run_ok: "inv w \<Longrightarrow> dl_heap (io_of w) a \<noteq> None \<Longrightarrow>
      \<exists>r. cb_io cbs cb a mode w = Some r \<and> (\<forall>w'. r = Running w' \<longrightarrow> inv w' \<and> keeps_handlers a w w')"

lemma dll_is_allocated: "dll_is l xs \<Longrightarrow> a \<in> set xs \<Longrightarrow> dl_heap l a \<noteq> None"
proof -
  have "dchain hp p xs nx \<Longrightarrow> a \<in> set xs \<Longrightarrow> hp a \<noteq> None" for hp :: "nat \<Rightarrow> 'a dnode option" and p nx
    by (induction xs arbitrary: p) auto
  then show "dll_is l xs \<Longrightarrow> a \<in> set xs \<Longrightarrow> dl_heap l a \<noteq> None" by (auto simp: dll_is_def)
qed

sublocale io_dispatch \<subseteq> rounds: io_rounds cbs "\<lambda>w xs. inv w" "\<lambda>w a. False"
proof
  fix w xs a cb mode
  assume w: "inv w" "dll_is (io_of w) xs" "a \<in> set xs"
  from run_ok [OF w(1) dll_is_allocated [OF w(2,3)], of cb mode] obtain r where r: "cb_io cbs cb a mode w = Some r"
    "\<And>w'. r = Running w' \<Longrightarrow> inv w' \<and> keeps_handlers a w w'" by blast
  have "\<exists>ys. inv w' \<and> dll_is (io_of w') ys \<and> (ys = xs \<or> ys = remove1 a xs)" if "r = Running w'" for w'
    using r(2) [OF that] w(2) by (auto simp: keeps_handlers_def)
  with r(1) show "\<exists>r. cb_io cbs cb a mode w = Some r \<and> (\<forall>w'. r = Running w' \<longrightarrow> (\<exists>ys. inv w' \<and> dll_is (io_of w') ys
      \<and> (ys = xs \<or> ys = remove1 a xs \<or> False \<and> (\<exists>b. b \<notin> set xs \<and> ys = xs @ [b] \<and> \<not> False)) \<and> (\<forall>b\<in>set ys \<inter> set xs. False = False)))"
    by auto
qed

context io_dispatch begin

lemma poll_returns:
  assumes "dll_is (io_of w) xs" and "inv w" and "quiet_poll crs srs"
  shows "\<exists>r e. monikor_io_handler_poll cbs crs srs timeout w = Some (r, e)
    \<and> (\<forall>w'. r = Running w' \<longrightarrow> inv w' \<and> (\<exists>ys. dll_is (io_of w') ys))"
  using rounds.poll_returns [OF assms] by blast

end

subsection \<open>Properties\<close>

text \<open>C38: when the process that was to be reaped has exited, its callback frees the handler whose \<open>next\<close> the loop
  then reads: the behaviour is undefined.\<close>

theorem reaped_process_use_after_free:
  assumes "dll_is (processes_of w) (xs @ a # ys)" and "\<forall>b\<in>set xs. ph_pid (data_at (processes_of w) b) \<noteq> pid"
    and "ph_pid (data_at (processes_of w) a) = pid" and "ph_callback (data_at (processes_of w) a) = Some cb"
    and "cb_process cbs cb = reap_process_callback"
  shows "monikor_process_exited cbs status pid w = None"
proof -
  from assms(1) have c: "dchain (dl_heap (processes_of w)) None (xs @ a # ys) None"
    and f: "dl_first (processes_of w) = hd_opt (xs @ a # ys) None" by (auto simp: dll_is_def)
  from c obtain n where n: "dl_heap (processes_of w) a = Some n" "ph_pid (dn_data n) = pid" "ph_callback (dn_data n) = Some cb"
    using assms(3,4) by (auto simp: data_at_def)
  have "monikor_process_watched w pid = Some True"
    using watched_chain [OF c, of pid] assms(3) by (auto simp: monikor_process_watched_def f)
  moreover have "exited_loop cbs pid st (Some a) w = None" for st
    using process_list.remove_ok [OF assms(1)]
    by (subst exited_loop.simps)
      (auto simp: n assms(5) reap_process_callback_def monikor_unregister_process_def dll_free_def split: bind_splits)
  ultimately show ?thesis
    using exited_skip [OF c assms(2)] by (simp add: monikor_process_exited_def f)
qed

text \<open>A world with one child process, 42, that is to be reaped.\<close>

definition reaper_world :: "(unit, unit, unit, unit) io_world" where
  "reaper_world = \<lparr>iw_lists = \<lparr>hl_io = empty_dll Map.empty, hl_curl = \<lparr>cl_multi = [], cl_handlers = empty_dll Map.empty\<rparr>,
     hl_processes = \<lparr>dl_heap = [7 \<mapsto> \<lparr>dn_data = \<lparr>ph_pid = 42, ph_callback = Some ()\<rparr>, dn_prev = None, dn_next = None\<rparr>],
       dl_first = Some 7, dl_last = Some 7\<rparr>\<rparr>, iw_state = ()\<rparr>"

theorem reaped_process_use_after_free_witness:
  "monikor_process_exited \<lparr>cb_io = \<lambda>_ _ _ w. Some (Running w), cb_curl = \<lambda>_ _ _ w. Some (Running w),
     cb_process = \<lambda>_. reap_process_callback\<rparr> (Some 0) 42 reaper_world = None"
  by (rule reaped_process_use_after_free [of _ "[]" 7 "[]" _ "()"])
    (simp_all add: reaper_world_def processes_of_def dll_is_def data_at_def)

text \<open>select(2) is given every descriptor of the list that has one and waits for input or for output, and a
  bound above all of them; what libcurl asked for stays in the sets.\<close>

theorem fd_sets_cover:
  assumes "dll_is (io_of w) xs" and "\<forall>a\<in>set xs. sint (ih_fd (data_at (io_of w) a)) < 2 ^ 31 - 1"
    and "- 1 \<le> sint n" and "sint n < 2 ^ 31 - 1"
  shows "\<exists>fds' n'. set_fd_sets (fds, n) w = Some (fds', n') \<and> sint n < sint n'
     \<and> fs_rd fds \<subseteq> fs_rd fds' \<and> fs_wr fds \<subseteq> fs_wr fds'
     \<and> (\<forall>a\<in>set xs. let h = data_at (io_of w) a in ih_fd h \<noteq> -1 \<longrightarrow>
          (ih_mode h AND MONIKOR_IO_HANDLER_RD \<noteq> 0 \<longrightarrow> ih_fd h \<in> fs_rd fds' \<and> sint (ih_fd h) < sint n')
        \<and> (ih_mode h AND MONIKOR_IO_HANDLER_RD = 0 \<and> ih_mode h AND MONIKOR_IO_HANDLER_WR \<noteq> 0
             \<longrightarrow> ih_fd h \<in> fs_wr fds' \<and> sint (ih_fd h) < sint n'))"
  using fd_sets_chain [of "io_of w" None xs n fds] assms by (auto simp: set_fd_sets_def dll_is_def)

text \<open>Two handlers: one that reads from 5, one without a descriptor.\<close>

definition two_handlers :: "(unit, unit, unit, unit) io_world" where
  "two_handlers = with_io \<lparr>dl_heap = [1 \<mapsto> \<lparr>dn_data = \<lparr>ih_fd = 5, ih_mode = 1, ih_callback = None\<rparr>, dn_prev = None, dn_next = Some 2\<rparr>,
       2 \<mapsto> \<lparr>dn_data = \<lparr>ih_fd = -1, ih_mode = 2, ih_callback = None\<rparr>, dn_prev = Some 1, dn_next = None\<rparr>],
     dl_first = Some 1, dl_last = Some 2\<rparr> reaper_world"

theorem fd_sets_cover_witness:
  "\<exists>fds' n'. set_fd_sets (\<lparr>fs_rd = {9}, fs_wr = {}\<rparr>, 9) two_handlers = Some (fds', n') \<and> 5 \<in> fs_rd fds' \<and> 9 \<in> fs_rd fds'"
  using fd_sets_cover [of two_handlers "[1, 2]" 9 "\<lparr>fs_rd = {9}, fs_wr = {}\<rparr>"]
  by (auto simp: two_handlers_def dll_is_def data_at_def MONIKOR_IO_HANDLER_RD_def MONIKOR_IO_HANDLER_WR_def Let_def)

end
