(* ===== verification/Serialize.thy ===== *)
theory Serialize
  imports Metric_List
begin

text \<open>
  The wire format of metric lists: \<open>lib/monikor/src/utils/serialize.c\<close>,
  \<open>lib/monikor/src/metrics/metric_list_serialize.c\<close> and \<open>metric_list_unserialize.c\<close>.

  A buffer is the list of its bytes, a pointer into it an offset.  A write or a read outside the
  buffer is undefined in C and is \<open>None\<close> here, so a theorem that an operation yields
  \<open>Some\<close> shows among others that it stays inside the buffer.  The byte order of the host is
  a parameter of the functions that depend on it.
\<close>

subsection \<open>Integers in memory and in network byte order\<close>

datatype endian = LE | BE

fun bytes_le :: "nat \<Rightarrow> 'a::len word \<Rightarrow> u8 list" where
  "bytes_le 0 w = []"
| "bytes_le (Suc n) w = ucast w # bytes_le n (drop_bit 8 w)"

fun word_le :: "u8 list \<Rightarrow> 'a::len word" where
  "word_le [] = 0"
| "word_le (b # bs) = ucast b OR push_bit 8 (word_le bs)"

text \<open>\<open>*(uintN_t *)p = w\<close> and \<open>*(uintN_t *)p\<close> on a host of the given byte order.\<close>

definition store_int :: "endian \<Rightarrow> nat \<Rightarrow> 'a::len word \<Rightarrow> u8 list" where
  "store_int e n w = (case e of LE \<Rightarrow> bytes_le n w | BE \<Rightarrow> rev (bytes_le n w))"

definition load_int :: "endian \<Rightarrow> u8 list \<Rightarrow> 'a::len word" where
  "load_int e bs = (case e of LE \<Rightarrow> word_le bs | BE \<Rightarrow> word_le (rev bs))"

text \<open>The libc conversions (\<open>ntohs\<close> and \<open>ntohl\<close> are the same functions).\<close>

definition htons :: "endian \<Rightarrow> u16 \<Rightarrow> u16" where
  "htons e x = (case e of BE \<Rightarrow> x | LE \<Rightarrow> push_bit 8 x OR drop_bit 8 x)"

definition htonl :: "endian \<Rightarrow> u32 \<Rightarrow> u32" where
  "htonl e x = (case e of BE \<Rightarrow> x | LE \<Rightarrow>
     push_bit 24 x OR push_bit 16 (take_bit 8 (drop_bit 8 x))
     OR push_bit 8 (take_bit 8 (drop_bit 16 x)) OR drop_bit 24 x)"

definition is_big_endian :: "endian \<Rightarrow> bool" where
  "is_big_endian e \<longleftrightarrow> \<not> hd (store_int e 2 (1 :: u16)) \<noteq> 0"

definition htonll :: "endian \<Rightarrow> u64 \<Rightarrow> u64" where
  "htonll e hostlong =
     (if is_big_endian e then hostlong
      else push_bit 32 (ucast (htonl e (ucast (hostlong AND 0xFFFFFFFF))))
           OR ucast (htonl e (ucast (drop_bit 32 hostlong))))"

definition ntohll :: "endian \<Rightarrow> u64 \<Rightarrow> u64" where
  "ntohll e netlong =
     (if is_big_endian e then netlong
      else push_bit 32 (ucast (htonl e (ucast (netlong AND 0xFFFFFFFF))))
           OR ucast (htonl e (ucast (drop_bit 32 netlong))))"

text \<open>A \<open>float\<close> is its 32 bits, so the unions of these functions are the identity.\<close>

definition ntohf :: "endian \<Rightarrow> u32 \<Rightarrow> f32" where
  "ntohf e netfloat = htonl e netfloat"

definition htonf :: "endian \<Rightarrow> f32 \<Rightarrow> u32" where
  "htonf e hostfloat = htonl e hostfloat"

lemma length_bytes_le [simp]: "length (bytes_le n w) = n"
  by (induction n arbitrary: w) simp_all

lemma length_store_int [simp]: "length (store_int e n w) = n"
  by (cases e) (simp_all add: store_int_def)

lemma word_le_bytes_le:
  fixes w :: "'a::len word"
  shows "word_le (bytes_le n w) = take_bit (8 * n) w"
proof (induction n arbitrary: w)
  case 0
  then show ?case by simp
next
  case (Suc n)
  show ?case
    by (rule bit_word_eqI) (auto simp: Suc bit_simps)
qed

lemma is_big_endian_iff [simp]: "is_big_endian e \<longleftrightarrow> e = BE"
  by (cases e) (simp_all add: is_big_endian_def store_int_def numeral_eq_Suc)

text \<open>The laws of a field of the wire format: its bytes do not depend on the host that writes them,
  and every host reads back what was written.\<close>

locale net_field =
  fixes wr :: "endian \<Rightarrow> 'a \<Rightarrow> u8 list"
    and rd :: "endian \<Rightarrow> u8 list \<Rightarrow> 'a"
    and n :: nat
  assumes wr_length: "length (wr e x) = n"
    and wr_host: "wr e x = wr BE x"
    and rd_wr_host: "rd e (wr e x) = x"
begin

lemma rd_wr: "rd e (wr e' x) = x"
  by (metis wr_host rd_wr_host)

lemma wr_inj: "wr e x = wr e' y \<Longrightarrow> x = y"
  by (metis rd_wr)

lemma rd_in_buffer: "rd e (take n (drop (length pre) (pre @ wr e' x @ post))) = x"
  by (simp add: wr_length rd_wr)

end

abbreviation wr_u8 :: "endian \<Rightarrow> u8 \<Rightarrow> u8 list" where
  "wr_u8 e x \<equiv> [x]"

definition wr_u16 :: "endian \<Rightarrow> u16 \<Rightarrow> u8 list" where
  "wr_u16 e x = store_int e 2 (htons e x)"
definition rd_u16 :: "endian \<Rightarrow> u8 list \<Rightarrow> u16" where
  "rd_u16 e bs = htons e (load_int e bs)"
definition wr_u64 :: "endian \<Rightarrow> u64 \<Rightarrow> u8 list" where
  "wr_u64 e x = store_int e 8 (htonll e x)"
definition rd_u64 :: "endian \<Rightarrow> u8 list \<Rightarrow> u64" where
  "rd_u64 e bs = ntohll e (load_int e bs)"
definition wr_f32 :: "endian \<Rightarrow> f32 \<Rightarrow> u8 list" where
  "wr_f32 e x = store_int e 4 (htonf e x)"
definition rd_f32 :: "endian \<Rightarrow> u8 list \<Rightarrow> f32" where
  "rd_f32 e bs = ntohf e (load_int e bs)"

lemma bytes_le_2: "bytes_le 2 w = [ucast w, ucast (drop_bit 8 w)]"
proof -
  have 2: "2 = Suc (Suc 0)" by simp
  show ?thesis by (simp only: 2 bytes_le.simps)
qed

lemma bytes_le_4:
  "bytes_le 4 w = [ucast w, ucast (drop_bit 8 w), ucast (drop_bit 16 w), ucast (drop_bit 24 w)]"
proof -
  have 4: "4 = Suc (Suc (Suc (Suc 0)))" by simp
  show ?thesis by (simp only: 4 bytes_le.simps drop_bit_drop_bit) simp
qed

lemma bytes_le_add: "bytes_le (m + n) w = bytes_le m w @ bytes_le n (drop_bit (8 * m) w)"
  by (induction m arbitrary: w) (simp_all add: add.commute)

text \<open>Swapping the bytes reverses them in memory.\<close>

lemma bytes_htons: "bytes_le 2 (htons LE x) = rev (bytes_le 2 x)"
  by (auto simp: bytes_le_2 htons_def bit_simps intro!: bit_word_eqI)

lemma bytes_htonl: "bytes_le 4 (htonl LE x) = rev (bytes_le 4 x)"
  by (auto simp: bytes_le_4 htonl_def bit_simps intro!: bit_word_eqI)

lemma ucast_low32: "ucast (x AND 0xFFFFFFFF :: u64) = (ucast x :: u32)"
proof -
  have "(0xFFFFFFFF :: u64) = mask 32" by (simp add: mask_eq_exp_minus_1)
  then have "x AND 0xFFFFFFFF = take_bit 32 x" by (simp only: take_bit_eq_mask)
  then show ?thesis by (auto simp: bit_simps intro!: bit_word_eqI)
qed

lemma bytes_join32:
  "bytes_le 8 (push_bit 32 (ucast (h :: u32)) OR ucast (l :: u32) :: u64) = bytes_le 4 l @ bytes_le 4 h"
proof -
  let ?w = "push_bit 32 (ucast h) OR ucast l :: u64"
  have "bytes_le 8 ?w = bytes_le 4 ?w @ bytes_le 4 (drop_bit 32 ?w)"
    using bytes_le_add [of 4 4 ?w] by simp
  moreover have "\<not> bit l k" if "32 \<le> k" for k
    using that bit_imp_le_length [of l k] by auto
  ultimately show ?thesis
    by (auto simp: bytes_le_4 bit_simps intro!: bit_word_eqI)
qed

text \<open>On every host the bytes of a converted integer are its bytes, most significant first.\<close>

lemma wr_u16_be: "wr_u16 e x = rev (bytes_le 2 x)"
  by (cases e) (simp_all add: wr_u16_def store_int_def bytes_htons, simp add: htons_def)

lemma wr_f32_be: "wr_f32 e x = rev (bytes_le 4 x)"
  by (cases e) (simp_all add: wr_f32_def htonf_def store_int_def bytes_htonl, simp add: htonl_def)

lemma wr_u64_be: "wr_u64 e x = rev (bytes_le 8 x)"
proof (cases e)
  case LE
  have "bytes_le 8 x = bytes_le 4 x @ bytes_le 4 (drop_bit 32 x)"
    using bytes_le_add [of 4 4 x] by simp
  moreover have "bytes_le 4 (ucast y :: u32) = bytes_le 4 y" for y :: u64
    by (auto simp: bytes_le_4 bit_simps intro!: bit_word_eqI)
  ultimately show ?thesis
    by (simp add: LE wr_u64_def store_int_def htonll_def ucast_low32 bytes_join32 bytes_htonl)
next
  case BE
  then show ?thesis by (simp add: wr_u64_def store_int_def htonll_def)
qed

lemma word_le_full: "LENGTH('a) \<le> 8 * n \<Longrightarrow> word_le (bytes_le n (w :: 'a::len word)) = w"
  by (simp add: word_le_bytes_le take_bit_word_eq_self)

lemma load_store: "LENGTH('a) \<le> 8 * n \<Longrightarrow> load_int e (store_int e n (w :: 'a::len word)) = w"
  by (cases e) (simp_all add: load_int_def store_int_def word_le_full)

lemma htons_htons: "htons e (htons e x) = x"
proof (cases e)
  case LE
  have "(word_le (bytes_le 2 (htons LE (htons LE x))) :: u16) = word_le (bytes_le 2 x)"
    by (simp only: bytes_htons rev_rev_ident)
  then show ?thesis by (simp add: LE word_le_full)
qed (simp add: htons_def)

lemma htonl_htonl: "htonl e (htonl e x) = x"
proof (cases e)
  case LE
  have "(word_le (bytes_le 4 (htonl LE (htonl LE x))) :: u32) = word_le (bytes_le 4 x)"
    by (simp only: bytes_htonl rev_rev_ident)
  then show ?thesis by (simp add: LE word_le_full)
qed (simp add: htonl_def)

lemma ntohll_htonll: "ntohll e (htonll e x) = x"
proof (cases e)
  case LE
  have n: "ntohll LE y = htonll LE y" for y by (simp add: ntohll_def htonll_def)
  have r: "bytes_le 8 (htonll LE y) = rev (bytes_le 8 y)" for y
    using wr_u64_be [of LE y] by (simp add: wr_u64_def store_int_def)
  have "(word_le (bytes_le 8 (htonll LE (htonll LE x))) :: u64) = word_le (bytes_le 8 x)"
    by (simp only: r rev_rev_ident)
  then show ?thesis by (simp add: LE n word_le_full)
qed (simp add: htonll_def ntohll_def)

interpretation f_u16: net_field wr_u16 rd_u16 2
proof
  show "length (wr_u16 e x) = 2" for e x by (simp add: wr_u16_def)
  show "wr_u16 e x = wr_u16 BE x" for e x by (simp add: wr_u16_be)
  show "rd_u16 e (wr_u16 e x) = x" for e x
    by (simp add: rd_u16_def wr_u16_def load_store htons_htons)
qed

interpretation f_u64: net_field wr_u64 rd_u64 8
proof
  show "length (wr_u64 e x) = 8" for e x by (simp add: wr_u64_def)
  show "wr_u64 e x = wr_u64 BE x" for e x by (simp add: wr_u64_be)
  show "rd_u64 e (wr_u64 e x) = x" for e x
    by (simp add: rd_u64_def wr_u64_def load_store ntohll_htonll)
qed

interpretation f_f32: net_field wr_f32 rd_f32 4
proof
  show "length (wr_f32 e x) = 4" for e x by (simp add: wr_f32_def)
  show "wr_f32 e x = wr_f32 BE x" for e x by (simp add: wr_f32_be)
  show "rd_f32 e (wr_f32 e x) = x" for e x
    by (simp add: rd_f32_def wr_f32_def ntohf_def htonf_def load_store htonl_htonl)
qed

subsection \<open>Buffers\<close>

definition put :: "nat \<Rightarrow> u8 list \<Rightarrow> u8 list \<Rightarrow> u8 list option" where
  "put off bs buf =
     (if off + length bs \<le> length buf
      then Some (take off buf @ bs @ drop (off + length bs) buf) else None)"

definition fetch :: "nat \<Rightarrow> nat \<Rightarrow> u8 list \<Rightarrow> u8 list option" where
  "fetch off n buf = (if off + n \<le> length buf then Some (take n (drop off buf)) else None)"

text \<open>\<open>strndup(p, n)\<close>: it reads until a NUL or \<open>n\<close> bytes, whichever comes first.\<close>

definition strndup :: "u8 list \<Rightarrow> nat \<Rightarrow> nat \<Rightarrow> alloc \<Rightarrow> (string option \<times> alloc) option" where
  "strndup buf off n al =
     (let bs = take n (drop off buf); s = takeWhile (\<lambda>b. b \<noteq> 0) bs
      in if length s < n \<and> length bs \<le> length s then None
         else case malloc al of
                (None, al) \<Rightarrow> Some (None, al)
              | (Some _, al) \<Rightarrow> Some (Some (map char_of_byte s), al))"

definition str_bytes :: "string \<Rightarrow> u8 list" where
  "str_bytes s = map byte_of_char s"

lemma put_0: "put 0 bs buf = (if length bs \<le> length buf then Some (bs @ drop (length bs) buf) else None)"
  by (simp add: put_def)

lemma put_append: "length x \<le> n \<Longrightarrow> put n bs (x @ b) = map_option ((@) x) (put (n - length x) bs b)"
  by (auto simp: put_def)

lemma fetch_0: "length x = n \<Longrightarrow> fetch 0 n (x @ b) = Some x"
  by (auto simp: fetch_def)

lemma fetch_append: "length x \<le> off \<Longrightarrow> fetch off n (x @ b) = fetch (off - length x) n b"
  by (auto simp: fetch_def)

lemma length_str_bytes [simp]: "length (str_bytes s) = length s"
  by (simp add: str_bytes_def)

lemma str_bytes_nonzero: "cstr s \<Longrightarrow> takeWhile (\<lambda>b. b \<noteq> 0) (str_bytes s) = str_bytes s"
  by (induction s) (auto simp: str_bytes_def byte_of_char_eq_0)

lemma strndup_append: "strndup (x @ b) (length x + k) n = strndup b k n"
  by (rule ext) (simp add: strndup_def)

lemma strndup_str:
  assumes "cstr s" and "alloc_ok al"
  obtains al' where "strndup (str_bytes s @ b) 0 (length s) al = Some (Some s, al')" and "alloc_ok al'"
proof -
  from assms(2) obtain j al' where "malloc al = (Some j, al')" "alloc_ok al'"
    by (rule alloc_ok_malloc)
  then show ?thesis
    by (intro that [of al'])
      (simp_all add: strndup_def str_bytes_nonzero [OF assms(1)] Let_def, simp add: str_bytes_def comp_def)
qed

subsection \<open>Offsets and headers\<close>

definition METRIC_HDR_CLOCK_SEC_OFF :: nat where "METRIC_HDR_CLOCK_SEC_OFF = 0"
definition METRIC_HDR_CLOCK_USEC_OFF :: nat where "METRIC_HDR_CLOCK_USEC_OFF = 8"
definition METRIC_HDR_NAME_SIZE_OFF :: nat where "METRIC_HDR_NAME_SIZE_OFF = 2 * 8"
definition METRIC_HDR_DATA_SIZE_OFF :: nat where "METRIC_HDR_DATA_SIZE_OFF = 2 * 8 + 2"
definition METRIC_HDR_TYPE_OFF :: nat where "METRIC_HDR_TYPE_OFF = 2 * 8 + 2 + 8"
definition METRIC_HDR_FLAGS_OFF :: nat where "METRIC_HDR_FLAGS_OFF = 2 * 8 + 2 + 8 + 1"
definition SERIALIZED_METRIC_HDR_SIZE :: nat where
  "SERIALIZED_METRIC_HDR_SIZE = 2 * 8 + 2 + 8 + 2 * 1"
definition METRIC_SERIALIZER_VERSION :: u8 where "METRIC_SERIALIZER_VERSION = 1"
definition METRIC_LIST_HDR_VERSION_OFF :: nat where "METRIC_LIST_HDR_VERSION_OFF = 0"
definition METRIC_LIST_HDR_COUNT_OFF :: nat where "METRIC_LIST_HDR_COUNT_OFF = 1"
definition METRIC_LIST_HDR_DATA_SIZE_OFF :: nat where "METRIC_LIST_HDR_DATA_SIZE_OFF = 1 + 2"
definition SERIALIZED_METRIC_LIST_HDR_SIZE :: nat where
  "SERIALIZED_METRIC_LIST_HDR_SIZE = 1 + 2 + 8"

lemmas off_defs = METRIC_HDR_CLOCK_SEC_OFF_def METRIC_HDR_CLOCK_USEC_OFF_def
  METRIC_HDR_NAME_SIZE_OFF_def METRIC_HDR_DATA_SIZE_OFF_def METRIC_HDR_TYPE_OFF_def
  METRIC_HDR_FLAGS_OFF_def SERIALIZED_METRIC_HDR_SIZE_def METRIC_SERIALIZER_VERSION_def
  METRIC_LIST_HDR_VERSION_OFF_def METRIC_LIST_HDR_COUNT_OFF_def METRIC_LIST_HDR_DATA_SIZE_OFF_def
  SERIALIZED_METRIC_LIST_HDR_SIZE_def

record list_hdr =
  h_version :: u8
  h_count :: u16
  h_data_size :: u64

fun type_code :: "metric_type \<Rightarrow> u8" where
  "type_code MONIKOR_INTEGER = 0"
| "type_code MONIKOR_FLOAT = 1"
| "type_code MONIKOR_STRING = 2"

subsection \<open>Serialization\<close>

definition serialized_list_size :: "mlist \<Rightarrow> u64" where
  "serialized_list_size metrics =
     foldl (\<lambda>size m. size + (monikor_metric_data_size m + strlen (m_name m)
                            + of_nat SERIALIZED_METRIC_HDR_SIZE)) 0 (l_nodes metrics)
     + of_nat SERIALIZED_METRIC_LIST_HDR_SIZE"

definition serialize_metric_name_and_data ::
  "endian \<Rightarrow> nat \<Rightarrow> metric \<Rightarrow> u8 list \<Rightarrow> u8 list option" where
  "serialize_metric_name_and_data e data m buf = do {
     buf \<leftarrow> put data (str_bytes (m_name m)) buf;
     let data = data + length (m_name m);
     case m_value m of
       VInt i \<Rightarrow> put data (store_int e 8 (htonll e i)) buf
     | VFloat f \<Rightarrow> put data (store_int e 4 (htonf e f)) buf
     | VString s \<Rightarrow> put data (str_bytes s) buf }"

definition serialize_metric ::
  "endian \<Rightarrow> nat \<Rightarrow> metric \<Rightarrow> u8 list \<Rightarrow> (u8 list \<times> u64) option" where
  "serialize_metric e data m buf = do {
     buf \<leftarrow> put (data + METRIC_HDR_CLOCK_SEC_OFF) (store_int e 8 (htonll e (tv_sec (m_clock m)))) buf;
     buf \<leftarrow> put (data + METRIC_HDR_CLOCK_USEC_OFF) (store_int e 8 (htonll e (tv_usec (m_clock m)))) buf;
     buf \<leftarrow> put (data + METRIC_HDR_NAME_SIZE_OFF) (store_int e 2 (htons e (ucast (strlen (m_name m))))) buf;
     buf \<leftarrow> put (data + METRIC_HDR_DATA_SIZE_OFF) (store_int e 8 (htonll e (monikor_metric_data_size m))) buf;
     buf \<leftarrow> put (data + METRIC_HDR_TYPE_OFF) [type_code (m_type m)] buf;
     buf \<leftarrow> put (data + METRIC_HDR_FLAGS_OFF) [m_flags m] buf;
     buf \<leftarrow> serialize_metric_name_and_data e (data + SERIALIZED_METRIC_HDR_SIZE) m buf;
     Some (buf, monikor_metric_data_size m + strlen (m_name m) + of_nat SERIALIZED_METRIC_HDR_SIZE) }"

definition serialize_metric_list_header ::
  "endian \<Rightarrow> nat \<Rightarrow> mlist \<Rightarrow> u64 \<Rightarrow> u8 list \<Rightarrow> (u8 list \<times> u64) option" where
  "serialize_metric_list_header e data metrics total_length buf = do {
     buf \<leftarrow> put (data + METRIC_LIST_HDR_VERSION_OFF) [METRIC_SERIALIZER_VERSION] buf;
     buf \<leftarrow> put (data + METRIC_LIST_HDR_COUNT_OFF) (store_int e 2 (htons e (ucast (l_size metrics)))) buf;
     buf \<leftarrow> put (data + METRIC_LIST_HDR_DATA_SIZE_OFF)
       (store_int e 8 (htonll e (total_length - of_nat SERIALIZED_METRIC_LIST_HDR_SIZE))) buf;
     Some (buf, of_nat SERIALIZED_METRIC_LIST_HDR_SIZE) }"

fun serialize_nodes :: "endian \<Rightarrow> nat \<Rightarrow> metric list \<Rightarrow> u8 list \<Rightarrow> u8 list option" where
  "serialize_nodes e serialized [] buf = Some buf"
| "serialize_nodes e serialized (m # ms) buf = do {
     (buf, n) \<leftarrow> serialize_metric e serialized m buf;
     serialize_nodes e (serialized + unat n) ms buf }"

text \<open>
  \<open>None\<close>: a write outside the buffer.  Otherwise the data and its size (\<open>None\<close>: the call
  returned 1 and set neither), and the allocator.
\<close>

definition monikor_metric_list_serialize ::
  "endian \<Rightarrow> mlist \<Rightarrow> alloc \<Rightarrow> ((u8 list \<times> u64) option \<times> alloc) option" where
  "monikor_metric_list_serialize e metrics al =
     (let serialized_length = serialized_list_size metrics
      in case malloc al of
           (None, al) \<Rightarrow> Some (None, al)
         | (Some j, al) \<Rightarrow> do {
             (buf, n) \<leftarrow> serialize_metric_list_header e 0 metrics serialized_length
                            (replicate (unat serialized_length) (ucast j));
             buf \<leftarrow> serialize_nodes e (unat n) (l_nodes metrics) buf;
             Some (Some (buf, serialized_length), al) })"

subsection \<open>Unserialization\<close>

text \<open>\<open>Some (None, al)\<close>: the code returned 1.\<close>

definition metric_data_from_serialized ::
  "endian \<Rightarrow> u8 list \<Rightarrow> nat \<Rightarrow> u64 \<Rightarrow> u8 \<Rightarrow> alloc \<Rightarrow> (metric_value option \<times> alloc) option" where
  "metric_data_from_serialized e buf data data_size type al =
     (if type = 0 then do {
        bs \<leftarrow> fetch data 8 buf;
        Some (Some (VInt (ntohll e (load_int e bs))), al) }
      else if type = 1 then do {
        bs \<leftarrow> fetch data 4 buf;
        Some (Some (VFloat (ntohf e (load_int e bs))), al) }
      else if type = 2 then do {
        (s, al) \<leftarrow> strndup buf data (unat data_size) al;
        Some (map_option VString s, al) }
      else Some (None, al))"

definition metric_from_serialized ::
  "endian \<Rightarrow> u8 list \<Rightarrow> nat \<Rightarrow> alloc \<Rightarrow> (metric option \<times> alloc) option" where
  "metric_from_serialized e buf data al =
     (case malloc al of
        (None, al) \<Rightarrow> Some (None, al)
      | (Some j, al) \<Rightarrow> do {
          clock_sec \<leftarrow> fetch (data + METRIC_HDR_CLOCK_SEC_OFF) 8 buf;
          clock_usec \<leftarrow> fetch (data + METRIC_HDR_CLOCK_USEC_OFF) 8 buf;
          name_size \<leftarrow> fetch (data + METRIC_HDR_NAME_SIZE_OFF) 2 buf;
          data_size \<leftarrow> fetch (data + METRIC_HDR_DATA_SIZE_OFF) 8 buf;
          type \<leftarrow> fetch (data + METRIC_HDR_TYPE_OFF) 1 buf;
          flags \<leftarrow> fetch (data + METRIC_HDR_FLAGS_OFF) 1 buf;
          let name_size = htons e (load_int e name_size);
          let clock = \<lparr>tv_sec = ntohll e (load_int e clock_sec), tv_usec = ntohll e (load_int e clock_usec)\<rparr>;
          (name, al) \<leftarrow> strndup buf (data + SERIALIZED_METRIC_HDR_SIZE) (unat name_size) al;
          case name of
            None \<Rightarrow> Some (None, al)
          | Some name \<Rightarrow> do {
              (value, al) \<leftarrow> metric_data_from_serialized e buf
                 (data + SERIALIZED_METRIC_HDR_SIZE + unat name_size)
                 (ntohll e (load_int e data_size)) (hd type) al;
              case value of
                None \<Rightarrow> Some (None, al)
              | Some v \<Rightarrow> Some (Some \<lparr>m_name = name, m_id = ucast j, m_clock = clock, m_value = v,
                                     m_flags = hd flags\<rparr>, al) } })"

definition monikor_metric_list_header_unserialize :: "endian \<Rightarrow> u8 list \<Rightarrow> nat \<Rightarrow> list_hdr option" where
  "monikor_metric_list_header_unserialize e buf data = do {
     version \<leftarrow> fetch (data + METRIC_LIST_HDR_VERSION_OFF) 1 buf;
     count \<leftarrow> fetch (data + METRIC_LIST_HDR_COUNT_OFF) 2 buf;
     data_size \<leftarrow> fetch (data + METRIC_LIST_HDR_DATA_SIZE_OFF) 8 buf;
     Some \<lparr>h_version = hd version, h_count = htons e (load_int e count),
           h_data_size = ntohll e (load_int e data_size)\<rparr> }"

text \<open>The loop, with the number of iterations left (\<open>hdr->count - i\<close>) instead of the bound.\<close>

fun unserialize_loop ::
  "endian \<Rightarrow> u8 list \<Rightarrow> nat \<Rightarrow> nat \<Rightarrow> nat \<Rightarrow> u64 \<Rightarrow> mlist \<Rightarrow> alloc \<Rightarrow> (mlist \<times> u64 \<times> alloc) option" where
  "unserialize_loop e buf data_end serialized 0 i metrics al = Some (metrics, i, al)"
| "unserialize_loop e buf data_end serialized (Suc left) i metrics al =
     (if \<not> serialized < data_end then Some (metrics, i, al)
      else do {
        (m, al) \<leftarrow> metric_from_serialized e buf serialized al;
        case m of
          None \<Rightarrow> Some (metrics, i, al)
        | Some metric \<Rightarrow>
            (case monikor_metric_list_push metrics metric al of
               (metrics, _, al) \<Rightarrow>
                 unserialize_loop e buf data_end
                   (serialized + unat (of_nat SERIALIZED_METRIC_HDR_SIZE + strlen (m_name metric)
                                       + monikor_metric_data_size metric))
                   left (i + 1) metrics al) })"

definition monikor_metric_list_unserialize ::
  "endian \<Rightarrow> u8 list \<Rightarrow> nat \<Rightarrow> list_hdr \<Rightarrow> alloc \<Rightarrow> (mlist option \<times> u64 \<times> alloc) option" where
  "monikor_metric_list_unserialize e buf data hdr al =
     (case monikor_metric_list_new al of
        (None, al) \<Rightarrow> Some (None, 0, al)
      | (Some metrics, al) \<Rightarrow> do {
          (metrics, i, al) \<leftarrow> unserialize_loop e buf (data + unat (h_data_size hdr)) data
                                (unat (h_count hdr)) 0 metrics al;
          Some (Some metrics, i, al) })"

subsection \<open>The wire format\<close>

text \<open>What the two sides agree on: every integer most significant byte first.\<close>

definition encode_value :: "metric_value \<Rightarrow> u8 list" where
  "encode_value v = (case v of VInt i \<Rightarrow> wr_u64 BE i | VFloat f \<Rightarrow> wr_f32 BE f | VString s \<Rightarrow> str_bytes s)"

definition encode_metric :: "metric \<Rightarrow> u8 list" where
  "encode_metric m =
     wr_u64 BE (tv_sec (m_clock m)) @ wr_u64 BE (tv_usec (m_clock m))
     @ wr_u16 BE (of_nat (length (m_name m))) @ wr_u64 BE (of_nat (length (encode_value (m_value m))))
     @ [type_code (m_type m), m_flags m] @ str_bytes (m_name m) @ encode_value (m_value m)"

definition encode_list :: "metric list \<Rightarrow> u8 list" where
  "encode_list ms = concat (map encode_metric ms)"

definition encode_message :: "metric list \<Rightarrow> u8 list" where
  "encode_message ms =
     1 # wr_u16 BE (of_nat (length ms)) @ wr_u64 BE (of_nat (length (encode_list ms))) @ encode_list ms"

lemma strlen_low16: "(ucast (strlen s) :: u16) = of_nat (length s)"
  by (rule bit_word_eqI) (auto simp: strlen_def bit_simps)

lemma put_Cons: "0 < n \<Longrightarrow> put n bs (c # b) = map_option ((#) c) (put (n - 1) bs b)"
  by (cases n) (auto simp: put_def)

lemma data_size_encode: "monikor_metric_data_size m = of_nat (length (encode_value (m_value m)))"
  by (simp add: monikor_metric_data_size_def encode_value_def strlen_def f_u64.wr_length f_f32.wr_length
      split: metric_value.splits)

lemma length_encode_metric:
  "length (encode_metric m) = 28 + length (m_name m) + length (encode_value (m_value m))"
  by (simp add: encode_metric_def f_u64.wr_length f_u16.wr_length)

lemma encode_list_simps [simp]:
  "encode_list [] = []"
  "encode_list (m # ms) = encode_metric m @ encode_list ms"
  "encode_list (ms @ ns) = encode_list ms @ encode_list ns"
  by (simp_all add: encode_list_def)

lemma wr_u64_fold: "store_int e 8 (htonll e x) = wr_u64 BE x"
  by (metis wr_u64_def f_u64.wr_host)

lemma wr_u16_fold: "store_int e 2 (htons e x) = wr_u16 BE x"
  by (metis wr_u16_def f_u16.wr_host)

lemma wr_f32_fold: "store_int e 4 (htonf e x) = wr_f32 BE x"
  by (metis wr_f32_def f_f32.wr_host)

lemmas wr_fold = wr_u64_fold wr_u16_fold wr_f32_fold
lemmas wr_lengths = f_u64.wr_length f_u16.wr_length f_f32.wr_length

lemma serialize_name_and_data_encode:
  assumes "length (m_name m) + length (encode_value (m_value m)) \<le> length b"
  shows "serialize_metric_name_and_data e (length pre) m (pre @ b) =
    Some (pre @ str_bytes (m_name m) @ encode_value (m_value m)
          @ drop (length (m_name m) + length (encode_value (m_value m))) b)"
proof -
  let ?n = "length (m_name m)" and ?v = "encode_value (m_value m)"
  have v: "length ?v \<le> length b - ?n" and n: "?n \<le> length b" using assms by simp_all
  have "serialize_metric_name_and_data e (length pre) m (pre @ b) =
      put (length pre + ?n) ?v (pre @ str_bytes (m_name m) @ drop ?n b)"
    using n by (simp add: serialize_metric_name_and_data_def put_append put_0 encode_value_def wr_fold
        split: metric_value.splits)
  also have "\<dots> = Some (pre @ str_bytes (m_name m) @ ?v @ drop (?n + length ?v) b)"
    using v by (simp add: put_append put_0 add.commute)
  finally show ?thesis .
qed

lemma put_at: "length bs = length j \<Longrightarrow> put (length pre) bs (pre @ j @ post) = Some (pre @ bs @ post)"
  by (simp add: put_def)

lemma serialize_metric_encode:
  assumes "length (encode_metric m) \<le> length b"
  shows "serialize_metric e (length pre) m (pre @ b) =
    Some (pre @ encode_metric m @ drop (length (encode_metric m)) b, of_nat (length (encode_metric m)))"
proof -
  let ?h = "wr_u64 BE (tv_sec (m_clock m)) @ wr_u64 BE (tv_usec (m_clock m))
     @ wr_u16 BE (of_nat (length (m_name m))) @ wr_u64 BE (of_nat (length (encode_value (m_value m))))
     @ [type_code (m_type m), m_flags m]"
  have h: "length ?h = 28" by (simp add: wr_lengths)
  have b: "28 + length (m_name m) + length (encode_value (m_value m)) \<le> length b"
    using assms by (simp add: length_encode_metric)
  have lb: "8 \<le> length b" "8 \<le> length b - 8" "2 \<le> length b - 16" "8 \<le> length b - 18"
    "Suc 0 \<le> length b - 26" "Suc 0 \<le> length b - 27"
    using b by simp_all
  have "serialize_metric_name_and_data e (length pre + 28) m (pre @ ?h @ drop 28 b) =
      Some (pre @ ?h @ str_bytes (m_name m) @ encode_value (m_value m)
            @ drop (28 + length (m_name m) + length (encode_value (m_value m))) b)"
    using serialize_name_and_data_encode [of m "drop 28 b" e "pre @ ?h"] b
    by (simp add: h wr_lengths drop_drop add.commute add.left_commute)
  then show ?thesis
    using b
    by (simp add: serialize_metric_def off_defs wr_fold put_append put_0 put_Cons wr_lengths drop_drop
        strlen_low16 data_size_encode length_encode_metric lb)
      (simp add: encode_metric_def strlen_def wr_lengths add.commute add.left_commute drop_drop)
qed

lemma serialize_nodes_encode:
  assumes "length (encode_list ms) \<le> length b" and "length (encode_list ms) < 2 ^ 64"
  shows "serialize_nodes e (length pre) ms (pre @ b) =
    Some (pre @ encode_list ms @ drop (length (encode_list ms)) b)"
  using assms
proof (induction ms arbitrary: pre b)
  case Nil
  then show ?case by simp
next
  case (Cons m ms)
  let ?x = "encode_metric m"
  have "unat (of_nat (length ?x) :: u64) = length ?x"
    using Cons.prems by (simp add: unat_of_nat take_bit_nat_eq_self)
  moreover have "serialize_nodes e (length (pre @ ?x)) ms ((pre @ ?x) @ drop (length ?x) b) =
      Some ((pre @ ?x) @ encode_list ms @ drop (length (encode_list ms)) (drop (length ?x) b))"
    by (rule Cons.IH) (use Cons.prems in auto)
  ultimately show ?case
    using Cons.prems by (simp add: serialize_metric_encode drop_drop add.commute)
qed

lemma serialized_list_size_encode:
  "serialized_list_size l = of_nat (11 + length (encode_list (l_nodes l)))"
proof -
  have "foldl (\<lambda>size m. size + (monikor_metric_data_size m + strlen (m_name m)
            + of_nat SERIALIZED_METRIC_HDR_SIZE)) z ms = z + (of_nat (length (encode_list ms)) :: u64)"
    for z ms
    by (induction ms arbitrary: z)
      (simp_all add: length_encode_metric data_size_encode strlen_def off_defs algebra_simps)
  then show ?thesis by (simp add: serialized_list_size_def off_defs)
qed

lemma length_encode_message: "length (encode_message ms) = 11 + length (encode_list ms)"
  by (simp add: encode_message_def wr_lengths)

lemma serialize_header_encode:
  assumes b: "11 \<le> length b" and "l_size l = of_nat (length (l_nodes l))"
  shows "serialize_metric_list_header e 0 l (of_nat (11 + length (encode_list (l_nodes l)))) b =
    Some (1 # wr_u16 BE (of_nat (length (l_nodes l)))
          @ wr_u64 BE (of_nat (length (encode_list (l_nodes l)))) @ drop 11 b, 11)"
proof -
  have lb: "Suc 0 \<le> length b" "2 \<le> length b - Suc 0" "8 \<le> length b - 3"
    using b by simp_all
  show ?thesis
    using assms(2) strlen_low16 [of "replicate (length (l_nodes l)) CHR ''a''"]
    by (simp add: serialize_metric_list_header_def off_defs wr_fold put_append put_0 put_Cons
        wr_lengths drop_drop lb strlen_def)
qed

text \<open>With enough memory, serialization writes exactly the wire format, and nothing outside its
  buffer.\<close>

lemma serialize_message:
  assumes "alloc_ok al" and "list_inv l" and "length (encode_message (l_nodes l)) < 2 ^ 64"
  obtains al' where "monikor_metric_list_serialize e l al =
      Some (Some (encode_message (l_nodes l), of_nat (length (encode_message (l_nodes l)))), al')"
    and "alloc_ok al'"
proof -
  let ?ms = "l_nodes l"
  let ?n = "11 + length (encode_list ?ms)"
  from assms(1) obtain j al' where al: "malloc al = (Some j, al')" "alloc_ok al'"
    by (rule alloc_ok_malloc)
  have n: "unat (serialized_list_size l) = ?n"
    using assms(3) by (simp only: serialized_list_size_encode length_encode_message unat_of_nat)
      (simp add: take_bit_nat_eq_self)
  let ?b = "replicate ?n (ucast j) :: u8 list"
  let ?h = "1 # wr_u16 BE (of_nat (length ?ms)) @ wr_u64 BE (of_nat (length (encode_list ?ms)))"
  have "serialize_metric_list_header e 0 l (serialized_list_size l) ?b = Some (?h @ drop 11 ?b, 11)"
    using serialize_header_encode [of ?b l e] assms(2)
    by (simp add: list_inv_def serialized_list_size_encode)
  moreover have "serialize_nodes e (length ?h) ?ms (?h @ drop 11 ?b) =
      Some (?h @ encode_list ?ms @ drop (length (encode_list ?ms)) (drop 11 ?b))"
    by (rule serialize_nodes_encode) (use assms(3) in \<open>simp_all add: length_encode_message\<close>)
  moreover have "length ?h = 11" by (simp add: wr_lengths)
  ultimately show ?thesis
    by (intro that [OF _ al(2)])
      (simp add: monikor_metric_list_serialize_def al n, simp add: encode_message_def
        serialized_list_size_encode wr_lengths)
qed

subsection \<open>Reading the wire format back\<close>

lemma rd_u64_wr [simp]: "ntohll e (load_int e (wr_u64 BE x)) = x"
  and rd_u16_wr [simp]: "htons e (load_int e (wr_u16 BE y)) = y"
  and rd_f32_wr [simp]: "ntohf e (load_int e (wr_f32 BE z)) = z"
  using f_u64.rd_wr [of e BE x] f_u16.rd_wr [of e BE y] f_f32.rd_wr [of e BE z]
  by (simp_all add: rd_u64_def rd_u16_def rd_f32_def)

lemma fetch_Cons: "0 < n \<Longrightarrow> fetch n k (c # b) = fetch (n - 1) k b"
  by (cases n) (auto simp: fetch_def)

lemma fetch_one: "fetch 0 (Suc 0) (c # b) = Some [c]"
  by (simp add: fetch_def)

lemma strndup_skip: "length x = i \<Longrightarrow> strndup (x @ b) i n = strndup b 0 n"
  using strndup_append [of x b 0 n] by simp

lemma data_from_serialized_encode:
  assumes "metric_wf m" and "alloc_ok al" and "length (encode_value (m_value m)) < 2 ^ 64"
  obtains al' where
    "metric_data_from_serialized e (pre @ encode_value (m_value m) @ post) (length pre)
       (of_nat (length (encode_value (m_value m)))) (type_code (m_type m)) al
     = Some (Some (m_value m), al')" and "alloc_ok al'"
proof (cases "m_value m")
  case (VString s)
  with assms(1) have "cstr s" by (simp add: metric_wf_def)
  from this assms(2) obtain al' where
    "strndup (str_bytes s @ post) 0 (length s) al = Some (Some s, al')" "alloc_ok al'"
    by (rule strndup_str)
  moreover have "unat (of_nat (length s) :: u64) = length s"
    using assms(3) VString by (simp add: unat_of_nat take_bit_nat_eq_self encode_value_def)
  ultimately show ?thesis using VString that
    by (simp add: metric_data_from_serialized_def encode_value_def strndup_skip)
qed (use assms(2) that in \<open>simp_all add: metric_data_from_serialized_def encode_value_def fetch_append
      fetch_0 wr_lengths\<close>)

lemma from_serialized_encode:
  assumes "metric_wf m" and "alloc_ok al" and "length (m_name m) < 2 ^ 16"
    and "length (encode_metric m) < 2 ^ 64"
  obtains j al' where
    "metric_from_serialized e (pre @ encode_metric m @ post) (length pre) al
     = Some (Some (m\<lparr>m_id := j\<rparr>), al')" and "alloc_ok al'"
proof -
  let ?h = "wr_u64 BE (tv_sec (m_clock m)) @ wr_u64 BE (tv_usec (m_clock m))
     @ wr_u16 BE (of_nat (length (m_name m))) @ wr_u64 BE (of_nat (length (encode_value (m_value m))))
     @ [type_code (m_type m), m_flags m]"
  let ?v = "encode_value (m_value m)"
  have h: "length ?h = 28" by (simp add: wr_lengths)
  from assms(2) obtain j al1 where 1: "malloc al = (Some j, al1)" "alloc_ok al1"
    by (rule alloc_ok_malloc)
  from assms(1) have "cstr (m_name m)" by (simp add: metric_wf_def)
  from this 1(2) obtain al2 where 2:
    "strndup (str_bytes (m_name m) @ ?v @ post) 0 (length (m_name m)) al1 = Some (Some (m_name m), al2)"
    "alloc_ok al2" by (rule strndup_str)
  have "length ?v < 2 ^ 64" using assms(4) by (simp add: length_encode_metric)
  with assms(1) 2(2) obtain al3 where 3:
    "metric_data_from_serialized e ((pre @ ?h @ str_bytes (m_name m)) @ ?v @ post)
       (length (pre @ ?h @ str_bytes (m_name m))) (of_nat (length ?v)) (type_code (m_type m)) al2
     = Some (Some (m_value m), al3)" "alloc_ok al3"
    by (rule data_from_serialized_encode)
  have n: "unat (of_nat (length (m_name m)) :: u16) = length (m_name m)"
    using assms(3) by (simp add: unat_of_nat take_bit_nat_eq_self)
  have s: "strndup ((pre @ ?h) @ str_bytes (m_name m) @ ?v @ post) (length pre + 28)
      (length (m_name m)) al1 = Some (Some (m_name m), al2)"
    using 2(1) h by (subst strndup_skip) simp_all
  show ?thesis
    by (rule that [OF _ 3(2), where j = "ucast j"])
      (use 1 s 3(1) in \<open>simp add: metric_from_serialized_def encode_metric_def off_defs fetch_append
        fetch_0 fetch_Cons fetch_one wr_lengths n ac_simps\<close>)
qed

lemma entry_size:
  assumes "length (encode_metric m) < 2 ^ 64"
  shows "unat (of_nat SERIALIZED_METRIC_HDR_SIZE + strlen (m_name m) + monikor_metric_data_size m)
    = length (encode_metric m)"
proof -
  have "of_nat SERIALIZED_METRIC_HDR_SIZE + strlen (m_name m) + monikor_metric_data_size m
      = (of_nat (length (encode_metric m)) :: u64)"
    by (simp add: off_defs strlen_def data_size_encode length_encode_metric)
  then show ?thesis using assms by (simp add: unat_of_nat take_bit_nat_eq_self)
qed

lemma entry_size_id [simp]: "encode_metric (m\<lparr>m_id := j\<rparr>) = encode_metric m"
  by (simp add: encode_metric_def)

text \<open>Metrics up to the identifier, which is not on the wire.\<close>

abbreviation no_id :: "metric \<Rightarrow> metric" where
  "no_id m \<equiv> m\<lparr>m_id := 0\<rparr>"

lemma unserialize_loop_encode:
  assumes "\<forall>m\<in>set ms. metric_wf m \<and> length (m_name m) < 2 ^ 16" and "alloc_ok al"
    and "length (encode_list ms) < 2 ^ 64" and "list_inv l"
  shows "\<exists>l' al'. unserialize_loop e (pre @ encode_list ms @ post) (length pre + length (encode_list ms))
      (length pre) (length ms) i l al = Some (l', i + of_nat (length ms), al')
    \<and> map no_id (l_nodes l') = map no_id (l_nodes l @ ms) \<and> list_inv l' \<and> alloc_ok al'"
  using assms
proof (induction ms arbitrary: pre i l al)
  case Nil
  then show ?case by simp
next
  case (Cons m ms)
  let ?x = "encode_metric m"
  have small: "length ?x < 2 ^ 64" using Cons.prems(3) by simp
  have "metric_wf m" "length (m_name m) < 2 ^ 16" using Cons.prems(1) by simp_all
  from from_serialized_encode [OF this(1) Cons.prems(2) this(2) small, where e = e and pre = pre
      and post = "encode_list ms @ post"]
  obtain j al1 where 1: "metric_from_serialized e (pre @ ?x @ encode_list ms @ post) (length pre) al
      = Some (Some (m\<lparr>m_id := j\<rparr>), al1)" "alloc_ok al1" by auto
  from 1(2) obtain al2 where 2: "monikor_metric_list_push l (m\<lparr>m_id := j\<rparr>) al1 =
      (monikor_metric_list_push_node l (m\<lparr>m_id := j\<rparr>), 0, al2)" "alloc_ok al2"
    by (rule list_push_ok)
  have sz: "unat (of_nat SERIALIZED_METRIC_HDR_SIZE + strlen (m_name (m\<lparr>m_id := j\<rparr>))
      + monikor_metric_data_size (m\<lparr>m_id := j\<rparr>)) = length ?x"
    using entry_size [of "m\<lparr>m_id := j\<rparr>"] small by simp
  have pos: "0 < length ?x" by (simp add: length_encode_metric)
  from Cons.IH [OF _ 2(2), of "monikor_metric_list_push_node l (m\<lparr>m_id := j\<rparr>)" "pre @ ?x" "i + 1"]
    Cons.prems(1,3,4)
  obtain l' al' where "unserialize_loop e (pre @ ?x @ encode_list ms @ post)
      (length pre + (length ?x + length (encode_list ms))) (length pre + length ?x) (length ms) (i + 1)
      (monikor_metric_list_push_node l (m\<lparr>m_id := j\<rparr>)) al2
      = Some (l', i + 1 + of_nat (length ms), al')"
    "map no_id (l_nodes l') = map no_id (l_nodes l @ m # ms)" "list_inv l'" "alloc_ok al'"
    by (auto simp: list_push_node_inv add.assoc)
  then show ?case using 1(1) 2(1) sz pos
    by (intro exI [of _ l'] exI [of _ al']) (simp add: add.assoc)
qed

lemma list_new_ok:
  assumes "alloc_ok al"
  obtains al' where "monikor_metric_list_new al = (Some monikor_metric_list_init, al')" and "alloc_ok al'"
proof -
  from assms obtain j al' where "malloc al = (Some j, al')" "alloc_ok al'"
    by (rule alloc_ok_malloc)
  then show ?thesis
    by (intro that [of al']) (simp_all add: monikor_metric_list_new_def alloc_simps alloc_ret_def)
qed

lemma header_of_message:
  assumes "length ms < 2 ^ 16"
  shows "monikor_metric_list_header_unserialize e (encode_message ms) 0 =
    Some \<lparr>h_version = 1, h_count = of_nat (length ms), h_data_size = of_nat (length (encode_list ms))\<rparr>"
  by (simp add: monikor_metric_list_header_unserialize_def encode_message_def off_defs fetch_append
      fetch_0 fetch_Cons fetch_one wr_lengths)

lemma unserialize_message:
  assumes "\<forall>m\<in>set ms. metric_wf m \<and> length (m_name m) < 2 ^ 16" and "length ms < 2 ^ 16"
    and "alloc_ok al" and "length (encode_message ms) < 2 ^ 64"
  shows "\<exists>hdr l al'. monikor_metric_list_header_unserialize e (encode_message ms) 0 = Some hdr
    \<and> monikor_metric_list_unserialize e (encode_message ms) SERIALIZED_METRIC_LIST_HDR_SIZE hdr al
        = Some (Some l, of_nat (length ms), al')
    \<and> list_inv l \<and> map no_id (l_nodes l) = map no_id ms"
proof -
  let ?h = "1 # wr_u16 BE (of_nat (length ms)) @ wr_u64 BE (of_nat (length (encode_list ms)))"
  have h: "length ?h = 11" "encode_message ms = ?h @ encode_list ms"
    by (simp_all add: wr_lengths encode_message_def)
  have small: "length (encode_list ms) < 2 ^ 64"
    using assms(4) by (simp add: length_encode_message)
  from assms(3) obtain al1 where 1: "monikor_metric_list_new al = (Some monikor_metric_list_init, al1)"
    "alloc_ok al1" by (rule list_new_ok)
  from unserialize_loop_encode [OF assms(1) 1(2) small list_init_inv, of e ?h "[]" 0]
  obtain l al' where "unserialize_loop e (encode_message ms) (11 + length (encode_list ms)) 11 (length ms) 0
      monikor_metric_list_init al1 = Some (l, of_nat (length ms), al')"
    "map no_id (l_nodes l) = map no_id ms" "list_inv l"
    unfolding h(1) by (auto simp: h(2))
  then show ?thesis
    using 1(1) assms(2) small
    by (simp add: header_of_message monikor_metric_list_unserialize_def off_defs unat_of_nat
        take_bit_nat_eq_self)
qed

subsection \<open>Properties\<close>

text \<open>C7: serialization is faithful to the wire format on every host: with memory available it
  returns 0 with a buffer of exactly the announced size that holds the version, the number of
  metrics, the size of the rest and the encoded metrics, all in network byte order; it never
  writes outside the buffer.\<close>

theorem serialize_is_wire_format:
  assumes "alloc_ok al" and "list_inv l" and "length (encode_message (l_nodes l)) < 2 ^ 64"
  shows "map_option fst (monikor_metric_list_serialize e l al) =
    Some (Some (encode_message (l_nodes l), of_nat (length (encode_message (l_nodes l)))))"
  using serialize_message [OF assms, of e] by auto

definition wire_sample :: mlist where
  "wire_sample = monikor_metric_list_push_node monikor_metric_list_init
     \<lparr>m_name = ''m1'', m_id = 7, m_clock = \<lparr>tv_sec = 42, tv_usec = 21\<rparr>, m_value = VInt 42, m_flags = 4\<rparr>"

lemma wire_sample_ok:
  "list_inv wire_sample"
  "\<forall>m\<in>set (l_nodes wire_sample). metric_wf m \<and> length (m_name m) < 2 ^ 16"
  "length (l_nodes wire_sample) < 2 ^ 16"
  "length (encode_message (l_nodes wire_sample)) < 2 ^ 64"
  by (simp_all add: wire_sample_def inv_intros metric_wf_def length_encode_message
      length_encode_metric encode_value_def wr_lengths)

lemma wire_sample_bytes:
  "encode_message (l_nodes wire_sample) =
    [1, 0, 1, 0, 0, 0, 0, 0, 0, 0, 38,
     0, 0, 0, 0, 0, 0, 0, 42, 0, 0, 0, 0, 0, 0, 0, 21, 0, 2, 0, 0, 0, 0, 0, 0, 0, 8, 0, 4,
     109, 49, 0, 0, 0, 0, 0, 0, 0, 42]"
proof -
  have "bytes_le 8 w = bytes_le 4 w @ bytes_le 4 (drop_bit 32 w)" for w :: u64
    using bytes_le_add [of 4 4 w] by simp
  then show ?thesis
    by (simp add: wire_sample_def encode_message_def encode_metric_def encode_value_def wr_u64_be
        wr_u16_be bytes_le_2 bytes_le_4 str_bytes_def byte_of_char_def)
qed

theorem serialize_is_wire_format_witness:
  "map_option fst (monikor_metric_list_serialize LE wire_sample []) =
    Some (Some ([1, 0, 1, 0, 0, 0, 0, 0, 0, 0, 38,
     0, 0, 0, 0, 0, 0, 0, 42, 0, 0, 0, 0, 0, 0, 0, 21, 0, 2, 0, 0, 0, 0, 0, 0, 0, 8, 0, 4,
     109, 49, 0, 0, 0, 0, 0, 0, 0, 42], 49))"
  using serialize_is_wire_format [of "[]" wire_sample LE] wire_sample_ok
  by (simp add: wire_sample_bytes)

text \<open>C3: a list that one host serializes and another, of any byte order, unserializes comes back
  complete and in order, with correct counters; of each metric only the identifier is not
  transmitted.\<close>

theorem serialize_roundtrip:
  assumes "alloc_ok al" and "alloc_ok al2" and "list_inv l"
    and "\<forall>m\<in>set (l_nodes l). metric_wf m \<and> length (m_name m) < 2 ^ 16"
    and "length (l_nodes l) < 2 ^ 16" and "length (encode_message (l_nodes l)) < 2 ^ 64"
  shows "\<exists>bs n al1 hdr l' al3.
    monikor_metric_list_serialize e l al = Some (Some (bs, n), al1) \<and> unat n = length bs
    \<and> monikor_metric_list_header_unserialize e' bs 0 = Some hdr
    \<and> monikor_metric_list_unserialize e' bs SERIALIZED_METRIC_LIST_HDR_SIZE hdr al2 =
        Some (Some l', l_size l, al3)
    \<and> list_inv l' \<and> map no_id (l_nodes l') = map no_id (l_nodes l)"
proof -
  obtain al1 where 1: "monikor_metric_list_serialize e l al =
      Some (Some (encode_message (l_nodes l), of_nat (length (encode_message (l_nodes l)))), al1)"
    using serialize_message [OF assms(1,3,6)] by blast
  have "unat (of_nat (length (encode_message (l_nodes l))) :: u64) = length (encode_message (l_nodes l))"
    using assms(6) by (simp add: unat_of_nat take_bit_nat_eq_self)
  with 1 unserialize_message [OF assms(4,5,2,6), of e'] assms(3) show ?thesis
    by (auto simp: list_inv_def)
qed

theorem serialize_roundtrip_witness:
  "\<exists>bs n al1 hdr l' al3.
    monikor_metric_list_serialize LE wire_sample [] = Some (Some (bs, n), al1) \<and> unat n = length bs
    \<and> monikor_metric_list_header_unserialize BE bs 0 = Some hdr
    \<and> monikor_metric_list_unserialize BE bs SERIALIZED_METRIC_LIST_HDR_SIZE hdr [] =
        Some (Some l', l_size wire_sample, al3)
    \<and> list_inv l' \<and> map no_id (l_nodes l') = map no_id (l_nodes wire_sample)"
  using serialize_roundtrip [of "[]" "[]" wire_sample LE BE] wire_sample_ok by simp



end
