(* ===== verification/Send.thy ===== *)
theory Send
  imports Agent Serialize "HOL-Library.Multiset"
begin

text \<open>
  Sending metrics to the server, \<open>src/core/send.c\<close>, and the update round of \<open>update.c\<close>.

  What libcurl and the host provide are parameters: the host name (\<open>None\<close>: \<open>gethostname\<close> failed),
  \<open>curl_slist_append\<close> and \<open>curl_easy_init\<close> (\<open>None\<close>: out of memory).  A \<open>None\<close> around the result of
  an operation is undefined behaviour of the C code: a null pointer dereferenced, memory outside a
  buffer, or \<open>free\<close> of a pointer that was never set.
\<close>

record curl_env =
  ce_endian :: endian
  ce_hostname :: "string option"
  ce_slist_append :: "string list \<Rightarrow> string \<Rightarrow> alloc \<Rightarrow> string list option \<times> alloc"
  ce_easy_init :: bool

definition MAX_HEADER_LENGTH :: nat where "MAX_HEADER_LENGTH = 1024"
definition RESPONSE_BODY_SIZE :: u64 where "RESPONSE_BODY_SIZE = 1024"
definition MONIKOR_VERSION :: string where "MONIKOR_VERSION = ''1.3.0''"
definition CURLE_OK :: cint where "CURLE_OK = 0"

text \<open>\<open>snprintf\<close> into \<open>n\<close> bytes keeps the first \<open>n - 1\<close> characters.\<close>

definition snprintf :: "nat \<Rightarrow> string \<Rightarrow> string" where
  "snprintf n s = take (n - 1) s"

text \<open>
  The body of the response as the C string that is left in the buffer, and the number libcurl gets:
  \<open>strncpy\<close> stops at a NUL of the body.  Each call overwrites what the one before it left.
\<close>

definition data_handler :: "string \<Rightarrow> u64 \<Rightarrow> u64 \<Rightarrow> string \<times> u64" where
  "data_handler ptr sz nmemb =
     (let n = (if RESPONSE_BODY_SIZE > sz * nmemb then sz * nmemb else RESPONSE_BODY_SIZE)
      in (takeWhile (\<lambda>c. c \<noteq> CHR 0x00) (take (unat n) ptr), sz * nmemb))"

definition set_http_headers :: "curl_env \<Rightarrow> config \<Rightarrow> alloc \<Rightarrow> string list option \<times> alloc" where
  "set_http_headers env cfg al =
     (case (if cf_hostname cfg \<noteq> None then cf_hostname cfg else ce_hostname env) of
        None \<Rightarrow> (None, al)
      | Some name \<Rightarrow>
          (let hostname = take 255 name in
           or_null (ce_slist_append env [] ''Content-Type: application/octet-stream'') (\<lambda>headers.
           let hdr = snprintf MAX_HEADER_LENGTH (''Authorization: Token '' @
                 (case cf_quanta_token cfg of Some t \<Rightarrow> t | None \<Rightarrow> ''unknown'')) in
           or_null (ce_slist_append env headers hdr) (\<lambda>headers.
           let hdr = snprintf MAX_HEADER_LENGTH (''X-Quanta-Hostid: '' @
                 (case cf_hostid cfg of Some i \<Rightarrow> i | None \<Rightarrow> ''unknown'')
                 @ '' '' @ hostname @ '' '' @ MONIKOR_VERSION) in
           or_null (ce_slist_append env headers hdr) alloc_ret)) al))"

definition setup_curl_request :: "config \<Rightarrow> mlist \<Rightarrow> string list \<Rightarrow> u8 list \<Rightarrow> u64 \<Rightarrow> request" where
  "setup_curl_request cfg metrics headers data data_size =
     \<lparr>rq_metrics = metrics, rq_headers = headers, rq_response = ''Unknown error'', rq_error = '''',
      rq_data = data, rq_data_size = data_size, rq_url = cf_url cfg, rq_timeout = cf_timeout cfg,
      rq_proxy = cf_proxy_url cfg\<rparr>"

text \<open>
  What happens to the metrics of the request \<open>data\<close>, which libcurl has finished with \<open>result\<close> and
  the response code \<open>http_code\<close>; the caller has taken it out of the list of handlers.
\<close>

definition handle_server_response :: "agent \<Rightarrow> request \<Rightarrow> cint \<Rightarrow> clong \<Rightarrow> agent" where
  "handle_server_response mon data result http_code =
     (let mon =
        (if result \<noteq> CURLE_OK then mon
         else if http_code \<noteq> 200 then mon
         else monikor_update_success mon)
      in if result \<noteq> CURLE_OK \<or> 500 \<le>s http_code then
           (let (cache, _) = monikor_metric_list_concat (s_cache (mn_metrics mon)) (rq_metrics data)
            in monikor_update_success (mon\<lparr>mn_metrics := (mn_metrics mon)\<lparr>s_cache := cache\<rparr>\<rparr>))
         else if 400 \<le>s http_code then monikor_update_backoff mon
         else mon)"

text \<open>
  The return code is -1 when the request could not be made.  The early exits free \<open>data->data\<close>: it
  is set only by a serialization that got its buffer, before that it holds what \<open>malloc\<close> left there.
\<close>

definition monikor_send_metrics :: "curl_env \<Rightarrow> agent \<Rightarrow> mlist \<Rightarrow> alloc \<Rightarrow> (agent \<times> cint \<times> alloc) option" where
  "monikor_send_metrics env mon metrics al =
     (if cf_url (mn_config mon) = None then Some (mon, -1, al)
      else case malloc al of
        (None, al) \<Rightarrow> Some (mon, -1, al)
      | (Some j, al) \<Rightarrow>
         (case monikor_metric_list_serialize (ce_endian env) metrics al of
            None \<Rightarrow> None
          | Some (None, al) \<Rightarrow> if j = 0 then Some (mon, -1, al) else None
          | Some (Some (data, data_size), al) \<Rightarrow>
             (case set_http_headers env (mn_config mon) al of
                (None, al) \<Rightarrow> Some (mon, -1, al)
              | (Some headers, al) \<Rightarrow>
                 (case malloc al of
                    (None, al) \<Rightarrow> Some (mon, -1, al)
                  | (Some _, al) \<Rightarrow>
                      if ce_easy_init env
                      then Some (mon\<lparr>mn_requests := mn_requests mon @
                             [setup_curl_request (mn_config mon) metrics headers data data_size]\<rparr>, 0, al)
                      else Some (mon, -1, al)))))"

text \<open>The loop that fills the message: the list that is filled and the rest of the current list.\<close>

function fill_loop :: "mlist \<Rightarrow> mlist \<Rightarrow> u64 \<Rightarrow> alloc \<Rightarrow> (mlist \<times> mlist \<times> alloc) option" where
  "fill_loop metrics current max_send_size al =
     (if l_size current \<noteq> 0 \<and> l_data_size metrics < max_send_size then
        (case monikor_metric_list_pop current of
           (None, _) \<Rightarrow> None
         | (Some m, current) \<Rightarrow>
             (case monikor_metric_list_push metrics m al of
                (metrics, _, al) \<Rightarrow> fill_loop metrics current max_send_size al))
      else Some (metrics, current, al))"
  by pat_completeness auto
termination
  by (relation "measure (\<lambda>(metrics, current, max_send_size, al). length (l_nodes current))")
    (auto simp: monikor_metric_list_pop_def split: list.splits)

declare fill_loop.simps [simp del]

definition monikor_send_all_metrics :: "curl_env \<Rightarrow> agent \<Rightarrow> alloc \<Rightarrow> (agent \<times> alloc) option" where
  "monikor_send_all_metrics env mon al =
     (let st = mn_metrics mon in
      if l_size (s_current st) = 0 \<and> l_size (s_cache st) = 0 then Some (mon, al)
      else case monikor_metric_list_new al of
        (None, al) \<Rightarrow> Some (mon\<lparr>mn_metrics := monikor_metric_store_cache st\<rparr>, al)
      | (Some metrics, al) \<Rightarrow>
          (let st = monikor_metric_store_uncache st in
           case fill_loop metrics (s_current st) (cf_max_send_size (mn_config mon)) al of
             None \<Rightarrow> None
           | Some (metrics, current, al) \<Rightarrow>
               (case monikor_send_metrics env (mon\<lparr>mn_metrics := st\<lparr>s_current := current\<rparr>\<rparr>) metrics al of
                  None \<Rightarrow> None
                | Some (mon, r, al) \<Rightarrow>
                    let st = mn_metrics mon;
                        st = (if r \<noteq> 0 then st\<lparr>s_cache := fst (monikor_metric_list_concat (s_cache st) metrics)\<rparr>
                              else st)
                    in Some (mon\<lparr>mn_metrics := monikor_metric_store_cache st\<rparr>, al))))"

definition monikor_send_all :: "curl_env \<Rightarrow> agent \<Rightarrow> alloc \<Rightarrow> (agent \<times> alloc) option" where
  "monikor_send_all env mon al = monikor_send_all_metrics env mon al"

text \<open>\<open>clock\<close> is the time of the round, \<open>now\<close> what the eviction reads a moment later.\<close>

definition monikor_update :: "curl_env \<Rightarrow> timeval \<Rightarrow> timeval \<Rightarrow> agent \<Rightarrow> alloc \<Rightarrow> (agent \<times> alloc) option" where
  "monikor_update env clock now mon al =
     (if tv_sec clock <s tv_sec (mn_last_clock mon) + size_of_int (cf_update_interval (mn_config mon))
      then Some (mon, al)
      else case monikor_evict_metrics now (mon\<lparr>mn_last_clock := clock\<rparr>) of
             None \<Rightarrow> None
           | Some (mon, _) \<Rightarrow> monikor_send_all env mon al)"

subsection \<open>The outbox: what the sender promises\<close>

text \<open>
  Abstractly the agent keeps three places for metrics: what waits from earlier rounds, what came
  in since, and the batches in flight.  A round takes the waiting metrics before the new ones, in
  order, until the batch has reached the size limit.
\<close>

record outbox =
  ob_waiting :: "metric list"
  ob_new :: "metric list"
  ob_flight :: "metric list list"

definition outbox_of :: "agent \<Rightarrow> outbox" where
  "outbox_of mon = \<lparr>ob_waiting = l_nodes (s_cache (mn_metrics mon)), ob_new = l_nodes (s_current (mn_metrics mon)),
     ob_flight = map (\<lambda>r. l_nodes (rq_metrics r)) (mn_requests mon)\<rparr>"

fun batch :: "u64 \<Rightarrow> u64 \<Rightarrow> metric list \<Rightarrow> metric list \<times> metric list" where
  "batch max_size n [] = ([], [])"
| "batch max_size n (m # ms) =
     (if n < max_size then (case batch max_size (n + monikor_metric_node_size m) ms of (a, b) \<Rightarrow> (m # a, b))
      else ([], m # ms))"

definition outbox_send :: "u64 \<Rightarrow> outbox \<Rightarrow> outbox" where
  "outbox_send max_size ob =
     (case batch max_size 0 (ob_waiting ob @ ob_new ob) of
        (a, b) \<Rightarrow> \<lparr>ob_waiting = b, ob_new = [], ob_flight = ob_flight ob @ [a]\<rparr>)"

definition outbox_hold :: "outbox \<Rightarrow> outbox" where
  "outbox_hold ob = ob\<lparr>ob_waiting := ob_waiting ob @ ob_new ob, ob_new := []\<rparr>"

text \<open>Messages whose wire format has a length that a \<open>size_t\<close> can hold.\<close>

definition message_fits :: "metric list \<Rightarrow> bool" where
  "message_fits ms \<longleftrightarrow> length (encode_message ms) < 2 ^ 64"

text \<open>libcurl and the host are there: what the documentation says of calls that succeed.\<close>

definition curl_ready :: "curl_env \<Rightarrow> config \<Rightarrow> bool" where
  "curl_ready env cfg \<longleftrightarrow> ce_easy_init env \<and> (cf_hostname cfg \<noteq> None \<or> ce_hostname env \<noteq> None)
     \<and> (\<forall>hs s al. alloc_ok al \<longrightarrow> (\<exists>al'. ce_slist_append env hs s al = (Some (hs @ [s]), al') \<and> alloc_ok al'))"

lemma length_encode_list_ge: "length ms \<le> length (encode_list ms)"
  by (induction ms) (simp_all add: length_encode_metric)

lemma message_fits_append: "message_fits (a @ b) \<Longrightarrow> message_fits a \<and> message_fits b"
  by (simp add: message_fits_def encode_message_def wr_lengths)

lemma message_fits_length: "message_fits ms \<Longrightarrow> length ms < 2 ^ 64"
  using length_encode_list_ge [of ms] by (simp add: message_fits_def encode_message_def wr_lengths)

lemma batch_split: "batch max_size n ms = (a, b) \<Longrightarrow> a @ b = ms"
  by (induction ms arbitrary: n a b) (auto split: if_splits prod.splits)

lemma fill_loop_batch:
  assumes "list_inv metrics" and "list_inv current" and "alloc_ok al" and "length (l_nodes current) < 2 ^ 64"
    and "batch max_size (l_data_size metrics) (l_nodes current) = (a, b)"
  shows "\<exists>metrics' current' al'. fill_loop metrics current max_size al = Some (metrics', current', al')
    \<and> l_nodes metrics' = l_nodes metrics @ a \<and> l_nodes current' = b \<and> list_inv metrics' \<and> list_inv current'
    \<and> alloc_ok al'"
  using assms
proof (induction "l_nodes current" arbitrary: metrics current al a b)
  case Nil
  then have "l_size current = 0" by (simp add: list_inv_def flip: Nil.hyps)
  with Nil show ?case by (auto simp: fill_loop.simps [of metrics] simp flip: Nil.hyps)
next
  case (Cons m ms)
  have size: "l_size current \<noteq> 0"
    using mlist.count_zero_iff [OF Cons.prems(2,4)] by (simp flip: Cons.hyps(2))
  show ?case
  proof (cases "l_data_size metrics < max_size")
    case False
    with Cons.prems have "a = []" "b = l_nodes current" by (auto simp flip: Cons.hyps(2))
    with False Cons.prems show ?thesis by (auto simp: fill_loop.simps [of metrics])
  next
    case True
    obtain rest where rest: "monikor_metric_list_pop current = (Some m, rest)" "l_nodes rest = ms"
      by (simp add: monikor_metric_list_pop_def flip: Cons.hyps(2))
    with Cons.prems(2) have ri: "list_inv rest" using list_pop_inv by blast
    obtain al1 where push: "monikor_metric_list_push metrics m al = (monikor_metric_list_push_node metrics m, 0, al1)"
      and al1: "alloc_ok al1" using Cons.prems(3) by (rule list_push_ok)
    let ?m = "monikor_metric_list_push_node metrics m"
    have ds: "l_data_size ?m = l_data_size metrics + monikor_metric_node_size m"
      by (simp add: monikor_metric_list_push_node_def)
    obtain a' b' where ab: "batch max_size (l_data_size ?m) ms = (a', b')" by force
    then have eq: "a = m # a'" "b = b'"
      using Cons.prems(5) True ds by (simp_all flip: Cons.hyps(2))
    have "length (l_nodes rest) < 2 ^ 64"
      using Cons.prems(4) rest by (simp flip: Cons.hyps(2))
    from Cons.hyps(1) [OF rest(2) [symmetric] list_push_node_inv [OF Cons.prems(1)] ri al1 this, of m a' b'] ab rest(2)
    show ?thesis using True size rest push eq
      by (auto simp: fill_loop.simps [of metrics])
  qed
qed

lemma list_init_size [simp]: "l_data_size monikor_metric_list_init = 0" "l_size monikor_metric_list_init = 0"
  by (simp_all add: monikor_metric_list_init_def)

text \<open>A request is made or it is not: nothing else changes.\<close>

lemma send_metrics_cases:
  assumes "alloc_ok al" and "list_inv metrics" and "message_fits (l_nodes metrics)"
  obtains (sent) r al' where "monikor_send_metrics env mon metrics al =
      Some (mon\<lparr>mn_requests := mn_requests mon @ [r]\<rparr>, 0, al')"
    and "rq_metrics r = metrics" and "rq_data r = encode_message (l_nodes metrics)"
    and "unat (rq_data_size r) = length (rq_data r)"
  | (kept) al' where "monikor_send_metrics env mon metrics al = Some (mon, -1, al')"
proof -
  obtain j al1 where 1: "malloc al = (Some j, al1)" "alloc_ok al1" using assms(1) by (rule alloc_ok_malloc)
  let ?msg = "encode_message (l_nodes metrics)"
  obtain al2 where 2: "monikor_metric_list_serialize (ce_endian env) metrics al1 =
      Some (Some (?msg, of_nat (length ?msg)), al2)"
    using serialize_message [OF 1(2) assms(2)] assms(3) by (auto simp: message_fits_def)
  have n: "unat (of_nat (length ?msg) :: u64) = length ?msg"
    using assms(3) by (simp add: message_fits_def unat_of_nat_u64)
  obtain h al3 where 3: "set_http_headers env (mn_config mon) al2 = (h, al3)" by force
  obtain x al4 where 4: "malloc al3 = (x, al4)" by force
  show ?thesis
  proof (cases "cf_url (mn_config mon) = None \<or> h = None \<or> x = None \<or> \<not> ce_easy_init env")
    case True
    with 1 2 3 4 have "\<exists>al'. monikor_send_metrics env mon metrics al = Some (mon, -1, al')"
      by (auto simp: monikor_send_metrics_def split: option.splits)
    with kept show ?thesis by blast
  next
    case False
    with 1 2 3 4 n show ?thesis
      by (intro sent [of "setup_curl_request (mn_config mon) metrics (the h) ?msg (of_nat (length ?msg))" al4])
        (auto simp: monikor_send_metrics_def setup_curl_request_def)
  qed
qed

lemma three_appends:
  assumes app: "\<And>hs s al. alloc_ok al \<Longrightarrow> \<exists>al'. f hs s al = (Some (hs @ [s]), al') \<and> alloc_ok al'"
    and "alloc_ok al"
  shows "\<exists>hs al'. or_null (f [] x) (\<lambda>h. or_null (f h y) (\<lambda>h. or_null (f h z) alloc_ret)) al = (Some hs, al') \<and> alloc_ok al'"
proof -
  obtain al1 where 1: "f [] x al = (Some [x], al1)" "alloc_ok al1" using app [OF assms(2), of "[]" x] by auto
  obtain al2 where 2: "f [x] y al1 = (Some [x, y], al2)" "alloc_ok al2" using app [OF 1(2), of "[x]" y] by auto
  obtain al3 where 3: "f [x, y] z al2 = (Some [x, y, z], al3)" "alloc_ok al3"
    using app [OF 2(2), of "[x, y]" z] by auto
  show ?thesis by (intro exI [of _ "[x, y, z]"] exI [of _ al3]) (simp add: alloc_simps 1 2 3)
qed

lemma set_http_headers_ready:
  assumes "curl_ready env cfg" and "alloc_ok al"
  obtains hs al' where "set_http_headers env cfg al = (Some hs, al')" and "alloc_ok al'"
proof -
  obtain name where name: "(if cf_hostname cfg \<noteq> None then cf_hostname cfg else ce_hostname env) = Some name"
    using assms(1) by (cases "cf_hostname cfg") (auto simp: curl_ready_def)
  have "\<exists>hs al'. set_http_headers env cfg al = (Some hs, al') \<and> alloc_ok al'"
    unfolding set_http_headers_def name option.case Let_def
    using assms by (intro three_appends) (auto simp: curl_ready_def)
  with that show ?thesis by blast
qed

lemma send_metrics_ready:
  assumes "alloc_ok al" and "list_inv metrics" and "message_fits (l_nodes metrics)"
    and "curl_ready env (mn_config mon)" and "cf_url (mn_config mon) \<noteq> None"
  shows "monikor_send_metrics env mon metrics al \<noteq> Some (mon, -1, al')"
proof -
  obtain j al1 where 1: "malloc al = (Some j, al1)" "alloc_ok al1" using assms(1) by (rule alloc_ok_malloc)
  let ?msg = "encode_message (l_nodes metrics)"
  obtain al2 where 2: "monikor_metric_list_serialize (ce_endian env) metrics al1 =
      Some (Some (?msg, of_nat (length ?msg)), al2)" "alloc_ok al2"
    using serialize_message [OF 1(2) assms(2)] assms(3) by (auto simp: message_fits_def)
  obtain h al3 where 3: "set_http_headers env (mn_config mon) al2 = (Some h, al3)" "alloc_ok al3"
    using assms(4) 2(2) by (rule set_http_headers_ready)
  obtain x al4 where 4: "malloc al3 = (Some x, al4)" using 3(2) by (rule alloc_ok_malloc)
  show ?thesis using 1 2 3 4 assms(4,5) by (auto simp: monikor_send_metrics_def curl_ready_def)
qed

text \<open>What a round of sending does to the agent, whatever libcurl answers.\<close>

lemma send_all_cases:
  assumes "alloc_ok al" and inv: "agent_inv mon"
    and fits: "message_fits (l_nodes (s_cache (mn_metrics mon)) @ l_nodes (s_current (mn_metrics mon)))"
  obtains mon' al' where "monikor_send_all_metrics env mon al = Some (mon', al')" and "agent_inv mon'"
    and "outbox_of mon' = outbox_send (cf_max_send_size (mn_config mon)) (outbox_of mon)
      \<or> outbox_of mon' = outbox_hold (outbox_of mon)"
    and "curl_ready env (mn_config mon) \<Longrightarrow> cf_url (mn_config mon) \<noteq> None \<Longrightarrow>
      l_nodes (s_cache (mn_metrics mon)) @ l_nodes (s_current (mn_metrics mon)) \<noteq> [] \<Longrightarrow>
      outbox_of mon' = outbox_send (cf_max_send_size (mn_config mon)) (outbox_of mon)"
    and "mn_config mon' = mn_config mon"
proof -
  let ?st = "mn_metrics mon" and ?max = "cf_max_send_size (mn_config mon)"
  let ?q = "l_nodes (s_cache ?st) @ l_nodes (s_current ?st)"
  have si: "store_inv ?st" and rq: "\<forall>r\<in>set (mn_requests mon). list_inv (rq_metrics r)
      \<and> (\<forall>m\<in>set (l_nodes (rq_metrics r)). \<not> is_delta m)"
    using inv by (simp_all add: agent_inv_def)
  then have li: "list_inv (s_cache ?st)" "list_inv (s_current ?st)" by (simp_all add: store_inv_def)
  have len: "length ?q < 2 ^ 64" using fits by (rule message_fits_length)
  have empty: "l_size (s_current ?st) = 0 \<and> l_size (s_cache ?st) = 0 \<longleftrightarrow> ?q = []"
    using mlist.count_zero_iff [OF li(1)] mlist.count_zero_iff [OF li(2)] len by auto
  show ?thesis
  proof (cases "?q = []")
    case True
    then have "monikor_send_all_metrics env mon al = Some (mon, al)"
      using empty by (simp add: monikor_send_all_metrics_def)
    moreover have "outbox_of mon = outbox_hold (outbox_of mon)"
      using True by (simp add: outbox_of_def outbox_hold_def)
    ultimately show ?thesis using inv True by (intro that [of mon al]) auto
  next
    case False
    obtain al1 where new: "monikor_metric_list_new al = (Some monikor_metric_list_init, al1)" "alloc_ok al1"
      using assms(1) by (rule list_new_ok)
    let ?u = "monikor_metric_store_uncache ?st"
    have ui: "store_inv ?u" using si by (rule uncache_inv)
    then have uc: "list_inv (s_current ?u)" "list_inv (s_cache ?u)" by (simp_all add: store_inv_def)
    obtain a b where ab: "batch ?max 0 ?q = (a, b)" by force
    have split: "a @ b = ?q" using ab by (rule batch_split)
    obtain ml cur al2 where fill: "fill_loop monikor_metric_list_init (s_current ?u) ?max al1 = Some (ml, cur, al2)"
      and nodes: "l_nodes ml = a" "l_nodes cur = b" "list_inv ml" "list_inv cur" "alloc_ok al2"
      using fill_loop_batch [OF list_init_inv uc(1) new(2), of ?max a b] uncache_nodes(1) [of ?st] ab len by auto
    have mfits: "message_fits (l_nodes ml)"
      using fits split nodes(1) message_fits_append [of a b] by simp
    let ?v = "?u\<lparr>s_current := cur\<rparr>"
    let ?mon = "mon\<lparr>mn_metrics := ?v\<rparr>"
    have nd: "\<forall>m\<in>set ?q. \<not> is_delta m" using si by (auto simp: store_inv_def)
    then have ndab: "\<forall>m\<in>set a \<union> set b. \<not> is_delta m" by (metis split set_append)
    have vi: "store_inv ?v"
      using ui uncache_nodes(2) [of ?st] nodes ndab by (simp add: store_inv_def)
    have ne: "\<not> (l_size (s_current ?st) = 0 \<and> l_size (s_cache ?st) = 0)" using empty False by simp
    note start = monikor_send_all_metrics_def Let_def if_not_P [OF ne] new fill
    show ?thesis
      using nodes(5,3) mfits
    proof (cases rule: send_metrics_cases [where env = env and mon = ?mon])
      case (sent r al')
      let ?mon' = "?mon\<lparr>mn_requests := mn_requests mon @ [r], mn_metrics := monikor_metric_store_cache ?v\<rparr>"
      have run: "monikor_send_all_metrics env mon al = Some (?mon', al')"
        using sent(1) by (simp add: start)
      have "agent_inv ?mon'"
        using cache_inv [OF vi] rq sent(2) nodes(1,3) ndab by (auto simp: agent_inv_def)
      moreover have "outbox_of ?mon' = outbox_send ?max (outbox_of mon)"
        using cache_nodes [of ?v] uncache_nodes(2) [of ?st] nodes ab sent(2)
        by (simp add: outbox_of_def outbox_send_def)
      ultimately show ?thesis using run by (intro that [of ?mon' al']) auto
    next
      case (kept al')
      let ?w = "?v\<lparr>s_cache := fst (monikor_metric_list_concat (s_cache ?v) ml)\<rparr>"
      let ?mon' = "?mon\<lparr>mn_metrics := monikor_metric_store_cache ?w\<rparr>"
      have run: "monikor_send_all_metrics env mon al = Some (?mon', al')"
        using kept by (simp add: start)
      have cat: "l_nodes (s_cache ?w) = a"
        using concat_nodes [of "s_cache ?u" ml] uncache_nodes(2) [of ?st] nodes by simp
      have "list_inv (s_cache ?w)"
        using mlist.concat_invar(1) [OF uc(2) nodes(3)] by simp
      with vi cat ndab nodes(2) have wi: "store_inv ?w" by (auto simp: store_inv_def)
      then have "agent_inv ?mon'" using cache_inv [OF wi] rq by (auto simp: agent_inv_def)
      moreover have "outbox_of ?mon' = outbox_hold (outbox_of mon)"
        using cache_nodes [of ?w] cat nodes split by (simp add: outbox_of_def outbox_hold_def)
      moreover have "\<not> (curl_ready env (mn_config mon) \<and> cf_url (mn_config mon) \<noteq> None)"
        using send_metrics_ready [OF nodes(5,3) mfits, of env ?mon al'] kept by (cases "cf_url (mn_config mon)") auto
      ultimately show ?thesis using run by (intro that [of ?mon' al']) auto
    qed
  qed
qed

subsection \<open>Responses\<close>

lemma response_inv:
  assumes "agent_inv mon" and "list_inv (rq_metrics r)"
    and "\<forall>m\<in>set (l_nodes (rq_metrics r)). \<not> is_delta m"
  shows "agent_inv (handle_server_response mon r result code)"
proof -
  let ?c = "fst (monikor_metric_list_concat (s_cache (mn_metrics mon)) (rq_metrics r))"
  have "list_inv ?c" using assms mlist.concat_invar(1) by (simp add: agent_inv_def store_inv_def)
  then have "store_inv ((mn_metrics mon)\<lparr>s_cache := ?c\<rparr>)"
    using assms concat_nodes [of "s_cache (mn_metrics mon)" "rq_metrics r"]
    by (auto simp: agent_inv_def store_inv_def)
  with assms(1) show ?thesis
    by (auto simp: handle_server_response_def Let_def agent_inv_def monikor_update_success_def
        monikor_update_backoff_def inv_intros split: prod.splits)
qed

text \<open>What a finished request does to the outbox.\<close>

definition outbox_response :: "outbox \<Rightarrow> u64 \<Rightarrow> metric list \<Rightarrow> cint \<Rightarrow> clong \<Rightarrow> outbox" where
  "outbox_response ob backoff ms result code =
     (if result \<noteq> CURLE_OK \<or> 500 \<le>s code then ob\<lparr>ob_waiting := ob_waiting ob @ ms\<rparr>
      else if 400 \<le>s code \<and> backoff \<noteq> 0 then ob\<lparr>ob_waiting := [], ob_new := []\<rparr>
      else ob)"

lemma response_outbox:
  "outbox_of (handle_server_response mon r result code) =
     outbox_response (outbox_of mon) (mn_backoff_count mon) (l_nodes (rq_metrics r)) result code"
proof -
  have "\<not> (500 \<le>s code \<or> 400 \<le>s code)" if "code = (200 :: clong)"
    unfolding that by (simp add: word_sle_eq)
  then show ?thesis
    using concat_nodes [of "s_cache (mn_metrics mon)" "rq_metrics r"]
    by (auto simp: handle_server_response_def outbox_response_def outbox_of_def Let_def monikor_update_success_def
        monikor_update_backoff_def monikor_metric_store_flush_all_def word_neq_0_conv split: prod.splits)
qed

subsection \<open>Rounds until everything is sent\<close>

fun send_rounds :: "curl_env \<Rightarrow> nat \<Rightarrow> agent \<Rightarrow> agent option" where
  "send_rounds env 0 mon = Some mon"
| "send_rounds env (Suc n) mon = do { (mon, _) \<leftarrow> monikor_send_all_metrics env mon []; send_rounds env n mon }"

lemma batch_progress: "0 < max_size \<Longrightarrow> ms \<noteq> [] \<Longrightarrow> batch max_size 0 ms = (a, b) \<Longrightarrow> a \<noteq> []"
  by (cases ms) (auto split: prod.splits)

lemma send_rounds_drain:
  assumes "curl_ready env (mn_config mon)" and "cf_url (mn_config mon) \<noteq> None" and "agent_inv mon"
    and "0 < cf_max_send_size (mn_config mon)" and "message_fits (ob_waiting (outbox_of mon) @ ob_new (outbox_of mon))"
    and "length (ob_waiting (outbox_of mon) @ ob_new (outbox_of mon)) \<le> n"
  shows "\<exists>mon' bs. send_rounds env n mon = Some mon' \<and> ob_waiting (outbox_of mon') = [] \<and> ob_new (outbox_of mon') = []
    \<and> ob_flight (outbox_of mon') = ob_flight (outbox_of mon) @ bs
    \<and> concat bs = ob_waiting (outbox_of mon) @ ob_new (outbox_of mon) \<and> [] \<notin> set bs"
  using assms
proof (induction n arbitrary: mon)
  case 0
  then show ?case by simp
next
  case (Suc n)
  let ?q = "ob_waiting (outbox_of mon) @ ob_new (outbox_of mon)" and ?max = "cf_max_send_size (mn_config mon)"
  have q: "?q = l_nodes (s_cache (mn_metrics mon)) @ l_nodes (s_current (mn_metrics mon))"
    by (simp add: outbox_of_def)
  obtain mon1 al1 where run: "monikor_send_all_metrics env mon [] = Some (mon1, al1)" "agent_inv mon1"
    and ob: "outbox_of mon1 = outbox_send ?max (outbox_of mon) \<or> outbox_of mon1 = outbox_hold (outbox_of mon)"
    and sent: "?q \<noteq> [] \<Longrightarrow> outbox_of mon1 = outbox_send ?max (outbox_of mon)"
    and cfg: "mn_config mon1 = mn_config mon"
    using send_all_cases [OF alloc_ok_Nil Suc.prems(3), of env] Suc.prems(1,2,5) q by metis
  obtain a b where ab: "batch ?max 0 ?q = (a, b)" by force
  have split: "a @ b = ?q" using ab by (rule batch_split)
  show ?case
  proof (cases "?q = []")
    case True
    have "monikor_send_all_metrics env mon [] = Some (mon, [])"
      using Suc.prems(3) True
      by (simp add: monikor_send_all_metrics_def outbox_of_def agent_inv_def store_inv_def list_inv_def)
    with run(1) have "mon1 = mon" by simp
    with Suc.IH [OF Suc.prems(1-5)] True run(1) show ?thesis by simp
  next
    case False
    have o1: "outbox_of mon1 = \<lparr>ob_waiting = b, ob_new = [], ob_flight = ob_flight (outbox_of mon) @ [a]\<rparr>"
      using sent [OF False] ab by (simp add: outbox_send_def)
    have "a \<noteq> []" using batch_progress [OF Suc.prems(4) False ab] .
    then have "length b \<le> n" using split Suc.prems(6) by (cases a) (auto simp flip: split)
    moreover have "message_fits b" using Suc.prems(5) message_fits_append [of a b] by (simp flip: split)
    ultimately obtain mon' bs where "send_rounds env n mon1 = Some mon'" "ob_waiting (outbox_of mon') = []"
      "ob_new (outbox_of mon') = []" "ob_flight (outbox_of mon') = ob_flight (outbox_of mon1) @ bs"
      "concat bs = b" "[] \<notin> set bs"
      using Suc.IH [of mon1] Suc.prems(1,2,4) run(2) cfg o1 by auto
    with run(1) o1 \<open>a \<noteq> []\<close> split show ?thesis
      by (intro exI [of _ mon'] exI [of _ "a # bs"]) simp
  qed
qed

subsection \<open>Where metrics go\<close>

text \<open>
  A run of the agent between two polls of its modules, with what the server acknowledged and what
  was given up: rounds of sending with enough memory (libcurl may refuse), responses to requests in
  flight, evictions, and the flush that a signal asks for.
\<close>

definition stored :: "agent \<Rightarrow> metric multiset" where
  "stored mon = mset (ob_waiting (outbox_of mon)) + mset (ob_new (outbox_of mon))"

definition held :: "agent \<Rightarrow> metric multiset" where
  "held mon = stored mon + mset (concat (ob_flight (outbox_of mon)))"

inductive agent_run :: "agent \<Rightarrow> metric multiset \<Rightarrow> metric multiset \<Rightarrow> agent \<Rightarrow> bool" where
  run_start: "agent_run mon {#} {#} mon"
| run_send: "agent_run mon0 d l mon \<Longrightarrow> alloc_ok al \<Longrightarrow>
    message_fits (ob_waiting (outbox_of mon) @ ob_new (outbox_of mon)) \<Longrightarrow>
    monikor_send_all_metrics env mon al = Some (mon', al') \<Longrightarrow> agent_run mon0 d l mon'"
| run_response: "agent_run mon0 d l mon \<Longrightarrow> mn_requests mon = rs @ r # rs' \<Longrightarrow>
    mon' = handle_server_response (mon\<lparr>mn_requests := rs @ rs'\<rparr>) r result code \<Longrightarrow>
    d' = (if result = CURLE_OK \<and> code = 200 then mset (l_nodes (rq_metrics r)) else {#}) \<Longrightarrow>
    l' = (if result \<noteq> CURLE_OK \<or> 500 \<le>s code \<or> code = 200 then {#}
          else mset (l_nodes (rq_metrics r)) +
            (if 400 \<le>s code \<and> mn_backoff_count mon \<noteq> 0 then stored mon else {#})) \<Longrightarrow>
    agent_run mon0 (d + d') (l + l') mon'"
| run_evict: "agent_run mon0 d l mon \<Longrightarrow> monikor_evict_metrics now mon = Some (mon', n) \<Longrightarrow>
    k = length (ob_waiting (outbox_of mon)) - length (ob_waiting (outbox_of mon')) \<Longrightarrow>
    agent_run mon0 d (l + mset (take k (ob_waiting (outbox_of mon)))) mon'"
| run_flush: "agent_run mon0 d l mon \<Longrightarrow> agent_run mon0 d (l + stored mon) (monikor_flush_all mon)"

lemma batch_stored: "mset (ob_waiting (outbox_send m ob)) + mset (ob_new (outbox_send m ob)) + mset (concat (ob_flight (outbox_send m ob)))
    = mset (ob_waiting ob) + mset (ob_new ob) + mset (concat (ob_flight ob))"
proof -
  obtain a b where ab: "batch m 0 (ob_waiting ob @ ob_new ob) = (a, b)" by force
  then have "mset a + mset b = mset (ob_waiting ob) + mset (ob_new ob)"
    using batch_split [OF ab] by (metis mset_append)
  with ab show ?thesis by (simp add: outbox_send_def ac_simps)
qed

lemma send_held:
  assumes "alloc_ok al" and "agent_inv mon" and "message_fits (ob_waiting (outbox_of mon) @ ob_new (outbox_of mon))"
    and "monikor_send_all_metrics env mon al = Some (mon', al')"
  shows "agent_inv mon' \<and> held mon' = held mon"
proof -
  have "message_fits (l_nodes (s_cache (mn_metrics mon)) @ l_nodes (s_current (mn_metrics mon)))"
    using assms(3) by (simp add: outbox_of_def)
  then obtain mon2 al2 where "monikor_send_all_metrics env mon al = Some (mon2, al2)" and inv: "agent_inv mon2"
    and ob: "outbox_of mon2 = outbox_send (cf_max_send_size (mn_config mon)) (outbox_of mon)
      \<or> outbox_of mon2 = outbox_hold (outbox_of mon)"
    using send_all_cases [OF assms(1,2), of env] by metis
  then have [simp]: "mon2 = mon'" using assms(4) by simp
  from ob have "held mon' = held mon"
    by (elim disjE) (simp_all add: held_def stored_def batch_stored outbox_hold_def)
  with inv show ?thesis by simp
qed

lemma response_held:
  assumes "mn_requests mon = rs @ r # rs'"
    and "mon' = handle_server_response (mon\<lparr>mn_requests := rs @ rs'\<rparr>) r result code"
  shows "held mon = held mon'
    + (if result = CURLE_OK \<and> code = 200 then mset (l_nodes (rq_metrics r)) else {#})
    + (if result \<noteq> CURLE_OK \<or> 500 \<le>s code \<or> code = 200 then {#}
       else mset (l_nodes (rq_metrics r)) + (if 400 \<le>s code \<and> mn_backoff_count mon \<noteq> 0 then stored mon else {#}))"
proof -
  have "\<not> 500 \<le>s (200 :: clong)" "\<not> 400 \<le>s (200 :: clong)" by (simp_all add: word_sle_eq)
  then show ?thesis
    unfolding assms(2) held_def stored_def response_outbox outbox_response_def
    using assms(1) by (auto simp: outbox_of_def ac_simps)
qed

lemma evict_held:
  assumes "agent_inv mon" and "monikor_evict_metrics now mon = Some (mon', n)"
  shows "agent_inv mon' \<and> held mon = held mon' + mset (take (length (ob_waiting (outbox_of mon))
    - length (ob_waiting (outbox_of mon'))) (ob_waiting (outbox_of mon)))"
proof -
  obtain mon2 k n2 where e: "monikor_evict_metrics now mon = Some (mon2, n2)" "agent_inv mon2"
    "mon2 = mon\<lparr>mn_metrics := mn_metrics mon2\<rparr>" "s_current (mn_metrics mon2) = s_current (mn_metrics mon)"
    "l_nodes (s_cache (mn_metrics mon2)) = drop k (l_nodes (s_cache (mn_metrics mon)))"
    using evict_metrics_ok [OF assms(1)] by metis
  have [simp]: "mon2 = mon'" using e(1) assms(2) by simp
  let ?w = "l_nodes (s_cache (mn_metrics mon))"
  have rq: "mn_requests mon' = mn_requests mon" using arg_cong [OF e(3), of mn_requests] by simp
  have "take (length ?w - length (drop k ?w)) ?w = take k ?w" by (cases "k \<le> length ?w") simp_all
  moreover have "mset ?w = mset (drop k ?w) + mset (take k ?w)"
    by (metis append_take_drop_id mset_append union_commute)
  ultimately show ?thesis using e(2,4,5) rq by (simp add: held_def stored_def outbox_of_def)
qed

lemma flush_held: "held mon = held (monikor_flush_all mon) + stored mon"
  by (simp add: held_def stored_def outbox_of_def monikor_flush_all_def monikor_metric_store_flush_all_def)

lemma agent_run_conserves:
  "agent_run mon0 d l mon \<Longrightarrow> agent_inv mon0 \<Longrightarrow> agent_inv mon \<and> held mon0 = held mon + d + l"
proof (induction rule: agent_run.induct)
  case (run_start mon)
  then show ?case by simp
next
  case (run_send mon0 d l mon al env mon' al')
  with send_held [OF run_send(2)] show ?case by metis
next
  case (run_response mon0 d l mon rs r rs' mon' result code d' l')
  then have inv: "agent_inv mon" and h: "held mon0 = held mon + d + l" by simp_all
  then have "agent_inv (mon\<lparr>mn_requests := rs @ rs'\<rparr>)" and "list_inv (rq_metrics r)"
    and "\<forall>m\<in>set (l_nodes (rq_metrics r)). \<not> is_delta m"
    using run_response.hyps(2) by (auto simp: agent_inv_def)
  then have "agent_inv mon'" unfolding run_response.hyps(3) by (rule response_inv)
  with h response_held [OF run_response.hyps(2,3)] show ?case
    unfolding run_response.hyps(4,5) by (simp add: ac_simps)
next
  case (run_evict mon0 d l mon now mon' n k)
  with evict_held [of mon now mon' n] show ?case by (simp add: ac_simps)
next
  case (run_flush mon0 d l mon)
  with flush_held [of mon] show ?case by (simp add: ac_simps flush_all_agent_inv)
qed

subsection \<open>Properties\<close>

definition sample_curl :: curl_env where
  "sample_curl = \<lparr>ce_endian = LE, ce_hostname = Some ''h'', ce_slist_append = (\<lambda>hs s al. (Some (hs @ [s]), al)),
     ce_easy_init = True\<rparr>"

definition loaded_agent :: agent where
  "loaded_agent = sample_agent\<lparr>mn_metrics := empty_store\<lparr>s_current := wire_sample\<rparr>\<rparr>"

lemma sample_curl_ready: "curl_ready sample_curl cfg"
  by (simp add: curl_ready_def sample_curl_def)

lemma loaded_agent_inv: "agent_inv loaded_agent"
  using wire_sample_ok(1)
  by (auto simp: loaded_agent_def sample_agent_def agent_inv_def store_inv_def empty_store_def list_init_inv
      wire_sample_def monikor_metric_list_push_node_def MONIKOR_METRIC_DELTA_def)

lemma loaded_agent_fits:
  "message_fits (ob_waiting (outbox_of loaded_agent) @ ob_new (outbox_of loaded_agent))"
  using wire_sample_ok(4) by (simp add: message_fits_def outbox_of_def loaded_agent_def empty_store_def)

lemma loaded_agent_simps [simp]:
  "ob_waiting (outbox_of loaded_agent) = []" "ob_new (outbox_of loaded_agent) = l_nodes wire_sample"
  "ob_flight (outbox_of loaded_agent) = []" "cf_max_send_size (mn_config loaded_agent) = 5242880"
  "cf_url (mn_config loaded_agent) = Some ''http://a''" "mn_requests loaded_agent = []"
  by (simp_all add: outbox_of_def loaded_agent_def empty_store_def sample_agent_def sample_settings_def)

lemma wire_sample_nonempty [simp]: "l_nodes wire_sample \<noteq> []"
  by (simp add: wire_sample_def)

text \<open>C1: when libcurl is available and a server is configured, a round of sending is exactly the
  abstract round: one batch, waiting metrics before new ones and in order, goes in flight as its
  wire format and the rest waits for the next round.\<close>

theorem send_round_refines_outbox:
  assumes "alloc_ok al" and "agent_inv mon" and "message_fits (ob_waiting (outbox_of mon) @ ob_new (outbox_of mon))"
    and "curl_ready env (mn_config mon)" and "cf_url (mn_config mon) \<noteq> None"
    and "ob_waiting (outbox_of mon) @ ob_new (outbox_of mon) \<noteq> []"
  shows "\<exists>mon' al'. monikor_send_all_metrics env mon al = Some (mon', al') \<and> agent_inv mon'
    \<and> outbox_of mon' = outbox_send (cf_max_send_size (mn_config mon)) (outbox_of mon)"
proof -
  have "message_fits (l_nodes (s_cache (mn_metrics mon)) @ l_nodes (s_current (mn_metrics mon)))"
    and "l_nodes (s_cache (mn_metrics mon)) @ l_nodes (s_current (mn_metrics mon)) \<noteq> []"
    using assms(3,6) by (simp_all add: outbox_of_def)
  then show ?thesis using send_all_cases [OF assms(1,2), of env] assms(4,5) by metis
qed

theorem send_round_refines_outbox_witness:
  "\<exists>mon' al'. monikor_send_all_metrics sample_curl loaded_agent [] = Some (mon', al')
    \<and> outbox_of mon' = \<lparr>ob_waiting = [], ob_new = [], ob_flight = [l_nodes wire_sample]\<rparr>"
proof -
  obtain m where "l_nodes wire_sample = [m]" by (simp add: wire_sample_def monikor_metric_list_push_node_def)
  then have ob: "outbox_send 5242880 (outbox_of loaded_agent)
      = \<lparr>ob_waiting = [], ob_new = [], ob_flight = [l_nodes wire_sample]\<rparr>"
    by (simp add: outbox_send_def)
  have "\<exists>mon' al'. monikor_send_all_metrics sample_curl loaded_agent [] = Some (mon', al') \<and> agent_inv mon'
    \<and> outbox_of mon' = outbox_send (cf_max_send_size (mn_config loaded_agent)) (outbox_of loaded_agent)"
    by (rule send_round_refines_outbox [OF alloc_ok_Nil loaded_agent_inv loaded_agent_fits sample_curl_ready])
      simp_all
  then show ?thesis unfolding loaded_agent_simps(4) ob by blast
qed



text \<open>C13: with a positive send size every round makes progress: after as many rounds as there are
  metrics, all of them are in flight, in non-empty batches whose concatenation is the waiting
  metrics followed by the new ones.\<close>

theorem send_rounds_drain_outbox:
  assumes "curl_ready env (mn_config mon)" and "cf_url (mn_config mon) \<noteq> None" and "agent_inv mon"
    and "0 < cf_max_send_size (mn_config mon)" and "message_fits (ob_waiting (outbox_of mon) @ ob_new (outbox_of mon))"
  shows "\<exists>mon' bs. send_rounds env (length (ob_waiting (outbox_of mon) @ ob_new (outbox_of mon))) mon = Some mon'
    \<and> ob_waiting (outbox_of mon') = [] \<and> ob_new (outbox_of mon') = []
    \<and> ob_flight (outbox_of mon') = ob_flight (outbox_of mon) @ bs
    \<and> concat bs = ob_waiting (outbox_of mon) @ ob_new (outbox_of mon) \<and> [] \<notin> set bs"
  using send_rounds_drain [OF assms order.refl] .

theorem send_rounds_drain_outbox_witness:
  "\<exists>mon' bs. send_rounds sample_curl 1 loaded_agent = Some mon' \<and> ob_flight (outbox_of mon') = bs
    \<and> concat bs = l_nodes wire_sample"
  using send_rounds_drain_outbox [of sample_curl loaded_agent] sample_curl_ready loaded_agent_inv loaded_agent_fits
  by (auto simp: wire_sample_def)

text \<open>The size of a batch: without its last metric it is below the limit, and it stops before the end
  only when it has reached the limit.\<close>

lemma batch_size:
  "batch m n ms = (a, b) \<Longrightarrow>
     (a \<noteq> [] \<longrightarrow> n + nodes_data_size (butlast a) < m) \<and> (b \<noteq> [] \<longrightarrow> m \<le> n + nodes_data_size a)"
proof (induction ms arbitrary: n a b)
  case (Cons x ms)
  show ?case
  proof (cases "n < m")
    case True
    obtain a' b' where ab: "batch m (n + monikor_metric_node_size x) ms = (a', b')" by force
    with True Cons.prems have "a = x # a'" "b = b'" by auto
    with Cons.IH [OF ab] True show ?thesis by (cases a') (auto simp: ac_simps)
  qed (use Cons.prems in auto)
qed simp

text \<open>the size counter of a message that is filled stays below the limit until its last metric,
  and a metric is left for later only when the limit is reached.\<close>

theorem fill_loop_bounded:
  assumes "list_inv current" and "alloc_ok al" and "length (l_nodes current) < 2 ^ 64"
  shows "\<exists>metrics rest al' a. fill_loop monikor_metric_list_init current max_size al = Some (metrics, rest, al')
    \<and> l_nodes metrics = a \<and> a @ l_nodes rest = l_nodes current
    \<and> (a \<noteq> [] \<longrightarrow> nodes_data_size (butlast a) < max_size)
    \<and> (l_nodes rest \<noteq> [] \<longrightarrow> max_size \<le> l_data_size metrics)"
proof -
  obtain a b where ab: "batch max_size 0 (l_nodes current) = (a, b)" by force
  then obtain metrics rest al' where "fill_loop monikor_metric_list_init current max_size al = Some (metrics, rest, al')"
    "l_nodes metrics = a" "l_nodes rest = b" "list_inv metrics"
    using fill_loop_batch [OF list_init_inv assms, of max_size a b] ab by auto
  with batch_split [OF ab] batch_size [OF ab] show ?thesis by (auto simp: list_inv_def)
qed

theorem fill_loop_bounded_witness:
  "\<exists>metrics rest al' a. fill_loop monikor_metric_list_init wire_sample 1 [] = Some (metrics, rest, al')
    \<and> l_nodes metrics = a \<and> a @ l_nodes rest = l_nodes wire_sample"
  using fill_loop_bounded [of wire_sample "[]" 1] wire_sample_ok(1) by (auto simp: wire_sample_def)

text \<open>a finished request: after a failed transfer or a server error its metrics wait again, behind
  the ones that already wait even if those are newer; after 4xx they are given up, and from the
  second one in a row everything stored is flushed too; after any other answer they are gone.  Only
  4xx keeps counting failures: a transfer error or a 5xx starts the count over, like a success.\<close>

theorem response_effects:
  "outbox_of (handle_server_response mon r result code) =
     (if result \<noteq> CURLE_OK \<or> 500 \<le>s code
      then (outbox_of mon)\<lparr>ob_waiting := ob_waiting (outbox_of mon) @ l_nodes (rq_metrics r)\<rparr>
      else if 400 \<le>s code \<and> mn_backoff_count mon \<noteq> 0 then (outbox_of mon)\<lparr>ob_waiting := [], ob_new := []\<rparr>
      else outbox_of mon)
   \<and> mn_backoff_count (handle_server_response mon r result code) =
     (if result \<noteq> CURLE_OK \<or> 500 \<le>s code \<or> code = 200 then 0
      else if 400 \<le>s code \<and> mn_backoff_count mon < 15 then mn_backoff_count mon + 1
      else mn_backoff_count mon)"
proof -
  have "\<not> 500 \<le>s (200 :: clong)" "\<not> 400 \<le>s (200 :: clong)" by (simp_all add: word_sle_eq)
  then have "mn_backoff_count (handle_server_response mon r result code) =
     (if result \<noteq> CURLE_OK \<or> 500 \<le>s code \<or> code = 200 then 0
      else if 400 \<le>s code \<and> mn_backoff_count mon < 15 then mn_backoff_count mon + 1
      else mn_backoff_count mon)"
    by (auto simp: handle_server_response_def Let_def monikor_update_success_def monikor_update_backoff_def
        MONIKOR_UPDATE_BACKOFF_COUNT_MAX_def split: prod.splits)
  with response_outbox [of mon r result code] show ?thesis by (simp add: outbox_response_def)
qed

theorem response_effects_witness:
  "outbox_of (handle_server_response loaded_agent (setup_curl_request sample_settings wire_sample [] [] 0) CURLE_OK 503)
    = (outbox_of loaded_agent)\<lparr>ob_waiting := l_nodes wire_sample\<rparr>"
proof -
  have "500 \<le>s (503 :: clong)" by (simp add: word_sle_eq)
  then show ?thesis
    using response_effects [of loaded_agent "setup_curl_request sample_settings wire_sample [] [] 0" CURLE_OK 503]
    by (simp add: setup_curl_request_def)
qed

text \<open>When the buffer of the message cannot be allocated, the early exit frees a pointer that was
  never set, unless the memory of the request happened to be zero.\<close>

theorem send_metrics_frees_garbage:
  assumes "cf_url (mn_config mon) \<noteq> None"
  shows "monikor_send_metrics env mon metrics (Some j # None # al)
    = (if j = 0 then Some (mon, -1, al) else None)"
  using assms by (auto simp: monikor_send_metrics_def monikor_metric_list_serialize_def)

theorem send_metrics_frees_garbage_witness:
  "monikor_send_metrics sample_curl loaded_agent wire_sample [Some 1, None] = None"
  using send_metrics_frees_garbage [of loaded_agent sample_curl wire_sample 1 "[]"] by simp

end
