(* ===== verification/C_Text.thy ===== *)
theory C_Text
  imports Agent CFloat
begin

text \<open>
  The string functions of the C library that the modules read their sources with, as the GNU
  library documents them.  A pointer into a string is the suffix it points to, a null pointer is
  \<open>None\<close>, and \<open>*end = 0\<close> at a found character keeps what precedes it.
\<close>

subsection \<open>Searching\<close>

definition strncmp_eq :: "string \<Rightarrow> string \<Rightarrow> nat \<Rightarrow> bool" where
  "strncmp_eq s t n \<longleftrightarrow> take n s = take n t"

fun strstr :: "string \<Rightarrow> string \<Rightarrow> string option" where
  "strstr [] t = (if t = [] then Some [] else None)"
| "strstr (c # s) t = (if take (length t) (c # s) = t then Some (c # s) else strstr s t)"

fun strchr :: "string \<Rightarrow> char \<Rightarrow> string option" where
  "strchr [] c = None"
| "strchr (d # s) c = (if d = c then Some (d # s) else strchr s c)"

fun strrchr :: "string \<Rightarrow> char \<Rightarrow> string option" where
  "strrchr [] c = None"
| "strrchr (d # s) c = (case strrchr s c of Some r \<Rightarrow> Some r | None \<Rightarrow> if d = c then Some (d # s) else None)"

text \<open>What is left of a string when its first \<open>c\<close>, or its last one, is overwritten with NUL.\<close>

definition cut_at :: "char \<Rightarrow> string \<Rightarrow> string" where
  "cut_at c s = takeWhile (\<lambda>d. d \<noteq> c) s"

definition cut_last :: "char \<Rightarrow> string \<Rightarrow> string" where
  "cut_last c s = (case strrchr s c of None \<Rightarrow> s | Some r \<Rightarrow> take (length s - length r) s)"

lemma strstr_suffix: "strstr s t = Some r \<Longrightarrow> \<exists>p. s = p @ r"
  by (induction s) (auto split: if_splits intro: exI [of _ "_ # _"])

lemma strstr_prefix: "strstr s t = Some r \<Longrightarrow> take (length t) r = t"
  by (induction s) (auto split: if_splits)

lemma strstr_length: "strstr s t = Some r \<Longrightarrow> length r \<le> length s"
  by (auto dest: strstr_suffix)

lemma strstr_here [simp]: "strstr (t @ s) t = Some (t @ s)"
proof -
  have "take (length t) (t @ s) = t" by simp
  then show ?thesis by (cases "t @ s") (auto simp del: take_append)
qed

lemma strchr_suffix: "strchr s c = Some r \<Longrightarrow> s = cut_at c s @ r \<and> (\<exists>r'. r = c # r')"
  by (induction s) (auto simp: cut_at_def split: if_splits)

lemma strchr_length: "strchr s c = Some r \<Longrightarrow> length r \<le> length s \<and> r \<noteq> []"
  by (metis strchr_suffix length_append le_add2 list.discI)

lemma strchr_None: "strchr s c = None \<longleftrightarrow> c \<notin> set s"
  by (induction s) auto

lemma strchr_append: "c \<notin> set p \<Longrightarrow> strchr (p @ c # s) c = Some (c # s)"
  by (induction p) auto

lemma cut_at_append [simp]: "c \<notin> set p \<Longrightarrow> cut_at c (p @ c # s) = p"
  by (induction p) (auto simp: cut_at_def)

lemma strrchr_suffix: "strrchr s c = Some r \<Longrightarrow> \<exists>p r'. s = p @ r \<and> r = c # r' \<and> c \<notin> set r'"
proof (induction s)
  case (Cons d s)
  have none: "strrchr s c = None \<Longrightarrow> c \<notin> set s" for s
    by (induction s) (auto split: option.splits if_splits)
  show ?case
  proof (cases "strrchr s c")
    case None
    with Cons.prems none show ?thesis by (auto split: if_splits)
  next
    case (Some r')
    with Cons.prems have "r' = r" by simp
    with Cons.IH Some obtain p q where "s = p @ r" "r = c # q" "c \<notin> set q" by auto
    then show ?thesis by (intro exI [of _ "d # p"] exI [of _ q]) simp
  qed
qed simp

text \<open>A field is found at its first occurrence; no line before it holds its name.\<close>

lemma strstr_skip:
  assumes "\<forall>i < length p. take (length t) (drop i (p @ t @ s)) \<noteq> t"
  shows "strstr (p @ t @ s) t = Some (t @ s)"
  using assms
proof (induction p)
  case Nil
  then show ?case by simp
next
  case (Cons c p)
  have "take (length t) (drop 0 ((c # p) @ t @ s)) \<noteq> t" using Cons.prems by blast
  moreover have "\<forall>i < length p. take (length t) (drop i (p @ t @ s)) \<noteq> t"
    using Cons.prems by (metis Suc_less_eq append_Cons drop_Suc_Cons length_Cons)
  ultimately show ?case using Cons.IH by simp
qed

subsection \<open>Numbers\<close>

text \<open>\<open>strtoull(s, &end, 10)\<close>: the value and the rest; no digits: 0 and the whole string.\<close>

definition strtoull_10 :: "string \<Rightarrow> u64 \<times> string" where
  "strtoull_10 str =
     (let s = dropWhile c_isspace str;
          neg = (s \<noteq> [] \<and> hd s = CHR ''-'');
          s = (if s \<noteq> [] \<and> (hd s = CHR ''-'' \<or> hd s = CHR ''+'') then tl s else s);
          (n, rest) = read_digits 10 s
      in if s = rest then (0, str)
         else if 2 ^ 64 - 1 < n then (2 ^ 64 - 1, rest)
         else (if neg then - of_nat n else of_nat n, rest))"

text \<open>\<open>strtoull(s, NULL, 0)\<close>: the base is that of a C constant.\<close>

definition strtoull_0 :: "string \<Rightarrow> u64" where
  "strtoull_0 str =
     (let s = dropWhile c_isspace str;
          neg = (s \<noteq> [] \<and> hd s = CHR ''-'');
          s = (if s \<noteq> [] \<and> (hd s = CHR ''-'' \<or> hd s = CHR ''+'') then tl s else s);
          (n, _) = (if take 2 s \<in> {''0x'', ''0X''} then read_digits 16 (drop 2 s)
                    else if take 1 s = ''0'' then read_digits 8 s else read_digits 10 s)
      in if 2 ^ 64 - 1 < n then 2 ^ 64 - 1 else if neg then - of_nat n else of_nat n)"

text \<open>\<open>strtol(s, &end, 10)\<close>, \<open>atol(s)\<close>.\<close>

definition strtol_10 :: "string \<Rightarrow> clong \<times> string" where
  "strtol_10 str =
     (let s = dropWhile c_isspace str;
          neg = (s \<noteq> [] \<and> hd s = CHR ''-'');
          s = (if s \<noteq> [] \<and> (hd s = CHR ''-'' \<or> hd s = CHR ''+'') then tl s else s);
          (n, rest) = read_digits 10 s
      in if s = rest then (0, str)
         else (if neg then - of_nat (min n (2 ^ 63)) else of_nat (min n (2 ^ 63 - 1)), rest))"

definition atol :: "string \<Rightarrow> clong" where
  "atol s = fst (strtol_10 s)"

text \<open>\<open>%d\<close>, \<open>%zu\<close> of a non-negative number.\<close>

fun dec_digits :: "nat \<Rightarrow> string" where
  "dec_digits n = (if n < 10 then [char_of (48 + n)] else dec_digits (n div 10) @ [char_of (48 + n mod 10)])"

declare dec_digits.simps [simp del]

lemma digit_value_dec: "n < 10 \<Longrightarrow> digit_value (char_of (48 + n)) = n"
  by (simp add: digit_value_def Let_def)

lemma dec_digits_all: "c \<in> set (dec_digits n) \<Longrightarrow> digit_value c < 10"
proof (induction n rule: dec_digits.induct)
  case (1 n)
  show ?case
  proof (cases "n < 10")
    case True
    with "1.prems" show ?thesis by (simp add: dec_digits.simps [of n] digit_value_dec)
  next
    case False
    with "1.prems" consider "c \<in> set (dec_digits (n div 10))" | "c = char_of (48 + n mod 10)"
      by (auto simp: dec_digits.simps [of n])
    then show ?thesis using "1.IH" False by cases (simp_all add: digit_value_dec)
  qed
qed

lemma dec_digits_value: "foldl (\<lambda>m c. 10 * m + digit_value c) 0 (dec_digits n) = n"
  by (induction n rule: dec_digits.induct) (subst dec_digits.simps, simp add: digit_value_dec)

lemma dec_digits_nonempty: "dec_digits n \<noteq> []"
  by (subst dec_digits.simps) simp

lemma read_dec_digits:
  assumes "rest = [] \<or> 10 \<le> digit_value (hd rest)"
  shows "read_digits 10 (dec_digits n @ rest) = (n, rest)"
proof -
  have "takeWhile (\<lambda>c. digit_value c < 10) (dec_digits n @ rest) = dec_digits n"
    using assms dec_digits_all by (subst takeWhile_append2) (auto simp: takeWhile_eq_Nil_iff)
  moreover have "dropWhile (\<lambda>c. digit_value c < 10) (dec_digits n @ rest) = rest"
    using assms dec_digits_all by (subst dropWhile_append2) (auto simp: dropWhile_eq_self_iff)
  ultimately show ?thesis by (simp add: read_digits_def dec_digits_value)
qed

lemma dec_digits_hd: "c_isspace (hd (dec_digits n)) = False" "hd (dec_digits n) \<noteq> CHR ''-''" "hd (dec_digits n) \<noteq> CHR ''+''"
proof -
  have d: "digit_value (hd (dec_digits n)) < 10"
    using dec_digits_all dec_digits_nonempty by (metis hd_in_set)
  have "10 \<le> digit_value c" if "c_isspace c \<or> c = CHR ''-'' \<or> c = CHR ''+''" for c
    using that by (auto simp: c_isspace_def digit_value_def Let_def)
  with d show "c_isspace (hd (dec_digits n)) = False" "hd (dec_digits n) \<noteq> CHR ''-''" "hd (dec_digits n) \<noteq> CHR ''+''"
    by (metis not_le)+
qed

text \<open>Reading a printed number, after any spaces.\<close>

lemma strtoull_dec:
  assumes "\<forall>c\<in>set sp. c_isspace c" and "rest = [] \<or> 10 \<le> digit_value (hd rest)" and "n < 2 ^ 64"
  shows "strtoull_10 (sp @ dec_digits n @ rest) = (of_nat n, rest)"
proof -
  obtain c cs where c: "dec_digits n = c # cs" using dec_digits_nonempty by (cases "dec_digits n") auto
  have h: "\<not> c_isspace c" "c \<noteq> CHR ''-''" "c \<noteq> CHR ''+''" using dec_digits_hd [of n] c by simp_all
  have sp: "dropWhile c_isspace (sp @ c # cs @ rest) = c # cs @ rest"
    using assms(1) h(1) by (subst dropWhile_append2) auto
  have "read_digits 10 (c # cs @ rest) = (n, rest)" using read_dec_digits [OF assms(2), of n] c by simp
  moreover have "c # cs @ rest \<noteq> rest" by (metis append_Cons append_self_conv2 list.discI)
  ultimately show ?thesis
    unfolding strtoull_10_def Let_def c append_Cons sp using assms(3) h by simp
qed

text \<open>\<open>strtof\<close>: a decimal or hexadecimal fraction with an optional exponent, correctly rounded, or
  one of the special values.\<close>

definition lower :: "char \<Rightarrow> char" where
  "lower c = (let n = of_char c :: nat in if 65 \<le> n \<and> n \<le> 90 then char_of (n + 32) else c)"

definition starts_nocase :: "string \<Rightarrow> string \<Rightarrow> bool" where
  "starts_nocase t s \<longleftrightarrow> map lower (take (length t) s) = t"

text \<open>The exponent after \<open>e\<close> or \<open>p\<close>, when digits follow it.\<close>

definition read_exponent :: "char \<Rightarrow> string \<Rightarrow> int \<times> string" where
  "read_exponent mark s =
     (case s of
        c # t \<Rightarrow>
          (if lower c = mark then
             (let neg = (t \<noteq> [] \<and> hd t = CHR ''-'');
                  u = (if t \<noteq> [] \<and> (hd t = CHR ''-'' \<or> hd t = CHR ''+'') then tl t else t);
                  (n, rest) = read_digits 10 u
              in if u = rest then (0, s) else (if neg then - int n else int n, rest))
           else (0, s))
      | [] \<Rightarrow> (0, s))"

text \<open>Mantissa digits, number of fraction digits, and the rest; \<open>None\<close> when there is no digit.\<close>

definition read_mantissa :: "nat \<Rightarrow> string \<Rightarrow> (nat \<times> nat \<times> string) option" where
  "read_mantissa base s =
     (let ok = (\<lambda>c. digit_value c < base);
          ip = takeWhile ok s; r = dropWhile ok s;
          (fp, r) = (if r \<noteq> [] \<and> hd r = CHR ''.'' \<and> (ip \<noteq> [] \<or> takeWhile ok (tl r) \<noteq> [])
                     then (takeWhile ok (tl r), dropWhile ok (tl r)) else ([], r))
      in if ip = [] \<and> fp = [] then None
         else Some (foldl (\<lambda>n c. base * n + digit_value c) 0 (ip @ fp), length fp, r))"

definition fp_of_scaled :: "bool \<Rightarrow> nat \<Rightarrow> nat \<Rightarrow> int \<Rightarrow> fp" where
  "fp_of_scaled neg n b e =
     (if 0 \<le> e then fp_round F32 neg (n * b ^ nat e) 1 else fp_round F32 neg n (b ^ nat (- e)))"

definition strtof :: "string \<Rightarrow> f32 \<times> string" where
  "strtof str =
     (let s = dropWhile c_isspace str;
          neg = (s \<noteq> [] \<and> hd s = CHR ''-'');
          s = (if s \<noteq> [] \<and> (hd s = CHR ''-'' \<or> hd s = CHR ''+'') then tl s else s)
      in if starts_nocase ''infinity'' s then (f32_enc (Inf neg), drop 8 s)
         else if starts_nocase ''inf'' s then (f32_enc (Inf neg), drop 3 s)
         else if starts_nocase ''nan'' s then (f32_enc NaN, drop 3 s)
         else if starts_nocase ''0x'' s \<and> read_mantissa 16 (drop 2 s) \<noteq> None then
           (case the (read_mantissa 16 (drop 2 s)) of
              (n, k, r) \<Rightarrow> (case read_exponent (CHR ''p'') r of
                 (e, r) \<Rightarrow> (f32_enc (fp_of_scaled neg n 2 (e - 4 * int k)), r)))
         else (case read_mantissa 10 s of
              None \<Rightarrow> (0, str)
            | Some (n, k, r) \<Rightarrow> (case read_exponent (CHR ''e'') r of
                 (e, r) \<Rightarrow> (f32_enc (fp_of_scaled neg n 10 (e - int k)), r))))"

subsection \<open>Pushing a sample\<close>

text \<open>\<open>monikor_metric_push(mon, monikor_metric_integer(name, clock, value, flags))\<close>, and the float
  and string forms; \<open>flags\<close> of a string are 0.\<close>

definition push_integer :: "string \<Rightarrow> timeval \<Rightarrow> u64 \<Rightarrow> u8 \<Rightarrow> agent \<Rightarrow> alloc \<Rightarrow> agent \<times> cint \<times> alloc" where
  "push_integer name clock value flags mon al =
     (case monikor_metric_integer name clock value flags al of (m, al) \<Rightarrow> monikor_metric_push mon m al)"

definition push_float :: "string \<Rightarrow> timeval \<Rightarrow> f32 \<Rightarrow> u8 \<Rightarrow> agent \<Rightarrow> alloc \<Rightarrow> agent \<times> cint \<times> alloc" where
  "push_float name clock value flags mon al =
     (case monikor_metric_float name clock value flags al of (m, al) \<Rightarrow> monikor_metric_push mon m al)"

definition push_string :: "string \<Rightarrow> timeval \<Rightarrow> string \<Rightarrow> agent \<Rightarrow> alloc \<Rightarrow> agent \<times> cint \<times> alloc" where
  "push_string name clock value mon al =
     (case monikor_metric_string name clock value al of (m, al) \<Rightarrow> monikor_metric_push mon m al)"

end
