(* ===== verification/Agent_Modules.thy ===== *)
theory Agent_Modules
  imports C_Text
begin

text \<open>
  Loading, scheduling and unloading of modules: \<open>src/modules/module.c\<close>, \<open>load_module.c\<close>,
  \<open>load_all_modules.c\<close>, and \<open>src/core/init.c\<close> (modules), \<open>reload.c\<close>, \<open>cleanup.c\<close>
  (modules) and \<open>poll.c\<close>.

  The dynamic loader and the code of the modules are parameters: \<open>dlopen\<close> gives the symbols of a
  library (\<open>None\<close>: it cannot be loaded), a module's init function gives its data, its poll function
  works on the agent and returns a count.
\<close>

record loader =
  lo_files :: "string \<Rightarrow> parser option option"
  lo_dlopen :: "string \<Rightarrow> string set option"
  lo_init :: "string \<Rightarrow> cfg_dict \<Rightarrow> nat option"
  lo_now :: timeval

definition MONIKOR_MOD_INIT_TAG :: string where "MONIKOR_MOD_INIT_TAG = ''_init''"
definition MONIKOR_MOD_POLL_TAG :: string where "MONIKOR_MOD_POLL_TAG = ''_poll''"
definition MONIKOR_MOD_CLEANUP_TAG :: string where "MONIKOR_MOD_CLEANUP_TAG = ''_cleanup''"
definition MONIKOR_MOD_SUFFIX :: string where "MONIKOR_MOD_SUFFIX = ''.so''"
definition MONIKOR_MOD_DEFERRED_METRICS_CODE :: cint where "MONIKOR_MOD_DEFERRED_METRICS_CODE = -2"

text \<open>The clock of a new module is set before it is read.\<close>

definition monikor_mod_new :: "string \<Rightarrow> alloc \<Rightarrow> modul option \<times> alloc" where
  "monikor_mod_new name =
     or_null malloc (\<lambda>_. or_null (strdup name) (\<lambda>name. alloc_ret
       \<lparr>md_name = name, md_data = None, md_poll_interval = 0, md_last_clock = \<lparr>tv_sec = 0, tv_usec = 0\<rparr>,
        md_config = None, md_dhandle = None, md_init = None, md_poll = None, md_cleanup = None\<rparr>))"

subsection \<open>Loading one library\<close>

definition load_mod_function :: "string \<Rightarrow> string \<Rightarrow> string set \<Rightarrow> alloc \<Rightarrow> string option \<times> alloc" where
  "load_mod_function name function symbols =
     or_null malloc (\<lambda>_ al. let sym_name = name @ function in
       (if sym_name \<in> symbols then Some sym_name else None, al))"

definition get_sopath :: "string \<Rightarrow> string \<Rightarrow> alloc \<Rightarrow> string option \<times> alloc" where
  "get_sopath name mod_path = or_null malloc (\<lambda>_. alloc_ret (mod_path @ ''/'' @ name @ MONIKOR_MOD_SUFFIX))"

definition monikor_load_module :: "loader \<Rightarrow> string \<Rightarrow> string \<Rightarrow> alloc \<Rightarrow> modul option \<times> alloc" where
  "monikor_load_module lo name mod_path =
     or_null (monikor_mod_new name) (\<lambda>mdl.
     or_null (get_sopath name mod_path) (\<lambda>sopath al.
       (case lo_dlopen lo sopath of
          None \<Rightarrow> (None, al)
        | Some symbols \<Rightarrow>
            or_null (load_mod_function name MONIKOR_MOD_INIT_TAG symbols) (\<lambda>init.
            or_null (load_mod_function name MONIKOR_MOD_POLL_TAG symbols) (\<lambda>poll al.
              (case load_mod_function name MONIKOR_MOD_CLEANUP_TAG symbols al of
                 (cleanup, al) \<Rightarrow>
                   (Some (mdl\<lparr>md_dhandle := Some sopath, md_init := Some init, md_poll := Some poll,
                              md_cleanup := cleanup\<rparr>), al)))) al)))"

subsection \<open>Loading all modules\<close>

text \<open>A null configuration has no \<open>interval\<close>.\<close>

definition set_interval_and_clock :: "timeval \<Rightarrow> config \<Rightarrow> modul \<Rightarrow> alloc \<Rightarrow> modul \<times> alloc" where
  "set_interval_and_clock now cfg mdl al =
     (case monikor_config_dict_get_scalar (case md_config mdl of Some d \<Rightarrow> d | None \<Rightarrow> []) ''interval'' al of
        (interval, al) \<Rightarrow>
          (let global = cf_poll_interval cfg;
               n = (case interval of
                      None \<Rightarrow> global
                    | Some s \<Rightarrow>
                        (case strtol_10 s of (v, rest) \<Rightarrow>
                          let p = int_of_long v in
                          if rest \<noteq> '''' \<or> p <s 0 then global
                          else if global <s p then global
                          else p))
           in (mdl\<lparr>md_poll_interval := n, md_last_clock := now\<lparr>tv_sec := tv_sec now - size_of_int n\<rparr>\<rparr>, al)))"

definition monikor_load_one_module :: "loader \<Rightarrow> string \<Rightarrow> agent \<Rightarrow> alloc \<Rightarrow> (agent \<times> alloc) option" where
  "monikor_load_one_module lo name mon al =
     (case monikor_load_mod_config (lo_files lo) (cf_mod_config_path (mn_config mon)) name al of
        None \<Rightarrow> None
      | Some (None, al) \<Rightarrow> Some (mon, al)
      | Some (Some config, al) \<Rightarrow>
          (case monikor_config_dict_get_scalar config ''enabled'' al of (enabled, al) \<Rightarrow>
          (case monikor_config_dict_get_scalar config ''module'' al of (mod_name, al) \<Rightarrow>
             (if enabled = Some ''no'' \<or> enabled = Some ''false'' then Some (mon, al)
              else case monikor_load_module lo (case mod_name of Some m \<Rightarrow> m | None \<Rightarrow> name)
                          (cf_mod_path (mn_config mon)) al of
                (None, al) \<Rightarrow> Some (mon, al)
              | (Some mdl, al) \<Rightarrow>
                  (case set_interval_and_clock (lo_now lo) (mn_config mon) (mdl\<lparr>md_config := Some config\<rparr>) al of
                     (mdl, al) \<Rightarrow>
                       Some (mon\<lparr>mn_modules := mn_modules mon @
                               [mdl\<lparr>md_data := lo_init lo (the (md_init mdl)) config\<rparr>]\<rparr>, al))))))"

fun load_modules_loop :: "loader \<Rightarrow> string list \<Rightarrow> agent \<Rightarrow> alloc \<Rightarrow> (agent \<times> alloc) option" where
  "load_modules_loop lo [] mon al = Some (mon, al)"
| "load_modules_loop lo (name # names) mon al =
     do { (mon, al) \<leftarrow> monikor_load_one_module lo name mon al; load_modules_loop lo names mon al }"

text \<open>The list of modules may be null.\<close>

definition monikor_load_all_modules :: "loader \<Rightarrow> agent \<Rightarrow> alloc \<Rightarrow> (agent \<times> cint \<times> alloc) option" where
  "monikor_load_all_modules lo mon al = do {
     l \<leftarrow> cf_modules (mn_config mon);
     (mon, al) \<leftarrow> load_modules_loop lo (sl_strs l) mon al;
     Some (mon, 0, al) }"

definition monikor_info_module_load :: "loader \<Rightarrow> agent \<Rightarrow> alloc \<Rightarrow> agent \<times> cint \<times> alloc" where
  "monikor_info_module_load lo mon al =
     (case monikor_mod_new ''info'' al of
        (None, al) \<Rightarrow> (mon, 1, al)
      | (Some mdl, al) \<Rightarrow>
          (case set_interval_and_clock (lo_now lo) (mn_config mon) (mdl\<lparr>md_poll := Some ''monikor_info_module_poll''\<rparr>) al of
             (mdl, al) \<Rightarrow> (mon\<lparr>mn_modules := mn_modules mon @ [mdl]\<rparr>, 0, al)))"

text \<open>
  The array is allocated for the names of the configuration and one module more.  The store is
  replaced: what the old one held is no longer reachable.
\<close>

definition monikor_init_modules :: "loader \<Rightarrow> agent \<Rightarrow> alloc \<Rightarrow> (agent \<times> cint \<times> alloc) option" where
  "monikor_init_modules lo mon al =
     (if cf_modules (mn_config mon) = None then None
      else
        (let mon = mon\<lparr>mn_modules := []\<rparr> in
         case malloc al of
           (None, al) \<Rightarrow> Some (mon, 1, al)
         | (Some _, al) \<Rightarrow>
             (case monikor_metric_store_new al of
                (None, al) \<Rightarrow> Some (mon, 1, al)
              | (Some s, al) \<Rightarrow> do {
                  (mon, r, al) \<leftarrow> monikor_load_all_modules lo (mon\<lparr>mn_metrics := s\<rparr>) al;
                  (if r \<noteq> 0 then Some (mon, 1, al)
                   else case monikor_info_module_load lo mon al of
                          (mon, r, al) \<Rightarrow> Some (mon, if r \<noteq> 0 then 1 else 0, al)) })))"

text \<open>The cleanup functions only release what their modules hold.\<close>

definition monikor_cleanup_modules :: "agent \<Rightarrow> agent" where
  "monikor_cleanup_modules mon = mon\<lparr>mn_modules := []\<rparr>"

definition monikor_reload ::
  "loader \<Rightarrow> (string \<Rightarrow> string list option) \<Rightarrow> config \<Rightarrow> agent \<Rightarrow> alloc \<Rightarrow> (agent \<times> cint \<times> alloc) option" where
  "monikor_reload lo dir junk mon al =
     (case monikor_load_config (lo_files lo) dir junk (Some (cf_config_path (mn_config mon))) al of
        None \<Rightarrow> None
      | Some (None, al) \<Rightarrow> Some (mon, 1, al)
      | Some (Some config, al) \<Rightarrow> do {
          (mon, r, al) \<leftarrow> monikor_init_modules lo ((monikor_cleanup_modules mon)\<lparr>mn_config := config, mn_hostid_shared := False\<rparr>) al;
          (if r \<noteq> 0 then Some (mon, 1, al)
           else Some (mon\<lparr>mn_flags := mn_flags mon AND NOT MONIKOR_FLAG_RELOAD\<rparr>, 0, al)) })"

subsection \<open>Polling\<close>

text \<open>
  What \<open>mod->poll(mon, mod->data)\<close> does: the agent after it and the number it returns, or \<open>None\<close> when it
  does something undefined.  A poll function does not touch the table of the modules.
\<close>

type_synonym poller = "modul \<Rightarrow> agent \<Rightarrow> alloc \<Rightarrow> (agent \<times> cint \<times> alloc) option"

definition poll_module :: "poller \<Rightarrow> modul \<Rightarrow> agent \<Rightarrow> alloc \<Rightarrow> (agent \<times> cint \<times> alloc) option" where
  "poll_module poll mdl mon al = do {
     (mon, n_metrics, al) \<leftarrow> poll mdl mon al;
     Some (mon, if n_metrics = -1 then 1 else 0, al) }"

fun poll_modules_loop ::
  "poller \<Rightarrow> timeval \<Rightarrow> modul list \<Rightarrow> agent \<Rightarrow> cint \<Rightarrow> alloc \<Rightarrow> (modul list \<times> agent \<times> cint \<times> alloc) option" where
  "poll_modules_loop poll clock [] mon err al = Some ([], mon, err, al)"
| "poll_modules_loop poll clock (mdl # mods) mon err al = do {
     let next_update = tv_sec (md_last_clock mdl) + size_of_int (md_poll_interval mdl);
     (mdl, mon, err, al) \<leftarrow>
       (if next_update \<le>s tv_sec clock then do {
          (mon, r, al) \<leftarrow> poll_module poll mdl mon al;
          Some (mdl\<lparr>md_last_clock := (md_last_clock mdl)\<lparr>tv_sec := next_update\<rparr>\<rparr>, mon, err + r, al) }
        else Some (mdl, mon, err, al));
     (mods, mon, err, al) \<leftarrow> poll_modules_loop poll clock mods mon err al;
     Some (mdl # mods, mon, err, al) }"

definition monikor_poll_modules :: "poller \<Rightarrow> timeval \<Rightarrow> agent \<Rightarrow> alloc \<Rightarrow> (agent \<times> cint \<times> alloc) option" where
  "monikor_poll_modules poll clock mon al = do {
     (mods, mon, err, al) \<leftarrow> poll_modules_loop poll clock (mn_modules mon) mon 0 al;
     Some (mon\<lparr>mn_modules := mods\<rparr>, err, al) }"

text \<open>The contract of a poll function: it only pushes metrics and starts HTTP requests.\<close>

definition only_polled :: "agent \<Rightarrow> agent \<Rightarrow> bool" where
  "only_polled mon mon' \<longleftrightarrow> mon' = mon\<lparr>mn_metrics := mn_metrics mon', mn_http := mn_http mon'\<rparr>"

lemma only_polled_refl [simp]: "only_polled mon mon"
  by (simp add: only_polled_def)

lemma only_polled_trans: "only_polled a b \<Longrightarrow> only_polled b c \<Longrightarrow> only_polled a c"
  by (cases a, cases b, cases c) (simp add: only_polled_def)

locale module_polls =
  fixes poll :: poller
  assumes poll_frame: "poll mdl mon al = Some (mon', n, al') \<Longrightarrow> only_polled mon mon'"
    and poll_inv: "poll mdl mon al = Some (mon', n, al') \<Longrightarrow> agent_inv mon \<Longrightarrow> agent_inv mon'"
begin

lemma poll_loop_frame:
  "poll_modules_loop poll clock mods mon err al = Some (mods', mon', err', al') \<Longrightarrow> only_polled mon mon'"
proof (induction mods arbitrary: mon err al mods' err')
  case (Cons m mods)
  then show ?case
    by (fastforce simp: poll_module_def Let_def split: bind_splits if_splits intro: only_polled_trans dest: poll_frame)
qed simp

lemma poll_loop_inv:
  "poll_modules_loop poll clock mods mon err al = Some (mods', mon', err', al') \<Longrightarrow> agent_inv mon \<Longrightarrow> agent_inv mon'"
proof (induction mods arbitrary: mon err al mods' err')
  case (Cons m mods)
  then show ?case
    by (fastforce simp: poll_module_def Let_def split: bind_splits if_splits dest: poll_inv)
qed simp

lemma poll_modules_keep:
  assumes "monikor_poll_modules poll clock mon al = Some (mon', err, al')"
  shows "mn_config mon' = mn_config mon" and "mn_requests mon' = mn_requests mon"
    and "mn_next_update mon' = mn_next_update mon" and "mn_last_clock mon' = mn_last_clock mon"
    and "mn_flags mon' = mn_flags mon" and "agent_inv mon \<Longrightarrow> agent_inv mon'"
proof -
  from assms obtain mods mon1 where l: "poll_modules_loop poll clock (mn_modules mon) mon 0 al = Some (mods, mon1, err, al')"
    and m: "mon' = mon1\<lparr>mn_modules := mods\<rparr>"
    by (auto simp: monikor_poll_modules_def split: bind_splits)
  from poll_loop_frame [OF l] obtain s h where f: "mon1 = mon\<lparr>mn_metrics := s, mn_http := h\<rparr>" by (auto simp: only_polled_def)
  then show "mn_config mon' = mn_config mon" "mn_requests mon' = mn_requests mon"
    "mn_next_update mon' = mn_next_update mon" "mn_last_clock mon' = mn_last_clock mon" "mn_flags mon' = mn_flags mon"
    by (simp_all add: m)
  assume "agent_inv mon"
  with poll_loop_inv [OF l] show "agent_inv mon'" by (simp add: m agent_inv_def)
qed

end

subsection \<open>Lemmas\<close>

lemma sint_add_int:
  assumes "- (2 ^ 63) \<le> sint a + sint i" and "sint a + sint i < 2 ^ 63"
  shows "sint (a + size_of_int i :: clong) = sint a + sint i"
proof -
  have "a + size_of_int i = of_int (sint a + sint i)" by (simp add: size_of_int_scast)
  with assms show ?thesis by (simp only: sint_of_int_small)
qed

text \<open>A module is on schedule at a time when its next poll lies in the future, less than one of its
  intervals after its clock.\<close>

definition on_schedule :: "timeval \<Rightarrow> modul \<Rightarrow> bool" where
  "on_schedule clock m \<longleftrightarrow> sint (tv_sec (md_last_clock m)) \<le> sint (tv_sec clock)
     \<and> sint (tv_sec clock) < sint (tv_sec (md_last_clock m)) + sint (md_poll_interval m)"

definition clock_range :: "timeval \<Rightarrow> bool" where
  "clock_range c \<longleftrightarrow> 0 \<le> sint (tv_sec c) \<and> sint (tv_sec c) < 2 ^ 62"

definition polled_at :: "timeval \<Rightarrow> modul \<Rightarrow> modul \<Rightarrow> bool" where
  "polled_at clock m m' \<longleftrightarrow>
     m' = (if sint (tv_sec (md_last_clock m)) + sint (md_poll_interval m) \<le> sint (tv_sec clock)
           then m\<lparr>md_last_clock := (md_last_clock m)\<lparr>tv_sec :=
                     tv_sec (md_last_clock m) + size_of_int (md_poll_interval m)\<rparr>\<rparr>
           else m)"

lemma interval_range: "- (2 ^ 31) \<le> sint (i :: cint)" "sint (i :: cint) < 2 ^ 31"
  using sint_range_size [of i] by (simp_all add: word_size)

lemma poll_modules_loop_clocks:
  assumes "\<forall>m\<in>set mods. clock_range (md_last_clock m)"
    and "poll_modules_loop poll clock mods mon err al = Some (mods', mon', err', al')"
  shows "list_all2 (polled_at clock) mods mods'"
  using assms
proof (induction mods arbitrary: mon err al mods')
  case (Cons m mods)
  let ?t = "tv_sec (md_last_clock m)" and ?i = "md_poll_interval m"
  have "sint (?t + size_of_int ?i) = sint ?t + sint ?i"
    using Cons.prems interval_range [of ?i] by (intro sint_add_int) (auto simp: clock_range_def)
  then have due: "?t + size_of_int ?i \<le>s tv_sec clock \<longleftrightarrow> sint ?t + sint ?i \<le> sint (tv_sec clock)"
    by (simp add: word_sle_eq)
  from Cons.prems(2) obtain m' mods1 mon1 err1 al1 where
    "mods' = m' # mods1" and rest: "poll_modules_loop poll clock mods mon1 err1 al1 = Some (mods1, mon', err', al')"
    and "m' = (if ?t + size_of_int ?i \<le>s tv_sec clock
      then m\<lparr>md_last_clock := (md_last_clock m)\<lparr>tv_sec := ?t + size_of_int ?i\<rparr>\<rparr> else m)"
    by (auto simp: Let_def poll_module_def split: bind_splits if_splits)
  with Cons.IH [OF _ rest] Cons.prems(1) show ?case by (simp add: polled_at_def due)
qed simp

lemma polled_on_schedule:
  assumes "polled_at c' m m'" and "on_schedule c m" and "clock_range (md_last_clock m)"
    and "sint (tv_sec c) \<le> sint (tv_sec c')" and "sint (tv_sec c') \<le> sint (tv_sec c) + sint (md_poll_interval m)"
  shows "on_schedule c' m'"
proof -
  let ?t = "tv_sec (md_last_clock m)" and ?i = "md_poll_interval m"
  have "sint (?t + size_of_int ?i) = sint ?t + sint ?i"
    using assms(3) interval_range [of ?i] by (intro sint_add_int) (auto simp: clock_range_def)
  with assms show ?thesis by (auto simp: polled_at_def on_schedule_def)
qed

lemma set_interval_bounds:
  assumes "set_interval_and_clock now cfg m al = (m', al')"
  shows "(0 \<le> sint (cf_poll_interval cfg) \<longrightarrow>
      0 \<le> sint (md_poll_interval m') \<and> sint (md_poll_interval m') \<le> sint (cf_poll_interval cfg))
    \<and> tv_sec (md_last_clock m') + size_of_int (md_poll_interval m') = tv_sec now"
  using assms
  by (auto simp: set_interval_and_clock_def Let_def word_sless_alt split: option.splits prod.splits if_splits)

text \<open>What a module that has just been loaded satisfies: it can be polled, its interval is between 0 and
  the global one, and its first poll is due at once.\<close>

definition ready :: "timeval \<Rightarrow> config \<Rightarrow> modul \<Rightarrow> bool" where
  "ready now cfg m \<longleftrightarrow> md_poll m \<noteq> None
     \<and> (0 \<le> sint (cf_poll_interval cfg) \<longrightarrow>
          0 \<le> sint (md_poll_interval m) \<and> sint (md_poll_interval m) \<le> sint (cf_poll_interval cfg))
     \<and> tv_sec (md_last_clock m) + size_of_int (md_poll_interval m) = tv_sec now"

lemma load_module_poll:
  assumes "monikor_load_module lo name path al = (Some m, al')"
  obtains symbols where "lo_dlopen lo (path @ ''/'' @ name @ ''.so'') = Some symbols"
    and "name @ ''_init'' \<in> symbols" and "name @ ''_poll'' \<in> symbols" and "md_name m = name"
    and "md_init m = Some (name @ ''_init'')" and "md_poll m = Some (name @ ''_poll'')"
    and "md_cleanup m = None \<or> md_cleanup m = Some (name @ ''_cleanup'') \<and> name @ ''_cleanup'' \<in> symbols"
  using assms
  by (auto simp: monikor_load_module_def or_null_eq_Some_iff get_sopath_def load_mod_function_def Let_def or_null_def
      monikor_mod_new_def MONIKOR_MOD_SUFFIX_def MONIKOR_MOD_INIT_TAG_def MONIKOR_MOD_POLL_TAG_def
      MONIKOR_MOD_CLEANUP_TAG_def dest!: strdup_Some split: option.splits prod.splits if_splits)

lemma set_interval_ready:
  assumes "set_interval_and_clock now cfg m al = (m', al')" and "md_poll m \<noteq> None"
  shows "ready now cfg m'"
proof -
  have "md_poll m' = md_poll m"
    using assms(1) by (auto simp: set_interval_and_clock_def Let_def split: option.splits prod.splits if_splits)
  with set_interval_bounds [OF assms(1)] assms(2) show ?thesis by (simp add: ready_def)
qed

lemma load_one_module_cases:
  assumes "monikor_load_one_module lo name mon al = Some (mon', al')"
  shows "mon' = mon \<or> (\<exists>config mdl al1 al2 mdl' n.
    monikor_load_module lo n (cf_mod_path (mn_config mon)) al1 = (Some mdl, al2)
    \<and> set_interval_and_clock (lo_now lo) (mn_config mon) (mdl\<lparr>md_config := Some config\<rparr>) al2 = (mdl', al')
    \<and> mon' = mon\<lparr>mn_modules := mn_modules mon @ [mdl'\<lparr>md_data := lo_init lo (the (md_init mdl')) config\<rparr>]\<rparr>)"
  using assms unfolding monikor_load_one_module_def
  by (clarsimp split: option.split_asm prod.split_asm if_split_asm) blast+

lemma load_one_module_ready:
  assumes "monikor_load_one_module lo name mon al = Some (mon', al')"
  shows "\<exists>ms. mon' = mon\<lparr>mn_modules := mn_modules mon @ ms\<rparr> \<and> length ms \<le> 1
    \<and> (\<forall>m\<in>set ms. ready (lo_now lo) (mn_config mon) m)"
  using load_one_module_cases [OF assms(1)]
proof
  assume "mon' = mon"
  then show ?thesis by (intro exI [of _ "[]"]) simp
next
  assume "\<exists>config mdl al1 al2 mdl' n.
    monikor_load_module lo n (cf_mod_path (mn_config mon)) al1 = (Some mdl, al2)
    \<and> set_interval_and_clock (lo_now lo) (mn_config mon) (mdl\<lparr>md_config := Some config\<rparr>) al2 = (mdl', al')
    \<and> mon' = mon\<lparr>mn_modules := mn_modules mon @ [mdl'\<lparr>md_data := lo_init lo (the (md_init mdl')) config\<rparr>]\<rparr>"
  then obtain config mdl al1 al2 mdl' n where
    l: "monikor_load_module lo n (cf_mod_path (mn_config mon)) al1 = (Some mdl, al2)"
    and i: "set_interval_and_clock (lo_now lo) (mn_config mon) (mdl\<lparr>md_config := Some config\<rparr>) al2 = (mdl', al')"
    and m: "mon' = mon\<lparr>mn_modules := mn_modules mon @ [mdl'\<lparr>md_data := lo_init lo (the (md_init mdl')) config\<rparr>]\<rparr>"
    by blast
  from l have "md_poll mdl \<noteq> None" by (auto elim: load_module_poll)
  then have "ready (lo_now lo) (mn_config mon) mdl'"
    using set_interval_ready [OF i] by simp
  with m show ?thesis
    by (intro exI [of _ "[mdl'\<lparr>md_data := lo_init lo (the (md_init mdl')) config\<rparr>]"]) (simp add: ready_def)
qed

lemma load_modules_loop_ready:
  "load_modules_loop lo names mon al = Some (mon', al') \<Longrightarrow>
   \<exists>ms. mon' = mon\<lparr>mn_modules := mn_modules mon @ ms\<rparr> \<and> length ms \<le> length names
     \<and> (\<forall>m\<in>set ms. ready (lo_now lo) (mn_config mon) m)"
proof (induction names arbitrary: mon al)
  case Nil
  then show ?case by (intro exI [of _ "[]"]) simp
next
  case (Cons name names)
  from Cons.prems obtain mon1 al1 where 1: "monikor_load_one_module lo name mon al = Some (mon1, al1)"
    and 2: "load_modules_loop lo names mon1 al1 = Some (mon', al')"
    by (auto split: bind_splits)
  from load_one_module_ready [OF 1] obtain ms1 where m1: "mon1 = mon\<lparr>mn_modules := mn_modules mon @ ms1\<rparr>"
    "length ms1 \<le> 1" "\<forall>m\<in>set ms1. ready (lo_now lo) (mn_config mon) m" by blast
  from Cons.IH [OF 2] m1(1) obtain ms2 where "mon' = mon1\<lparr>mn_modules := mn_modules mon1 @ ms2\<rparr>"
    "length ms2 \<le> length names" "\<forall>m\<in>set ms2. ready (lo_now lo) (mn_config mon1) m" by auto
  with m1 show ?case by (intro exI [of _ "ms1 @ ms2"]) auto
qed

lemma info_module_ready:
  assumes "monikor_info_module_load lo mon al = (mon', 0, al')"
  shows "\<exists>m. mon' = mon\<lparr>mn_modules := mn_modules mon @ [m]\<rparr> \<and> ready (lo_now lo) (mn_config mon) m"
proof -
  from assms(1) obtain mdl al1 m where
    i: "set_interval_and_clock (lo_now lo) (mn_config mon) (mdl\<lparr>md_poll := Some ''monikor_info_module_poll''\<rparr>) al1 = (m, al')"
    and m: "mon' = mon\<lparr>mn_modules := mn_modules mon @ [m]\<rparr>"
    by (auto simp: monikor_info_module_load_def split: option.splits prod.splits)
  from set_interval_ready [OF i] m show ?thesis by auto
qed

lemma store_new_fresh: "monikor_metric_store_new al = (Some s, al') \<Longrightarrow> s = empty_store"
  by (auto simp: monikor_metric_store_new_def empty_store_def or_null_eq_Some_iff monikor_metric_list_new_def)

lemma init_modules_result:
  assumes "monikor_init_modules lo mon al = Some (mon', 0, al')" and "cf_modules (mn_config mon) = Some l"
  shows "\<exists>ms. mon' = mon\<lparr>mn_modules := ms, mn_metrics := empty_store\<rparr> \<and> ms \<noteq> []
    \<and> length ms \<le> 1 + length (sl_strs l) \<and> (\<forall>m\<in>set ms. ready (lo_now lo) (mn_config mon) m)"
proof -
  have "\<exists>al1 s al2 m1 al3. monikor_metric_store_new al1 = (Some s, al2)
      \<and> load_modules_loop lo (sl_strs l) (mon\<lparr>mn_modules := [], mn_metrics := s\<rparr>) al2 = Some (m1, al3)
      \<and> monikor_info_module_load lo m1 al3 = (mon', 0, al')"
    using assms unfolding monikor_init_modules_def monikor_load_all_modules_def Let_def
    by (clarsimp split: option.split_asm prod.split_asm bind_split_asm if_split_asm) blast
  then obtain al1 s al2 m1 al3 where s: "monikor_metric_store_new al1 = (Some s, al2)"
    and 3: "load_modules_loop lo (sl_strs l) (mon\<lparr>mn_modules := [], mn_metrics := s\<rparr>) al2 = Some (m1, al3)"
    and 4: "monikor_info_module_load lo m1 al3 = (mon', 0, al')" by blast
  from load_modules_loop_ready [OF 3] obtain ms where
    "m1 = mon\<lparr>mn_metrics := s, mn_modules := ms\<rparr>" "length ms \<le> length (sl_strs l)"
    "\<forall>m\<in>set ms. ready (lo_now lo) (mn_config mon) m" by auto
  note m1 = this
  from info_module_ready [OF 4] obtain m where
    "mon' = m1\<lparr>mn_modules := mn_modules m1 @ [m]\<rparr>" "ready (lo_now lo) (mn_config m1) m" by blast
  with m1 store_new_fresh [OF s] show ?thesis by (intro exI [of _ "ms @ [m]"]) simp
qed

subsection \<open>A sample of a modules' directory\<close>

definition sample_loader :: loader where
  "sample_loader = \<lparr>lo_files = \<lambda>f. if f = ''/d/cpu.yml'' then Some (Some (print_file [(Some ''interval'', MONIKOR_CFG_SCALAR (Some ''15''))])) else None,
     lo_dlopen = \<lambda>f. if f = ''/m/cpu.so'' then Some {''cpu_init'', ''cpu_poll''} else None,
     lo_init = \<lambda>f d. Some 7, lo_now = \<lparr>tv_sec = 1000, tv_usec = 0\<rparr>\<rparr>"

lemma scalar_lookup_ok:
  assumes "alloc_ok al" and "tokens ''.'' key \<noteq> []"
  obtains al' where "monikor_config_dict_get_scalar d key al = (scalar_at d (tokens ''.'' key), al')" and "alloc_ok al'"
  using getter [OF assms, of d] getter_mem [OF assms(1), of d key] by (metis prod.collapse)

lemma sample_mod_config:
  assumes "alloc_ok mem"
  shows "\<exists>al. monikor_load_mod_config (lo_files sample_loader) ''/d'' ''cpu'' mem
     = Some (Some [(Some ''interval'', MONIKOR_CFG_SCALAR (Some ''15''))], al) \<and> alloc_ok al"
proof -
  have "value_ok (MONIKOR_CFG_DICT [(Some ''interval'', MONIKOR_CFG_SCALAR (Some ''15''))])" by simp
  note d = this
  obtain al1 where 1: "monikor_config_dict_new mem = (Some fresh_dict, al1)" "alloc_ok al1"
    using assms unfolding fresh_dict_def by (rule dict_new_ok)
  obtain al2 where 2: "strdup ''/d/cpu.yml'' al1 = (Some ''/d/cpu.yml'', al2)" "alloc_ok al2"
    using 1(2) by (rule alloc_ok_strdup)
  from parse_print_config_mem [OF 2(2) d] 1 2 show ?thesis
    by (auto simp: monikor_load_mod_config_def sample_loader_def MONIKOR_CONFIG_EXT_def monikor_load_config_dict_def)
qed

lemma module_key_tokens:
  "tokens ''.'' ''interval'' = [''interval'']" "tokens ''.'' ''enabled'' = [''enabled'']"
  "tokens ''.'' ''module'' = [''module'']"
  by (simp_all add: tokens.simps strtok_def)

lemma load_module_ok:
  assumes "alloc_ok al" and "lo_dlopen lo (path @ ''/'' @ name @ ''.so'') = Some symbols"
    and "name @ ''_init'' \<in> symbols" and "name @ ''_poll'' \<in> symbols"
  shows "\<exists>m al'. monikor_load_module lo name path al = (Some m, al') \<and> alloc_ok al'"
proof -
  obtain j al1 where 1: "malloc al = (Some j, al1)" "alloc_ok al1" using assms(1) by (rule alloc_ok_malloc)
  obtain al2 where 2: "strdup name al1 = (Some name, al2)" "alloc_ok al2" using 1(2) by (rule alloc_ok_strdup)
  obtain j3 al3 where 3: "malloc al2 = (Some j3, al3)" "alloc_ok al3" using 2(2) by (rule alloc_ok_malloc)
  obtain j4 al4 where 4: "malloc al3 = (Some j4, al4)" "alloc_ok al4" using 3(2) by (rule alloc_ok_malloc)
  obtain j5 al5 where 5: "malloc al4 = (Some j5, al5)" "alloc_ok al5" using 4(2) by (rule alloc_ok_malloc)
  obtain j6 al6 where 6: "malloc al5 = (Some j6, al6)" "alloc_ok al6" using 5(2) by (rule alloc_ok_malloc)
  from assms 1 2 3 4 5 6 show ?thesis
    by (simp add: monikor_load_module_def monikor_mod_new_def get_sopath_def load_mod_function_def or_null_def alloc_ret_def Let_def
        MONIKOR_MOD_SUFFIX_def MONIKOR_MOD_INIT_TAG_def MONIKOR_MOD_POLL_TAG_def MONIKOR_MOD_CLEANUP_TAG_def)
qed

text \<open>The sample agent, with one module in its configuration.\<close>

definition cpu_agent :: agent where
  "cpu_agent = sample_agent\<lparr>mn_config := sample_settings\<lparr>cf_modules := Some (strl_link strl_init ''cpu'')\<rparr>\<rparr>"

lemma cpu_agent_fields:
  "mn_modules cpu_agent = []" "mn_metrics cpu_agent = empty_store" "cf_poll_interval (mn_config cpu_agent) = 60"
  "cf_mod_path (mn_config cpu_agent) = ''/m''" "cf_mod_config_path (mn_config cpu_agent) = ''/d''"
  "cf_modules (mn_config cpu_agent) = Some (strl_link strl_init ''cpu'')"
  by (simp_all add: cpu_agent_def sample_agent_def sample_settings_def)

lemma sample_load_one:
  assumes "alloc_ok mem"
  shows "\<exists>m al. monikor_load_one_module sample_loader ''cpu''
      cpu_agent mem
    = Some (cpu_agent\<lparr>mn_modules := [m]\<rparr>, al) \<and> alloc_ok al \<and> md_poll_interval m = 15"
proof -
  let ?d = "[(Some ''interval'', MONIKOR_CFG_SCALAR (Some ''15''))]"
  have dl: "lo_dlopen sample_loader (''/m'' @ ''/'' @ ''cpu'' @ ''.so'') = Some {''cpu_init'', ''cpu_poll''}"
    by (simp add: sample_loader_def)
  obtain al0 where 0: "monikor_load_mod_config (lo_files sample_loader) ''/d'' ''cpu'' mem = Some (Some ?d, al0)" "alloc_ok al0"
    using sample_mod_config [OF assms] by blast
  obtain al1 where 1: "monikor_config_dict_get_scalar ?d ''enabled'' al0 = (None, al1)" "alloc_ok al1"
    using scalar_lookup_ok [OF 0(2), of "''enabled''" ?d] by (auto simp: module_key_tokens scalar_at_def)
  obtain al2 where 2: "monikor_config_dict_get_scalar ?d ''module'' al1 = (None, al2)" "alloc_ok al2"
    using scalar_lookup_ok [OF 1(2), of "''module''" ?d] by (auto simp: module_key_tokens scalar_at_def)
  obtain m al3 where 3: "monikor_load_module sample_loader ''cpu'' ''/m'' al2 = (Some m, al3)" "alloc_ok al3"
    using load_module_ok [OF 2(2) dl] by auto
  obtain al4 where 4: "monikor_config_dict_get_scalar ?d ''interval'' al3 = (Some ''15'', al4)" "alloc_ok al4"
    using scalar_lookup_ok [OF 3(2), of "''interval''" ?d] by (auto simp: module_key_tokens scalar_at_def)
  have 5: "strtol_10 ''15'' = (15, '''')"
    by (simp add: strtol_10_def read_digits_def c_isspace_def digit_value_def)
  show ?thesis using 0 1 2 3 4 5
    by (simp add: monikor_load_one_module_def cpu_agent_fields set_interval_and_clock_def Let_def int_of_long_def
        word_sless_alt) (intro exI conjI, rule refl, simp)
qed


lemma store_new_ok:
  assumes "alloc_ok al"
  obtains al' where "monikor_metric_store_new al = (Some empty_store, al')" and "alloc_ok al'"
proof -
  obtain j1 al1 where 1: "malloc al = (Some j1, al1)" "alloc_ok al1" using assms by (rule alloc_ok_malloc)
  obtain j2 al2 where 2: "malloc al1 = (Some j2, al2)" "alloc_ok al2" using 1(2) by (rule alloc_ok_malloc)
  obtain j3 al3 where 3: "malloc al2 = (Some j3, al3)" "alloc_ok al3" using 2(2) by (rule alloc_ok_malloc)
  obtain j4 al4 where 4: "malloc al3 = (Some j4, al4)" "alloc_ok al4" using 3(2) by (rule alloc_ok_malloc)
  from 1 2 3 4 show ?thesis
    by (intro that [of al4])
      (simp_all add: monikor_metric_store_new_def monikor_metric_list_new_def or_null_def alloc_ret_def empty_store_def)
qed

lemma info_module_ok:
  assumes "alloc_ok al"
  obtains m al' where "monikor_info_module_load lo mon al = (mon\<lparr>mn_modules := mn_modules mon @ [m]\<rparr>, 0, al')"
    and "alloc_ok al'" and "md_poll_interval m = cf_poll_interval (mn_config mon)"
proof -
  obtain j al1 where 1: "malloc al = (Some j, al1)" "alloc_ok al1" using assms by (rule alloc_ok_malloc)
  obtain al2 where 2: "strdup ''info'' al1 = (Some ''info'', al2)" "alloc_ok al2" using 1(2) by (rule alloc_ok_strdup)
  obtain al3 where 3: "monikor_config_dict_get_scalar [] ''interval'' al2 = (None, al3)" "alloc_ok al3"
    using scalar_lookup_ok [OF 2(2), of "''interval''" "[]"] by (auto simp: module_key_tokens scalar_at_def)
  from 1 2 3 show ?thesis
    by (intro that [of "\<lparr>md_name = ''info'', md_data = None, md_poll_interval = cf_poll_interval (mn_config mon),
        md_last_clock = lo_now lo\<lparr>tv_sec := tv_sec (lo_now lo) - size_of_int (cf_poll_interval (mn_config mon))\<rparr>,
        md_config = None, md_dhandle = None, md_init = None, md_poll = Some ''monikor_info_module_poll'',
        md_cleanup = None\<rparr>" al3])
      (simp_all add: monikor_info_module_load_def monikor_mod_new_def or_null_def alloc_ret_def
        set_interval_and_clock_def Let_def)
qed

lemma sample_init_modules:
  "\<exists>mon' al'. monikor_init_modules sample_loader
     cpu_agent []
    = Some (mon', 0, al') \<and> map md_poll_interval (mn_modules mon') = [15, 60]"
proof -
  obtain al1 where 1: "monikor_metric_store_new [] = (Some empty_store, al1)" "alloc_ok al1"
    using alloc_ok_Nil by (rule store_new_ok)
  have e: "cpu_agent\<lparr>mn_modules := [], mn_metrics := empty_store\<rparr> = cpu_agent"
    by (simp add: cpu_agent_def sample_agent_def)
  obtain m al2 where 2: "monikor_load_one_module sample_loader ''cpu'' cpu_agent al1 = Some (cpu_agent\<lparr>mn_modules := [m]\<rparr>, al2)"
    "alloc_ok al2" "md_poll_interval m = 15" using sample_load_one [OF 1(2)] by auto
  obtain i al3 where 3: "monikor_info_module_load sample_loader (cpu_agent\<lparr>mn_modules := [m]\<rparr>) al2
      = (cpu_agent\<lparr>mn_modules := [m, i]\<rparr>, 0, al3)" "md_poll_interval i = 60"
    by (rule info_module_ok [OF 2(2), of sample_loader "cpu_agent\<lparr>mn_modules := [m]\<rparr>"])
      (simp add: cpu_agent_fields)
  from 1 2 3 show ?thesis
    by (simp add: e monikor_init_modules_def monikor_load_all_modules_def cpu_agent_fields strl_link_def strl_init_def)
qed

lemma init_no_modules:
  assumes "alloc_ok al" and "cf_modules (mn_config mon) = Some strl_init"
  shows "\<exists>m al'. monikor_init_modules lo mon al = Some (mon\<lparr>mn_metrics := empty_store, mn_modules := [m]\<rparr>, 0, al')"
proof -
  obtain j al1 where 1: "malloc al = (Some j, al1)" "alloc_ok al1" using assms(1) by (rule alloc_ok_malloc)
  obtain al2 where 2: "monikor_metric_store_new al1 = (Some empty_store, al2)" "alloc_ok al2"
    using 1(2) by (rule store_new_ok)
  obtain i al3 where "monikor_info_module_load lo (mon\<lparr>mn_modules := [], mn_metrics := empty_store\<rparr>) al2
      = (mon\<lparr>mn_metrics := empty_store, mn_modules := [i]\<rparr>, 0, al3)"
    by (rule info_module_ok [OF 2(2), of lo "mon\<lparr>mn_modules := [], mn_metrics := empty_store\<rparr>"]) simp
  with 1 2 assms(2) show ?thesis
    by (intro exI [of _ i] exI [of _ al3]) (simp add: monikor_init_modules_def monikor_load_all_modules_def strl_init_def)
qed

text \<open>Reloading a file of a configuration without modules succeeds.\<close>

definition loader_of :: "cfg_dict \<Rightarrow> loader" where
  "loader_of d = sample_loader\<lparr>lo_files := \<lambda>f. if f = ''/c.yml'' then Some (Some (print_file d)) else None\<rparr>"

lemma reload_from:
  assumes "value_ok (MONIKOR_CFG_DICT d)" and "cf_config_path (mn_config mon) = ''/c.yml''"
    and "path_setting d [''modules'', ''path''] MONIKOR_DEFAULT_MODULES_PATH = Some p"
    and "path_setting d [''modules'', ''config_path''] MONIKOR_DEFAULT_MODULES_CONFIG_PATH = Some cp"
  shows "\<exists>mon' al'. monikor_reload (loader_of d) (\<lambda>d. Some []) junk mon [] = Some (mon', 0, al')
    \<and> (scalar_at d [''hostid''] = None \<longrightarrow> cf_hostid (mn_config mon') = None)"
proof -
  let ?dir = "\<lambda>d :: string. Some [] :: string list option"
  from load_config_ok [OF _ _ assms(1,3,4), of "[]" "lo_files (loader_of d)" "''/c.yml''" ?dir junk]
  obtain c al where c: "monikor_load_config (lo_files (loader_of d)) ?dir junk (Some ''/c.yml'') [] = Some (Some c, al)"
    "alloc_ok al" and m: "cf_modules c = Some strl_init" and h: "scalar_at d [''hostid''] = None \<longrightarrow> cf_hostid c = None"
    by (auto simp: loader_of_def settings_of_def module_names_def)
  let ?m1 = "(monikor_cleanup_modules mon)\<lparr>mn_config := c, mn_hostid_shared := False\<rparr>"
  obtain i al3 where "monikor_init_modules (loader_of d) ?m1 al = Some (?m1\<lparr>mn_metrics := empty_store, mn_modules := [i]\<rparr>, 0, al3)"
    using init_no_modules [OF c(2), of ?m1 "loader_of d"] m by auto
  with c assms(2) h show ?thesis by (simp add: monikor_reload_def)
qed

definition reload_loader :: loader where
  "reload_loader = loader_of sample_config"

lemma sample_reload:
  "\<exists>mon' al'. monikor_reload reload_loader (\<lambda>d. Some []) junk (sample_agent\<lparr>mn_metrics := s, mn_flags := 1\<rparr>) []
     = Some (mon', 0, al')"
proof -
  have "path_setting sample_config [''modules'', ''path''] MONIKOR_DEFAULT_MODULES_PATH = Some MONIKOR_DEFAULT_MODULES_PATH"
    "path_setting sample_config [''modules'', ''config_path''] MONIKOR_DEFAULT_MODULES_CONFIG_PATH
       = Some MONIKOR_DEFAULT_MODULES_CONFIG_PATH"
    by (simp_all add: path_setting_def string_setting_def scalar_at_def sample_config_def strip_slash_def
        MONIKOR_DEFAULT_MODULES_PATH_def MONIKOR_DEFAULT_MODULES_CONFIG_PATH_def)
  moreover have "cf_config_path (mn_config (sample_agent\<lparr>mn_metrics := s, mn_flags := 1\<rparr>)) = ''/c.yml''"
    by (simp add: sample_agent_def sample_settings_def)
  ultimately show ?thesis using reload_from [OF sample_config_ok] unfolding reload_loader_def by blast
qed

subsection \<open>Properties\<close>

text \<open>a module is only loaded from the library of its name in the modules' directory, with the init and the
  poll functions that carry its name; its cleanup function may be missing.\<close>

theorem module_needs_init_and_poll:
  assumes "monikor_load_module lo name path al = (Some m, al')"
  shows "md_name m = name \<and> (\<exists>symbols. lo_dlopen lo (path @ ''/'' @ name @ ''.so'') = Some symbols
    \<and> md_init m = Some (name @ ''_init'') \<and> name @ ''_init'' \<in> symbols
    \<and> md_poll m = Some (name @ ''_poll'') \<and> name @ ''_poll'' \<in> symbols
    \<and> (\<forall>c. md_cleanup m = Some c \<longrightarrow> c = name @ ''_cleanup'' \<and> c \<in> symbols))"
  using assms by (rule load_module_poll) auto

theorem module_needs_init_and_poll_witness:
  "\<exists>m al'. monikor_load_module sample_loader ''cpu'' ''/m'' [] = (Some m, al') \<and> md_poll m = Some ''cpu_poll''"
proof -
  obtain m al' where m: "monikor_load_module sample_loader ''cpu'' ''/m'' [] = (Some m, al')"
    by (simp add: monikor_load_module_def sample_loader_def or_null_def get_sopath_def load_mod_function_def Let_def
        monikor_mod_new_def alloc_ret_def strdup_def MONIKOR_MOD_SUFFIX_def MONIKOR_MOD_INIT_TAG_def MONIKOR_MOD_POLL_TAG_def
        MONIKOR_MOD_CLEANUP_TAG_def)
  from module_needs_init_and_poll [OF m] m show ?thesis by auto
qed


text \<open>A module that is polled every 15 seconds, was due at 1000 and pushes nothing.\<close>

definition sample_module :: modul where
  "sample_module = \<lparr>md_name = ''cpu'', md_data = None, md_poll_interval = 15, md_last_clock = \<lparr>tv_sec = 1000, tv_usec = 0\<rparr>,
     md_config = None, md_dhandle = None, md_init = None, md_poll = Some ''cpu_poll'', md_cleanup = None\<rparr>"


text \<open>C31: initialising the modules never writes past their array, which has one place more than the configuration
  has names; every module can be polled, polls at an interval between 0 and the global one, and is due at
  once.\<close>

theorem init_modules_ready:
  assumes "monikor_init_modules lo mon al = Some (mon', 0, al')" and "0 \<le> sint (cf_poll_interval (mn_config mon))"
    and "cf_modules (mn_config mon) = Some l"
  shows "mn_modules mon' \<noteq> [] \<and> length (mn_modules mon') \<le> 1 + length (sl_strs l)
    \<and> (\<forall>m\<in>set (mn_modules mon'). md_poll m \<noteq> None \<and> 0 \<le> sint (md_poll_interval m)
        \<and> sint (md_poll_interval m) \<le> sint (cf_poll_interval (mn_config mon))
        \<and> tv_sec (md_last_clock m) + size_of_int (md_poll_interval m) = tv_sec (lo_now lo))"
  using init_modules_result [OF assms(1,3)] assms(2) by (auto simp: ready_def)

theorem init_modules_ready_witness:
  "\<exists>mon' al'. monikor_init_modules sample_loader cpu_agent [] = Some (mon', 0, al')
    \<and> map md_poll_interval (mn_modules mon') = [15, 60] \<and> (\<forall>m\<in>set (mn_modules mon'). md_poll m \<noteq> None)"
proof -
  obtain mon' al' where m: "monikor_init_modules sample_loader cpu_agent [] = Some (mon', 0, al')"
    "map md_poll_interval (mn_modules mon') = [15, 60]" using sample_init_modules by (elim exE conjE) (rule that)
  from init_modules_ready [OF m(1), of "strl_link strl_init ''cpu''"] m show ?thesis
    by (auto simp: cpu_agent_fields)
qed

lemma reload_result:
  assumes "monikor_reload lo dir junk mon al = Some (mon', 0, al')"
  obtains cfg ms where "mon' = mon\<lparr>mn_config := cfg, mn_hostid_shared := False, mn_modules := ms,
    mn_metrics := empty_store, mn_flags := mn_flags mon AND NOT MONIKOR_FLAG_RELOAD\<rparr>"
proof -
  from assms obtain cfg al1 mon1 where
    i: "monikor_init_modules lo ((monikor_cleanup_modules mon)\<lparr>mn_config := cfg, mn_hostid_shared := False\<rparr>) al1
      = Some (mon1, 0, al')"
    and m: "mon' = mon1\<lparr>mn_flags := mn_flags mon1 AND NOT MONIKOR_FLAG_RELOAD\<rparr>"
    by (auto simp: monikor_reload_def split: option.splits prod.splits bind_splits if_splits)
  then obtain l where "cf_modules cfg = Some l"
    by (cases "cf_modules cfg") (auto simp: monikor_init_modules_def monikor_cleanup_modules_def)
  with init_modules_result [OF i] m that show ?thesis by (auto simp: monikor_cleanup_modules_def)
qed

lemma reload_keeps_instance_id:
  "monikor_reload lo dir junk mon al = Some (mon', 0, al') \<Longrightarrow> mn_instance_id mon' = mn_instance_id mon"
  by (elim reload_result) simp

text \<open>C39: a successful reload starts with an empty metric store: the metrics that were waiting or cached before
  it are lost.  The requests in flight stay, also those whose callback is in a library that was just
  closed, and the request to reload is cleared.\<close>

theorem reload_empties_store:
  assumes "monikor_reload lo dir junk mon al = Some (mon', 0, al')"
  shows "mn_metrics mon' = empty_store \<and> mn_requests mon' = mn_requests mon \<and> mn_http mon' = mn_http mon
    \<and> mn_flags mon' AND MONIKOR_FLAG_RELOAD = 0 \<and> mn_backoff_count mon' = mn_backoff_count mon"
proof -
  from assms obtain cfg ms where "mon' = mon\<lparr>mn_config := cfg, mn_hostid_shared := False, mn_modules := ms,
    mn_metrics := empty_store, mn_flags := mn_flags mon AND NOT MONIKOR_FLAG_RELOAD\<rparr>" by (rule reload_result)
  then show ?thesis by (simp add: and.assoc)
qed

theorem reload_empties_store_witness:
  "\<forall>junk s. \<exists>mon' al'. monikor_reload reload_loader (\<lambda>d. Some []) junk (sample_agent\<lparr>mn_metrics := s, mn_flags := 1\<rparr>) []
     = Some (mon', 0, al') \<and> mn_metrics mon' = empty_store"
  using reload_empties_store sample_reload by blast

end
