(* ===== verification/Run.thy ===== *)
theory Run
  imports IO_Poll Send Agent_Modules
begin

text \<open>
  The main loop, \<open>src/core/run.c\<close>, and the signals it reacts to, \<open>src/core/sig.c\<close>.

  The state is the agent, the pipe that carries signals from the signal handler to the loop, and the
  outcomes of the allocations, a list per callback (none: all succeed).  Clock readings, what
  select(2) and libcurl report, and the results of the system calls are parameters.
\<close>

subsection \<open>Signals\<close>

record siginfo =
  si_signo :: cint
  si_pid :: cint

definition SIGHUP :: cint where "SIGHUP = 1"
definition SIGINT :: cint where "SIGINT = 2"
definition SIGQUIT :: cint where "SIGQUIT = 3"
definition SIGUSR1 :: cint where "SIGUSR1 = 10"
definition SIGUSR2 :: cint where "SIGUSR2 = 12"
definition SIGTERM :: cint where "SIGTERM = 15"
definition SIGCHLD :: cint where "SIGCHLD = 17"

record run_state =
  rs_agent :: agent
  rs_pipe :: "siginfo list"
  rs_mem :: "alloc list"

type_synonym ('i, 'c, 'p) run_world = "('i, 'c, 'p, run_state) io_world"

definition agent_of :: "('i, 'c, 'p) run_world \<Rightarrow> agent" where
  "agent_of w = rs_agent (iw_state w)"

definition with_agent :: "agent \<Rightarrow> ('i, 'c, 'p) run_world \<Rightarrow> ('i, 'c, 'p) run_world" where
  "with_agent mon w = w\<lparr>iw_state := (iw_state w)\<lparr>rs_agent := mon\<rparr>\<rparr>"

definition next_mem :: "('i, 'c, 'p) run_world \<Rightarrow> alloc \<times> ('i, 'c, 'p) run_world" where
  "next_mem w = (case rs_mem (iw_state w) of [] \<Rightarrow> ([], w) | al # als \<Rightarrow> (al, w\<lparr>iw_state := (iw_state w)\<lparr>rs_mem := als\<rparr>\<rparr>))"

text \<open>A write to a full pipe is lost.\<close>

definition handle_sigaction :: "siginfo \<Rightarrow> bool \<Rightarrow> run_state \<Rightarrow> run_state" where
  "handle_sigaction info room s = (if room then s\<lparr>rs_pipe := rs_pipe s @ [info]\<rparr> else s)"

text \<open>\<open>waitpid\<close> is the status of a child.  Exiting cleans up, which is not observable here.\<close>

definition handle_signal ::
  "('i, 'c, 'p, run_state) callbacks \<Rightarrow> curl_env \<Rightarrow> (cint \<Rightarrow> cint option) \<Rightarrow> nat \<Rightarrow> u8 \<Rightarrow> ('i, 'c, 'p) run_world
     \<Rightarrow> ('i, 'c, 'p) run_world outcome option" where
  "handle_signal cbs env waitpid handler mode w =
     (case rs_pipe (iw_state w) of
        [] \<Rightarrow> Some (Running w)
      | info # rest \<Rightarrow>
          (let w = w\<lparr>iw_state := (iw_state w)\<lparr>rs_pipe := rest\<rparr>\<rparr>; s = si_signo info in
           if s = SIGINT \<or> s = SIGTERM \<or> s = SIGQUIT then Some (Exited w)
           else if s = SIGCHLD then monikor_process_exited cbs (waitpid (si_pid info)) (si_pid info) w
           else if s = SIGHUP then Some (Running (with_agent (monikor_flag_reload (agent_of w)) w))
           else if s = SIGUSR1 then
             (case next_mem w of
                (al, w) \<Rightarrow> do { (mon, al) \<leftarrow> monikor_send_all env (agent_of w) al; Some (Running (with_agent mon w)) })
           else if s = SIGUSR2 then Some (Running (with_agent (monikor_flush_all (agent_of w)) w))
           else Some (Running w)))"

text \<open>The descriptor that signals are written to (-1: none), and the return code; \<open>addr\<close> is where the handler is
  allocated, \<open>sigaction\<close> says for which signals the system call succeeds.\<close>

definition monikor_register_signals ::
  "(cint \<times> cint) option \<Rightarrow> (cint \<Rightarrow> bool) \<Rightarrow> 'i \<Rightarrow> nat \<Rightarrow> ('i, 'c, 'p) run_world \<Rightarrow> alloc
     \<Rightarrow> (('i, 'c, 'p) run_world \<times> cint \<times> cint \<times> alloc) option" where
  "monikor_register_signals pipe sigaction callback addr w al =
     (case pipe of
        None \<Rightarrow> Some (w, -1, -1, al)
      | Some (rd, wr) \<Rightarrow>
          (case monikor_io_handler_new rd MONIKOR_IO_HANDLER_RD (Some callback) al of
             (None, al) \<Rightarrow> Some (w, -1, -1, al)
           | (Some handler, al) \<Rightarrow>
               if \<not> (sigaction SIGTERM \<and> sigaction SIGINT \<and> sigaction SIGQUIT \<and> sigaction SIGHUP \<and> sigaction SIGUSR1
                     \<and> sigaction SIGCHLD \<and> sigaction SIGUSR2)
               then Some (w, wr, -1, al)
               else do {
                 w \<leftarrow> monikor_register_io_handler addr (with_io (dll_alloc (io_of w) addr handler) w);
                 Some (w, wr, 0, al) }))"

subsection \<open>The main loop\<close>

fun tick_loop :: "modul list \<Rightarrow> cint \<Rightarrow> cint" where
  "tick_loop [] tick = tick"
| "tick_loop (mdl # mods) tick = tick_loop mods (if md_poll_interval mdl <s tick then md_poll_interval mdl else tick)"

definition get_tick_interval :: "agent \<Rightarrow> cint" where
  "get_tick_interval mon =
     (let c = mn_config mon;
          tick = (if cf_update_interval c <s cf_poll_interval c then cf_update_interval c else cf_poll_interval c)
      in tick_loop (mn_modules mon) tick)"

text \<open>The next update: one tick later, but not before now.\<close>

definition schedule_next :: "timeval \<Rightarrow> cint \<Rightarrow> agent \<Rightarrow> agent" where
  "schedule_next now tick mon =
     (let mon = mon\<lparr>mn_next_update := mn_next_update mon + size_of_int tick\<rparr>
      in if mn_next_update mon <s tv_sec now then mon\<lparr>mn_next_update := tv_sec now\<rparr> else mon)"

text \<open>One round of work: the schedule, the polls, the update.  The log's level decides whether the store is also dumped.\<close>

definition run_round ::
  "poller \<Rightarrow> curl_env \<Rightarrow> timeval \<Rightarrow> timeval \<Rightarrow> cint \<Rightarrow> agent \<Rightarrow> alloc \<Rightarrow> (agent \<times> alloc) option" where
  "run_round poll env now evict_now tick mon al = do {
     (mon, _, al) \<leftarrow> monikor_poll_modules poll now (schedule_next now tick mon) al;
     monikor_update env now evict_now mon al }"

definition wait_interval :: "agent \<Rightarrow> timeval \<Rightarrow> timeval" where
  "wait_interval mon now =
     (let s = (if tv_sec now <s mn_next_update mon then mn_next_update mon - tv_sec now else 0)
      in \<lparr>tv_sec = s, tv_usec = (if s \<noteq> 0 then 0 else 10)\<rparr>)"

record wait_step =
  ws_now :: timeval
  ws_curl :: "curl_round list"
  ws_select :: "select_result list"

fun wait_loop ::
  "('i, 'c, 'p, run_state) callbacks \<Rightarrow> wait_step list \<Rightarrow> ('i, 'c, 'p) run_world
     \<Rightarrow> ('i, 'c, 'p) run_world outcome option" where
  "wait_loop cbs [] w = None"
| "wait_loop cbs (ws # wss) w = do {
     (r, _) \<leftarrow> monikor_io_handler_poll cbs (ws_curl ws) (ws_select ws) (wait_interval (agent_of w) (ws_now ws)) w;
     case r of
       Exited w \<Rightarrow> Some (Exited w)
     | Running w \<Rightarrow> if tv_sec (ws_now ws) <s mn_next_update (agent_of w) then wait_loop cbs wss w else Some (Running w) }"

text \<open>What one pass of the loop takes from outside.\<close>

record run_input =
  ri_loader :: loader
  ri_dir :: "string \<Rightarrow> string list option"
  ri_junk :: config
  ri_now :: timeval
  ri_evict_now :: timeval
  ri_mem :: alloc
  ri_wait :: "wait_step list"

text \<open>A pass ends with the world and the tick for the next pass, or the loop returns, or the process exits.\<close>

datatype 'w pass = Next 'w cint | Returned 'w cint | Ended 'w

definition run_pass ::
  "('i, 'c, 'p, run_state) callbacks \<Rightarrow> poller \<Rightarrow> curl_env \<Rightarrow> run_input \<Rightarrow> cint \<Rightarrow> ('i, 'c, 'p) run_world
     \<Rightarrow> ('i, 'c, 'p) run_world pass option" where
  "run_pass cbs poll env ri tick w = do {
     (mon, r, tick, al) \<leftarrow>
       (if mn_flags (agent_of w) AND MONIKOR_FLAG_RELOAD \<noteq> 0 then do {
          (mon, r, al) \<leftarrow> monikor_reload (ri_loader ri) (ri_dir ri) (ri_junk ri) (agent_of w) (ri_mem ri);
          Some (mon, r, get_tick_interval mon, al) }
        else Some (agent_of w, 0, tick, ri_mem ri));
     if r \<noteq> 0 then Some (Returned (with_agent mon w) 1)
     else do {
       (mon, al) \<leftarrow> run_round poll env (ri_now ri) (ri_evict_now ri) tick mon al;
       r \<leftarrow> wait_loop cbs (ri_wait ri) (with_agent mon w);
       Some (case r of Exited w \<Rightarrow> Ended w | Running w \<Rightarrow> Next w tick) } }"

fun run_loop ::
  "('i, 'c, 'p, run_state) callbacks \<Rightarrow> poller \<Rightarrow> curl_env \<Rightarrow> run_input list \<Rightarrow> cint \<Rightarrow> ('i, 'c, 'p) run_world
     \<Rightarrow> ('i, 'c, 'p) run_world pass option" where
  "run_loop cbs poll env [] tick w = Some (Next w tick)"
| "run_loop cbs poll env (ri # ris) tick w = do {
     r \<leftarrow> run_pass cbs poll env ri tick w;
     case r of Next w tick \<Rightarrow> run_loop cbs poll env ris tick w | _ \<Rightarrow> Some r }"

definition monikor_run ::
  "('i, 'c, 'p, run_state) callbacks \<Rightarrow> poller \<Rightarrow> curl_env \<Rightarrow> timeval \<Rightarrow> clong \<Rightarrow> run_input list \<Rightarrow> ('i, 'c, 'p) run_world
     \<Rightarrow> ('i, 'c, 'p) run_world pass option" where
  "monikor_run cbs poll env now t ris w =
     (let mon = monikor_update_init now t (agent_of w)
      in run_loop cbs poll env ris (get_tick_interval mon) (with_agent mon w))"

subsection \<open>Signals leave the agent in order\<close>

text \<open>The callbacks of an agent whose only descriptor is the signal pipe.\<close>

definition process_callbacks :: "('i, 'c, 'p, run_state) callbacks" where
  "process_callbacks = \<lparr>cb_io = \<lambda>_ _ _ w. Some (Running w), cb_curl = \<lambda>_ _ _ w. Some (Running w),
     cb_process = \<lambda>_. reap_process_callback\<rparr>"

definition signal_callbacks :: "curl_env \<Rightarrow> (cint \<Rightarrow> cint option) \<Rightarrow> ('i, 'c, 'p, run_state) callbacks" where
  "signal_callbacks env waitpid = process_callbacks\<lparr>cb_io := \<lambda>_. handle_signal process_callbacks env waitpid\<rparr>"

definition run_inv :: "('i, 'c, 'p) run_world \<Rightarrow> bool" where
  "run_inv w \<longleftrightarrow> agent_inv (agent_of w) \<and> (\<forall>al\<in>set (rs_mem (iw_state w)). alloc_ok al)
     \<and> message_fits (ob_waiting (outbox_of (agent_of w)) @ ob_new (outbox_of (agent_of w)))
     \<and> dl_first (processes_of w) = None"

lemmas signal_numbers = SIGHUP_def SIGINT_def SIGQUIT_def SIGUSR1_def SIGUSR2_def SIGTERM_def SIGCHLD_def

lemma send_all_metrics_keeps:
  "monikor_send_all_metrics env mon al = Some (mon', al') \<Longrightarrow> mn_next_update mon' = mn_next_update mon"
proof -
  have "monikor_send_metrics env m ms al = Some (m', r, al') \<Longrightarrow> mn_next_update m' = mn_next_update m" for m ms al m' r al'
    by (auto simp: monikor_send_metrics_def split: option.splits prod.splits if_splits)
  then show "monikor_send_all_metrics env mon al = Some (mon', al') \<Longrightarrow> ?thesis"
    by (fastforce simp: monikor_send_all_metrics_def Let_def split: option.splits prod.splits if_splits)
qed

lemma send_all_run_inv:
  assumes "agent_inv mon" and "message_fits (ob_waiting (outbox_of mon) @ ob_new (outbox_of mon))" and "alloc_ok al"
  shows "\<exists>mon' al'. monikor_send_all env mon al = Some (mon', al') \<and> agent_inv mon'
    \<and> message_fits (ob_waiting (outbox_of mon') @ ob_new (outbox_of mon')) \<and> mn_next_update mon' = mn_next_update mon"
proof -
  have f: "message_fits (l_nodes (s_cache (mn_metrics mon)) @ l_nodes (s_current (mn_metrics mon)))"
    using assms(2) by (simp add: outbox_of_def)
  obtain mon' al' where s: "monikor_send_all_metrics env mon al = Some (mon', al')" and "agent_inv mon'"
    and "outbox_of mon' = outbox_send (cf_max_send_size (mn_config mon)) (outbox_of mon)
      \<or> outbox_of mon' = outbox_hold (outbox_of mon)"
    using send_all_cases [OF assms(3,1) f, of env] by metis
  moreover from this(3) have "message_fits (ob_waiting (outbox_of mon') @ ob_new (outbox_of mon'))"
  proof
    assume "outbox_of mon' = outbox_send (cf_max_send_size (mn_config mon)) (outbox_of mon)"
    moreover obtain a b where "batch (cf_max_send_size (mn_config mon)) 0 (ob_waiting (outbox_of mon) @ ob_new (outbox_of mon)) = (a, b)"
      by (cases "batch (cf_max_send_size (mn_config mon)) 0 (ob_waiting (outbox_of mon) @ ob_new (outbox_of mon))")
    moreover from batch_split [OF this] assms(2) message_fits_append [of a b] have "message_fits b" by simp
    ultimately show ?thesis by (simp add: outbox_send_def)
  next
    assume "outbox_of mon' = outbox_hold (outbox_of mon)"
    with assms(2) show ?thesis by (simp add: outbox_hold_def)
  qed
  ultimately show ?thesis using send_all_metrics_keeps [OF s] by (simp add: monikor_send_all_def)
qed

lemma message_fits_Nil: "message_fits []"
  by (simp add: message_fits_def encode_message_def wr_lengths)

lemma flush_outbox:
  "outbox_of (monikor_flush_all mon) = (outbox_of mon)\<lparr>ob_waiting := [], ob_new := []\<rparr>"
  by (simp add: outbox_of_def monikor_flush_all_def monikor_metric_store_flush_all_def)

lemma handle_signal_run_inv:
  assumes "run_inv w"
  shows "\<exists>r. handle_signal cbs env waitpid a mode w = Some r \<and> (\<forall>w'. r = Running w' \<longrightarrow>
    run_inv w' \<and> mn_next_update (agent_of w') = mn_next_update (agent_of w) \<and> iw_lists w' = iw_lists w)"
proof (cases "rs_pipe (iw_state w)")
  case Nil
  with assms show ?thesis by (simp add: handle_signal_def)
next
  case (Cons info rest)
  let ?w = "w\<lparr>iw_state := (iw_state w)\<lparr>rs_pipe := rest\<rparr>\<rparr>" and ?s = "si_signo info"
  note inv = assms [unfolded run_inv_def]
  have watched: "monikor_process_exited cbs st pid ?w = Some (Running ?w)" for st pid
    using inv by (simp add: monikor_process_exited_def monikor_process_watched_def processes_of_def watched_loop.simps)
  obtain al w2 where m: "next_mem ?w = (al, w2)" by force
  have w2: "alloc_ok al" "agent_of w2 = agent_of w" "iw_lists w2 = iw_lists w"
    "\<forall>al\<in>set (rs_mem (iw_state w2)). alloc_ok al"
    using m inv by (auto simp: next_mem_def agent_of_def split: list.splits)
  obtain mon al2 where s: "monikor_send_all env (agent_of w) al = Some (mon, al2)" "agent_inv mon"
    "message_fits (ob_waiting (outbox_of mon) @ ob_new (outbox_of mon))" "mn_next_update mon = mn_next_update (agent_of w)"
    using send_all_run_inv [of "agent_of w" al env] inv w2(1) by blast
  consider "?s = SIGINT \<or> ?s = SIGTERM \<or> ?s = SIGQUIT" | "?s = SIGCHLD" | "?s = SIGHUP" | "?s = SIGUSR1" | "?s = SIGUSR2"
    | "?s \<notin> {SIGINT, SIGTERM, SIGQUIT, SIGCHLD, SIGHUP, SIGUSR1, SIGUSR2}" by blast
  then show ?thesis
  proof cases
    case 1
    then show ?thesis using Cons by (auto simp: handle_signal_def Let_def)
  next
    case 2
    then show ?thesis using Cons watched inv
      by (simp add: handle_signal_def Let_def signal_numbers run_inv_def agent_of_def processes_of_def)
  next
    case 3
    then show ?thesis using Cons inv
      by (simp add: handle_signal_def Let_def signal_numbers run_inv_def agent_of_def processes_of_def with_agent_def
          flag_reload_inv outbox_of_def) (simp add: monikor_flag_reload_def)
  next
    case 4
    then show ?thesis using Cons m w2 s inv
      by (simp add: handle_signal_def Let_def signal_numbers run_inv_def processes_of_def agent_of_def with_agent_def)
  next
    case 5
    then show ?thesis using Cons inv
      by (simp add: handle_signal_def Let_def signal_numbers run_inv_def agent_of_def processes_of_def with_agent_def
          flush_all_agent_inv flush_outbox message_fits_Nil) (simp add: monikor_flush_all_def)
  next
    case 6
    then show ?thesis using Cons inv
      by (simp add: handle_signal_def Let_def run_inv_def agent_of_def processes_of_def)
  qed
qed

interpretation signals: io_dispatch "signal_callbacks env waitpid"
    "\<lambda>w. run_inv w \<and> mn_next_update (agent_of w) = n" for env waitpid n
proof
  fix w :: "('a, 'b, 'c) run_world" and a cb mode
  assume w: "run_inv w \<and> mn_next_update (agent_of w) = n"
  then obtain r where "handle_signal process_callbacks env waitpid a mode w = Some r"
    and r: "\<And>w'. r = Running w' \<Longrightarrow> run_inv w' \<and> mn_next_update (agent_of w') = n \<and> iw_lists w' = iw_lists w"
    using handle_signal_run_inv [of w process_callbacks env waitpid a mode] by blast
  then have "cb_io (signal_callbacks env waitpid) cb a mode w = Some r"
    by (simp add: signal_callbacks_def)
  moreover have "(run_inv w' \<and> mn_next_update (agent_of w') = n) \<and> keeps_handlers a w w'" if "r = Running w'" for w'
    using r [OF that] by (simp add: keeps_handlers_def io_of_def)
  ultimately show "\<exists>r. cb_io (signal_callbacks env waitpid) cb a mode w = Some r \<and> (\<forall>w'. r = Running w' \<longrightarrow>
      (run_inv w' \<and> mn_next_update (agent_of w') = n) \<and> keeps_handlers a w w')"
    by blast
qed

lemma wait_returns:
  assumes "dll_is (io_of w) xs" and "run_inv w" and "mn_next_update (agent_of w) = n"
    and "\<forall>ws\<in>set wss. quiet_poll (ws_curl ws) (ws_select ws)" and "\<exists>ws\<in>set wss. \<not> tv_sec (ws_now ws) <s n"
  shows "\<exists>r. wait_loop (signal_callbacks env waitpid) wss w = Some r \<and> (\<forall>w'. r = Running w' \<longrightarrow>
    run_inv w' \<and> mn_next_update (agent_of w') = n \<and> (\<exists>ys. dll_is (io_of w') ys))"
  using assms
proof (induction wss arbitrary: w xs)
  case Nil
  then show ?case by simp
next
  case (Cons ws wss)
  let ?poll = "monikor_io_handler_poll (signal_callbacks env waitpid) (ws_curl ws) (ws_select ws)
      (wait_interval (agent_of w) (ws_now ws)) w"
  have "run_inv w \<and> mn_next_update (agent_of w) = n" and "quiet_poll (ws_curl ws) (ws_select ws)"
    using Cons.prems(2-4) by simp_all
  from signals.poll_returns [OF Cons.prems(1) this]
  have "\<exists>r e. ?poll = Some (r, e) \<and> (\<forall>w'. r = Running w' \<longrightarrow>
      (run_inv w' \<and> mn_next_update (agent_of w') = n) \<and> (\<exists>ys. dll_is (io_of w') ys))" .
  then obtain r e where r: "?poll = Some (r, e)"
    and inv: "\<And>w'. r = Running w' \<Longrightarrow> (run_inv w' \<and> mn_next_update (agent_of w') = n) \<and> (\<exists>ys. dll_is (io_of w') ys)"
    by blast
  show ?case
  proof (cases r)
    case (Exited w')
    with r show ?thesis by simp
  next
    case (Running w')
    from inv [OF this] obtain ys where w': "run_inv w'" "mn_next_update (agent_of w') = n" "dll_is (io_of w') ys" by blast
    show ?thesis
    proof (cases "tv_sec (ws_now ws) <s n")
      case True
      with Cons.prems(5) have "\<exists>ws\<in>set wss. \<not> tv_sec (ws_now ws) <s n" by auto
      from Cons.IH [OF w'(3,1,2) _ this] Cons.prems(4) True r Running w'(2) show ?thesis by simp
    next
      case False
      with r Running w' show ?thesis by auto
    qed
  qed
qed

subsection \<open>Rounds\<close>

lemma tick_loop_least:
  "sint (tick_loop mods tick) \<le> sint tick \<and> (\<forall>m\<in>set mods. sint (tick_loop mods tick) \<le> sint (md_poll_interval m))
   \<and> tick_loop mods tick \<in> insert tick (md_poll_interval ` set mods)"
proof (induction mods arbitrary: tick)
  case Nil
  then show ?case by simp
next
  case (Cons m mods)
  let ?t = "if md_poll_interval m <s tick then md_poll_interval m else tick"
  have "sint ?t \<le> sint tick" "sint ?t \<le> sint (md_poll_interval m)" by (auto simp: word_sless_alt)
  with Cons.IH [of ?t] show ?case by (auto split: if_splits)
qed

lemma idle_polls: "module_polls (\<lambda>m mon al. Some (mon, 0, al))"
  by unfold_locales auto

lemma update_ok:
  assumes "agent_inv mon" and "message_fits (ob_waiting (outbox_of mon) @ ob_new (outbox_of mon))" and "alloc_ok al"
  shows "\<exists>mon' al'. monikor_update env now evict_now mon al = Some (mon', al') \<and> agent_inv mon'
    \<and> message_fits (ob_waiting (outbox_of mon') @ ob_new (outbox_of mon')) \<and> mn_next_update mon' = mn_next_update mon"
proof (cases "tv_sec now <s tv_sec (mn_last_clock mon) + size_of_int (cf_update_interval (mn_config mon))")
  case True
  with assms show ?thesis by (simp add: monikor_update_def)
next
  case False
  have "agent_inv (mon\<lparr>mn_last_clock := now\<rparr>)" using assms(1) by (simp add: agent_inv_def)
  then obtain mon1 n k where e: "monikor_evict_metrics evict_now (mon\<lparr>mn_last_clock := now\<rparr>) = Some (mon1, n)" "agent_inv mon1"
    and eq: "mon1 = mon\<lparr>mn_last_clock := now\<rparr>\<lparr>mn_metrics := mn_metrics mon1\<rparr>"
    and st: "s_current (mn_metrics mon1) = s_current (mn_metrics (mon\<lparr>mn_last_clock := now\<rparr>))"
      "l_nodes (s_cache (mn_metrics mon1)) = drop k (l_nodes (s_cache (mn_metrics (mon\<lparr>mn_last_clock := now\<rparr>))))"
    by (rule evict_metrics_ok)
  have nu: "mn_next_update mon1 = mn_next_update mon" by (subst eq) simp
  have "ob_waiting (outbox_of mon) @ ob_new (outbox_of mon) = take k (ob_waiting (outbox_of mon))
      @ (ob_waiting (outbox_of mon1) @ ob_new (outbox_of mon1))" by (simp add: outbox_of_def st)
  with assms(2) have "message_fits (ob_waiting (outbox_of mon1) @ ob_new (outbox_of mon1))"
    using message_fits_append by metis
  from send_all_run_inv [OF e(2) this assms(3), of env] e False nu show ?thesis by (auto simp: monikor_update_def)
qed

lemma update_frame:
  assumes "monikor_update env now evict_now mon al = Some (mon', al')"
  shows "mn_next_update mon' = mn_next_update mon"
proof -
  have "mn_next_update mon1 = mn_next_update m" if "monikor_evict_metrics c m = Some (mon1, n)" for c m mon1 n
    using that by (auto simp: monikor_evict_metrics_def Let_def split: prod.splits bind_splits)
  with assms show ?thesis
    by (fastforce simp: monikor_update_def monikor_send_all_def dest: send_all_metrics_keeps
        split: if_splits option.splits prod.splits)
qed

lemma schedule_next_sint:
  assumes "0 \<le> sint (mn_next_update mon)" and "sint (mn_next_update mon) < 2 ^ 62"
  shows "sint (mn_next_update (schedule_next now tick mon)) = max (sint (mn_next_update mon) + sint tick) (sint (tv_sec now))"
proof -
  have "sint (mn_next_update mon + size_of_int tick) = sint (mn_next_update mon) + sint tick"
    using assms interval_range [of tick] by (intro sint_add_int) simp_all
  then show ?thesis by (simp add: schedule_next_def Let_def word_sless_alt max_def)
qed

lemma schedule_next_frame:
  "mn_modules (schedule_next now tick mon) = mn_modules mon" "mn_metrics (schedule_next now tick mon) = mn_metrics mon"
  by (simp_all add: schedule_next_def Let_def)

subsection \<open>Properties\<close>

text \<open>the tick of the main loop is the smallest of the two global intervals and all modules' intervals: no
  module waits longer than its interval for the loop to look at it.\<close>

theorem tick_is_least_interval:
  "sint (get_tick_interval mon) \<le> sint (cf_update_interval (mn_config mon))
   \<and> sint (get_tick_interval mon) \<le> sint (cf_poll_interval (mn_config mon))
   \<and> (\<forall>m. m \<notin> set (mn_modules mon) \<or> sint (get_tick_interval mon) \<le> sint (md_poll_interval m))
   \<and> get_tick_interval mon \<in> {cf_update_interval (mn_config mon), cf_poll_interval (mn_config mon)}
        \<union> md_poll_interval ` set (mn_modules mon)"
proof -
  let ?t = "if cf_update_interval (mn_config mon) <s cf_poll_interval (mn_config mon)
    then cf_update_interval (mn_config mon) else cf_poll_interval (mn_config mon)"
  have "sint ?t \<le> sint (cf_update_interval (mn_config mon))" "sint ?t \<le> sint (cf_poll_interval (mn_config mon))"
    by (auto simp: word_sless_alt)
  with tick_loop_least [of "mn_modules mon" ?t] show ?thesis
    by (auto simp: get_tick_interval_def Let_def split: if_splits)
qed

text \<open>the rounds keep their rate: the next update is one tick after the last, however late the round is, except
  that it is never before now.\<close>

theorem next_update_keeps_rate:
  assumes "run_round poll env now evict_now tick mon al = Some (mon', al')"
    and "0 \<le> sint (mn_next_update mon)" and "sint (mn_next_update mon) < 2 ^ 62" and "module_polls poll"
  shows "sint (mn_next_update mon') = max (sint (mn_next_update mon) + sint tick) (sint (tv_sec now))"
proof -
  from assms(1) obtain mon1 e al1 where p: "monikor_poll_modules poll now (schedule_next now tick mon) al = Some (mon1, e, al1)"
    and "monikor_update env now evict_now mon1 al1 = Some (mon', al')"
    by (auto simp: run_round_def split: bind_splits)
  with update_frame module_polls.poll_modules_keep(3) [OF assms(4) p] schedule_next_sint [OF assms(2,3)] show ?thesis by metis
qed

theorem next_update_keeps_rate_witness:
  "\<exists>mon' al'. run_round (\<lambda>m mon al. Some (mon, 0, al)) sample_curl \<lparr>tv_sec = 1003, tv_usec = 0\<rparr> \<lparr>tv_sec = 1003, tv_usec = 0\<rparr> 30
      (sample_agent\<lparr>mn_next_update := 1000\<rparr>) [] = Some (mon', al') \<and> sint (mn_next_update mon') = 1030"
proof -
  let ?now = "\<lparr>tv_sec = 1003, tv_usec = 0\<rparr> :: timeval" and ?mon = "sample_agent\<lparr>mn_next_update := 1000\<rparr>"
  have "run_round (\<lambda>m mon al. Some (mon, 0, al)) sample_curl ?now ?now 30 ?mon []
      = Some (schedule_next ?now 30 ?mon, [])"
    by (simp add: run_round_def monikor_poll_modules_def sample_agent_def sample_settings_def schedule_next_def
        monikor_update_def word_sless_alt size_of_int_def)
  with next_update_keeps_rate [OF this _ _ idle_polls] show ?thesis by simp
qed


text \<open>The sample agent with its signal pipe on descriptor 5, in which a SIGHUP waits, and a step at which the clock
  has reached the next update.\<close>

definition sample_run :: "(unit, unit, unit) run_world" where
  "sample_run = \<lparr>iw_lists = \<lparr>hl_io = \<lparr>dl_heap = [4 \<mapsto> \<lparr>dn_data = \<lparr>ih_fd = 5, ih_mode = MONIKOR_IO_HANDLER_RD, ih_callback = Some ()\<rparr>,
         dn_prev = None, dn_next = None\<rparr>], dl_first = Some 4, dl_last = Some 4\<rparr>,
       hl_curl = \<lparr>cl_multi = [], cl_handlers = empty_dll Map.empty\<rparr>, hl_processes = empty_dll Map.empty\<rparr>,
     iw_state = \<lparr>rs_agent = sample_agent, rs_pipe = [\<lparr>si_signo = SIGHUP, si_pid = 0\<rparr>], rs_mem = []\<rparr>\<rparr>"

definition sample_step :: "clong \<Rightarrow> wait_step" where
  "sample_step t = \<lparr>ws_now = \<lparr>tv_sec = t, tv_usec = 0\<rparr>,
     ws_curl = [\<lparr>cr_msgs = [], cr_fdset = (\<lparr>fs_rd = {}, fs_wr = {}\<rparr>, -1), cr_timeout = -1\<rparr>],
     ws_select = [\<lparr>sr_err = -1, sr_eintr = True, sr_fds = \<lparr>fs_rd = {}, fs_wr = {}\<rparr>\<rparr>,
       \<lparr>sr_err = 1, sr_eintr = False, sr_fds = \<lparr>fs_rd = {5}, fs_wr = {}\<rparr>\<rparr>]\<rparr>"

lemma sample_run_ok:
  "dll_is (io_of sample_run) [4]" "run_inv sample_run" "quiet_poll (ws_curl (sample_step t)) (ws_select (sample_step t))"
  "agent_of sample_run = sample_agent" "tv_sec (ws_now (sample_step t)) = t"
  using sample_agent_inv
  by (simp_all add: sample_run_def io_of_def dll_is_def run_inv_def agent_of_def processes_of_def empty_dll_def
      sample_step_def quiet_poll_def outbox_of_def message_fits_Nil sample_agent_def empty_store_def monikor_metric_list_init_def)



definition sample_input :: run_input where
  "sample_input = \<lparr>ri_loader = sample_loader, ri_dir = \<lambda>_. None, ri_junk = sample_settings,
      ri_now = \<lparr>tv_sec = 1031, tv_usec = 0\<rparr>, ri_evict_now = \<lparr>tv_sec = 1031, tv_usec = 0\<rparr>, ri_mem = [],
      ri_wait = [sample_step 1060]\<rparr>"


end
