(* ===== verification/Server.thy ===== *)
theory Server
  imports IO_Poll Serialize
begin

text \<open>
  The local server that other programs push metrics to: \<open>include/server.h\<close>, \<open>src/server/handle.c\<close>,
  \<open>init.c\<close>, \<open>disconnect.c\<close> and \<open>cleanup.c\<close>.

  A handler of the server carries its client, an index into the table of clients (none: the
  listening socket), as part of its callback's name.  What arrives on a socket is a list of
  events, at whose end the peer has closed the connection.  System calls are parameters;
  the descriptors that are closed are recorded.
\<close>

definition MONIKOR_CLIENT_INACTIVE_SOCKET :: cint where "MONIKOR_CLIENT_INACTIVE_SOCKET = -1"
definition MONIKOR_SRV_MAX_CLIENTS :: nat where "MONIKOR_SRV_MAX_CLIENTS = 10"

record client =
  cn_socket :: cint
  cn_header :: list_hdr
  cn_data :: "u8 list option"

text \<open>\<open>sv_mon\<close>: the pointer to the agent has been set.\<close>

record server =
  sv_socket :: cint
  sv_n_clients :: u64
  sv_clients :: "client list"
  sv_mon :: bool
  sv_handler :: "nat option"

datatype server_handler = MONIKOR_SERVER_HANDLE_ANY "nat option"

record server_state =
  ss_server :: server
  ss_config :: config
  ss_metrics :: store
  ss_closed :: "cint list"

type_synonym ('c, 'p) server_world = "(server_handler, 'c, 'p, server_state) io_world"

definition server_of :: "('i, 'c, 'p, server_state) io_world \<Rightarrow> server" where
  "server_of w = ss_server (iw_state w)"

definition with_server :: "server \<Rightarrow> ('i, 'c, 'p, server_state) io_world \<Rightarrow> ('i, 'c, 'p, server_state) io_world" where
  "with_server s w = w\<lparr>iw_state := (iw_state w)\<lparr>ss_server := s\<rparr>\<rparr>"

definition with_client :: "nat \<Rightarrow> client \<Rightarrow> ('i, 'c, 'p, server_state) io_world \<Rightarrow> ('i, 'c, 'p, server_state) io_world" where
  "with_client i c w = with_server ((server_of w)\<lparr>sv_clients := (sv_clients (server_of w))[i := c]\<rparr>) w"

definition close_fd :: "cint \<Rightarrow> ('i, 'c, 'p, server_state) io_world \<Rightarrow> ('i, 'c, 'p, server_state) io_world" where
  "close_fd fd w = w\<lparr>iw_state := (iw_state w)\<lparr>ss_closed := ss_closed (iw_state w) @ [fd]\<rparr>\<rparr>"

subsection \<open>Clients and handlers\<close>

definition monikor_client_init :: "client \<Rightarrow> client" where
  "monikor_client_init c =
     c\<lparr>cn_header := \<lparr>h_version = 0, h_count = 0, h_data_size = 0\<rparr>, cn_data := None, cn_socket := MONIKOR_CLIENT_INACTIVE_SOCKET\<rparr>"

definition monikor_server_handler_new ::
  "server \<Rightarrow> nat option \<Rightarrow> alloc \<Rightarrow> server_handler io_handler dnode option \<times> alloc" where
  "monikor_server_handler_new server client =
     or_null malloc (\<lambda>_. monikor_io_handler_new
       (case client of Some i \<Rightarrow> cn_socket (sv_clients server ! i) | None \<Rightarrow> sv_socket server)
       MONIKOR_IO_HANDLER_RD (Some (MONIKOR_SERVER_HANDLE_ANY client)))"

definition monikor_server_handler_free ::
  "nat option \<Rightarrow> ('i, 'c, 'p, server_state) io_world \<Rightarrow> ('i, 'c, 'p, server_state) io_world" where
  "monikor_server_handler_free handler w =
     (case handler of None \<Rightarrow> w | Some a \<Rightarrow> with_io (dll_free (io_of w) a) w)"

text \<open>\<open>handler\<close> is the address of the client's handler.\<close>

definition monikor_server_disconnect ::
  "nat \<Rightarrow> nat \<Rightarrow> ('i, 'c, 'p, server_state) io_world \<Rightarrow> ('i, 'c, 'p, server_state) io_world option" where
  "monikor_server_disconnect i handler w =
     (let c = sv_clients (server_of w) ! i;
          w = (if cn_socket c \<noteq> -1 then close_fd (cn_socket c) w else w);
          w = with_client i (monikor_client_init c) w;
          w = with_server ((server_of w)\<lparr>sv_n_clients := sv_n_clients (server_of w) - 1\<rparr>) w
      in do {
        w \<leftarrow> monikor_unregister_io_handler handler w;
        Some (monikor_server_handler_free (Some handler) w) })"

subsection \<open>Connections\<close>

text \<open>\<open>accept\<close> is the new descriptor or -1, \<open>addr\<close> the address of a new handler.\<close>

definition monikor_server_handle_connection ::
  "cint \<Rightarrow> nat \<Rightarrow> ('c, 'p) server_world \<Rightarrow> alloc \<Rightarrow> (('c, 'p) server_world \<times> cint \<times> alloc) option" where
  "monikor_server_handle_connection accept addr w al =
     (if of_nat MONIKOR_SRV_MAX_CLIENTS \<le> sv_n_clients (server_of w) then Some (w, -1, al)
      else case find_first (\<lambda>c. cn_socket c = MONIKOR_CLIENT_INACTIVE_SOCKET) (sv_clients (server_of w)) of
        None \<Rightarrow> Some (w, 1, al)
      | Some i \<Rightarrow>
          (let w = with_client i ((sv_clients (server_of w) ! i)\<lparr>cn_socket := accept\<rparr>) w in
           if accept = -1 then Some (w, -1, al)
           else case monikor_server_handler_new (server_of w) (Some i) al of
             (None, al) \<Rightarrow>
               Some (with_client i (monikor_client_init (sv_clients (server_of w) ! i)) (close_fd accept w), -1, al)
           | (Some handler, al) \<Rightarrow> do {
               w \<leftarrow> monikor_register_io_handler addr (with_io (dll_alloc (io_of w) addr handler) w);
               Some (with_server ((server_of w)\<lparr>sv_n_clients := sv_n_clients (server_of w) + 1\<rparr>) w, 0, al) }))"

subsection \<open>Messages\<close>

datatype sock_event = Received "u8 list" | Failed

text \<open>\<open>read(2)\<close> of at most \<open>n\<close> bytes: \<open>None\<close> is -1; nothing is read when the peer has closed.\<close>

fun sock_read :: "sock_event list \<Rightarrow> u64 \<Rightarrow> u8 list option \<times> sock_event list" where
  "sock_read [] n = (Some [], [])"
| "sock_read (Failed # es) n = (None, es)"
| "sock_read (Received bs # es) n =
     (if length bs \<le> unat n then (Some bs, es) else (Some (take (unat n) bs), Received (drop (unat n) bs) # es))"

text \<open>The loop that reads the body into \<open>data\<close>: \<open>None\<close> when it does not end, \<open>Some None\<close> after an error.\<close>

partial_function (option) body_loop :: "sock_event list \<Rightarrow> u64 \<Rightarrow> u8 list \<Rightarrow> u8 list option option" where
  "body_loop es data_size data =
     (case sock_read es (data_size - of_nat (length data)) of
        (None, es) \<Rightarrow> Some None
      | (Some bs, es) \<Rightarrow>
          if of_nat (length (data @ bs)) < data_size then body_loop es data_size (data @ bs)
          else Some (Some (data @ bs)))"

text \<open>The error exit of the function below.\<close>

definition client_error ::
  "nat \<Rightarrow> nat \<Rightarrow> ('c, 'p) server_world \<Rightarrow> alloc \<Rightarrow> (('c, 'p) server_world \<times> cint \<times> alloc) option" where
  "client_error i handler w al = do {
     let c = sv_clients (server_of w) ! i;
     w \<leftarrow> monikor_server_disconnect i handler (with_client i (c\<lparr>cn_header := (cn_header c)\<lparr>h_count := 0\<rparr>\<rparr>) w);
     Some (w, -1, al) }"

definition monikor_server_handle_client ::
  "endian \<Rightarrow> sock_event list \<Rightarrow> nat \<Rightarrow> nat \<Rightarrow> ('c, 'p) server_world \<Rightarrow> alloc
     \<Rightarrow> (('c, 'p) server_world \<times> cint \<times> alloc) option" where
  "monikor_server_handle_client e es i handler w al =
     (case sock_read es (of_nat SERIALIZED_METRIC_LIST_HDR_SIZE) of
        (None, es) \<Rightarrow> client_error i handler w al
      | (Some buf, es) \<Rightarrow>
          if length buf < SERIALIZED_METRIC_LIST_HDR_SIZE then client_error i handler w al
          else do {
            hdr \<leftarrow> monikor_metric_list_header_unserialize e buf 0;
            let w = with_client i ((sv_clients (server_of w) ! i)\<lparr>cn_header := hdr\<rparr>) w;
            case malloc al of
              (None, al) \<Rightarrow> client_error i handler w al
            | (Some _, al) \<Rightarrow> do {
                body \<leftarrow> body_loop es (h_data_size hdr) [];
                case body of
                  None \<Rightarrow> client_error i handler w al
                | Some data \<Rightarrow> do {
                    (metrics, _, al) \<leftarrow> monikor_metric_list_unserialize e data 0 hdr al;
                    metrics \<leftarrow> metrics;
                    case monikor_metric_store_lpush (ss_metrics (iw_state w)) metrics al of
                      (s, _, _, al) \<Rightarrow> do {
                        w \<leftarrow> monikor_server_disconnect i handler (w\<lparr>iw_state := (iw_state w)\<lparr>ss_metrics := s\<rparr>\<rparr>);
                        Some (w, 0, al) } } } })"

definition monikor_server_handle_any ::
  "endian \<Rightarrow> sock_event list \<Rightarrow> cint \<Rightarrow> nat \<Rightarrow> nat option \<Rightarrow> nat \<Rightarrow> ('c, 'p) server_world \<Rightarrow> alloc
     \<Rightarrow> (('c, 'p) server_world \<times> alloc) option" where
  "monikor_server_handle_any e es accept addr client handler w al =
     (case client of
        Some i \<Rightarrow> do { (w, _, al) \<leftarrow> monikor_server_handle_client e es i handler w al; Some (w, al) }
      | None \<Rightarrow> do { (w, _, al) \<leftarrow> monikor_server_handle_connection accept addr w al; Some (w, al) })"

subsection \<open>Starting and stopping\<close>

text \<open>The host's answers: user and group entries, and which of the calls on the socket succeed.\<close>

record bind_env =
  be_getpwnam :: "string \<Rightarrow> (u32 \<times> u32) option"
  be_getgrnam :: "string \<Rightarrow> u32 option"
  be_socket :: cint
  be_bind :: bool
  be_chmod :: "string \<Rightarrow> cint \<Rightarrow> bool"
  be_chown :: "string \<Rightarrow> u32 \<Rightarrow> u32 \<Rightarrow> bool"
  be_listen :: bool

definition SUN_PATH_SIZE :: nat where "SUN_PATH_SIZE = 108"

definition monikor_server_bind :: "bind_env \<Rightarrow> config \<Rightarrow> server \<Rightarrow> (server \<times> cint) option" where
  "monikor_server_bind be cfg server = do {
     path \<leftarrow> cf_listen_path cfg;
     (if SUN_PATH_SIZE \<le> length path then Some (server, -1)
      else case (case cf_listen_user cfg of None \<Rightarrow> Some (-1, -1) | Some user \<Rightarrow> be_getpwnam be user) of
        None \<Rightarrow> Some (server, -1)
      | Some (uid, gid) \<Rightarrow>
          (case (case cf_listen_group cfg of None \<Rightarrow> Some gid | Some grp \<Rightarrow> be_getgrnam be grp) of
             None \<Rightarrow> Some (server, -1)
           | Some gid \<Rightarrow>
               let server = server\<lparr>sv_socket := be_socket be\<rparr> in
               if be_socket be = -1 \<or> \<not> be_bind be \<or> \<not> be_chmod be path (cf_listen_mode cfg)
                  \<or> \<not> be_chown be path uid gid \<or> \<not> be_listen be
               then Some (server, -1) else Some (server, 0))) }"

definition monikor_server_init ::
  "bind_env \<Rightarrow> nat \<Rightarrow> ('c, 'p) server_world \<Rightarrow> alloc \<Rightarrow> (('c, 'p) server_world \<times> cint \<times> alloc) option" where
  "monikor_server_init be addr w al =
     (let s = (server_of w)\<lparr>sv_handler := None, sv_socket := -1, sv_mon := True,
                sv_clients := map monikor_client_init (sv_clients (server_of w)), sv_n_clients := 0\<rparr>
      in do {
        (s, r) \<leftarrow> monikor_server_bind be (ss_config (iw_state w)) s;
        case (if r \<noteq> 0 then (None, al) else monikor_server_handler_new s None al) of
          (None, al) \<Rightarrow>
            (let w = monikor_server_handler_free (sv_handler s) (with_server s w);
                 w = (if sv_handler s \<noteq> None \<and> sv_socket s \<noteq> -1 then close_fd (sv_socket s) w else w)
             in Some (w, -1, al))
        | (Some handler, al) \<Rightarrow> do {
            w \<leftarrow> monikor_register_io_handler addr
                  (with_io (dll_alloc (io_of w) addr handler) (with_server (s\<lparr>sv_handler := Some addr\<rparr>) w));
            Some (w, 0, al) } })"

text \<open>Whether the path of the socket is removed, with the world.\<close>

definition monikor_server_cleanup ::
  "('i, 'c, 'p, server_state) io_world \<Rightarrow> (('i, 'c, 'p, server_state) io_world \<times> bool) option" where
  "monikor_server_cleanup w = do {
     w \<leftarrow> (case sv_handler (server_of w) of
            None \<Rightarrow> Some w
          | Some handler \<Rightarrow> do {
              w \<leftarrow> monikor_unregister_io_handler handler w;
              Some (monikor_server_handler_free (Some handler) w) });
     let w = (if sv_socket (server_of w) \<noteq> -1 then close_fd (sv_socket (server_of w)) w else w);
     if sv_mon (server_of w) then Some (w, cf_listen_path (ss_config (iw_state w)) \<noteq> None) else None }"

subsection \<open>Reading a body\<close>

lemma unat_of_nat_le: "n \<le> unat (s :: u64) \<Longrightarrow> unat (of_nat n :: u64) = n"
proof -
  assume "n \<le> unat s"
  moreover have "unat s < 2 ^ 64" using unsigned_less [of s] by simp
  ultimately show ?thesis by (intro unat_of_nat_u64) simp
qed

lemma body_loop_reads:
  assumes "length data + length (concat bs) = unat sz" and "[] \<notin> set bs"
  shows "body_loop (map Received bs) sz data = Some (Some (data @ concat bs))"
  using assms
proof (induction bs arbitrary: data)
  case Nil
  then have "of_nat (length data) = sz" by simp
  then show ?case by (subst body_loop.simps) simp
next
  case (Cons b bs)
  let ?n = "sz - of_nat (length data)"
  from Cons.prems(1) have le: "length data + length b \<le> unat sz" by simp
  have d: "unat (of_nat (length data) :: u64) = length data" if "length data \<le> unat sz" for data :: "u8 list"
    using that by (intro unat_of_nat_le [of _ sz]) simp
  from le have "unat ?n = unat sz - length data"
    using d [of data] by (subst unat_sub) (simp_all add: word_le_nat_alt)
  with le have "length b \<le> unat ?n" by simp
  then have read: "sock_read (map Received (b # bs)) ?n = (Some b, map Received bs)" by simp
  show ?case
  proof (cases "bs = []")
    case True
    with Cons.prems(1) have "unat sz = length (data @ b)" by simp
    moreover have "of_nat (unat sz) = sz" by simp
    ultimately have "of_nat (length (data @ b)) = sz" by (simp only:)
    with read True show ?thesis by (subst body_loop.simps) simp
  next
    case False
    with Cons.prems(2) have "concat bs \<noteq> []" by (cases bs) auto
    with Cons.prems(1) have "length (data @ b) < unat sz" by (cases "concat bs") auto
    with d [of "data @ b"] have "of_nat (length (data @ b)) < sz" by (simp add: word_less_nat_alt)
    with read Cons.IH [of "data @ b"] Cons.prems show ?thesis by (subst body_loop.simps) simp
  qed
qed

lemma body_loop_stuck: "length data < unat sz \<Longrightarrow> body_loop [] sz data = None"
proof (rule ccontr)
  assume l: "length data < unat sz" and "body_loop [] sz data \<noteq> None"
  then obtain r where r: "body_loop [] sz data = Some r" by blast
  have "\<not> (es = [] \<and> length d < unat n)" if "body_loop es n d = Some y" for es n d y
  proof (induct rule: body_loop.raw_induct [OF _ that])
    case (1 f es n d y)
    show ?case
    proof
      assume a: "es = [] \<and> length d < unat n"
      have "unat (of_nat (length d) :: u64) = length d"
        using a by (intro unat_of_nat_le [of _ n]) simp
      with a have "of_nat (length d) < n" by (simp add: word_less_nat_alt)
      with a 1(2) have "f [] n d = Some y" by simp
      from 1(1) [OF this] a show False by simp
    qed
  qed
  from this [OF r] l show False by simp
qed

lemma body_loop_short:
  assumes "length data + length (concat bs) < unat sz"
  shows "body_loop (map Received bs) sz data = None"
  using assms
proof (induction bs arbitrary: data)
  case Nil
  then show ?case by (simp add: body_loop_stuck)
next
  case (Cons b bs)
  let ?n = "sz - of_nat (length data)"
  have d: "unat (of_nat (length data) :: u64) = length data" if "length data < unat sz" for data :: "u8 list"
    using that by (intro unat_of_nat_le [of _ sz]) simp
  from Cons.prems have "length data < unat sz" "length (data @ b) < unat sz" by simp_all
  with d [of data] d [of "data @ b"] have "unat ?n = unat sz - length data" "of_nat (length (data @ b)) < sz"
    by (simp_all add: unat_sub word_le_nat_alt word_less_nat_alt)
  moreover from this(1) Cons.prems have "sock_read (map Received (b # bs)) ?n = (Some b, map Received bs)" by simp
  ultimately show ?case using Cons.IH [of "data @ b"] Cons.prems by (subst body_loop.simps) simp
qed

subsection \<open>Disconnecting\<close>

lemma with_server_simps [simp]:
  "server_of (with_server s w) = s" "io_of (with_server s w) = io_of w" "server_of (close_fd fd w) = server_of w"
  "io_of (close_fd fd w) = io_of w" "io_of (with_client i c w) = io_of w" "server_of (with_io l w) = server_of w"
  "sv_clients (server_of (with_client i c w)) = (sv_clients (server_of w))[i := c]"
  "sv_n_clients (server_of (with_client i c w)) = sv_n_clients (server_of w)"
  "ss_metrics (iw_state (with_server s w)) = ss_metrics (iw_state w)" "ss_metrics (iw_state (close_fd fd w)) = ss_metrics (iw_state w)"
  "ss_metrics (iw_state (with_client i c w)) = ss_metrics (iw_state w)"
  by (simp_all add: server_of_def with_server_def io_of_def close_fd_def with_client_def with_io_def)

lemma dll_free_other: "dll_is l xs \<Longrightarrow> a \<notin> set xs \<Longrightarrow> dll_is (dll_free l a) xs"
  by (simp add: dll_is_def dll_free_def)

lemma disconnect_ok:
  assumes "dll_is (io_of w) xs" and "h \<in> set xs" and "i < length (sv_clients (server_of w))"
  shows "\<exists>w'. monikor_server_disconnect i h w = Some w' \<and> dll_is (io_of w') (remove1 h xs)
    \<and> sv_clients (server_of w') = (sv_clients (server_of w))[i := monikor_client_init (sv_clients (server_of w) ! i)]
    \<and> sv_n_clients (server_of w') = sv_n_clients (server_of w) - 1 \<and> ss_metrics (iw_state w') = ss_metrics (iw_state w)"
proof -
  obtain l where l: "monikor_io_handler_list_remove (io_of w) h = Some l" "dll_is l (remove1 h xs)"
    by (rule io_list.remove_any [OF assms(1,2)])
  moreover have "h \<notin> set (remove1 h xs)" using assms(1) by (simp add: dll_is_def)
  ultimately show ?thesis
    by (auto simp: monikor_server_disconnect_def Let_def monikor_unregister_io_handler_def monikor_server_handler_free_def
        dll_free_other)
qed

subsection \<open>The table of clients\<close>

definition active :: "client \<Rightarrow> bool" where
  "active c \<longleftrightarrow> cn_socket c \<noteq> MONIKOR_CLIENT_INACTIVE_SOCKET"

definition server_inv :: "server \<Rightarrow> bool" where
  "server_inv s \<longleftrightarrow> length (sv_clients s) = MONIKOR_SRV_MAX_CLIENTS
     \<and> unat (sv_n_clients s) = length (filter active (sv_clients s))"

lemma filter_update_off:
  "i < length xs \<Longrightarrow> P (xs ! i) \<Longrightarrow> \<not> P y \<Longrightarrow> length (filter P (xs[i := y])) = length (filter P xs) - 1"
proof (induction xs arbitrary: i)
  case (Cons x xs)
  then show ?case
  proof (cases i)
    case (Suc j)
    with Cons.prems have "P (xs ! j)" "j < length xs" by simp_all
    then have "0 < length (filter P xs)" by (auto simp: filter_empty_conv)
    with Suc Cons show ?thesis by simp
  qed simp
qed simp

lemma filter_update_on:
  "i < length xs \<Longrightarrow> \<not> P (xs ! i) \<Longrightarrow> P y \<Longrightarrow> length (filter P (xs[i := y])) = Suc (length (filter P xs))"
  by (induction xs arbitrary: i) (auto split: nat.splits)

lemma filter_update_same:
  "i < length xs \<Longrightarrow> \<not> P (xs ! i) \<Longrightarrow> \<not> P y \<Longrightarrow> length (filter P (xs[i := y])) = length (filter P xs)"
  by (induction xs arbitrary: i) (auto split: nat.splits)

lemma filter_pos: "i < length xs \<Longrightarrow> P (xs ! i) \<Longrightarrow> 0 < length (filter P xs)"
  by (auto simp: filter_empty_conv)

lemma disconnect_inv:
  assumes "server_inv (server_of w)" and "i < MONIKOR_SRV_MAX_CLIENTS" and "active (sv_clients (server_of w) ! i)"
    and "monikor_server_disconnect i h w = Some w'"
  shows "server_inv (server_of w')"
proof -
  let ?s = "server_of w"
  have s: "server_of w' = ?s\<lparr>sv_clients := (sv_clients ?s)[i := monikor_client_init (sv_clients ?s ! i)],
      sv_n_clients := sv_n_clients ?s - 1\<rparr>"
    using assms(4)
    by (auto simp: monikor_server_disconnect_def Let_def monikor_unregister_io_handler_def monikor_server_handler_free_def
        with_client_def split: bind_splits)
  have pos: "0 < length (filter active (sv_clients ?s))"
    using assms(1-3) by (intro filter_pos [of i]) (simp_all add: server_inv_def)
  with assms(1) have "unat (sv_n_clients ?s - 1) = unat (sv_n_clients ?s) - 1"
    by (subst unat_sub) (simp_all add: server_inv_def word_le_nat_alt Suc_le_eq)
  with assms(1-3) show ?thesis
    by (simp add: server_inv_def s filter_update_off active_def monikor_client_init_def)
qed

lemma connection_inv:
  assumes "server_inv (server_of w)" and "monikor_server_handle_connection accept addr w al = Some (w', r, al')"
  shows "server_inv (server_of w')"
proof -
  let ?s = "server_of w"
  show ?thesis
  proof (cases "find_first (\<lambda>c. cn_socket c = MONIKOR_CLIENT_INACTIVE_SOCKET) (sv_clients ?s)")
    case None
    with assms show ?thesis by (auto simp: monikor_server_handle_connection_def split: if_splits)
  next
    case (Some i)
    then have i: "i < length (sv_clients ?s)" "\<not> active (sv_clients ?s ! i)"
      by (auto simp: active_def dest: find_first_SomeD)
    have n: "unat (sv_n_clients ?s) < 2 ^ 64 - 1"
    proof -
      have "length (filter active (sv_clients ?s)) \<le> length (sv_clients ?s)" by simp
      with assms(1) show ?thesis by (simp add: server_inv_def MONIKOR_SRV_MAX_CLIENTS_def)
    qed
    then have n1: "unat (sv_n_clients ?s + 1) = unat (sv_n_clients ?s) + 1"
      by (simp add: unat_plus_if_size word_size)
    consider "server_of w' = ?s" | "server_of w' = ?s\<lparr>sv_clients := (sv_clients ?s)[i := (sv_clients ?s ! i)\<lparr>cn_socket := -1\<rparr>]\<rparr>"
      | "server_of w' = ?s\<lparr>sv_clients := (sv_clients ?s)[i := monikor_client_init ((sv_clients ?s ! i)\<lparr>cn_socket := accept\<rparr>)]\<rparr>"
      | "accept \<noteq> -1" "server_of w' = ?s\<lparr>sv_clients := (sv_clients ?s)[i := (sv_clients ?s ! i)\<lparr>cn_socket := accept\<rparr>],
            sv_n_clients := sv_n_clients ?s + 1\<rparr>"
      using assms(2) Some i
      by (auto simp: monikor_server_handle_connection_def Let_def with_client_def monikor_register_io_handler_def
          split: if_splits option.splits prod.splits bind_splits)
    then show ?thesis
    proof cases
      case 1
      with assms(1) show ?thesis by simp
    next
      case 2
      with assms(1) i show ?thesis
        by (simp add: server_inv_def filter_update_same active_def MONIKOR_CLIENT_INACTIVE_SOCKET_def)
    next
      case 3
      with assms(1) i show ?thesis
        by (simp add: server_inv_def filter_update_same active_def monikor_client_init_def)
    next
      case 4
      with assms(1) i n1 show ?thesis
        by (simp add: server_inv_def filter_update_on active_def MONIKOR_CLIENT_INACTIVE_SOCKET_def)
    qed
  qed
qed

text \<open>Until it disconnects, handling a client only writes the header of its slot and the metrics.\<close>

definition touched ::
  "nat \<Rightarrow> ('i, 'c, 'p, server_state) io_world \<Rightarrow> ('i, 'c, 'p, server_state) io_world \<Rightarrow> bool" where
  "touched i w v \<longleftrightarrow> io_of v = io_of w \<and> sv_n_clients (server_of v) = sv_n_clients (server_of w)
     \<and> (\<exists>h. sv_clients (server_of v) = (sv_clients (server_of w))[i := (sv_clients (server_of w) ! i)\<lparr>cn_header := h\<rparr>])"

lemma touched_refl: "i < length (sv_clients (server_of w)) \<Longrightarrow> touched i w w"
  by (auto simp: touched_def intro!: exI [of _ "cn_header (sv_clients (server_of w) ! i)"])

lemma touched_header: "touched i w v \<Longrightarrow> i < length (sv_clients (server_of w)) \<Longrightarrow>
    touched i w (with_client i ((sv_clients (server_of v) ! i)\<lparr>cn_header := h\<rparr>) v)"
  by (auto simp: touched_def)

lemma touched_metrics: "touched i w v \<Longrightarrow> touched i w (v\<lparr>iw_state := (iw_state v)\<lparr>ss_metrics := s\<rparr>\<rparr>)"
  by (simp add: touched_def server_of_def io_of_def)

lemma client_error_disconnects:
  assumes "client_error i handler v al = Some (w', r, al')" and "touched i w v" and "i < length (sv_clients (server_of w))"
  shows "\<exists>v. touched i w v \<and> monikor_server_disconnect i handler v = Some w'"
  using assms(1) touched_header [OF assms(2,3)] by (auto simp: client_error_def Let_def split: bind_splits)

lemma handle_client_disconnects:
  assumes "monikor_server_handle_client e es i handler w al = Some (w', r, al')" and i: "i < length (sv_clients (server_of w))"
  shows "\<exists>v. touched i w v \<and> monikor_server_disconnect i handler v = Some w'"
proof -
  define w1 where "w1 = (\<lambda>hdr. with_client i ((sv_clients (server_of w) ! i)\<lparr>cn_header := hdr\<rparr>) w)"
  have t: "touched i w w" "\<And>hdr. touched i w (w1 hdr)"
    "\<And>hdr s. touched i w ((w1 hdr)\<lparr>iw_state := (iw_state (w1 hdr))\<lparr>ss_metrics := s\<rparr>\<rparr>)"
    by (simp_all add: w1_def touched_metrics touched_header touched_refl i)
  have w1: "with_client i ((sv_clients (server_of w) ! i)\<lparr>cn_header := hdr\<rparr>) w = w1 hdr" for hdr by (simp add: w1_def)
  from assms(1) consider mem where "client_error i handler w mem = Some (w', r, al')"
    | mem hdr where "client_error i handler (w1 hdr) mem = Some (w', r, al')"
    | hdr s where "monikor_server_disconnect i handler ((w1 hdr)\<lparr>iw_state := (iw_state (w1 hdr))\<lparr>ss_metrics := s\<rparr>\<rparr>) = Some w'"
    unfolding monikor_server_handle_client_def Let_def w1
    by (clarsimp split: bind_split_asm option.split_asm prod.split_asm if_split_asm)
  then show ?thesis using client_error_disconnects [OF _ _ i] t by cases blast+
qed

lemma touched_inv:
  assumes "touched i w v" and "server_inv (server_of w)" and "i < MONIKOR_SRV_MAX_CLIENTS"
    and "active (sv_clients (server_of w) ! i)"
  shows "server_inv (server_of v)" and "active (sv_clients (server_of v) ! i)"
proof -
  obtain h where c: "sv_clients (server_of v) = (sv_clients (server_of w))[i := (sv_clients (server_of w) ! i)\<lparr>cn_header := h\<rparr>]"
    and n: "sv_n_clients (server_of v) = sv_n_clients (server_of w)" using assms(1) by (auto simp: touched_def)
  have same: "length (filter active (xs[i := (xs ! i)\<lparr>cn_header := h\<rparr>])) = length (filter active xs)" if "i < length xs" for xs
    using that by (induction xs arbitrary: i) (auto simp: active_def split: nat.splits)
  from assms(2-4) show "server_inv (server_of v)" "active (sv_clients (server_of v) ! i)"
    by (simp_all add: server_inv_def c n same) (simp add: active_def)
qed

subsection \<open>Receiving a message\<close>

lemma unserialize_body:
  assumes "\<forall>m\<in>set ms. metric_wf m \<and> length (m_name m) < 2 ^ 16" and "length ms < 2 ^ 16"
    and "alloc_ok al" and "length (encode_list ms) < 2 ^ 64"
  shows "\<exists>l al'. monikor_metric_list_unserialize e (encode_list ms) 0
      \<lparr>h_version = 1, h_count = of_nat (length ms), h_data_size = of_nat (length (encode_list ms))\<rparr> al
        = Some (Some l, of_nat (length ms), al')
    \<and> list_inv l \<and> map no_id (l_nodes l) = map no_id ms \<and> alloc_ok al'"
proof -
  from assms(3) obtain al1 where 1: "monikor_metric_list_new al = (Some monikor_metric_list_init, al1)"
    "alloc_ok al1" by (rule list_new_ok)
  from unserialize_loop_encode [OF assms(1) 1(2) assms(4) list_init_inv, of e "[]" "[]" 0]
  obtain l al' where "unserialize_loop e (encode_list ms) (length (encode_list ms)) 0 (length ms) 0
      monikor_metric_list_init al1 = Some (l, of_nat (length ms), al')"
    "map no_id (l_nodes l) = map no_id ms" "list_inv l" "alloc_ok al'" by auto
  then show ?thesis
    using 1(1) assms(2,4)
    by (simp add: monikor_metric_list_unserialize_def unat_of_nat take_bit_nat_eq_self)
qed

definition message_header :: "metric list \<Rightarrow> u8 list" where
  "message_header ms = take SERIALIZED_METRIC_LIST_HDR_SIZE (encode_message ms)"

lemma fetch_all: "length x = n \<Longrightarrow> fetch 0 n x = Some x"
  by (auto simp: fetch_def)

lemma message_header:
  assumes "length ms < 2 ^ 16"
  shows "length (message_header ms) = 11"
    and "monikor_metric_list_header_unserialize e (message_header ms) 0 =
      Some \<lparr>h_version = 1, h_count = of_nat (length ms), h_data_size = of_nat (length (encode_list ms))\<rparr>"
proof -
  have h: "message_header ms = 1 # wr_u16 BE (of_nat (length ms)) @ wr_u64 BE (of_nat (length (encode_list ms)))"
    by (simp add: message_header_def encode_message_def wr_lengths off_defs)
  show "length (message_header ms) = 11" by (simp add: h wr_lengths)
  show "monikor_metric_list_header_unserialize e (message_header ms) 0 =
      Some \<lparr>h_version = 1, h_count = of_nat (length ms), h_data_size = of_nat (length (encode_list ms))\<rparr>"
    by (simp add: h fetch_all monikor_metric_list_header_unserialize_def off_defs fetch_append fetch_0 fetch_Cons fetch_one wr_lengths)
qed

subsection \<open>Properties\<close>

text \<open>a client that sends a message of the wire format, in a first piece that is its header and any pieces
  of its body, has its metrics pushed to the store in their order; its slot is free again, its handler is gone
  and the other handlers are as they were.\<close>

theorem server_ingests_message:
  assumes "dll_is (io_of w) xs" and "h \<in> set xs" and "i < length (sv_clients (server_of w))" and "alloc_ok al"
    and "\<forall>m\<in>set ms. metric_wf m \<and> length (m_name m) < 2 ^ 16" and "length ms < 2 ^ 16"
    and "length (encode_list ms) < 2 ^ 64" and "concat pieces = encode_list ms" and "[] \<notin> set pieces"
  shows "\<exists>w' al' l al2. monikor_server_handle_client e (map Received (message_header ms # pieces)) i h w al = Some (w', 0, al')
    \<and> list_inv l \<and> map no_id (l_nodes l) = map no_id ms \<and> alloc_ok al2
    \<and> ss_metrics (iw_state w') = fst (monikor_metric_store_lpush (ss_metrics (iw_state w)) l al2)
    \<and> dll_is (io_of w') (remove1 h xs) \<and> \<not> active (sv_clients (server_of w') ! i)
    \<and> sv_n_clients (server_of w') = sv_n_clients (server_of w) - 1"
proof -
  let ?hdr = "\<lparr>h_version = 1, h_count = of_nat (length ms), h_data_size = of_nat (length (encode_list ms))\<rparr>"
  let ?w = "with_client i ((sv_clients (server_of w) ! i)\<lparr>cn_header := ?hdr\<rparr>) w"
  note hdr = message_header [OF assms(6)]
  obtain j al1 where 1: "malloc al = (Some j, al1)" "alloc_ok al1" using assms(4) by (rule alloc_ok_malloc)
  have body: "body_loop (map Received pieces) (of_nat (length (encode_list ms))) [] = Some (Some (encode_list ms))"
    using body_loop_reads [of "[]" pieces "of_nat (length (encode_list ms))"] assms(7-9)
    by (simp add: unat_of_nat take_bit_nat_eq_self)
  obtain l al2 where l: "monikor_metric_list_unserialize e (encode_list ms) 0 ?hdr al1 = Some (Some l, of_nat (length ms), al2)"
    "list_inv l" "map no_id (l_nodes l) = map no_id ms" "alloc_ok al2" using unserialize_body [OF assms(5,6) 1(2) assms(7)] by blast
  obtain s x n al3 where s: "monikor_metric_store_lpush (ss_metrics (iw_state w)) l al2 = (s, x, n, al3)" by (metis prod_cases4)
  let ?w2 = "?w\<lparr>iw_state := (iw_state ?w)\<lparr>ss_metrics := s\<rparr>\<rparr>"
  have w2: "io_of ?w2 = io_of w" "server_of ?w2 = server_of ?w" "ss_metrics (iw_state ?w2) = s"
    by (simp_all add: io_of_def server_of_def with_client_def with_server_def)
  obtain w' where w': "monikor_server_disconnect i h ?w2 = Some w'" "dll_is (io_of w') (remove1 h xs)"
    "sv_clients (server_of w') = (sv_clients (server_of ?w2))[i := monikor_client_init (sv_clients (server_of ?w2) ! i)]"
    "sv_n_clients (server_of w') = sv_n_clients (server_of ?w2) - 1" "ss_metrics (iw_state w') = ss_metrics (iw_state ?w2)"
    using disconnect_ok [of ?w2 xs h i] assms(1-3) w2 by auto
  have "monikor_server_handle_client e (map Received (message_header ms # pieces)) i h w al = Some (w', 0, al3)"
    using hdr(1) hdr(2) [of e] 1 body l(1) s w'(1) by (simp add: monikor_server_handle_client_def Let_def off_defs)
  moreover have "\<not> active (sv_clients (server_of w') ! i)"
    using assms(3) w2 by (simp add: w'(3) active_def monikor_client_init_def)
  ultimately show ?thesis using w' w2 l(2-4) s
    by (intro exI [of _ w'] exI [of _ al3] exI [of _ l] exI [of _ al2]) simp
qed

text \<open>A server with one client, in slot 0 on socket 9, whose handler is at address 4.\<close>

definition free_client :: client where
  "free_client = monikor_client_init \<lparr>cn_socket = 0, cn_header = \<lparr>h_version = 0, h_count = 0, h_data_size = 0\<rparr>, cn_data = None\<rparr>"

definition sample_server :: "(unit, unit) server_world" where
  "sample_server = \<lparr>iw_lists = \<lparr>hl_io = \<lparr>dl_heap = [4 \<mapsto> \<lparr>dn_data = \<lparr>ih_fd = 9, ih_mode = MONIKOR_IO_HANDLER_RD,
           ih_callback = Some (MONIKOR_SERVER_HANDLE_ANY (Some 0))\<rparr>, dn_prev = None, dn_next = None\<rparr>], dl_first = Some 4, dl_last = Some 4\<rparr>,
       hl_curl = \<lparr>cl_multi = [], cl_handlers = empty_dll Map.empty\<rparr>, hl_processes = empty_dll Map.empty\<rparr>,
     iw_state = \<lparr>ss_server = \<lparr>sv_socket = 8, sv_n_clients = 1, sv_clients = free_client\<lparr>cn_socket := 9\<rparr> # replicate 9 free_client,
         sv_mon = True, sv_handler = None\<rparr>, ss_config = sample_settings, ss_metrics = empty_store, ss_closed = []\<rparr>\<rparr>"

lemma sample_server_ok:
  "dll_is (io_of sample_server) [4]" "length (sv_clients (server_of sample_server)) = 10"
  "server_inv (server_of sample_server)" "active (sv_clients (server_of sample_server) ! 0)"
  "ss_metrics (iw_state sample_server) = empty_store"
  by (simp_all add: sample_server_def io_of_def dll_is_def server_of_def server_inv_def active_def free_client_def
      monikor_client_init_def MONIKOR_SRV_MAX_CLIENTS_def MONIKOR_CLIENT_INACTIVE_SOCKET_def filter_replicate)

theorem server_ingests_message_witness:
  "\<exists>w' al' l. monikor_server_handle_client LE (map Received [message_header (l_nodes wire_sample), encode_list (l_nodes wire_sample)])
      0 4 sample_server [] = Some (w', 0, al')
    \<and> map no_id (l_nodes l) = map no_id (l_nodes wire_sample)
    \<and> (\<exists>al2. ss_metrics (iw_state w') = fst (monikor_metric_store_lpush empty_store l al2))"
proof -
  have "length (encode_list (l_nodes wire_sample)) = 38"
    using length_encode_message [of "l_nodes wire_sample"] by (simp add: wire_sample_bytes)
  then have "length (encode_list (l_nodes wire_sample)) < 2 ^ 64" "[] \<notin> set [encode_list (l_nodes wire_sample)]" by auto
  from server_ingests_message [OF sample_server_ok(1) _ _ _ wire_sample_ok(2,3) this(1) _ this(2), of 4 0 "[]" LE]
  show ?thesis by (simp add: sample_server_ok) blast
qed


text \<open>A list with a string, sent in three pieces.\<close>

definition plain_sample :: mlist where
  "plain_sample = monikor_metric_list_push_node monikor_metric_list_init
     \<lparr>m_name = ''app'', m_id = 7, m_clock = \<lparr>tv_sec = 42, tv_usec = 21\<rparr>, m_value = VString ''up'', m_flags = 0\<rparr>"

lemma plain_sample_ok:
  "list_inv plain_sample" "length (l_nodes plain_sample) = 1" "length (encode_list (l_nodes plain_sample)) = 33"
  "\<forall>m\<in>set (l_nodes plain_sample). metric_wf m \<and> length (m_name m) < 2 ^ 16 \<and> \<not> is_delta m \<and> m_flags m AND MONIKOR_METRIC_AGGREGATE = 0"
  by (simp_all add: plain_sample_def inv_intros metric_wf_def encode_list_def length_encode_metric encode_value_def str_bytes_def)


text \<open>C36: a client that closes its connection before it has sent the body its header announces keeps the agent
  reading for ever: end of file is not an error, and the loop does not end.\<close>

theorem truncated_message_hangs:
  assumes "length hdr = 11" and "monikor_metric_list_header_unserialize e hdr 0 = Some h"
    and "length (concat pieces) < unat (h_data_size h)" and "alloc_ok al"
  shows "monikor_server_handle_client e (map Received (hdr # pieces)) i a w al = None"
proof -
  obtain j al1 where "malloc al = (Some j, al1)" using assms(4) by (rule alloc_ok_malloc)
  with assms(1-3) body_loop_short [of "[]" pieces "h_data_size h"] show ?thesis
    by (simp add: monikor_server_handle_client_def Let_def off_defs)
qed

theorem truncated_message_hangs_witness:
  "monikor_server_handle_client LE (map Received [message_header (l_nodes wire_sample), [0, 0, 0]]) 0 4 sample_server [] = None"
proof -
  have "length (encode_list (l_nodes wire_sample)) = 38"
    using length_encode_message [of "l_nodes wire_sample"] by (simp add: wire_sample_bytes)
  with truncated_message_hangs [OF message_header(1) [OF wire_sample_ok(3)] message_header(2) [OF wire_sample_ok(3)],
      of "[[0, 0, 0]]" "[]" LE 0 4 sample_server]
  show ?thesis by simp
qed

text \<open>C34: the server's count of clients is the number of active slots of its table, which stays within its ten
  entries, whatever arrives on the listening socket or on a client's.\<close>

theorem server_counts_clients:
  assumes "server_inv (server_of w)" and "case client of None \<Rightarrow> True | Some i \<Rightarrow>
      i < MONIKOR_SRV_MAX_CLIENTS \<and> active (sv_clients (server_of w) ! i)"
    and "monikor_server_handle_any e es accept addr client handler w al = Some (w', al')"
  shows "server_inv (server_of w') \<and> unat (sv_n_clients (server_of w')) \<le> MONIKOR_SRV_MAX_CLIENTS"
proof -
  have "server_inv (server_of w')"
  proof (cases client)
    case None
    with assms connection_inv show ?thesis by (auto simp: monikor_server_handle_any_def split: bind_splits)
  next
    case (Some i)
    with assms(3) obtain r where "monikor_server_handle_client e es i handler w al = Some (w', r, al')"
      by (auto simp: monikor_server_handle_any_def split: bind_splits)
    then obtain v where "touched i w v" "monikor_server_disconnect i handler v = Some w'"
      using handle_client_disconnects assms(1,2) Some by (fastforce simp: server_inv_def)
    with touched_inv [of i w v] disconnect_inv [of v i] assms(1,2) Some show ?thesis by simp
  qed
  moreover have "length (filter active (sv_clients (server_of w'))) \<le> length (sv_clients (server_of w'))" by simp
  ultimately show ?thesis by (simp add: server_inv_def)
qed

theorem server_counts_clients_witness:
  "\<exists>w' al'. monikor_server_handle_any LE [Failed] (-1) 0 (Some 0) 4 sample_server [] = Some (w', al')
    \<and> unat (sv_n_clients (server_of w')) \<le> 10"
proof -
  let ?c = "sv_clients (server_of sample_server) ! 0"
  obtain w' where "monikor_server_disconnect 0 4 (with_client 0 (?c\<lparr>cn_header := (cn_header ?c)\<lparr>h_count := 0\<rparr>\<rparr>) sample_server)
      = Some w'"
    using disconnect_ok [of "with_client 0 (?c\<lparr>cn_header := (cn_header ?c)\<lparr>h_count := 0\<rparr>\<rparr>) sample_server" "[4]" 4 0]
      sample_server_ok(1,2) by auto
  then have w': "monikor_server_handle_any LE [Failed] (-1) 0 (Some 0) 4 sample_server [] = Some (w', [])"
    by (simp add: monikor_server_handle_any_def monikor_server_handle_client_def client_error_def Let_def)
  from server_counts_clients [OF sample_server_ok(3) _ w'] sample_server_ok(4) w' show ?thesis
    by (simp add: MONIKOR_SRV_MAX_CLIENTS_def)
qed

end
