(* ===== verification/Daemon.thy ===== *)
theory Daemon
  imports C_Text
begin

text \<open>
  Becoming a daemon, \<open>src/core/daemonize.c\<close>.  The process is what the system calls change: its credentials, its
  session, its directory, its standard descriptors and the pid file.  Whether a call succeeds is a
  parameter, except that changing to another user or group needs root, as the manual pages say.
\<close>

record passwd =
  pw_uid :: u32
  pw_gid :: u32

record proc =
  pr_uid :: u32
  pr_gid :: u32
  pr_groups :: "u32 list"
  pr_session :: bool
  pr_umask :: u32
  pr_cwd :: string
  pr_stdio_null :: bool
  pr_pidfile :: "string option"

text \<open>\<open>ho_initgroups\<close> are the groups of a user in the group database.\<close>

record daemon_env =
  de_fork :: "cint list"
  de_setsid :: bool
  de_pidfile_opens :: bool
  de_chdir :: bool
  de_null :: bool
  de_getpwnam :: "string \<Rightarrow> passwd option"
  de_getgrnam :: "string \<Rightarrow> u32 option"
  de_groups :: "string \<Rightarrow> u32 list"
  de_setgid :: bool
  de_initgroups :: bool
  de_setuid :: bool

definition setgid_call :: "daemon_env \<Rightarrow> u32 \<Rightarrow> proc \<Rightarrow> proc option" where
  "setgid_call de gid p = (if de_setgid de \<and> pr_uid p = 0 then Some (p\<lparr>pr_gid := gid\<rparr>) else None)"

definition initgroups_call :: "daemon_env \<Rightarrow> string \<Rightarrow> u32 \<Rightarrow> proc \<Rightarrow> proc option" where
  "initgroups_call de user gid p =
     (if de_initgroups de \<and> pr_uid p = 0 then Some (p\<lparr>pr_groups := gid # de_groups de user\<rparr>) else None)"

definition setuid_call :: "daemon_env \<Rightarrow> u32 \<Rightarrow> proc \<Rightarrow> proc option" where
  "setuid_call de uid p = (if de_setuid de \<and> pr_uid p = 0 then Some (p\<lparr>pr_uid := uid\<rparr>) else None)"

subsection \<open>The operations\<close>

text \<open>The file is opened without truncation: what is longer than the text written stays.\<close>

definition write_pid :: "daemon_env \<Rightarrow> nat \<Rightarrow> proc \<Rightarrow> proc \<times> cint" where
  "write_pid de pid p =
     (if \<not> de_pidfile_opens de then (p, -1)
      else (let t = dec_digits pid @ [CHR 0x0A];
                old = (case pr_pidfile p of Some s \<Rightarrow> s | None \<Rightarrow> '''')
            in (p\<lparr>pr_pidfile := Some (t @ drop (length t) old)\<rparr>, 0)))"

text \<open>The process goes on with a return code, or it exits: the parents of the two forks do.\<close>

datatype daemon_result = Goes_On proc cint | Exits proc

definition perform_daemonize :: "daemon_env \<Rightarrow> string \<Rightarrow> proc \<Rightarrow> daemon_result" where
  "perform_daemonize de run_dir p =
     (let pid = de_fork de ! 0 in
      if pid = -1 then Goes_On p 1
      else if pid \<noteq> 0 then Exits p
      else if \<not> de_setsid de then Goes_On p 1
      else
        (let p = p\<lparr>pr_session := True, pr_umask := 0\<rparr>; pid = de_fork de ! 1 in
         if pid = -1 then Goes_On p 1
         else if pid \<noteq> 0 then Exits (fst (write_pid de (unat pid) p))
         else if \<not> de_chdir de then Goes_On p 1
         else Goes_On (p\<lparr>pr_cwd := run_dir, pr_stdio_null := (pr_stdio_null p \<or> de_null de)\<rparr>) 0))"

definition drop_privileges :: "daemon_env \<Rightarrow> string option \<Rightarrow> string option \<Rightarrow> proc \<Rightarrow> proc \<times> cint" where
  "drop_privileges de user grp p =
     (case user of
        None \<Rightarrow> (p, 0)
      | Some u \<Rightarrow>
          (case de_getpwnam de u of
             None \<Rightarrow> (p, 1)
           | Some pwd_ent \<Rightarrow>
               (let uid = pw_uid pwd_ent;
                    gid = (case grp of None \<Rightarrow> Some (pw_gid pwd_ent) | Some g \<Rightarrow> de_getgrnam de g)
                in (case gid of
                      None \<Rightarrow> (p, 1)
                    | Some gid \<Rightarrow>
                        if pr_uid p \<noteq> 0 then (p, 0)
                        else (case setgid_call de gid p of
                                None \<Rightarrow> (p, 1)
                              | Some p \<Rightarrow>
                                  (case initgroups_call de u gid p of
                                     None \<Rightarrow> (p, 1)
                                   | Some p \<Rightarrow>
                                       (case setuid_call de uid p of None \<Rightarrow> (p, 1) | Some p \<Rightarrow> (p, 0))))))))"

definition monikor_daemonize :: "daemon_env \<Rightarrow> config \<Rightarrow> proc \<Rightarrow> daemon_result" where
  "monikor_daemonize de cfg p =
     (case (if cf_daemonize cfg \<noteq> 0 then perform_daemonize de (cf_run_dir cfg) p else Goes_On p 0) of
        Exits p \<Rightarrow> Exits p
      | Goes_On p r \<Rightarrow>
          if r \<noteq> 0 then Goes_On p 1
          else (case drop_privileges de (cf_user cfg) (cf_group cfg) p of
                  (p, r) \<Rightarrow> Goes_On p (if r \<noteq> 0 then 1 else 0)))"

subsection \<open>Properties\<close>

lemma perform_daemonize_keeps:
  "perform_daemonize de dir p = Goes_On p' r \<Longrightarrow> pr_uid p' = pr_uid p \<and> (r = 0 \<longrightarrow> pr_session p' \<and> pr_cwd p' = dir)"
  by (auto simp: perform_daemonize_def Let_def split: if_splits)

lemma daemonize_drops_privileges:
  assumes "monikor_daemonize de cfg p = Goes_On p' 0" and "cf_user cfg = Some user"
  shows "if pr_uid p = 0
    then (\<exists>ent gid. de_getpwnam de user = Some ent
           \<and> (case cf_group cfg of None \<Rightarrow> gid = pw_gid ent | Some g \<Rightarrow> de_getgrnam de g = Some gid)
           \<and> pr_uid p' = pw_uid ent \<and> pr_gid p' = gid \<and> pr_groups p' = gid # de_groups de user)
    else pr_uid p' = pr_uid p"
proof -
  obtain p1 where p1: "(if cf_daemonize cfg \<noteq> 0 then perform_daemonize de (cf_run_dir cfg) p else Goes_On p 0) = Goes_On p1 0"
    and d: "drop_privileges de (Some user) (cf_group cfg) p1 = (p', 0)"
    using assms by (auto simp: monikor_daemonize_def split: daemon_result.splits if_splits prod.splits)
  from p1 have u: "pr_uid p1 = pr_uid p" by (auto split: if_splits dest: perform_daemonize_keeps)
  show ?thesis
  proof (cases "pr_uid p = 0")
    case True
    with d u show ?thesis
      by (auto simp: drop_privileges_def setgid_call_def initgroups_call_def setuid_call_def Let_def
          split: option.splits if_splits)
  next
    case False
    with d u show ?thesis by (auto simp: drop_privileges_def Let_def split: option.splits if_splits)
  qed
qed

text \<open>C28: An agent that was started as root with a user in its configuration goes on only without its privileges: as that
  user, in the group that is configured or else in the user's own, with the supplementary groups of that
  user only.  Started by anybody else it keeps the identity it has.\<close>

theorem privileges_dropped:
  assumes "monikor_daemonize de cfg p = Goes_On p' 0" and "cf_user cfg = Some user"
  shows "if pr_uid p = 0
    then (\<exists>ent gid. de_getpwnam de user = Some ent
           \<and> (case cf_group cfg of None \<Rightarrow> gid = pw_gid ent | Some g \<Rightarrow> de_getgrnam de g = Some gid)
           \<and> pr_uid p' = pw_uid ent \<and> pr_gid p' = gid \<and> pr_groups p' = gid # de_groups de user)
    else pr_uid p' = pr_uid p"
  using assms by (rule daemonize_drops_privileges)

definition sample_env :: daemon_env where
  "sample_env = \<lparr>de_fork = [0, 0], de_setsid = True, de_pidfile_opens = True, de_chdir = True, de_null = True,
     de_getpwnam = (\<lambda>u. if u = ''quanta'' then Some \<lparr>pw_uid = 101, pw_gid = 102\<rparr> else None),
     de_getgrnam = (\<lambda>g. if g = ''adm'' then Some 4 else None), de_groups = (\<lambda>u. [20]),
     de_setgid = True, de_initgroups = True, de_setuid = True\<rparr>"

definition root_process :: proc where
  "root_process = \<lparr>pr_uid = 0, pr_gid = 0, pr_groups = [0], pr_session = False, pr_umask = 18, pr_cwd = ''/root'',
     pr_stdio_null = False, pr_pidfile = None\<rparr>"

definition daemon_settings :: config where
  "daemon_settings = sample_settings\<lparr>cf_daemonize := 1, cf_user := Some ''quanta'', cf_group := Some ''adm''\<rparr>"

theorem privileges_dropped_witness:
  "\<exists>p'. monikor_daemonize sample_env daemon_settings root_process = Goes_On p' 0
    \<and> pr_uid p' = 101 \<and> pr_gid p' = 4 \<and> pr_groups p' = [4, 20]"
proof -
  have "\<exists>p'. monikor_daemonize sample_env daemon_settings root_process = Goes_On p' 0"
    by (simp add: monikor_daemonize_def perform_daemonize_def drop_privileges_def setgid_call_def initgroups_call_def
        setuid_call_def sample_env_def daemon_settings_def sample_settings_def root_process_def Let_def)
  then obtain p' where p': "monikor_daemonize sample_env daemon_settings root_process = Goes_On p' 0" ..
  from privileges_dropped [OF p', of "''quanta''"] p' show ?thesis
    by (auto simp: daemon_settings_def sample_settings_def root_process_def sample_env_def)
qed

text \<open>A pid file that is left from a process with a longer number keeps the end of that number.\<close>

lemma pid_file_keeps_tail:
  assumes "de_pidfile_opens de" and "pr_pidfile p = Some old"
  shows "pr_pidfile (fst (write_pid de pid p)) = Some (dec_digits pid @ CHR 0x0A # drop (length (dec_digits pid) + 1) old)"
  using assms by (simp add: write_pid_def Let_def)

end
