(* ===== verification/Logger.thy ===== *)
theory Logger
  imports Prelude
begin

text \<open>
  The logger, \<open>include/logger.h\<close> and \<open>src/utils/logger.c\<close>: its level, where it writes, and what was written so far.
  A message is its format; the arguments are filled in by the C library.  \<open>lg_fd\<close> is -1 for syslog.
\<close>

definition LOG_EMERG :: cint where "LOG_EMERG = 0"
definition LOG_ERR :: cint where "LOG_ERR = 3"
definition LOG_INFO :: cint where "LOG_INFO = 6"
definition LOG_DEBUG :: cint where "LOG_DEBUG = 7"
definition MONIKOR_LOG_SEP :: string where "MONIKOR_LOG_SEP = '': ''"
definition MONIKOR_LOG_MIN_PRIO :: cint where "MONIKOR_LOG_MIN_PRIO = LOG_EMERG"
definition MONIKOR_LOG_MAX_PRIO :: cint where "MONIKOR_LOG_MAX_PRIO = LOG_DEBUG"
definition MONIKOR_LOG_DEFAULT :: cint where "MONIKOR_LOG_DEFAULT = -1"

lemmas log_levels = LOG_EMERG_def LOG_ERR_def LOG_INFO_def LOG_DEBUG_def MONIKOR_LOG_MIN_PRIO_def MONIKOR_LOG_MAX_PRIO_def
  MONIKOR_LOG_DEFAULT_def

record logger =
  lg_level :: cint
  lg_fd :: cint
  lg_open :: "cint list"
  lg_written :: "(cint \<times> cint \<times> string) list"

text \<open>The static initial values.\<close>

definition logger_start :: logger where
  "logger_start = \<lparr>lg_level = LOG_INFO, lg_fd = -1, lg_open = [], lg_written = []\<rparr>"

definition monikor_logger_level :: "logger \<Rightarrow> cint" where
  "monikor_logger_level lg = lg_level lg"

text \<open>\<open>open\<close> gives the descriptor, or -1.  \<open>lg_open\<close> are the log files that were opened and not closed.\<close>

definition monikor_logger_init :: "cint \<Rightarrow> string option \<Rightarrow> (string \<Rightarrow> cint) \<Rightarrow> logger \<Rightarrow> logger" where
  "monikor_logger_init prio log_file opened lg =
     (let lg = (if prio \<noteq> MONIKOR_LOG_DEFAULT then lg\<lparr>lg_level := prio\<rparr> else lg) in
      if prio = MONIKOR_LOG_DEFAULT \<or> log_file = Some ''stderr'' then lg\<lparr>lg_fd := 2\<rparr>
      else (case log_file of
              Some f \<Rightarrow> lg\<lparr>lg_fd := opened f, lg_open := (if opened f = -1 then lg_open lg else opened f # lg_open lg)\<rparr>
            | None \<Rightarrow> lg\<lparr>lg_fd := -1\<rparr>))"

definition monikor_logger_cleanup :: "logger \<Rightarrow> logger" where
  "monikor_logger_cleanup lg =
     (if lg_fd lg \<noteq> 2 \<and> lg_fd lg \<noteq> -1 then lg\<lparr>lg_open := remove1 (lg_fd lg) (lg_open lg)\<rparr> else lg)"

definition monikor_vlog :: "cint \<Rightarrow> string \<Rightarrow> logger \<Rightarrow> logger \<times> cint" where
  "monikor_vlog prio message lg =
     (let prio = (if prio = MONIKOR_LOG_DEFAULT then lg_level lg else prio) in
      if prio <s MONIKOR_LOG_MIN_PRIO \<or> MONIKOR_LOG_MAX_PRIO <s prio then (lg, -1)
      else if lg_level lg <s prio then (lg, 0)
      else (lg\<lparr>lg_written := lg_written lg @ [(lg_fd lg, prio, message)]\<rparr>, 0))"

definition monikor_log :: "cint \<Rightarrow> string \<Rightarrow> logger \<Rightarrow> logger \<times> cint" where
  "monikor_log prio message lg = monikor_vlog prio message lg"

definition format_mod_log_message :: "string \<Rightarrow> string \<Rightarrow> alloc \<Rightarrow> string option \<times> alloc" where
  "format_mod_log_message mod_name message = or_null malloc (\<lambda>_. alloc_ret (mod_name @ MONIKOR_LOG_SEP @ message))"

definition monikor_vlog_mod :: "cint \<Rightarrow> string \<Rightarrow> string \<Rightarrow> logger \<Rightarrow> alloc \<Rightarrow> logger \<times> cint \<times> alloc" where
  "monikor_vlog_mod prio mod_name message lg al =
     (case format_mod_log_message mod_name message al of
        (None, al) \<Rightarrow> (lg, -1, al)
      | (Some full_msg, al) \<Rightarrow> (case monikor_vlog prio full_msg lg of (lg, ret) \<Rightarrow> (lg, ret, al)))"

definition monikor_log_mod :: "cint \<Rightarrow> string \<Rightarrow> string \<Rightarrow> logger \<Rightarrow> alloc \<Rightarrow> logger \<times> cint \<times> alloc" where
  "monikor_log_mod prio mod_name message lg al =
     (case format_mod_log_message mod_name message al of
        (None, al) \<Rightarrow> (lg, -1, al)
      | (Some full_msg, al) \<Rightarrow> (case monikor_vlog prio full_msg lg of (lg, ret) \<Rightarrow> (lg, ret, al)))"

subsection \<open>Properties\<close>

text \<open>A message is written once, to the place the logger was set to, exactly when its priority is at least as urgent
  as the level; the return code is -1 exactly when the priority is none of syslog's.\<close>

lemma log_written_iff:
  assumes "prio \<noteq> MONIKOR_LOG_DEFAULT"
  shows "monikor_log prio message lg =
    (if 0 \<le> sint prio \<and> sint prio \<le> 7 \<and> sint prio \<le> sint (lg_level lg)
     then (lg\<lparr>lg_written := lg_written lg @ [(lg_fd lg, prio, message)]\<rparr>, 0)
     else (lg, if 0 \<le> sint prio \<and> sint prio \<le> 7 then 0 else -1))"
  using assms by (auto simp: monikor_log_def monikor_vlog_def Let_def log_levels word_sless_alt)

text \<open>What \<open>monikor_reload\<close> does to the log: it sets the level of the new configuration but passes no file, so after a
  reload the messages go to syslog, whatever the configuration says, and the file stays open.\<close>

theorem log_file_lost_on_reload:
  assumes "level \<noteq> MONIKOR_LOG_DEFAULT" and "level' \<noteq> MONIKOR_LOG_DEFAULT" and "file \<noteq> ''stderr''" and "opened file \<noteq> -1"
    and "0 \<le> sint prio" and "sint prio \<le> 7" and "sint prio \<le> sint level'"
  shows "let lg = monikor_logger_init level' None opened
               (monikor_logger_init level (Some file) opened (monikor_logger_init MONIKOR_LOG_DEFAULT None opened logger_start))
         in lg_written (fst (monikor_log prio message lg)) = [(-1, prio, message)]
            \<and> lg_open (monikor_logger_cleanup lg) = [opened file]"
proof -
  have "prio \<noteq> MONIKOR_LOG_DEFAULT" using assms(5) by (auto simp: log_levels)
  with assms show ?thesis
    by (simp add: log_written_iff monikor_logger_init_def logger_start_def monikor_logger_cleanup_def Let_def)
qed

theorem log_file_lost_on_reload_witness:
  "lg_written (fst (monikor_log LOG_ERR ''m'' (monikor_logger_init LOG_INFO None (\<lambda>f. 5)
     (monikor_logger_init LOG_INFO (Some ''/var/log/monikor.log'') (\<lambda>f. 5)
       (monikor_logger_init MONIKOR_LOG_DEFAULT None (\<lambda>f. 5) logger_start))))) = [(-1, LOG_ERR, ''m'')]"
  using log_file_lost_on_reload [of LOG_INFO LOG_INFO "''/var/log/monikor.log''" "\<lambda>f. 5" LOG_ERR "''m''"]
  by (simp add: Let_def log_levels)

end
