(* ===== verification/Start.thy ===== *)
theory Start
  imports Run Server Daemon Logger
begin

text \<open>
  The start of the agent, \<open>monikor_init\<close> of \<open>src/core/init.c\<close>, which puts the components together, and the release of
  the handlers when it ends, \<open>monikor_cleanup_io_handlers\<close> of \<open>src/core/cleanup.c\<close>.
\<close>

subsection \<open>State\<close>

text \<open>The callbacks in the list of descriptors at that time.\<close>

datatype agent_callback = Server_Callback server_handler | Handle_Signal

definition map_io :: "('a \<Rightarrow> 'b) \<Rightarrow> 'a io_handler dll \<Rightarrow> 'b io_handler dll" where
  "map_io f l =
     \<lparr>dl_heap = (\<lambda>a. map_option (\<lambda>n. \<lparr>dn_data = \<lparr>ih_fd = ih_fd (dn_data n), ih_mode = ih_mode (dn_data n),
         ih_callback = map_option f (ih_callback (dn_data n))\<rparr>, dn_prev = dn_prev n, dn_next = dn_next n\<rparr>) (dl_heap l a)),
      dl_first = dl_first l, dl_last = dl_last l\<rparr>"

lemma dll_is_map_io [simp]: "dll_is (map_io f l) xs \<longleftrightarrow> dll_is l xs"
proof -
  have "dchain (dl_heap (map_io f l)) p xs nx \<longleftrightarrow> dchain (dl_heap l) p xs nx" for p nx
    by (induction xs arbitrary: p) (auto simp: map_io_def option.map_comp o_def)
  then show ?thesis by (simp add: dll_is_def) (simp add: map_io_def)
qed

text \<open>What the calls of \<open>monikor_init\<close> find outside; the addresses are where the two handlers are allocated.\<close>

record init_env =
  in_loader :: loader
  in_dir :: "string \<Rightarrow> string list option"
  in_junk :: config
  in_log_open :: "string \<Rightarrow> cint"
  in_multi_init :: bool
  in_bind :: bind_env
  in_server_addr :: nat
  in_daemon :: daemon_env
  in_pipe :: "(cint \<times> cint) option"
  in_sigaction :: "cint \<Rightarrow> bool"
  in_signal_addr :: nat

text \<open>The lists of handlers are those of any callbacks.\<close>

record ('i, 'c, 'p) started =
  st_mon :: agent
  st_log :: logger
  st_proc :: proc
  st_server :: server
  st_lists :: "('i, 'c, 'p) handler_lists"
  st_signal_fd :: cint

text \<open>The call returns, or the process is a parent that has forked the daemon and exits.\<close>

datatype init_result = Init_Returns "(agent_callback, unit, unit) started" cint alloc | Parent_Exits proc

subsection \<open>The operations\<close>

definition no_lists :: "('i, 'c, 'p) handler_lists" where
  "no_lists = \<lparr>hl_io = empty_dll Map.empty, hl_curl = \<lparr>cl_multi = [], cl_handlers = empty_dll Map.empty\<rparr>,
     hl_processes = empty_dll Map.empty\<rparr>"

text \<open>The lists and the local server, when the configuration has a path for it.  A server that cannot be started is
  only reported.\<close>

definition init_server :: "init_env \<Rightarrow> agent \<Rightarrow> server \<Rightarrow> alloc
    \<Rightarrow> (server \<times> (agent_callback, unit, unit) handler_lists \<times> alloc) option" where
  "init_server ie mon s al =
     (let l = fst (monikor_io_handler_list_init (in_multi_init ie) no_lists);
          s = s\<lparr>sv_handler := None, sv_socket := -1\<rparr>;
          agent_lists = (\<lambda>l. \<lparr>hl_io = map_io Server_Callback (hl_io l), hl_curl = hl_curl l, hl_processes = hl_processes l\<rparr>)
      in if cf_listen_path (mn_config mon) = None then Some (s, agent_lists l, al)
         else do {
           (w, _, al) \<leftarrow> monikor_server_init (in_bind ie) (in_server_addr ie)
              \<lparr>iw_lists = l, iw_state = \<lparr>ss_server = s, ss_config = mn_config mon, ss_metrics = mn_metrics mon, ss_closed = []\<rparr>\<rparr> al;
           Some (server_of w, agent_lists (iw_lists w), al) })"

definition monikor_init :: "init_env \<Rightarrow> string option \<Rightarrow> (agent_callback, unit, unit) started \<Rightarrow> alloc \<Rightarrow> init_result option" where
  "monikor_init ie config_path st al =
     (let st = st\<lparr>st_log := monikor_logger_init MONIKOR_LOG_DEFAULT None (in_log_open ie) (st_log st)\<rparr> in
      case monikor_load_config (lo_files (in_loader ie)) (in_dir ie) (in_junk ie) config_path al of
        None \<Rightarrow> None
      | Some (None, al) \<Rightarrow> Some (Init_Returns st 1 al)
      | Some (Some cfg, al) \<Rightarrow> do {
          let mon = (st_mon st)\<lparr>mn_config := cfg, mn_instance_id := '''', mn_hostid_shared := False\<rparr>;
          let st = st\<lparr>st_mon := mon,
                     st_log := monikor_logger_init (cf_log_level cfg) (cf_log_file cfg) (in_log_open ie) (st_log st)\<rparr>;
          (server, lists, al) \<leftarrow> init_server ie mon (st_server st) al;
          let st = st\<lparr>st_server := server, st_lists := lists\<rparr>;
          (case monikor_daemonize (in_daemon ie) cfg (st_proc st) of
             Exits p \<Rightarrow> Some (Parent_Exits p)
           | Goes_On p r \<Rightarrow>
               let st = st\<lparr>st_proc := p\<rparr> in
               if r \<noteq> 0 then Some (Init_Returns st 1 al)
               else do {
                 (w, fd, r, al) \<leftarrow> monikor_register_signals (in_pipe ie) (in_sigaction ie) Handle_Signal (in_signal_addr ie)
                    \<lparr>iw_lists = st_lists st, iw_state = \<lparr>rs_agent = st_mon st, rs_pipe = [], rs_mem = []\<rparr>\<rparr> al;
                 let st = st\<lparr>st_lists := iw_lists w, st_signal_fd := fd\<rparr>;
                 if r \<noteq> 0 then Some (Init_Returns st 1 al)
                 else do {
                   (mon, r, al) \<leftarrow> monikor_init_modules (in_loader ie) (st_mon st) al;
                   Some (if r \<noteq> 0 then Init_Returns (st\<lparr>st_mon := mon\<rparr>) 1 al
                         else Init_Returns (st\<lparr>st_mon := mon\<lparr>mn_flags := 0\<rparr>\<rparr>) 0 al) } }) })"

subsection \<open>The release of the handlers\<close>

text \<open>\<open>next\<close> is read before the handler is freed.\<close>

partial_function (option) free_io_loop ::
  "'i io_handler dll \<Rightarrow> nat option \<Rightarrow> cint list \<Rightarrow> ('i io_handler dll \<times> cint list) option" where
  "free_io_loop l cur fds =
     (case cur of
        None \<Rightarrow> Some (l, fds)
      | Some a \<Rightarrow> do {
          n \<leftarrow> dl_heap l a;
          free_io_loop (dll_free l a) (dn_next n) (if ih_fd (dn_data n) \<noteq> -1 then fds @ [ih_fd (dn_data n)] else fds) })"

partial_function (option) free_curl_loop :: "'c curl_list \<Rightarrow> nat option \<Rightarrow> 'c curl_list option" where
  "free_curl_loop c cur =
     (case cur of
        None \<Rightarrow> Some c
      | Some a \<Rightarrow> do {
          n \<leftarrow> dl_heap (cl_handlers c) a;
          free_curl_loop (c\<lparr>cl_multi := removeAll (ch_curl (dn_data n)) (cl_multi c), cl_handlers := dll_free (cl_handlers c) a\<rparr>)
            (dn_next n) })"

text \<open>The lists and the descriptors that were closed.  The handlers of processes are not released.\<close>

definition monikor_cleanup_io_handlers ::
  "('i, 'c, 'p) handler_lists \<Rightarrow> (('i, 'c, 'p) handler_lists \<times> cint list) option" where
  "monikor_cleanup_io_handlers l = do {
     (io, fds) \<leftarrow> free_io_loop (hl_io l) (dl_first (hl_io l)) [];
     curl \<leftarrow> free_curl_loop (hl_curl l) (dl_first (cl_handlers (hl_curl l)));
     Some (l\<lparr>hl_io := io, hl_curl := curl\<rparr>, fds) }"

lemma free_io_ok:
  "dchain (dl_heap l) p xs None \<Longrightarrow> distinct xs \<Longrightarrow>
     \<exists>l'. free_io_loop l (hd_opt xs None) fds = Some (l', fds @ filter (\<lambda>fd. fd \<noteq> -1) (map (\<lambda>a. ih_fd (data_at l a)) xs))
       \<and> (\<forall>a. dl_heap l' a = (if a \<in> set xs then None else dl_heap l a))"
proof (induction xs arbitrary: l p fds)
  case Nil
  then show ?case by (simp add: free_io_loop.simps)
next
  case (Cons x xs)
  then obtain n where n: "dl_heap l x = Some n" "dn_next n = hd_opt xs None" by auto
  have c: "dchain (dl_heap (dll_free l x)) (Some x) xs None" using Cons.prems by (simp add: dll_free_def)
  have d: "map (\<lambda>a. ih_fd (data_at (dll_free l x) a)) xs = map (\<lambda>a. ih_fd (data_at l a)) xs"
    using Cons.prems(2) by (auto simp: data_at_def dll_free_def)
  show ?case
    using Cons.IH [OF c, of "if ih_fd (dn_data n) \<noteq> -1 then fds @ [ih_fd (dn_data n)] else fds"] Cons.prems(2) n
    unfolding d by (subst free_io_loop.simps) (auto simp: data_at_def dll_free_def)
qed

lemma free_curl_ok:
  "dchain (dl_heap (cl_handlers c)) p xs None \<Longrightarrow> distinct xs \<Longrightarrow>
     \<exists>c'. free_curl_loop c (hd_opt xs None) = Some c'
       \<and> cl_multi c' = filter (\<lambda>h. h \<notin> set (map (\<lambda>a. ch_curl (data_at (cl_handlers c) a)) xs)) (cl_multi c)
       \<and> (\<forall>a. dl_heap (cl_handlers c') a = (if a \<in> set xs then None else dl_heap (cl_handlers c) a))"
proof (induction xs arbitrary: c p)
  case Nil
  then show ?case by (simp add: free_curl_loop.simps)
next
  case (Cons x xs)
  then obtain n where n: "dl_heap (cl_handlers c) x = Some n" "dn_next n = hd_opt xs None" by auto
  let ?c = "c\<lparr>cl_multi := removeAll (ch_curl (dn_data n)) (cl_multi c), cl_handlers := dll_free (cl_handlers c) x\<rparr>"
  have h: "dchain (dl_heap (cl_handlers ?c)) (Some x) xs None" using Cons.prems by (simp add: dll_free_def)
  have d: "map (\<lambda>a. ch_curl (data_at (cl_handlers ?c) a)) xs = map (\<lambda>a. ch_curl (data_at (cl_handlers c) a)) xs"
    using Cons.prems(2) by (auto simp: data_at_def dll_free_def)
  have "removeAll k zs = filter (\<lambda>z. z \<noteq> k) zs" for k :: nat and zs by (induction zs) auto
  then show ?case
    using Cons.IH [OF h] Cons.prems(2) n unfolding d
    by (subst free_curl_loop.simps) (auto simp: data_at_def dll_free_def intro!: filter_cong)
qed

subsection \<open>What the start leaves\<close>

lemma server_bind_keeps: "monikor_server_bind be cfg s = Some (s', r) \<Longrightarrow> sv_handler s' = sv_handler s"
  by (auto simp: monikor_server_bind_def Let_def split: bind_splits if_splits option.splits prod.splits)

lemma server_init_lists:
  assumes "monikor_server_init be addr w al = Some (w', r, al')" and "dll_is (io_of w) []"
  shows "dll_is (io_of w') (case sv_handler (server_of w') of None \<Rightarrow> [] | Some a \<Rightarrow> [a]) \<and> sv_handler (server_of w') \<in> {None, Some addr}"
proof -
  let ?s = "(server_of w)\<lparr>sv_handler := None, sv_socket := -1, sv_mon := True,
      sv_clients := map monikor_client_init (sv_clients (server_of w)), sv_n_clients := 0\<rparr>"
  obtain s1 r1 where b: "monikor_server_bind be (ss_config (iw_state w)) ?s = Some (s1, r1)"
    using assms(1) by (auto simp: monikor_server_init_def Let_def split: bind_splits)
  have h: "sv_handler s1 = None" using server_bind_keeps [OF b] by simp
  obtain n al1 where n: "(if r1 \<noteq> 0 then (None, al) else monikor_server_handler_new s1 None al) = (n, al1)" by force
  show ?thesis
  proof (cases n)
    case None
    with b h n assms show ?thesis
      by (auto simp: monikor_server_init_def Let_def monikor_server_handler_free_def)
  next
    case (Some nd)
    with n have "dn_prev nd = None" "dn_next nd = None"
      by (auto simp: monikor_server_handler_new_def monikor_io_handler_new_def or_null_def alloc_ret_def
          split: if_splits option.splits prod.splits)
    moreover have "dll_is (dll_alloc (io_of w) addr nd) []" using assms(2) by (simp add: dll_is_heap_update)
    ultimately obtain l' where "monikor_io_handler_list_push (dll_alloc (io_of w) addr nd) addr = Some l'" "dll_is l' [addr]"
      using io_list.push_ok [of "dll_alloc (io_of w) addr nd" "[]" addr nd] by (auto simp: dll_alloc_def)
    with b n Some assms(1) show ?thesis
      by (auto simp: monikor_server_init_def Let_def monikor_register_io_handler_def)
  qed
qed

lemma init_server_lists:
  assumes "init_server ie mon s al = Some (s', l, al')"
  shows "dll_is (hl_io l) (case sv_handler s' of None \<Rightarrow> [] | Some a \<Rightarrow> [a]) \<and> sv_handler s' \<in> {None, Some (in_server_addr ie)}"
proof -
  let ?l = "fst (monikor_io_handler_list_init (in_multi_init ie) no_lists) :: (server_handler, unit, unit) handler_lists"
  have e: "dll_is (hl_io ?l) []" by (simp add: monikor_io_handler_list_init_def no_lists_def dll_is_def empty_dll_def)
  show ?thesis
  proof (cases "cf_listen_path (mn_config mon)")
    case None
    with assms e show ?thesis by (auto simp: init_server_def Let_def)
  next
    case (Some path)
    with assms obtain w r where w: "monikor_server_init (in_bind ie) (in_server_addr ie)
        \<lparr>iw_lists = ?l, iw_state = \<lparr>ss_server = s\<lparr>sv_handler := None, sv_socket := -1\<rparr>, ss_config = mn_config mon,
           ss_metrics = mn_metrics mon, ss_closed = []\<rparr>\<rparr> al = Some (w, r, al')"
      "s' = server_of w" "hl_io l = map_io Server_Callback (io_of w)"
      by (auto simp: init_server_def Let_def io_of_def split: bind_splits)
    from server_init_lists [OF w(1)] e w(2,3) show ?thesis by (simp add: io_of_def)
  qed
qed

lemma register_signals_ok:
  assumes "monikor_register_signals pipe sigs cb addr w al = Some (w', fd, 0, al')" and "dll_is (io_of w) xs" and "addr \<notin> set xs"
  shows "\<exists>rd. pipe = Some (rd, fd) \<and> dll_is (io_of w') (xs @ [addr])
    \<and> data_at (io_of w') addr = \<lparr>ih_fd = rd, ih_mode = MONIKOR_IO_HANDLER_RD, ih_callback = Some cb\<rparr>"
proof -
  from assms(1) obtain rd h where p: "pipe = Some (rd, fd)"
    and h: "h = \<lparr>dn_data = \<lparr>ih_fd = rd, ih_mode = MONIKOR_IO_HANDLER_RD, ih_callback = Some cb\<rparr>, dn_prev = None, dn_next = None\<rparr>"
    and r: "monikor_register_io_handler addr (with_io (dll_alloc (io_of w) addr h) w) = Some w'"
    by (auto simp: monikor_register_signals_def monikor_io_handler_new_def or_null_def alloc_ret_def
        split: option.splits prod.splits if_splits bind_splits)
  let ?l = "dll_alloc (io_of w) addr h"
  have "dll_is ?l xs" using assms(2,3) by (simp add: dll_is_heap_update)
  moreover have "dl_heap ?l addr = Some h" by (simp add: dll_alloc_def)
  ultimately obtain l' where "monikor_io_handler_list_push ?l addr = Some l'" "dll_is l' (xs @ [addr])"
    "map_option dn_data (dl_heap l' addr) = Some (dn_data h)"
    using io_list.push_ok [of ?l xs addr h] assms(3) h by (auto dest!: spec [of _ addr])
  with p h r show ?thesis by (auto simp: monikor_register_io_handler_def data_at_def)
qed

subsection \<open>Properties\<close>

text \<open>At its end the agent closes exactly the descriptors of its handlers, in their order, stops exactly its HTTP
  transfers and frees every handler of both lists, without reading one it has freed.\<close>

theorem cleanup_releases_handlers:
  assumes "dll_is (hl_io l) xs" and "dll_is (cl_handlers (hl_curl l)) ys"
  shows "\<exists>l'. monikor_cleanup_io_handlers l
      = Some (l', filter (\<lambda>fd. fd \<noteq> -1) (map (\<lambda>a. ih_fd (data_at (hl_io l) a)) xs))
    \<and> (\<forall>a\<in>set xs. dl_heap (hl_io l') a = None) \<and> (\<forall>a\<in>set ys. dl_heap (cl_handlers (hl_curl l')) a = None)
    \<and> cl_multi (hl_curl l')
      = filter (\<lambda>h. h \<notin> set (map (\<lambda>a. ch_curl (data_at (cl_handlers (hl_curl l)) a)) ys)) (cl_multi (hl_curl l))"
proof -
  obtain io where io: "free_io_loop (hl_io l) (dl_first (hl_io l)) []
      = Some (io, filter (\<lambda>fd. fd \<noteq> -1) (map (\<lambda>a. ih_fd (data_at (hl_io l) a)) xs))" "\<forall>a\<in>set xs. dl_heap io a = None"
    using free_io_ok [of "hl_io l" None xs "[]"] assms(1) by (auto simp: dll_is_def)
  obtain c where "free_curl_loop (hl_curl l) (dl_first (cl_handlers (hl_curl l))) = Some c" "\<forall>a\<in>set ys. dl_heap (cl_handlers c) a = None"
    "cl_multi c = filter (\<lambda>h. h \<notin> set (map (\<lambda>a. ch_curl (data_at (cl_handlers (hl_curl l)) a)) ys)) (cl_multi (hl_curl l))"
    using free_curl_ok [of "hl_curl l" None ys] assms(2) by (auto simp: dll_is_def)
  with io show ?thesis by (simp add: monikor_cleanup_io_handlers_def)
qed

theorem cleanup_releases_handlers_witness:
  "\<exists>l'. monikor_cleanup_io_handlers (iw_lists two_handlers) = Some (l', [5])"
proof -
  have "dll_is (hl_io (iw_lists two_handlers)) [1, 2]" "dll_is (cl_handlers (hl_curl (iw_lists two_handlers))) []"
    "map (\<lambda>a. ih_fd (data_at (hl_io (iw_lists two_handlers)) a)) [1, 2] = [5, -1]"
    by (simp_all add: two_handlers_def with_io_def reaper_world_def dll_is_def data_at_def empty_dll_def)
  with cleanup_releases_handlers [of "iw_lists two_handlers" "[1, 2]" "[]"] show ?thesis by fastforce
qed

text \<open>C18: When \<open>monikor_init\<close> succeeds, the configuration is the one that was loaded; the log is at its level and in its file;
  the agent has dropped its privileges when it was started as root and a user is configured; the list of
  descriptors has the server, if it could be started, and the pipe of the signals; the store is empty; and
  the modules, the one on the host among them, can be polled and are due.\<close>

theorem init_ready:
  assumes "monikor_init ie path st al = Some (Init_Returns st' 0 al')" and "in_signal_addr ie \<noteq> in_server_addr ie"
  shows "\<exists>cfg al1 rd. monikor_load_config (lo_files (in_loader ie)) (in_dir ie) (in_junk ie) path al = Some (Some cfg, al1)
    \<and> mn_config (st_mon st') = cfg \<and> mn_flags (st_mon st') = 0 \<and> mn_metrics (st_mon st') = empty_store
    \<and> st_log st' = monikor_logger_init (cf_log_level cfg) (cf_log_file cfg) (in_log_open ie)
        (monikor_logger_init MONIKOR_LOG_DEFAULT None (in_log_open ie) (st_log st))
    \<and> (\<forall>user. cf_user cfg = Some user \<longrightarrow> pr_uid (st_proc st) = 0 \<longrightarrow>
        map_option pw_uid (de_getpwnam (in_daemon ie) user) = Some (pr_uid (st_proc st')))
    \<and> dll_is (hl_io (st_lists st')) ((case sv_handler (st_server st') of None \<Rightarrow> [] | Some a \<Rightarrow> [a]) @ [in_signal_addr ie])
    \<and> in_pipe ie = Some (rd, st_signal_fd st')
    \<and> data_at (hl_io (st_lists st')) (in_signal_addr ie)
        = \<lparr>ih_fd = rd, ih_mode = MONIKOR_IO_HANDLER_RD, ih_callback = Some Handle_Signal\<rparr>
    \<and> mn_modules (st_mon st') \<noteq> [] \<and> (\<forall>m\<in>set (mn_modules (st_mon st')). ready (lo_now (in_loader ie)) cfg m)"
proof -
  let ?log = "\<lambda>cfg. monikor_logger_init (cf_log_level cfg) (cf_log_file cfg) (in_log_open ie)
        (monikor_logger_init MONIKOR_LOG_DEFAULT None (in_log_open ie) (st_log st))"
  from assms(1) obtain cfg al1 mon s l al2 p w fd al3 mon' where
    cfg: "monikor_load_config (lo_files (in_loader ie)) (in_dir ie) (in_junk ie) path al = Some (Some cfg, al1)"
    and mon: "mon = (st_mon st)\<lparr>mn_config := cfg, mn_instance_id := '''', mn_hostid_shared := False\<rparr>"
    and srv: "init_server ie mon (st_server st) al1 = Some (s, l, al2)"
    and dmn: "monikor_daemonize (in_daemon ie) cfg (st_proc st) = Goes_On p 0"
    and sig: "monikor_register_signals (in_pipe ie) (in_sigaction ie) Handle_Signal (in_signal_addr ie)
        \<lparr>iw_lists = l, iw_state = \<lparr>rs_agent = mon, rs_pipe = [], rs_mem = []\<rparr>\<rparr> al2 = Some (w, fd, 0, al3)"
    and mods: "monikor_init_modules (in_loader ie) mon al3 = Some (mon', 0, al')"
    and st': "st' = st\<lparr>st_log := ?log cfg, st_mon := mon'\<lparr>mn_flags := 0\<rparr>, st_server := s, st_lists := iw_lists w, st_proc := p,
        st_signal_fd := fd\<rparr>"
    by (auto simp: monikor_init_def Let_def split: option.split_asm prod.split_asm bind_splits daemon_result.split_asm if_split_asm)
  let ?xs = "case sv_handler s of None \<Rightarrow> [] | Some a \<Rightarrow> [a]"
  have "dll_is (hl_io l) ?xs" "in_signal_addr ie \<notin> set ?xs"
    using init_server_lists [OF srv] assms(2) by (auto split: option.splits if_splits)
  with register_signals_ok [OF sig, of ?xs] obtain rd where "in_pipe ie = Some (rd, fd)"
    "dll_is (io_of w) (?xs @ [in_signal_addr ie])"
    "data_at (io_of w) (in_signal_addr ie) = \<lparr>ih_fd = rd, ih_mode = MONIKOR_IO_HANDLER_RD, ih_callback = Some Handle_Signal\<rparr>"
    by (auto simp: io_of_def)
  moreover obtain ls where "cf_modules (mn_config mon) = Some ls"
    using mods by (cases "cf_modules (mn_config mon)") (auto simp: monikor_init_modules_def)
  with init_modules_result [OF mods] obtain ms where "mon' = mon\<lparr>mn_modules := ms, mn_metrics := empty_store\<rparr>" "ms \<noteq> []"
    "\<forall>m\<in>set ms. ready (lo_now (in_loader ie)) (mn_config mon) m" by blast
  moreover have "map_option pw_uid (de_getpwnam (in_daemon ie) user) = Some (pr_uid p)"
    if "cf_user cfg = Some user" "pr_uid (st_proc st) = 0" for user
    using daemonize_drops_privileges [OF dmn that(1)] that(2) by auto
  ultimately show ?thesis using cfg by (auto simp: st' mon io_of_def)
qed

text \<open>An agent started as root, with a user and in the background, without a local server.\<close>

definition start_config :: cfg_dict where
  "start_config = [(Some ''user'', MONIKOR_CFG_SCALAR (Some ''quanta'')), (Some ''daemonize'', MONIKOR_CFG_SCALAR (Some ''yes''))]"

definition sample_init :: "config \<Rightarrow> init_env" where
  "sample_init junk = \<lparr>in_loader = loader_of start_config, in_dir = (\<lambda>d. Some []), in_junk = junk, in_log_open = (\<lambda>f. -1),
     in_multi_init = True,
     in_bind = \<lparr>be_getpwnam = (\<lambda>u. None), be_getgrnam = (\<lambda>g. None), be_socket = -1, be_bind = False,
       be_chmod = (\<lambda>p m. False), be_chown = (\<lambda>p u g. False), be_listen = False\<rparr>,
     in_server_addr = 1, in_daemon = sample_env, in_pipe = Some (5, 6), in_sigaction = (\<lambda>s. True), in_signal_addr = 2\<rparr>"

definition before_start :: "(agent_callback, unit, unit) started" where
  "before_start = \<lparr>st_mon = sample_agent, st_log = logger_start, st_proc = root_process,
     st_server = \<lparr>sv_socket = 0, sv_n_clients = 0, sv_clients = [], sv_mon = False, sv_handler = None\<rparr>,
     st_lists = no_lists, st_signal_fd = -1\<rparr>"

lemma sample_start:
  "\<exists>st' al'. monikor_init (sample_init junk) (Some ''/c.yml'') before_start [] = Some (Init_Returns st' 0 al')
    \<and> cf_user (mn_config (st_mon st')) = Some ''quanta'' \<and> cf_listen_path (mn_config (st_mon st')) = None"
proof -
  have "path_setting start_config [''modules'', ''path''] MONIKOR_DEFAULT_MODULES_PATH = Some MONIKOR_DEFAULT_MODULES_PATH"
    "path_setting start_config [''modules'', ''config_path''] MONIKOR_DEFAULT_MODULES_CONFIG_PATH
       = Some MONIKOR_DEFAULT_MODULES_CONFIG_PATH" "value_ok (MONIKOR_CFG_DICT start_config)"
    by (simp_all add: path_setting_def string_setting_def scalar_at_def start_config_def strip_slash_def cstr_def
        MONIKOR_DEFAULT_MODULES_PATH_def MONIKOR_DEFAULT_MODULES_CONFIG_PATH_def)
  from load_config_ok [OF _ _ this(3,1,2), of "[]" "lo_files (loader_of start_config)" "''/c.yml''" "\<lambda>d. Some []" junk]
  obtain c al where c: "monikor_load_config (lo_files (loader_of start_config)) (\<lambda>d. Some []) junk (Some ''/c.yml'') [] = Some (Some c, al)"
    "alloc_ok al" "cf_modules c = Some strl_init" "cf_user c = Some ''quanta''" "cf_group c = None" "cf_listen_path c = None"
    by (auto simp: loader_of_def settings_of_def module_names_def scalar_at_def start_config_def)
  let ?mon = "sample_agent\<lparr>mn_config := c, mn_instance_id := '''', mn_hostid_shared := False\<rparr>"
  have "\<exists>p. monikor_daemonize sample_env c root_process = Goes_On p 0"
    using c(4,5) by (cases "cf_daemonize c = 0") (simp_all add: monikor_daemonize_def perform_daemonize_def drop_privileges_def
        setgid_call_def initgroups_call_def setuid_call_def sample_env_def root_process_def Let_def)
  then obtain p where p: "monikor_daemonize sample_env c root_process = Goes_On p 0" ..
  obtain j al1 where a: "malloc al = (Some j, al1)" "alloc_ok al1" using c(2) by (rule alloc_ok_malloc)
  obtain m al2 where i: "monikor_init_modules (loader_of start_config) ?mon al1
      = Some (?mon\<lparr>mn_metrics := empty_store, mn_modules := [m]\<rparr>, 0, al2)"
    using init_no_modules [OF a(2), of ?mon "loader_of start_config"] c(3) by auto
  from c p a i show ?thesis
    by (simp add: monikor_init_def sample_init_def before_start_def init_server_def Let_def monikor_register_signals_def
        monikor_io_handler_new_def or_null_def alloc_ret_def monikor_register_io_handler_def monikor_io_handler_list_push_def
        monikor_io_handler_list_init_def io_of_def with_io_def dll_alloc_def map_io_def no_lists_def empty_dll_def)
qed

theorem init_ready_witness:
  "\<forall>junk. \<exists>st' al'. monikor_init (sample_init junk) (Some ''/c.yml'') before_start [] = Some (Init_Returns st' 0 al')
    \<and> pr_uid (st_proc st') = 101 \<and> st_signal_fd st' = 6 \<and> mn_modules (st_mon st') \<noteq> []"
proof
  fix junk
  obtain st' al' where s: "monikor_init (sample_init junk) (Some ''/c.yml'') before_start [] = Some (Init_Returns st' 0 al')"
    "cf_user (mn_config (st_mon st')) = Some ''quanta''" using sample_start by blast
  with init_ready [OF s(1)] show "\<exists>st' al'. monikor_init (sample_init junk) (Some ''/c.yml'') before_start [] = Some (Init_Returns st' 0 al')
    \<and> pr_uid (st_proc st') = 101 \<and> st_signal_fd st' = 6 \<and> mn_modules (st_mon st') \<noteq> []"
    by (auto simp: sample_init_def before_start_def root_process_def sample_env_def)
qed

end
