(* ===== verification/Utils.thy ===== *)
theory Utils
  imports C_Text
begin

text \<open>
  The helpers of the modules: whole files (\<open>src/utils/read_file.c\<close>), HTTP requests
  (\<open>src/utils/http.c\<close>) and child processes (\<open>src/utils/command.c\<close>).

  A file is the list of the results its reads will give (\<open>None\<close>: \<open>read\<close> returned -1), after which
  \<open>read\<close> returns 0; a path maps to \<open>None\<close> when it cannot be opened.  \<open>realloc\<close> asks the allocator.
\<close>

subsection \<open>Reading a file\<close>

type_synonym reads = "string option list"
type_synonym fs = "string \<Rightarrow> reads option"

definition MNK_READ_FILE_RD_SZ :: nat where "MNK_READ_FILE_RD_SZ = 4096"

definition c_string :: "string \<Rightarrow> string" where
  "c_string s = takeWhile (\<lambda>c. c \<noteq> CHR 0x00) s"

fun read_fd_loop :: "reads \<Rightarrow> string \<Rightarrow> alloc \<Rightarrow> string option \<times> alloc" where
  "read_fd_loop [] content al = or_null malloc (\<lambda>_. alloc_ret content) al"
| "read_fd_loop (r # rs) content al =
     or_null malloc (\<lambda>_ al.
       (case r of
          None \<Rightarrow> (None, al)
        | Some bytes \<Rightarrow>
            if length bytes = MNK_READ_FILE_RD_SZ then read_fd_loop rs (content @ bytes) al
            else (Some (content @ bytes), al))) al"

definition monikor_read_fd :: "reads \<Rightarrow> alloc \<Rightarrow> string option \<times> alloc" where
  "monikor_read_fd fd al = (case read_fd_loop fd '''' al of (c, al) \<Rightarrow> (map_option c_string c, al))"

definition monikor_read_file :: "fs \<Rightarrow> string \<Rightarrow> alloc \<Rightarrow> string option \<times> alloc" where
  "monikor_read_file fs path al = (case fs path of None \<Rightarrow> (None, al) | Some fd \<Rightarrow> monikor_read_fd fd al)"

lemma read_fd_loop_ok:
  assumes "alloc_ok al" and "\<forall>b\<in>set bs. length b = MNK_READ_FILE_RD_SZ" and "length b \<noteq> MNK_READ_FILE_RD_SZ"
  shows "\<exists>al'. read_fd_loop (map Some bs @ Some b # rest) c al = (Some (c @ concat bs @ b), al') \<and> alloc_ok al'"
  using assms
proof (induction bs arbitrary: c al)
  case Nil
  from Nil(1) obtain j al1 where "malloc al = (Some j, al1)" "alloc_ok al1" by (rule alloc_ok_malloc)
  with Nil show ?case by (auto simp: alloc_simps)
next
  case (Cons a bs)
  from Cons.prems(1) obtain j al1 where al1: "malloc al = (Some j, al1)" "alloc_ok al1" by (rule alloc_ok_malloc)
  with Cons.IH [OF al1(2), of "c @ a"] Cons.prems show ?case by (auto simp: alloc_simps)
qed

text \<open>A file of the given content, as a regular file or a pipe that is full delivers it.\<close>

definition file_of :: "string \<Rightarrow> reads" where
  "file_of s = map (\<lambda>i. Some (take 4096 (drop (4096 * i) s))) [0..<length s div 4096 + 1]"

lemma concat_chunks: "concat (map (\<lambda>i. take k (drop (k * i) s)) [0..<n]) = take (k * n) s"
proof (induction n)
  case (Suc n)
  have "take (k * Suc n) s = take (k * n) s @ take k (drop (k * n) s)"
    by (metis mult_Suc_right add.commute take_add)
  with Suc show ?case by simp
qed simp

lemma file_of_split:
  obtains bs b where "file_of s = map Some bs @ [Some b]" and "\<forall>b\<in>set bs. length b = MNK_READ_FILE_RD_SZ"
    and "length b \<noteq> MNK_READ_FILE_RD_SZ" and "concat bs @ b = s"
proof
  let ?n = "length s div 4096"
  let ?bs = "map (\<lambda>i. take 4096 (drop (4096 * i) s)) [0..<?n]" and ?b = "drop (4096 * ?n) s"
  have "length s - 4096 * ?n < 4096" by (metis minus_mult_div_eq_mod mod_less_divisor zero_less_numeral)
  then show "length ?b \<noteq> MNK_READ_FILE_RD_SZ" and "file_of s = map Some ?bs @ [Some ?b]"
    by (simp_all add: MNK_READ_FILE_RD_SZ_def file_of_def)
  have "length (take 4096 (drop (4096 * i) s)) = 4096" if "i < ?n" for i
  proof -
    have "4096 * (i + 1) \<le> 4096 * ?n" using that by (intro mult_le_mono2) simp
    also have "\<dots> \<le> length s" by simp
    finally show ?thesis by simp
  qed
  then show "\<forall>b\<in>set ?bs. length b = MNK_READ_FILE_RD_SZ" by (auto simp: MNK_READ_FILE_RD_SZ_def)
  show "concat ?bs @ ?b = s" by (simp only: concat_chunks append_take_drop_id)
qed

lemma read_file_of:
  assumes "fs path = Some (file_of s)" and "alloc_ok al" and "cstr s"
  obtains al' where "monikor_read_file fs path al = (Some s, al')" and "alloc_ok al'"
proof -
  obtain bs b where f: "file_of s = map Some bs @ [Some b]" "concat bs @ b = s"
    and "\<forall>b\<in>set bs. length b = MNK_READ_FILE_RD_SZ" "length b \<noteq> MNK_READ_FILE_RD_SZ"
    by (rule file_of_split)
  then obtain al' where r: "read_fd_loop (file_of s) [] al = (Some s, al')" "alloc_ok al'"
    using read_fd_loop_ok [OF assms(2), of bs b "[]" "[]"] by auto
  have "c_string s = s"
    unfolding c_string_def takeWhile_eq_all_conv using assms(3) by (auto simp: cstr_def)
  with r(1) have "monikor_read_fd (file_of s) al = (Some s, al')" by (simp add: monikor_read_fd_def)
  with assms(1) r(2) that show ?thesis by (simp add: monikor_read_file_def)
qed

subsection \<open>HTTP requests\<close>

definition new_response :: "http_callback \<Rightarrow> alloc \<Rightarrow> http_response option \<times> alloc" where
  "new_response callback =
     or_null malloc (\<lambda>_. alloc_ret \<lparr>hr_code = 0, hr_data = None, hr_size = 0, hr_callback = callback\<rparr>)"

text \<open>libcurl's write callback: the response and the number libcurl gets back.\<close>

definition http_data_handler :: "string \<Rightarrow> u64 \<Rightarrow> u64 \<Rightarrow> http_response \<Rightarrow> alloc \<Rightarrow> http_response \<times> u64 \<times> alloc" where
  "http_data_handler ptr sz nmemb response al =
     (let data_size = sz * nmemb in
      case malloc al of
        (None, al) \<Rightarrow> (response\<lparr>hr_data := None\<rparr>, 0, al)
      | (Some _, al) \<Rightarrow>
          (response\<lparr>hr_data := Some ((case hr_data response of Some d \<Rightarrow> d | None \<Rightarrow> '''') @ take (unat data_size) ptr),
             hr_size := hr_size response + data_size\<rparr>, data_size, al))"

text \<open>The response the callback gets; its data as a C string.\<close>

definition http_server_response :: "http_response \<Rightarrow> clong \<Rightarrow> http_response" where
  "http_server_response response code =
     response\<lparr>hr_code := code, hr_data := map_option c_string (hr_data response)\<rparr>"

definition monikor_http_get_with_headers ::
  "bool \<Rightarrow> string \<Rightarrow> clong \<Rightarrow> http_callback \<Rightarrow> string list \<Rightarrow> agent \<Rightarrow> alloc \<Rightarrow> agent \<times> cint \<times> alloc" where
  "monikor_http_get_with_headers easy_init url timeout callback headers mon al =
     (case new_response callback al of
        (None, al) \<Rightarrow> (mon, 1, al)
      | (Some response, al) \<Rightarrow>
          (case malloc al of
             (None, al) \<Rightarrow> (mon, 1, al)
           | (Some _, al) \<Rightarrow>
               if easy_init then
                 (mon\<lparr>mn_http := mn_http mon @ [\<lparr>hq_url = url, hq_timeout = timeout, hq_headers = headers,
                    hq_response = response\<rparr>]\<rparr>, 0, al)
               else (mon, 1, al)))"

definition monikor_http_get ::
  "bool \<Rightarrow> string \<Rightarrow> clong \<Rightarrow> http_callback \<Rightarrow> agent \<Rightarrow> alloc \<Rightarrow> agent \<times> cint \<times> alloc" where
  "monikor_http_get easy_init url timeout callback mon al =
     monikor_http_get_with_headers easy_init url timeout callback [] mon al"

text \<open>The body arrives in pieces.\<close>

fun http_body :: "string list \<Rightarrow> http_response \<Rightarrow> alloc \<Rightarrow> http_response \<times> alloc" where
  "http_body [] r al = (r, al)"
| "http_body (p # ps) r al =
     (case http_data_handler p 1 (of_nat (length p)) r al of
        (r, n, al) \<Rightarrow> if n = of_nat (length p) then http_body ps r al else (r, al))"

lemma http_body_ok:
  assumes "alloc_ok al" and "length (concat ps) < 2 ^ 64"
  shows "\<exists>r' al'. http_body ps r al = (r', al') \<and> hr_code r' = hr_code r \<and> hr_callback r' = hr_callback r
    \<and> hr_size r' = hr_size r + of_nat (length (concat ps))
    \<and> (ps \<noteq> [] \<longrightarrow> hr_data r' = Some ((case hr_data r of Some d \<Rightarrow> d | None \<Rightarrow> '''') @ concat ps))"
  using assms
proof (induction ps arbitrary: r al)
  case Nil
  then show ?case by simp
next
  case (Cons p ps)
  from Cons.prems(1) obtain j al1 where al1: "malloc al = (Some j, al1)" "alloc_ok al1" by (rule alloc_ok_malloc)
  have n: "unat (of_nat (length p) :: u64) = length p"
    using Cons.prems(2) by (intro unat_of_nat_u64) simp
  let ?r = "r\<lparr>hr_data := Some ((case hr_data r of Some d \<Rightarrow> d | None \<Rightarrow> '''') @ p), hr_size := hr_size r + of_nat (length p)\<rparr>"
  have "http_data_handler p 1 (of_nat (length p)) r al = (?r, of_nat (length p), al1)"
    by (simp add: http_data_handler_def al1 n Let_def)
  moreover obtain r' al' where "http_body ps ?r al1 = (r', al')" "hr_code r' = hr_code r" "hr_callback r' = hr_callback r"
    "hr_size r' = hr_size r + of_nat (length p) + of_nat (length (concat ps))"
    "ps \<noteq> [] \<longrightarrow> hr_data r' = Some (((case hr_data r of Some d \<Rightarrow> d | None \<Rightarrow> '''') @ p) @ concat ps)"
    using Cons.IH [OF al1(2), of ?r] Cons.prems(2) by auto
  ultimately show ?case by (cases ps) (auto simp: ac_simps)
qed

subsection \<open>Child processes\<close>

definition MNK_COMMAND_EXEC_STATE_PROCESS_DONE :: u8 where "MNK_COMMAND_EXEC_STATE_PROCESS_DONE = 1"
definition MNK_COMMAND_EXEC_STATE_READ_DONE :: u8 where "MNK_COMMAND_EXEC_STATE_READ_DONE = 2"
definition MNK_COMMAND_EXEC_STATE_FAILED :: u8 where "MNK_COMMAND_EXEC_STATE_FAILED = 4"
definition MNK_COMMAND_EXEC_STATE_FINISHED :: u8 where "MNK_COMMAND_EXEC_STATE_FINISHED = 1 + 2"
definition MNK_CMD_READ_SIZE :: nat where "MNK_CMD_READ_SIZE = 4096"

lemmas command_state_defs = MNK_COMMAND_EXEC_STATE_PROCESS_DONE_def MNK_COMMAND_EXEC_STATE_READ_DONE_def
  MNK_COMMAND_EXEC_STATE_FAILED_def MNK_COMMAND_EXEC_STATE_FINISHED_def

definition monikor_command_finished :: "u8 \<Rightarrow> bool" where
  "monikor_command_finished state \<longleftrightarrow>
     state AND MNK_COMMAND_EXEC_STATE_FINISHED = MNK_COMMAND_EXEC_STATE_FINISHED"

definition monikor_command_failed :: "u8 \<Rightarrow> bool" where
  "monikor_command_failed state \<longleftrightarrow> state AND MNK_COMMAND_EXEC_STATE_FAILED \<noteq> 0"

text \<open>\<open>ce_fd\<close> is the descriptor of the output handler, \<open>ce_calls\<close> what the callback was given so
  far: one entry per call, with the state and the output at that time.\<close>

record command_exec =
  ce_state :: u8
  ce_pid :: cint
  ce_status :: cint
  ce_fd :: cint
  ce_output :: "string option"
  ce_output_size :: u64
  ce_callback :: bool
  ce_calls :: "(u8 \<times> string option) list"

definition maybe_finish_command_exec :: "command_exec \<Rightarrow> command_exec" where
  "maybe_finish_command_exec cmd =
     (if monikor_command_finished (ce_state cmd) then
        (if ce_callback cmd
         then cmd\<lparr>ce_calls := ce_calls cmd @ [(ce_state cmd, ce_output cmd)]\<rparr> else cmd)
      else cmd)"

text \<open>The error exit does not look whether the command has finished.\<close>

definition command_output_err :: "command_exec \<Rightarrow> command_exec" where
  "command_output_err cmd =
     cmd\<lparr>ce_state := ce_state cmd OR MNK_COMMAND_EXEC_STATE_READ_DONE OR MNK_COMMAND_EXEC_STATE_FAILED,
         ce_output_size := 0, ce_output := None, ce_fd := -1\<rparr>"

fun handle_command_output :: "reads \<Rightarrow> command_exec \<Rightarrow> alloc \<Rightarrow> command_exec \<times> alloc" where
  "handle_command_output rs cmd al =
     (case malloc al of
        (None, al) \<Rightarrow> (command_output_err cmd, al)
      | (Some _, al) \<Rightarrow>
          (case (case rs of [] \<Rightarrow> Some '''' | r # _ \<Rightarrow> r) of
             None \<Rightarrow> (command_output_err cmd, al)
           | Some bytes \<Rightarrow>
               let cmd = cmd\<lparr>ce_output_size := ce_output_size cmd + of_nat (length bytes),
                             ce_output := Some ((case ce_output cmd of Some s \<Rightarrow> s | None \<Rightarrow> '''') @ bytes)\<rparr> in
               if rs \<noteq> [] \<and> length bytes = MNK_CMD_READ_SIZE then handle_command_output (tl rs) cmd al
               else
                 (let cmd = (if bytes = '''' then
                               cmd\<lparr>ce_state := ce_state cmd OR MNK_COMMAND_EXEC_STATE_READ_DONE, ce_fd := -1\<rparr>
                             else cmd)
                  in (maybe_finish_command_exec cmd, al))))"

declare handle_command_output.simps [simp del]

text \<open>\<open>WIFEXITED\<close> and \<open>WEXITSTATUS\<close> of a wait status.\<close>

definition WIFEXITED :: "cint \<Rightarrow> bool" where "WIFEXITED status \<longleftrightarrow> status AND 0x7f = 0"
definition WEXITSTATUS :: "cint \<Rightarrow> cint" where "WEXITSTATUS status = drop_bit 8 (status AND 0xff00)"

definition handle_process_exit :: "command_exec \<Rightarrow> cint \<Rightarrow> command_exec" where
  "handle_process_exit cmd status =
     (let cmd = cmd\<lparr>ce_status := status, ce_state := ce_state cmd OR MNK_COMMAND_EXEC_STATE_PROCESS_DONE\<rparr>;
          cmd = (if \<not> WIFEXITED status \<or> WEXITSTATUS status \<noteq> 0
                 then cmd\<lparr>ce_state := ce_state cmd OR MNK_COMMAND_EXEC_STATE_FAILED\<rparr> else cmd)
      in maybe_finish_command_exec cmd)"

text \<open>The parent's side of \<open>fork\<close>: \<open>pipe\<close> and \<open>fork\<close> are the host's (\<open>None\<close>: they failed).  The
  error exit frees the handler of a command whose memory holds junk where \<open>malloc\<close> of the handler
  failed, but there \<open>output_handler\<close> is the null that was assigned.\<close>

definition start_command :: "cint option \<Rightarrow> cint \<Rightarrow> alloc \<Rightarrow> command_exec option \<times> alloc" where
  "start_command pipe fork al =
     (case pipe of
        None \<Rightarrow> (None, al)
      | Some fd \<Rightarrow>
          or_null malloc (\<lambda>_. or_null malloc (\<lambda>_ al.
            (if fork = -1 then (None, al)
             else (Some \<lparr>ce_state = 0, ce_pid = fork, ce_status = 0, ce_fd = fd, ce_output = None,
                         ce_output_size = 0, ce_callback = False, ce_calls = []\<rparr>, al)))) al)"

definition monikor_command_exec :: "cint option \<Rightarrow> cint \<Rightarrow> bool \<Rightarrow> alloc \<Rightarrow> command_exec option \<times> alloc" where
  "monikor_command_exec pipe fork callback =
     or_null (start_command pipe fork) (\<lambda>cmd. or_null malloc (\<lambda>_. alloc_ret (cmd\<lparr>ce_callback := callback\<rparr>)))"

subsection \<open>A command finishes once\<close>

text \<open>What the event loop tells a command: its output is readable, or its process has ended.\<close>

datatype cmd_event = Readable reads | Exited cint

fun command_run :: "cmd_event list \<Rightarrow> command_exec \<Rightarrow> command_exec" where
  "command_run [] cmd = cmd"
| "command_run (Readable rs # es) cmd = command_run es (fst (handle_command_output rs cmd []))"
| "command_run (Exited status # es) cmd = command_run es (handle_process_exit cmd status)"

definition output_bytes :: "command_exec \<Rightarrow> string" where
  "output_bytes cmd = (case ce_output cmd of Some s \<Rightarrow> s | None \<Rightarrow> '''')"

lemma output_handler_data:
  assumes "bytes \<noteq> ''''" and "length bytes < MNK_CMD_READ_SIZE"
  shows "handle_command_output [Some bytes] cmd [] = (maybe_finish_command_exec
      (cmd\<lparr>ce_output_size := ce_output_size cmd + of_nat (length bytes), ce_output := Some (output_bytes cmd @ bytes)\<rparr>), [])"
  using assms by (subst handle_command_output.simps) (simp add: output_bytes_def Let_def)

lemma output_handler_eof:
  "handle_command_output [] cmd [] = (maybe_finish_command_exec
      (cmd\<lparr>ce_output := Some (output_bytes cmd), ce_state := ce_state cmd OR 2, ce_fd := -1\<rparr>), [])"
  by (subst handle_command_output.simps) (simp add: output_bytes_def Let_def command_state_defs)

lemma finished_bits: "monikor_command_finished st \<longleftrightarrow> bit st 0 \<and> bit st (Suc 0)"
proof -
  have "st AND 3 = 3 \<longleftrightarrow> bit st 0 \<and> bit st 1"
  proof
    assume "st AND 3 = 3"
    then have "bit (st AND 3) 0 = bit (3 :: u8) 0" "bit (st AND 3) 1 = bit (3 :: u8) 1" by simp_all
    then show "bit st 0 \<and> bit st 1" by (simp add: bit_simps)
  next
    assume "bit st 0 \<and> bit st 1"
    then show "st AND 3 = 3"
      by (intro bit_word_eqI) (auto simp: bit_and_iff bit_numeral_rec(2) bit_Suc less_Suc_eq numeral_eq_Suc)
  qed
  then show ?thesis by (simp add: monikor_command_finished_def command_state_defs)
qed

text \<open>The events of a command: pieces of output, the end of the output and the exit, the last two once
  each and in any order, with no output after its end.\<close>

fun complete_events :: "bool \<Rightarrow> bool \<Rightarrow> cmd_event list \<Rightarrow> bool" where
  "complete_events x e [] \<longleftrightarrow> x \<and> e"
| "complete_events x e (Exited status # es) \<longleftrightarrow> \<not> x \<and> complete_events True e es"
| "complete_events x e (Readable rs # es) \<longleftrightarrow> \<not> e \<and>
     (case rs of
        [] \<Rightarrow> complete_events x True es
      | [Some b] \<Rightarrow> b \<noteq> [] \<and> length b < MNK_CMD_READ_SIZE \<and> complete_events x e es
      | _ \<Rightarrow> False)"

fun events_output :: "cmd_event list \<Rightarrow> string" where
  "events_output [] = []"
| "events_output (Readable [Some b] # es) = b @ events_output es"
| "events_output (_ # es) = events_output es"

lemma command_state_bits:
  "bit (s OR 2 :: u8) 0 = bit s 0" "bit (s OR 2 :: u8) (Suc 0)" "bit (s OR 1 :: u8) 0"
  "bit (s OR 1 :: u8) (Suc 0) = bit s (Suc 0)" "bit (s OR 4 :: u8) 0 = bit s 0"
  "bit (s OR 4 :: u8) (Suc 0) = bit s (Suc 0)" "bit (s OR 6 :: u8) 0 = bit s 0" "bit (s OR 6 :: u8) (Suc 0)"
  by (simp_all add: bit_simps)

lemma maybe_finish_fields:
  "ce_state (maybe_finish_command_exec c) = ce_state c" "ce_output (maybe_finish_command_exec c) = ce_output c"
  "ce_callback (maybe_finish_command_exec c) = ce_callback c"
  by (simp_all add: maybe_finish_command_exec_def)

lemma process_exit_bits:
  "bit (ce_state (handle_process_exit c st)) 0" "bit (ce_state (handle_process_exit c st)) (Suc 0) = bit (ce_state c) (Suc 0)"
  "ce_output (handle_process_exit c st) = ce_output c" "ce_callback (handle_process_exit c st) = ce_callback c"
  by (simp_all add: handle_process_exit_def Let_def maybe_finish_fields command_state_bits command_state_defs)

lemma process_exit_calls:
  "ce_callback c \<Longrightarrow> ce_calls (handle_process_exit c st) = (if bit (ce_state c) (Suc 0)
     then ce_calls c @ [(ce_state (handle_process_exit c st), ce_output c)] else ce_calls c)"
  by (simp add: handle_process_exit_def Let_def maybe_finish_command_exec_def finished_bits command_state_bits
      command_state_defs)

lemma complete_events_done: "complete_events True True es \<Longrightarrow> es = []"
proof (cases es)
  case (Cons e es')
  then show "complete_events True True es \<Longrightarrow> es = []" by (cases e) auto
qed simp

lemma command_run_once:
  "complete_events x e es \<Longrightarrow> x = bit (ce_state cmd) 0 \<Longrightarrow> e = bit (ce_state cmd) (Suc 0) \<Longrightarrow> \<not> (x \<and> e) \<Longrightarrow> ce_callback cmd \<Longrightarrow>
     (e \<longrightarrow> ce_output cmd \<noteq> None) \<Longrightarrow>
     \<exists>st. ce_calls (command_run es cmd) = ce_calls cmd @ [(st, Some (output_bytes cmd @ events_output es))]
       \<and> monikor_command_finished st"
proof (induction x e es arbitrary: cmd rule: complete_events.induct)
  case (1 x e)
  then show ?case by simp
next
  case (2 x e status es)
  let ?c = "handle_process_exit cmd status"
  have out: "output_bytes ?c = output_bytes cmd" by (simp add: output_bytes_def process_exit_bits)
  show ?case
  proof (cases e)
    case True
    with 2 have "es = []" using complete_events_done by auto
    with True 2 show ?thesis
      by (auto simp: process_exit_calls process_exit_bits finished_bits output_bytes_def)
  next
    case False
    from 2(1) [of ?c] 2(2-) False out show ?thesis
      by (auto simp: process_exit_calls process_exit_bits)
  qed
next
  case (3 x e rs es)
  then have "\<not> e" by simp
  show ?case
  proof (cases rs)
    case Nil
    let ?d = "cmd\<lparr>ce_output := Some (output_bytes cmd), ce_state := ce_state cmd OR 2, ce_fd := -1\<rparr>"
    have c: "fst (handle_command_output rs cmd []) = maybe_finish_command_exec ?d"
      by (simp add: Nil output_handler_eof)
    have out: "output_bytes (maybe_finish_command_exec ?d) = output_bytes cmd"
      by (simp add: output_bytes_def maybe_finish_fields)
    show ?thesis
    proof (cases x)
      case True
      with 3 Nil have "es = []" using complete_events_done by auto
      with True 3(4-) c Nil show ?thesis
        by (auto simp: maybe_finish_command_exec_def finished_bits command_state_bits)
    next
      case False
      with 3(1) [OF Nil, of "maybe_finish_command_exec ?d"] 3(3-) c Nil out show ?thesis
        by (auto simp: maybe_finish_command_exec_def finished_bits command_state_bits)
    qed
  next
    case (Cons r rs')
    with 3(3) obtain b where rs: "rs = [Some b]" and b: "b \<noteq> []" "length b < MNK_CMD_READ_SIZE"
      and es: "complete_events x e es"
      using Cons by (cases r; cases rs') auto
    let ?d = "cmd\<lparr>ce_output_size := ce_output_size cmd + of_nat (length b), ce_output := Some (output_bytes cmd @ b)\<rparr>"
    have "\<not> monikor_command_finished (ce_state ?d)" using \<open>\<not> e\<close> 3(5) by (simp add: finished_bits)
    then have "fst (handle_command_output rs cmd []) = ?d"
      by (simp add: rs output_handler_data [OF b] maybe_finish_command_exec_def)
    with 3(2) [OF rs refl refl, of ?d] es b 3(4-) rs show ?thesis
      by (auto simp: output_bytes_def)
  qed
qed

subsection \<open>Properties\<close>

definition started_command :: command_exec where
  "started_command = \<lparr>ce_state = 0, ce_pid = 42, ce_status = 0, ce_fd = 5, ce_output = None, ce_output_size = 0,
     ce_callback = True, ce_calls = []\<rparr>"



text \<open>when the output of a process that has already ended cannot be read, the command is finished
  but its callback is never called.\<close>

theorem command_error_not_reported:
  assumes "bit (ce_state cmd) 0"
  shows "monikor_command_finished (ce_state (command_run [Readable [None]] cmd))
    \<and> ce_calls (command_run [Readable [None]] cmd) = ce_calls cmd"
  using assms
  by (simp add: handle_command_output.simps command_output_err_def finished_bits command_state_bits command_state_defs)

theorem command_error_not_reported_witness:
  "ce_calls (command_run [Readable [None]] (handle_process_exit started_command 0)) = []"
  using command_error_not_reported [OF process_exit_bits(1), of started_command 0]
  by (simp add: process_exit_calls started_command_def)

text \<open>a file is read completely, whatever its size, when every read before the last delivers a
  full buffer.\<close>

theorem read_file_complete:
  assumes "fs path = Some (file_of s)" and "alloc_ok al" and "cstr s"
  shows "fst (monikor_read_file fs path al) = Some s"
proof -
  obtain al' where "monikor_read_file fs path al = (Some s, al')" using assms by (rule read_file_of)
  then show ?thesis by simp
qed

theorem read_file_complete_witness:
  "fst (monikor_read_file (\<lambda>p. Some (file_of (replicate 5000 CHR ''x''))) ''/proc/stat'' []) = Some (replicate 5000 CHR ''x'')"
  by (rule read_file_complete) (simp_all add: cstr_def)

end
