(* ===== verification/Samples.thy ===== *)
theory Samples
  imports Utils
begin

text \<open>
  Pushing the samples of a module.  The pollers of \<open>lib/modules\<close> and \<open>info_module.c\<close> are sequences of
  \<open>n += monikor_metric_push(mon, monikor_metric_...(name, clock, value, flags))\<close>; such a sequence is
  the list of its samples, pushed in order, and its sum.
\<close>

datatype sample = Integer_Sample string u64 u8 | Float_Sample string f32 u8 | String_Sample string string

fun push_sample :: "timeval \<Rightarrow> sample \<Rightarrow> agent \<Rightarrow> alloc \<Rightarrow> agent \<times> cint \<times> alloc" where
  "push_sample clock (Integer_Sample name v flags) mon al = push_integer name clock v flags mon al"
| "push_sample clock (Float_Sample name v flags) mon al = push_float name clock v flags mon al"
| "push_sample clock (String_Sample name v) mon al = push_string name clock v mon al"

fun push_samples :: "timeval \<Rightarrow> sample list \<Rightarrow> agent \<Rightarrow> alloc \<Rightarrow> agent \<times> cint \<times> alloc" where
  "push_samples clock [] mon al = (mon, 0, al)"
| "push_samples clock (s # ss) mon al =
     (case push_sample clock s mon al of (mon, n, al) \<Rightarrow>
      case push_samples clock ss mon al of (mon, k, al) \<Rightarrow> (mon, n + k, al))"

text \<open>\<open>f(...) + g(...)\<close>, from left to right.\<close>

definition poll_then ::
  "(agent \<Rightarrow> alloc \<Rightarrow> agent \<times> cint \<times> alloc) \<Rightarrow> (agent \<Rightarrow> alloc \<Rightarrow> agent \<times> cint \<times> alloc)
     \<Rightarrow> agent \<Rightarrow> alloc \<Rightarrow> agent \<times> cint \<times> alloc" where
  "poll_then f g mon al = (case f mon al of (mon, n, al) \<Rightarrow> case g mon al of (mon, k, al) \<Rightarrow> (mon, n + k, al))"

text \<open>The metric a sample becomes; its identifier is what the memory held.\<close>

fun sample_name :: "sample \<Rightarrow> string" where
  "sample_name (Integer_Sample name _ _) = name"
| "sample_name (Float_Sample name _ _) = name"
| "sample_name (String_Sample name _) = name"

fun sample_value :: "sample \<Rightarrow> metric_value" where
  "sample_value (Integer_Sample _ v _) = VInt v"
| "sample_value (Float_Sample _ v _) = VFloat v"
| "sample_value (String_Sample _ v) = VString v"

fun sample_flags :: "sample \<Rightarrow> u8" where
  "sample_flags (Integer_Sample _ _ f) = f"
| "sample_flags (Float_Sample _ _ f) = f"
| "sample_flags (String_Sample _ _) = 0"

definition is_sample_of :: "timeval \<Rightarrow> sample \<Rightarrow> metric \<Rightarrow> bool" where
  "is_sample_of clock s m \<longleftrightarrow> m_name m = sample_name s \<and> m_clock m = clock \<and> m_value m = sample_value s
     \<and> m_flags m = sample_flags s"

subsection \<open>What pushing does to the agent\<close>

definition only_metrics :: "agent \<Rightarrow> agent \<Rightarrow> bool" where
  "only_metrics mon mon' \<longleftrightarrow> mon' = mon\<lparr>mn_metrics := mn_metrics mon'\<rparr>"

lemma only_metrics_refl [simp]: "only_metrics mon mon"
  by (simp add: only_metrics_def)

lemma only_metrics_trans: "only_metrics a b \<Longrightarrow> only_metrics b c \<Longrightarrow> only_metrics a c"
  by (metis only_metrics_def agent.surjective agent.update_convs(3))

lemma metric_push_only: "monikor_metric_push mon m al = (mon', n, al') \<Longrightarrow> only_metrics mon mon'"
  by (auto simp: monikor_metric_push_def only_metrics_def split: option.splits prod.splits)

lemma push_sample_only:
  assumes "push_sample clock s mon al = (mon', n, al')"
  shows "only_metrics mon mon'" and "agent_inv mon \<Longrightarrow> agent_inv mon'"
  using assms
  by (cases s; auto simp: push_integer_def push_float_def push_string_def intro: metric_push_only metric_push_inv
      split: prod.splits)+

lemma push_samples_only:
  "push_samples clock ss mon al = (mon', n, al') \<Longrightarrow> only_metrics mon mon' \<and> (agent_inv mon \<longrightarrow> agent_inv mon')"
proof (induction ss arbitrary: mon n al)
  case (Cons s ss)
  then show ?case
    by (auto split: prod.splits dest: push_sample_only intro: only_metrics_trans)
qed simp

end
