(* ===== verification/Net.thy ===== *)
theory Net
  imports Utils IO_List
begin

text \<open>
  Requests over TCP, \<open>src/utils/net.c\<close>: the life of the handler of one exchange, from the resolution of
  the host to the call of the module's callback.  \<open>getaddrinfo\<close>, sockets and their errors are
  parameters; \<open>nx_open\<close> are the descriptors that the exchange has opened and not closed, \<open>nx_sent\<close> what it has
  written and \<open>nx_calls\<close> what its callback was given.
\<close>

definition MNK_NET_RD_SZ :: nat where "MNK_NET_RD_SZ = 4096"

text \<open>\<open>ai_cur\<close> is the list from the current address on.\<close>

record net_data =
  nd_send :: "string option"
  nd_ai_cur :: "string list"

datatype net_callback = HANDLE_IO_CONNECT | HANDLE_IO_READ

record net_exchange =
  nx_fd :: cint
  nx_mode :: u8
  nx_callback :: "net_callback option"
  nx_data :: "net_data option"
  nx_open :: "cint list"
  nx_sent :: "string list"
  nx_calls :: "string list"

subsection \<open>Connecting\<close>

text \<open>How far an attempt gets: no socket, a socket that \<open>fcntl\<close> or \<open>connect\<close> refuses, or a connection under way.\<close>

datatype attempt = No_Socket | Refused cint | Connecting cint

text \<open>\<open>None\<close>: no address.  The list \<open>getaddrinfo\<close> fills is not empty.  When it fails, the code frees the pointer it was
  to fill, which is what \<open>malloc\<close> left in the new structure: the outer \<open>None\<close>, unless that is null.\<close>

definition monikor_net_gai :: "string list option \<Rightarrow> u64 \<Rightarrow> string list option option" where
  "monikor_net_gai addrs junk =
     (case addrs of Some ai \<Rightarrow> Some (Some ai) | None \<Rightarrow> if junk = 0 then Some None else None)"

text \<open>The descriptor, or -1, and the descriptors left open.  A socket that was refused is not closed.\<close>

fun monikor_net_connect :: "attempt \<Rightarrow> cint list \<Rightarrow> cint \<times> cint list" where
  "monikor_net_connect No_Socket fds = (-1, fds)"
| "monikor_net_connect (Refused sock) fds = (-1, sock # fds)"
| "monikor_net_connect (Connecting sock) fds = (sock, sock # fds)"

subsection \<open>Receiving\<close>

fun net_recv_loop :: "reads \<Rightarrow> string \<Rightarrow> alloc \<Rightarrow> string option \<times> alloc" where
  "net_recv_loop rs response al =
     (case malloc al of
        (None, al) \<Rightarrow> (None, al)
      | (Some _, al) \<Rightarrow>
          (case (case rs of [] \<Rightarrow> Some '''' | r # _ \<Rightarrow> r) of
             None \<Rightarrow> (None, al)
           | Some bytes \<Rightarrow>
               if rs \<noteq> [] \<and> length bytes = MNK_NET_RD_SZ then net_recv_loop (tl rs) (response @ bytes) al
               else (Some (response @ bytes), al)))"

declare net_recv_loop.simps [simp del]

definition monikor_net_recv :: "reads \<Rightarrow> alloc \<Rightarrow> string option \<times> alloc" where
  "monikor_net_recv rs al =
     (case net_recv_loop rs '''' al of (response, al) \<Rightarrow> (map_option c_string response, al))"

definition handle_io_read :: "reads \<Rightarrow> net_exchange \<Rightarrow> alloc \<Rightarrow> net_exchange \<times> alloc" where
  "handle_io_read rs h al =
     (case monikor_net_recv rs al of (received, al) \<Rightarrow>
        let h = h\<lparr>nx_open := remove1 (nx_fd h) (nx_open h), nx_fd := -1, nx_mode := 0, nx_callback := None, nx_data := None\<rparr>
        in (case received of None \<Rightarrow> h | Some r \<Rightarrow> h\<lparr>nx_calls := nx_calls h @ [r]\<rparr>, al))"

subsection \<open>The connection is ready\<close>

text \<open>What the calls of \<open>handle_io_connect\<close> deliver: whether the socket has an error, how the next attempt goes, and
  whether \<open>fcntl\<close> and \<open>write\<close> succeed.\<close>

record ready_input =
  re_error :: bool
  re_attempt :: attempt
  re_fcntl :: bool
  re_write :: bool

definition io_connect_err :: "net_exchange \<Rightarrow> net_exchange" where
  "io_connect_err h =
     h\<lparr>nx_mode := 0, nx_open := remove1 (nx_fd h) (nx_open h), nx_fd := -1, nx_data := None, nx_callback := None\<rparr>"

text \<open>\<open>None\<close>: the handler has no data, and the null pointer is followed.\<close>

definition handle_io_connect :: "ready_input \<Rightarrow> net_exchange \<Rightarrow> net_exchange option" where
  "handle_io_connect re h = do {
     d \<leftarrow> nx_data h;
     (if re_error re then
        (let d = d\<lparr>nd_ai_cur := tl (nd_ai_cur d)\<rparr>; h = h\<lparr>nx_data := Some d\<rparr> in
         if nd_ai_cur d = [] then Some (io_connect_err h)
         else (case monikor_net_connect (re_attempt re) (nx_open h) of (fd, fds) \<Rightarrow>
                 let h = h\<lparr>nx_open := fds\<rparr> in
                 if fd = -1 then Some (io_connect_err h)
                 else Some (h\<lparr>nx_open := remove1 (nx_fd h) (nx_open h), nx_fd := fd\<rparr>)))
      else if \<not> re_fcntl re then Some (io_connect_err h)
      else (case nd_send d of
              None \<Rightarrow> Some (h\<lparr>nx_mode := MONIKOR_IO_HANDLER_RD, nx_callback := Some HANDLE_IO_READ\<rparr>)
            | Some s \<Rightarrow>
                if re_write re then
                  Some (h\<lparr>nx_sent := nx_sent h @ [s], nx_mode := MONIKOR_IO_HANDLER_RD, nx_callback := Some HANDLE_IO_READ\<rparr>)
                else Some (io_connect_err h))) }"

subsection \<open>Starting an exchange\<close>

text \<open>The outer \<open>None\<close> is undefined behaviour; the inner one the null pointer.\<close>

definition monikor_net_exchange ::
  "string list option \<Rightarrow> attempt \<Rightarrow> string option \<Rightarrow> alloc \<Rightarrow> (net_exchange option \<times> alloc) option" where
  "monikor_net_exchange addrs att send al =
     (case malloc al of
        (None, al) \<Rightarrow> Some (None, al)
      | (Some junk, al) \<Rightarrow> do {
          ai \<leftarrow> monikor_net_gai addrs junk;
          (case ai of
             None \<Rightarrow> Some (None, al)
           | Some ai \<Rightarrow>
               (case monikor_net_connect att [] of (fd, fds) \<Rightarrow>
                  if fd = -1 then Some (None, al)
                  else
                    (case monikor_io_handler_new fd MONIKOR_IO_HANDLER_WR (Some HANDLE_IO_CONNECT) al of
                       (None, al) \<Rightarrow> Some (None, al)
                     | (Some n, al) \<Rightarrow>
                         Some (Some \<lparr>nx_fd = ih_fd (dn_data n), nx_mode = ih_mode (dn_data n),
                                 nx_callback = ih_callback (dn_data n),
                                 nx_data = Some \<lparr>nd_send = send, nd_ai_cur = ai\<rparr>,
                                 nx_open = fds, nx_sent = [], nx_calls = []\<rparr>, al)))) })"

subsection \<open>The life of an exchange\<close>

text \<open>The event loop calls the callback of the handler when its descriptor is ready.\<close>

record net_input =
  ni_ready :: ready_input
  ni_reads :: reads
  ni_mem :: alloc

definition net_step :: "net_input \<Rightarrow> net_exchange \<Rightarrow> net_exchange option" where
  "net_step ni h =
     (case nx_callback h of
        None \<Rightarrow> Some h
      | Some HANDLE_IO_CONNECT \<Rightarrow> handle_io_connect (ni_ready ni) h
      | Some HANDLE_IO_READ \<Rightarrow> Some (fst (handle_io_read (ni_reads ni) h (ni_mem ni))))"

fun net_run :: "net_input list \<Rightarrow> net_exchange \<Rightarrow> net_exchange option" where
  "net_run [] h = Some h"
| "net_run (ni # nis) h = do { h \<leftarrow> net_step ni h; net_run nis h }"

text \<open>A finished exchange has closed its descriptor and calls nobody; a live one owns its descriptor and has data.\<close>

definition net_over :: "net_exchange \<Rightarrow> bool" where
  "net_over h \<longleftrightarrow> nx_fd h = -1 \<and> nx_mode h = 0 \<and> nx_callback h = None \<and> nx_data h = None"

definition net_live :: "net_exchange \<Rightarrow> bool" where
  "net_live h \<longleftrightarrow> nx_fd h \<in> set (nx_open h) \<and> nx_fd h \<noteq> -1 \<and> nx_calls h = []
     \<and> (\<exists>d. nx_data h = Some d
          \<and> (nx_callback h = Some HANDLE_IO_CONNECT \<and> nx_mode h = MONIKOR_IO_HANDLER_WR \<and> nx_sent h = []
           \<or> nx_callback h = Some HANDLE_IO_READ \<and> nx_mode h = MONIKOR_IO_HANDLER_RD
               \<and> nx_sent h = (case nd_send d of None \<Rightarrow> [] | Some s \<Rightarrow> [s])))"

fun attempt_ok :: "attempt \<Rightarrow> bool" where
  "attempt_ok No_Socket = True"
| "attempt_ok (Refused sock) = False"
| "attempt_ok (Connecting sock) = (sock \<noteq> -1)"

lemma net_over_step: "net_over h \<Longrightarrow> net_step ni h = Some h"
  by (simp add: net_over_def net_step_def)

lemma net_over_run: "net_over h \<Longrightarrow> net_run nis h = Some h"
  by (induction nis) (simp_all add: net_over_step)

lemma connect_err_over: "net_over (io_connect_err h)"
  by (simp add: net_over_def io_connect_err_def)

definition net_ok :: "net_exchange \<Rightarrow> bool" where
  "net_ok h \<longleftrightarrow> (if nx_fd h = -1 then net_over h \<and> nx_open h = [] \<and> length (nx_calls h) \<le> 1
     else net_live h \<and> nx_open h = [nx_fd h])"

lemma connect_err_ok: "nx_open h = [nx_fd h] \<Longrightarrow> length (nx_calls h) \<le> 1 \<Longrightarrow> net_ok (io_connect_err h)"
  by (simp add: net_ok_def connect_err_over) (simp add: io_connect_err_def)

lemma net_live_ok: "net_live h \<Longrightarrow> nx_open h = [nx_fd h] \<Longrightarrow> net_ok h"
  by (simp add: net_ok_def net_live_def)

lemma net_step_ok:
  assumes "net_ok h" and "attempt_ok (re_attempt (ni_ready ni))"
  shows "\<exists>h'. net_step ni h = Some h' \<and> net_ok h'"
proof (cases "nx_fd h = -1")
  case True
  with assms(1) show ?thesis by (simp add: net_ok_def net_over_step)
next
  case False
  with assms(1) obtain d where l: "nx_open h = [nx_fd h]" "nx_calls h = []" "nx_data h = Some d"
    and c: "nx_callback h = Some HANDLE_IO_CONNECT \<and> nx_mode h = MONIKOR_IO_HANDLER_WR \<and> nx_sent h = []
      \<or> nx_callback h = Some HANDLE_IO_READ \<and> nx_mode h = MONIKOR_IO_HANDLER_RD
          \<and> nx_sent h = (case nd_send d of None \<Rightarrow> [] | Some s \<Rightarrow> [s])"
    by (auto simp: net_ok_def net_live_def)
  from c show ?thesis
  proof
    assume r: "nx_callback h = Some HANDLE_IO_READ \<and> nx_mode h = MONIKOR_IO_HANDLER_RD
          \<and> nx_sent h = (case nd_send d of None \<Rightarrow> [] | Some s \<Rightarrow> [s])"
    then show ?thesis using l
      by (auto simp: net_step_def handle_io_read_def Let_def net_ok_def net_over_def split: prod.splits option.splits)
  next
    assume w: "nx_callback h = Some HANDLE_IO_CONNECT \<and> nx_mode h = MONIKOR_IO_HANDLER_WR \<and> nx_sent h = []"
    let ?re = "ni_ready ni"
    have step: "net_step ni h = handle_io_connect ?re h" using w by (simp add: net_step_def)
    show ?thesis
    proof (cases "re_error ?re")
      case True
      show ?thesis
      proof (cases "tl (nd_ai_cur d) = []")
        case True
        with \<open>re_error ?re\<close> l show ?thesis by (simp add: step handle_io_connect_def Let_def connect_err_ok)
      next
        case False
        with \<open>re_error ?re\<close> l w assms(2) \<open>nx_fd h \<noteq> -1\<close> show ?thesis
          by (cases "re_attempt ?re")
            (simp_all add: step handle_io_connect_def Let_def connect_err_ok net_live_ok net_live_def)
      qed
    next
      case False
      with l w \<open>nx_fd h \<noteq> -1\<close> show ?thesis
        by (cases "nd_send d") (simp_all add: step handle_io_connect_def connect_err_ok net_live_ok net_live_def)
    qed
  qed
qed

lemma net_run_ok:
  "net_ok h \<Longrightarrow> \<forall>ni\<in>set nis. attempt_ok (re_attempt (ni_ready ni)) \<Longrightarrow> \<exists>h'. net_run nis h = Some h' \<and> net_ok h'"
proof (induction nis arbitrary: h)
  case (Cons ni nis)
  then obtain h1 where "net_step ni h = Some h1" "net_ok h1" using net_step_ok by fastforce
  with Cons show ?case by simp
qed simp

lemma net_exchange_ok:
  assumes "monikor_net_exchange addrs att send al = Some (Some h, al')" and "attempt_ok att"
  shows "net_ok h"
  using assms
  by (cases att) (auto simp: monikor_net_exchange_def net_ok_def net_live_def monikor_io_handler_new_def or_null_eq_Some_iff
      split: option.splits prod.splits bind_splits if_splits)

subsection \<open>Addresses in turn\<close>

lemma net_recv_loop_eq: "net_recv_loop rs c al = read_fd_loop rs c al"
  by (induction rs arbitrary: c al)
    (simp_all add: net_recv_loop.simps or_null_def alloc_ret_def MNK_NET_RD_SZ_def MNK_READ_FILE_RD_SZ_def
      split: option.splits prod.splits)

lemma net_recv_file:
  assumes "alloc_ok al" and "cstr s"
  obtains al' where "monikor_net_recv (file_of s) al = (Some s, al')"
proof -
  obtain al' where "monikor_read_file (\<lambda>_. Some (file_of s)) [] al = (Some s, al')"
    using read_file_of [OF _ assms, of "\<lambda>_. Some (file_of s)"] by blast
  with that show ?thesis by (simp add: monikor_read_file_def monikor_read_fd_def monikor_net_recv_def net_recv_loop_eq)
qed

definition failed_input :: "cint \<Rightarrow> net_input" where
  "failed_input sock = \<lparr>ni_ready = \<lparr>re_error = True, re_attempt = Connecting sock, re_fcntl = True, re_write = True\<rparr>,
     ni_reads = [], ni_mem = []\<rparr>"

definition connected_input :: net_input where
  "connected_input = \<lparr>ni_ready = \<lparr>re_error = False, re_attempt = No_Socket, re_fcntl = True, re_write = True\<rparr>,
     ni_reads = [], ni_mem = []\<rparr>"

definition answer_input :: "string \<Rightarrow> alloc \<Rightarrow> net_input" where
  "answer_input s al = \<lparr>ni_ready = \<lparr>re_error = False, re_attempt = No_Socket, re_fcntl = True, re_write = True\<rparr>,
     ni_reads = file_of s, ni_mem = al\<rparr>"

lemma net_run_append: "net_run (a @ b) h = do { h \<leftarrow> net_run a h; net_run b h }"
  by (induction a arbitrary: h) (simp_all add: bind_assoc split: bind_splits)

lemma failed_step:
  assumes "nx_callback h = Some HANDLE_IO_CONNECT" and "nx_data h = Some d" and "1 < length (nd_ai_cur d)"
    and "nx_open h = [nx_fd h]" and "sock \<noteq> -1"
  shows "net_step (failed_input sock) h
    = Some (h\<lparr>nx_data := Some (d\<lparr>nd_ai_cur := tl (nd_ai_cur d)\<rparr>), nx_open := [sock], nx_fd := sock\<rparr>)"
proof -
  have "tl (nd_ai_cur d) \<noteq> []" using assms(3) by (cases "nd_ai_cur d") auto
  then show ?thesis using assms
    by (simp add: net_step_def handle_io_connect_def failed_input_def Let_def)
qed

lemma failed_steps:
  assumes "nx_callback h = Some HANDLE_IO_CONNECT" and "nx_data h = Some d" and "length socks < length (nd_ai_cur d)"
    and "nx_open h = [nx_fd h]" and "-1 \<notin> set socks" and "nx_sent h = []" and "nx_calls h = []"
  shows "\<exists>h'. net_run (map failed_input socks) h = Some h' \<and> nx_callback h' = Some HANDLE_IO_CONNECT
    \<and> nx_data h' = Some (d\<lparr>nd_ai_cur := drop (length socks) (nd_ai_cur d)\<rparr>) \<and> nx_open h' = [nx_fd h']
    \<and> nx_sent h' = [] \<and> nx_calls h' = []"
  using assms
proof (induction socks arbitrary: h d)
  case (Cons sock socks)
  let ?d = "d\<lparr>nd_ai_cur := tl (nd_ai_cur d)\<rparr>"
  let ?h = "h\<lparr>nx_data := Some ?d, nx_open := [sock], nx_fd := sock\<rparr>"
  have "net_step (failed_input sock) h = Some ?h" using Cons.prems by (intro failed_step) auto
  with Cons.IH [of ?h ?d] Cons.prems show ?case by (auto simp: drop_Suc)
qed simp

subsection \<open>Properties\<close>





text \<open>A socket that is refused at once is never closed.\<close>

lemma refused_attempt_leaks:
  assumes "nx_callback h = Some HANDLE_IO_CONNECT" and "nx_data h = Some d" and "1 < length (nd_ai_cur d)"
    and "nx_open h = [nx_fd h]" and "re_error re" and "re_attempt re = Refused sock" and "sock \<noteq> nx_fd h"
  shows "\<exists>h'. handle_io_connect re h = Some h' \<and> net_over h' \<and> nx_open h' = [sock]"
proof -
  have "tl (nd_ai_cur d) \<noteq> []" using assms(3) by (cases "nd_ai_cur d") auto
  with assms show ?thesis
    by (simp add: handle_io_connect_def io_connect_err_def net_over_def Let_def)
qed

end
