(* ===== verification/Service_Pollers.thy ===== *)
theory Service_Pollers
  imports Samples Net
begin

text \<open>
  The modules of \<open>lib/modules\<close> that question services: nginx and apache over HTTP, redis and memcached over
  TCP, and varnish through a command.  Their answers arrive in callbacks; \<open>None\<close> is a null pointer
  followed or a read past the end of a string.
\<close>

type_synonym poll_result = "agent \<times> cint \<times> alloc"

text \<open>\<open>if ((p = strstr(s, field))) ... strtoull(p + strlen(field), NULL, 10)\<close>\<close>

definition field_value :: "string \<Rightarrow> string \<Rightarrow> u64 option" where
  "field_value s field = map_option (\<lambda>p. fst (strtoull_10 (drop (length field) p))) (strstr s field)"

text \<open>A metric name with the instance of the module, if it has one.\<close>

definition instance_name :: "string \<Rightarrow> string option \<Rightarrow> string" where
  "instance_name name ins = (case ins of Some i \<Rightarrow> name @ ''.'' @ i | None \<Rightarrow> name)"

text \<open>\<open>if (strlen(instance) >= max) instance[max - 1] = 0\<close>\<close>

definition strip_instance :: "nat \<Rightarrow> string option \<Rightarrow> string option" where
  "strip_instance mx = map_option (\<lambda>i. if mx \<le> length i then take (mx - 1) i else i)"

subsection \<open>nginx\<close>

definition NGINX_DEFAULT_STATUS_URL :: string where "NGINX_DEFAULT_STATUS_URL = ''http://localhost/nginx-status''"
definition NGINX_TIMEOUT :: clong where "NGINX_TIMEOUT = 3"

definition nginx_init :: "cfg_dict \<Rightarrow> alloc \<Rightarrow> string \<times> alloc" where
  "nginx_init config al =
     (case monikor_config_dict_get_scalar config ''nginx.url'' al of
        (url, al) \<Rightarrow> (case url of Some u \<Rightarrow> u | None \<Rightarrow> NGINX_DEFAULT_STATUS_URL, al))"

definition nginx_poll :: "bool \<Rightarrow> string \<Rightarrow> agent \<Rightarrow> alloc \<Rightarrow> poll_result" where
  "nginx_poll easy_init data mon al =
     (case monikor_http_get easy_init data NGINX_TIMEOUT NGINX_POLL_METRICS mon al of
        (mon, r, al) \<Rightarrow> (mon, if r \<noteq> 0 then -1 else -2, al))"

definition fetch_qps :: "string \<Rightarrow> sample list" where
  "fetch_qps status =
     (case strstr status ''server accepts handled requests'' of
        None \<Rightarrow> []
      | Some metric \<Rightarrow>
          (case strchr metric (CHR 0x0A) of
             None \<Rightarrow> []
           | Some metric \<Rightarrow>
               (let metric = snd (strtoull_10 (tl metric)); metric = snd (strtoull_10 metric)
                in [Integer_Sample ''nginx.requests_per_second'' (fst (strtoull_10 metric)) MONIKOR_METRIC_TIMEDELTA])))"

definition fetch_conn_metric :: "string \<Rightarrow> string \<Rightarrow> u64 option" where
  "fetch_conn_metric status name = do {
     metric \<leftarrow> strstr status name;
     metric \<leftarrow> strchr metric (CHR '' '');
     Some (fst (strtoull_10 metric)) }"

definition nginx_fetch_metrics :: "string \<Rightarrow> sample list" where
  "nginx_fetch_metrics status =
     fetch_qps status
     @ (case fetch_conn_metric status ''Reading'' of None \<Rightarrow> [] | Some v \<Rightarrow> [Integer_Sample ''nginx.connections.reading'' v 0])
     @ (case fetch_conn_metric status ''Writing'' of None \<Rightarrow> [] | Some v \<Rightarrow> [Integer_Sample ''nginx.connections.writing'' v 0])
     @ (case fetch_conn_metric status ''Waiting'' of None \<Rightarrow> [] | Some v \<Rightarrow> [Integer_Sample ''nginx.connections.waiting'' v 0])"

definition nginx_poll_metrics :: "http_response \<Rightarrow> cint \<Rightarrow> timeval \<Rightarrow> agent \<Rightarrow> alloc \<Rightarrow> agent \<times> alloc" where
  "nginx_poll_metrics status result clock mon al =
     (case hr_data status of
        Some d \<Rightarrow>
          if result = 0 \<and> hr_code status = 200 then
            (case push_samples clock (nginx_fetch_metrics d) mon al of (mon, _, al) \<Rightarrow> (mon, al))
          else (mon, al)
      | None \<Rightarrow> (mon, al))"

subsection \<open>apache\<close>

definition APACHE_DEFAULT_STATUS_URL :: string where "APACHE_DEFAULT_STATUS_URL = ''http://localhost/server-status?auto''"
definition APACHE_TIMEOUT :: clong where "APACHE_TIMEOUT = 5"

text \<open>\<open>asprintf\<close> and \<open>strdup\<close> ask the allocator.\<close>

definition apache_init :: "cfg_dict \<Rightarrow> alloc \<Rightarrow> string option \<times> alloc" where
  "apache_init config al =
     (case monikor_config_dict_get_scalar config ''apache.url'' al of
        (None, al) \<Rightarrow> strdup APACHE_DEFAULT_STATUS_URL al
      | (Some config_url, al) \<Rightarrow>
          (let url_len = length config_url; auto_len = length ''?auto'' in
           if url_len \<le> auto_len \<or> drop (url_len - auto_len) config_url \<noteq> ''?auto''
           then strdup (config_url @ ''?auto'') al
           else strdup config_url al))"

definition apache_metrics :: "(string \<times> string \<times> u8) list" where
  "apache_metrics =
    [(''apache.workers.busy'', ''BusyWorkers:'', 0), (''apache.workers.idle'', ''IdleWorkers:'', 0),
     (''apache.workers.requests_per_second'', ''Total Accesses:'', MONIKOR_METRIC_TIMEDELTA),
     (''apache.workers.bytes_per_second'', ''Total kBytes:'', MONIKOR_METRIC_TIMEDELTA)]"

definition apache_fetch_metric :: "string \<Rightarrow> string \<Rightarrow> u64 option" where
  "apache_fetch_metric apache_status name = field_value apache_status name"

fun apache_loop :: "(string \<times> string \<times> u8) list \<Rightarrow> string \<Rightarrow> u64 \<Rightarrow> sample list" where
  "apache_loop [] status total_workers = [Integer_Sample ''apache.workers.total'' total_workers 0]"
| "apache_loop ((name, field_name, flags) # rest) status total_workers =
     (case apache_fetch_metric status field_name of
        None \<Rightarrow> apache_loop rest status total_workers
      | Some value \<Rightarrow>
          (let value = (if name = ''apache.workers.bytes_per_second'' then value * 1024 else value);
               total_workers = (if name = ''apache.workers.busy'' \<or> name = ''apache.workers.idle''
                                then total_workers + value else total_workers)
           in Integer_Sample name value flags # apache_loop rest status total_workers))"

text \<open>An answer without a body has a null \<open>data\<close>.\<close>

definition apache_fetch_metrics :: "http_response \<Rightarrow> cint \<Rightarrow> timeval \<Rightarrow> agent \<Rightarrow> alloc \<Rightarrow> (agent \<times> alloc) option" where
  "apache_fetch_metrics status result clock mon al =
     (if result \<noteq> 0 \<or> hr_code status \<noteq> 200 then Some (mon, al)
      else do {
        d \<leftarrow> hr_data status;
        case push_samples clock (apache_loop apache_metrics d 0) mon al of (mon, _, al) \<Rightarrow> Some (mon, al) })"

definition apache_poll_metrics :: "bool \<Rightarrow> string \<Rightarrow> agent \<Rightarrow> alloc \<Rightarrow> poll_result" where
  "apache_poll_metrics easy_init url mon al =
     (case monikor_http_get easy_init url APACHE_TIMEOUT APACHE_FETCH_METRICS mon al of
        (mon, r, al) \<Rightarrow> (mon, if r \<noteq> 0 then -1 else -2, al))"

definition apache_poll :: "bool \<Rightarrow> string option \<Rightarrow> agent \<Rightarrow> alloc \<Rightarrow> poll_result" where
  "apache_poll easy_init data mon al =
     (case data of None \<Rightarrow> (mon, -1, al) | Some url \<Rightarrow> apache_poll_metrics easy_init url mon al)"

end
