(* ===== verification/Handlers.thy ===== *)
theory Handlers
  imports IO_Poll Net
begin

text \<open>
  The handlers that modules keep between their polls, in the lists of the agent: those of an exchange
  (\<open>src/utils/net.c\<close>) and the two of a command (\<open>src/utils/command.c\<close>).  The state beside the lists holds the descriptors the
  modules have open and the memory of the commands: a command and the address of its output handler.
\<close>

datatype io_callback = NET_IO net_callback "net_data option" | COMMAND_OUTPUT nat

datatype process_callback = HANDLE_PROCESS_EXIT nat | REAP_PROCESS

record module_state =
  ms_open :: "cint list"
  ms_commands :: "nat \<Rightarrow> (command_exec \<times> nat) option"

text \<open>What does not depend on the callbacks is stated for any.\<close>

type_synonym ('i, 'c, 'p) module_lists = "('i, 'c, 'p, module_state) io_world"
type_synonym module_world = "(io_callback, unit, process_callback) module_lists"

definition with_state :: "module_state \<Rightarrow> ('i, 'c, 'p) module_lists \<Rightarrow> ('i, 'c, 'p) module_lists" where
  "with_state s w = w\<lparr>iw_state := s\<rparr>"

lemma with_state_simps [simp]:
  "io_of (with_state s w) = io_of w" "processes_of (with_state s w) = processes_of w" "iw_state (with_state s w) = s"
  by (simp_all add: with_state_def io_of_def processes_of_def)

subsection \<open>Commands\<close>

text \<open>\<open>handler->data\<close>: the address of the command, the command and the address of its output handler.\<close>

definition command_of :: "nat \<Rightarrow> module_world \<Rightarrow> (nat \<times> command_exec \<times> nat) option" where
  "command_of handler w = do {
     n \<leftarrow> dl_heap (processes_of w) handler;
     (case ph_callback (dn_data n) of
        Some (HANDLE_PROCESS_EXIT c) \<Rightarrow> map_option (\<lambda>(cmd, oh). (c, cmd, oh)) (ms_commands (iw_state w) c)
      | _ \<Rightarrow> None) }"

definition monikor_command_register_io_handlers :: "nat \<Rightarrow> module_world \<Rightarrow> module_world option" where
  "monikor_command_register_io_handlers handler w = do {
     (_, _, oh) \<leftarrow> command_of handler w;
     w \<leftarrow> monikor_register_process handler w;
     monikor_register_io_handler oh w }"

definition monikor_command_unregister_io_handlers :: "nat \<Rightarrow> module_world \<Rightarrow> module_world option" where
  "monikor_command_unregister_io_handlers handler w = do {
     (_, _, oh) \<leftarrow> command_of handler w;
     w \<leftarrow> monikor_unregister_io_handler oh w;
     monikor_unregister_process handler w }"

text \<open>The descriptor of the output handler is not closed.\<close>

definition monikor_command_free :: "nat \<Rightarrow> module_world \<Rightarrow> module_world option" where
  "monikor_command_free handler w = do {
     (c, _, oh) \<leftarrow> command_of handler w;
     let w = with_io (dll_free (io_of w) oh) w;
     let w = with_state ((iw_state w)\<lparr>ms_commands := (ms_commands (iw_state w))(c := None)\<rparr>) w;
     Some (with_processes (dll_free (processes_of w) handler) w) }"

text \<open>What \<open>monikor_command_exec\<close> leaves in memory: the process handler at \<open>h\<close>, the command at \<open>c\<close>, its
  output handler at \<open>oh\<close> and the open end of the pipe.\<close>

definition place_command :: "nat \<Rightarrow> nat \<Rightarrow> nat \<Rightarrow> command_exec \<Rightarrow> module_world \<Rightarrow> module_world" where
  "place_command h c oh cmd w =
     with_state \<lparr>ms_open = ms_open (iw_state w) @ [ce_fd cmd], ms_commands = (ms_commands (iw_state w))(c \<mapsto> (cmd, oh))\<rparr>
      (with_io (dll_alloc (io_of w) oh
         \<lparr>dn_data = \<lparr>ih_fd = ce_fd cmd, ih_mode = MONIKOR_IO_HANDLER_RD, ih_callback = Some (COMMAND_OUTPUT c)\<rparr>,
          dn_prev = None, dn_next = None\<rparr>)
       (with_processes (dll_alloc (processes_of w) h
         \<lparr>dn_data = \<lparr>ph_pid = ce_pid cmd, ph_callback = Some (HANDLE_PROCESS_EXIT c)\<rparr>, dn_prev = None, dn_next = None\<rparr>) w))"

subsection \<open>Exchanges\<close>

definition exchange_node :: "net_exchange \<Rightarrow> io_callback io_handler dnode" where
  "exchange_node h =
     \<lparr>dn_data = \<lparr>ih_fd = nx_fd h, ih_mode = nx_mode h, ih_callback = map_option (\<lambda>c. NET_IO c (nx_data h)) (nx_callback h)\<rparr>,
      dn_prev = None, dn_next = None\<rparr>"

text \<open>What the modules do with the handler of the last exchange before a new one and in their cleanups.\<close>

definition release_exchange :: "nat \<Rightarrow> ('i, 'c, 'p) module_lists \<Rightarrow> ('i, 'c, 'p) module_lists option" where
  "release_exchange h w = do {
     w \<leftarrow> monikor_unregister_io_handler h w;
     n \<leftarrow> dl_heap (io_of w) h;
     let w = (if ih_fd (dn_data n) \<noteq> -1
              then with_state ((iw_state w)\<lparr>ms_open := remove1 (ih_fd (dn_data n)) (ms_open (iw_state w))\<rparr>) w else w);
     Some (with_io (dll_free (io_of w) h) w) }"

definition register_exchange :: "nat \<Rightarrow> net_exchange \<Rightarrow> module_world \<Rightarrow> module_world option" where
  "register_exchange addr h w =
     monikor_register_io_handler addr
       (with_state ((iw_state w)\<lparr>ms_open := ms_open (iw_state w) @ nx_open h\<rparr>)
         (with_io (dll_alloc (io_of w) addr (exchange_node h)) w))"

subsection \<open>The lists\<close>

text \<open>The registered handlers of descriptors and of processes.\<close>

definition handlers_are :: "('i, 'c, 'p) module_lists \<Rightarrow> nat list \<Rightarrow> nat list \<Rightarrow> bool" where
  "handlers_are w xs ps \<longleftrightarrow> dll_is (io_of w) xs \<and> dll_is (processes_of w) ps"

definition io_data :: "('i, 'c, 'p) module_lists \<Rightarrow> nat \<Rightarrow> 'i io_handler option" where
  "io_data w a = map_option dn_data (dl_heap (io_of w) a)"

definition process_data :: "('i, 'c, 'p) module_lists \<Rightarrow> nat \<Rightarrow> 'p process_handler option" where
  "process_data w a = map_option dn_data (dl_heap (processes_of w) a)"

definition same_data :: "('i, 'c, 'p) module_lists \<Rightarrow> ('i, 'c, 'p) module_lists \<Rightarrow> bool" where
  "same_data w w' \<longleftrightarrow> io_data w' = io_data w \<and> process_data w' = process_data w \<and> iw_state w' = iw_state w"

lemma same_data_trans: "same_data a b \<Longrightarrow> same_data b c \<Longrightarrow> same_data a c"
  by (simp add: same_data_def)

lemma command_of_data:
  "command_of h w = (case process_data w h of
     Some d \<Rightarrow> (case ph_callback d of
        Some (HANDLE_PROCESS_EXIT c) \<Rightarrow> map_option (\<lambda>(cmd, oh). (c, cmd, oh)) (ms_commands (iw_state w) c) | _ \<Rightarrow> None)
   | None \<Rightarrow> None)"
  by (auto simp: command_of_def process_data_def split: option.splits bind_splits)

lemma command_of_cong:
  "process_data w' h = process_data w h \<Longrightarrow> iw_state w' = iw_state w \<Longrightarrow> command_of h w' = command_of h w"
  by (simp add: command_of_data split: option.split process_callback.split)

lemma command_of_same: "same_data w w' \<Longrightarrow> command_of h w' = command_of h w"
  by (rule command_of_cong) (simp_all add: same_data_def)

definition unlinked :: "'a dll \<Rightarrow> nat \<Rightarrow> bool" where
  "unlinked l a \<longleftrightarrow> (\<exists>n. dl_heap l a = Some n \<and> dn_prev n = None \<and> dn_next n = None)"

lemma register_io_ok:
  assumes "handlers_are w xs ps" and "h \<notin> set xs" and "unlinked (io_of w) h"
  obtains w' where "monikor_register_io_handler h w = Some w'" and "handlers_are w' (xs @ [h]) ps" and "same_data w w'"
    and "processes_of w' = processes_of w"
proof -
  from assms obtain n where n: "dl_heap (io_of w) h = Some n" "dn_prev n = None" "dn_next n = None" by (auto simp: unlinked_def)
  from io_list.push_ok [OF _ assms(2) n] assms(1) show ?thesis
    by (auto simp: handlers_are_def monikor_register_io_handler_def same_data_def io_data_def process_data_def fun_eq_iff
        intro!: that)
qed

lemma register_process_ok:
  assumes "handlers_are w xs ps" and "h \<notin> set ps" and "unlinked (processes_of w) h"
  obtains w' where "monikor_register_process h w = Some w'" and "handlers_are w' xs (ps @ [h])" and "same_data w w'"
    and "io_of w' = io_of w"
proof -
  from assms obtain n where n: "dl_heap (processes_of w) h = Some n" "dn_prev n = None" "dn_next n = None" by (auto simp: unlinked_def)
  from process_list.push_ok [OF _ assms(2) n] assms(1) show ?thesis
    by (auto simp: handlers_are_def monikor_register_process_def same_data_def io_data_def process_data_def fun_eq_iff
        intro!: that)
qed

lemma unregister_io_ok:
  assumes "handlers_are w xs ps" and "h \<in> set xs"
  obtains w' where "monikor_unregister_io_handler h w = Some w'" and "handlers_are w' (remove1 h xs) ps" and "same_data w w'"
proof -
  from assms(2) obtain as bs where xs: "xs = as @ h # bs" "h \<notin> set as" by (meson split_list_first)
  then have "remove1 h xs = as @ bs" by (simp add: remove1_append)
  with io_list.remove_ok [of "io_of w" as h bs] assms(1) xs show ?thesis
    by (auto simp: handlers_are_def monikor_unregister_io_handler_def same_data_def io_data_def process_data_def fun_eq_iff
        intro!: that)
qed

lemma unregister_process_ok:
  assumes "handlers_are w xs ps" and "h \<in> set ps"
  obtains w' where "monikor_unregister_process h w = Some w'" and "handlers_are w' xs (remove1 h ps)" and "same_data w w'"
proof -
  from assms(2) obtain as bs where xs: "ps = as @ h # bs" "h \<notin> set as" by (meson split_list_first)
  then have "remove1 h ps = as @ bs" by (simp add: remove1_append)
  with process_list.remove_ok [of "processes_of w" as h bs] assms(1) xs show ?thesis
    by (auto simp: handlers_are_def monikor_unregister_process_def same_data_def io_data_def process_data_def fun_eq_iff
        intro!: that)
qed

declare dll_is_heap_update [simp]

lemma unlinked_alloc [simp]:
  "unlinked (dll_alloc l a \<lparr>dn_data = d, dn_prev = None, dn_next = None\<rparr>) a"
  by (simp add: unlinked_def dll_alloc_def)

text \<open>What frees and allocations do to the data.\<close>

lemma data_simps [simp]:
  "process_data (with_processes (dll_free (processes_of w) b) w) a = (if a = b then None else process_data w a)"
  "process_data (with_processes (dll_alloc (processes_of w) b n) w) a = (if a = b then Some (dn_data n) else process_data w a)"
  "io_data (with_io (dll_free (io_of w) b) w) a = (if a = b then None else io_data w a)"
  "io_data (with_io (dll_alloc (io_of w) b m) w) a = (if a = b then Some (dn_data m) else io_data w a)"
  "process_data (with_io l w) = process_data w" "process_data (with_state s w) = process_data w"
  "io_data (with_processes l' w) = io_data w" "io_data (with_state s w) = io_data w"
  by (auto simp: process_data_def io_data_def dll_free_def dll_alloc_def fun_eq_iff)

lemma handlers_are_simps [simp]:
  "handlers_are (with_state s w) xs ps \<longleftrightarrow> handlers_are w xs ps"
  "handlers_are (with_io l w) xs ps \<longleftrightarrow> dll_is l xs \<and> dll_is (processes_of w) ps"
  "handlers_are (with_processes l' w) xs ps \<longleftrightarrow> dll_is (io_of w) xs \<and> dll_is l' ps"
  by (simp_all add: handlers_are_def)

subsection \<open>Registering a command\<close>

lemma command_register_ok:
  assumes "handlers_are w xs ps" and "command_of h w = Some (c, cmd, oh)" and "h \<notin> set ps" and "oh \<notin> set xs"
    and "unlinked (processes_of w) h" and "unlinked (io_of w) oh"
  obtains w' where "monikor_command_register_io_handlers h w = Some w'" and "handlers_are w' (xs @ [oh]) (ps @ [h])" and "same_data w w'"
proof -
  obtain w1 where 1: "monikor_register_process h w = Some w1" "handlers_are w1 xs (ps @ [h])" "same_data w w1" "io_of w1 = io_of w"
    using assms(1,3,5) by (rule register_process_ok)
  obtain w2 where "monikor_register_io_handler oh w1 = Some w2" "handlers_are w2 (xs @ [oh]) (ps @ [h])" "same_data w1 w2"
    using 1(2) assms(4) assms(6)[folded 1(4)] by (rule register_io_ok)
  with 1 assms(2) that show ?thesis
    by (auto simp: monikor_command_register_io_handlers_def intro: same_data_trans)
qed

lemma command_unregister_ok:
  assumes "handlers_are w xs ps" and "command_of h w = Some (c, cmd, oh)" and "h \<in> set ps" and "oh \<in> set xs"
  obtains w' where "monikor_command_unregister_io_handlers h w = Some w'" and "handlers_are w' (remove1 oh xs) (remove1 h ps)"
    and "same_data w w'"
proof -
  obtain w1 where 1: "monikor_unregister_io_handler oh w = Some w1" "handlers_are w1 (remove1 oh xs) ps" "same_data w w1"
    using assms(1,4) by (rule unregister_io_ok)
  obtain w2 where "monikor_unregister_process h w1 = Some w2" "handlers_are w2 (remove1 oh xs) (remove1 h ps)" "same_data w1 w2"
    using 1(2) assms(3) by (rule unregister_process_ok)
  with 1 assms(2) that show ?thesis
    by (auto simp: monikor_command_unregister_io_handlers_def intro: same_data_trans)
qed

lemma command_free_ok:
  assumes "handlers_are w xs ps" and "command_of h w = Some (c, cmd, oh)" and "h \<notin> set ps" and "oh \<notin> set xs"
  shows "\<exists>w'. monikor_command_free h w = Some w' \<and> handlers_are w' xs ps \<and> ms_open (iw_state w') = ms_open (iw_state w)
    \<and> (\<forall>a. process_data w' a = (if a = h then None else process_data w a))
    \<and> (\<forall>a. io_data w' a = (if a = oh then None else io_data w a)) \<and> ms_commands (iw_state w') = (ms_commands (iw_state w))(c := None)"
proof -
  let ?w = "with_state ((iw_state w)\<lparr>ms_commands := (ms_commands (iw_state w))(c := None)\<rparr>) (with_io (dll_free (io_of w) oh) w)"
  have f: "monikor_command_free h w = Some (with_processes (dll_free (processes_of ?w) h) ?w)"
    using assms(2) by (simp add: monikor_command_free_def Let_def)
  have "process_data (with_processes (dll_free (processes_of ?w) h) ?w) a = (if a = h then None else process_data w a)" for a
    unfolding data_simps(1) by simp
  with assms show ?thesis unfolding f by (simp add: handlers_are_def)
qed

subsection \<open>Replacing an exchange\<close>

definition close_open :: "cint \<Rightarrow> cint list \<Rightarrow> cint list" where
  "close_open fd fds = (if fd \<noteq> -1 then remove1 fd fds else fds)"

lemma release_exchange_ok:
  assumes "handlers_are w xs ps" and "h \<in> set xs" and "io_data w h = Some d"
  shows "\<exists>w'. release_exchange h w = Some w' \<and> handlers_are w' (remove1 h xs) ps
    \<and> ms_open (iw_state w') = close_open (ih_fd d) (ms_open (iw_state w)) \<and> (\<forall>a. io_data w' a = (if a = h then None else io_data w a))
    \<and> process_data w' = process_data w \<and> ms_commands (iw_state w') = ms_commands (iw_state w)"
proof -
  obtain w1 where 1: "monikor_unregister_io_handler h w = Some w1" "handlers_are w1 (remove1 h xs) ps" "same_data w w1"
    using assms(1,2) by (rule unregister_io_ok)
  from 1(3) assms(3) have "io_data w1 h = Some d" by (simp add: same_data_def)
  then obtain n where n: "dl_heap (io_of w1) h = Some n" "dn_data n = d" by (auto simp: io_data_def)
  let ?w = "if ih_fd d \<noteq> -1 then with_state ((iw_state w1)\<lparr>ms_open := remove1 (ih_fd d) (ms_open (iw_state w1))\<rparr>) w1 else w1"
  have r: "release_exchange h w = Some (with_io (dll_free (io_of ?w) h) ?w)"
    using 1(1) n by (simp add: release_exchange_def Let_def)
  have "distinct xs" using assms(1) by (simp add: handlers_are_def dll_is_def)
  then have "h \<notin> set (remove1 h xs)" by simp
  moreover have "io_data (with_io (dll_free (io_of ?w) h) ?w) a = (if a = h then None else io_data w a)" for a
    unfolding data_simps(3) using 1(3) by (simp add: same_data_def)
  ultimately show ?thesis using 1(2,3) unfolding r by (auto simp: handlers_are_def close_open_def same_data_def)
qed

lemma register_exchange_ok:
  assumes "handlers_are w xs ps" and "a \<notin> set xs"
  shows "\<exists>w'. register_exchange a x w = Some w' \<and> handlers_are w' (xs @ [a]) ps
    \<and> ms_open (iw_state w') = ms_open (iw_state w) @ nx_open x
    \<and> (\<forall>b. io_data w' b = (if b = a then Some (dn_data (exchange_node x)) else io_data w b))
    \<and> process_data w' = process_data w \<and> ms_commands (iw_state w') = ms_commands (iw_state w)"
proof -
  let ?w = "with_state ((iw_state w)\<lparr>ms_open := ms_open (iw_state w) @ nx_open x\<rparr>) (with_io (dll_alloc (io_of w) a (exchange_node x)) w)"
  have "handlers_are ?w xs ps" using assms by (simp add: handlers_are_def)
  moreover have "unlinked (io_of ?w) a" by (simp add: exchange_node_def)
  ultimately obtain w' where "monikor_register_io_handler a ?w = Some w'" "handlers_are w' (xs @ [a]) ps" "same_data ?w w'"
    using assms(2) register_io_ok by blast
  then show ?thesis by (auto simp: register_exchange_def same_data_def)
qed

subsection \<open>Starting a command\<close>

lemma command_handlers_placed:
  assumes "handlers_are w xs ps" and "h \<notin> set ps" and "oh \<notin> set xs"
  shows "\<exists>w'. monikor_command_register_io_handlers h (place_command h c oh cmd w) = Some w'
    \<and> handlers_are w' (xs @ [oh]) (ps @ [h]) \<and> command_of h w' = Some (c, cmd, oh)
    \<and> ms_open (iw_state w') = ms_open (iw_state w) @ [ce_fd cmd]"
proof -
  let ?w = "place_command h c oh cmd w"
  have p: "handlers_are ?w xs ps" "unlinked (processes_of ?w) h" "unlinked (io_of ?w) oh" "command_of h ?w = Some (c, cmd, oh)"
    using assms by (simp_all add: place_command_def handlers_are_def) (simp add: command_of_def dll_alloc_def)
  obtain w1 where "monikor_command_register_io_handlers h ?w = Some w1" "handlers_are w1 (xs @ [oh]) (ps @ [h])" "same_data ?w w1"
    using p(1,4) assms(2,3) p(2,3) by (rule command_register_ok)
  with command_of_same [of ?w w1 h] p(4) show ?thesis by (auto simp: same_data_def place_command_def)
qed

subsection \<open>Properties\<close>

text \<open>C25: Registering the handlers of a command appends them to the two lists of the agent.  Unregistering and freeing
  them brings back the lists as they were and leaves none of the command's memory, however many other
  handlers there are.  The descriptors that are open stay open.\<close>

theorem command_handlers_roundtrip:
  assumes "handlers_are w xs ps" and "h \<notin> set ps" and "oh \<notin> set xs"
  shows "\<exists>w1 w2 w3. monikor_command_register_io_handlers h (place_command h c oh cmd w) = Some w1
    \<and> handlers_are w1 (xs @ [oh]) (ps @ [h]) \<and> command_of h w1 = Some (c, cmd, oh)
    \<and> monikor_command_unregister_io_handlers h w1 = Some w2 \<and> monikor_command_free h w2 = Some w3
    \<and> handlers_are w3 xs ps \<and> process_data w3 h = None \<and> io_data w3 oh = None \<and> ms_commands (iw_state w3) c = None
    \<and> ms_open (iw_state w3) = ms_open (iw_state w) @ [ce_fd cmd]"
proof -
  obtain w1 where 1: "monikor_command_register_io_handlers h (place_command h c oh cmd w) = Some w1"
    "handlers_are w1 (xs @ [oh]) (ps @ [h])" "ms_open (iw_state w1) = ms_open (iw_state w) @ [ce_fd cmd]"
    and c1: "command_of h w1 = Some (c, cmd, oh)"
    using command_handlers_placed [OF assms] by blast
  obtain w2 where 2: "monikor_command_unregister_io_handlers h w1 = Some w2" "same_data w1 w2"
    "handlers_are w2 (remove1 oh (xs @ [oh])) (remove1 h (ps @ [h]))"
    using command_unregister_ok [OF 1(2) c1] by auto
  have "handlers_are w2 xs ps" using 2(3) assms(2,3) by (simp add: remove1_append)
  from command_free_ok [OF this _ assms(2,3), of c cmd] command_of_same [OF 2(2)] c1 obtain w3 where
    "monikor_command_free h w2 = Some w3" "handlers_are w3 xs ps" "process_data w3 h = None" "io_data w3 oh = None"
    "ms_commands (iw_state w3) c = None" "ms_open (iw_state w3) = ms_open (iw_state w2)" by auto
  moreover have "ms_open (iw_state w2) = ms_open (iw_state w) @ [ce_fd cmd]"
    using 1(3) 2(2) by (simp add: same_data_def)
  ultimately show ?thesis using 1(1,2) c1 2(1) by (intro exI [of _ w1] exI [of _ w2] exI [of _ w3]) simp
qed

text \<open>An agent without handlers.\<close>

definition empty_world :: module_world where
  "empty_world = \<lparr>iw_lists = \<lparr>hl_io = empty_dll Map.empty, hl_curl = \<lparr>cl_multi = [], cl_handlers = empty_dll Map.empty\<rparr>,
     hl_processes = empty_dll Map.empty\<rparr>, iw_state = \<lparr>ms_open = [], ms_commands = Map.empty\<rparr>\<rparr>"

lemma empty_world_handlers: "handlers_are empty_world [] []"
  by (simp add: empty_world_def handlers_are_def io_of_def processes_of_def empty_dll_def dll_is_def)

definition sample_command :: command_exec where
  "sample_command = \<lparr>ce_state = 0, ce_pid = 42, ce_status = 0, ce_fd = 7, ce_output = None, ce_output_size = 0,
     ce_callback = True, ce_calls = []\<rparr>"

theorem command_handlers_roundtrip_witness:
  "\<exists>w1. monikor_command_register_io_handlers 1 (place_command 1 2 3 sample_command empty_world) = Some w1
     \<and> handlers_are w1 [3] [1]"
  using command_handlers_roundtrip [OF empty_world_handlers, of 1 3 2 sample_command] by auto

end
