(* ===== verification/Net_Pollers.thy ===== *)
theory Net_Pollers
  imports Service_Pollers Handlers
begin

text \<open>
  The modules redis, memcached and varnish: the exchange or the command that each starts when it is polled,
  and the samples its callback finds in the answer.
\<close>

subsection \<open>redis\<close>

definition MONIKOR_REDIS_DEFAULT_HOST :: string where "MONIKOR_REDIS_DEFAULT_HOST = ''localhost''"
definition MONIKOR_REDIS_DEFAULT_PORT :: string where "MONIKOR_REDIS_DEFAULT_PORT = ''6379''"
definition MONIKOR_REDIS_MAX_INSTANCE_LENGTH :: nat where "MONIKOR_REDIS_MAX_INSTANCE_LENGTH = 42"

abbreviation crlf :: string where "crlf \<equiv> [CHR 0x0D, CHR 0x0A]"

definition INFO_COMMAND :: string where "INFO_COMMAND = ''INFO'' @ crlf"

record redis_module =
  rm_host :: string
  rm_port :: string
  rm_instance :: "string option"
  rm_auth :: "string option"
  rm_io_handler :: "nat option"

text \<open>\<open>asprintf("*2\r\n$4\r\nAUTH\r\n$%zu\r\n%s\r\n%s", ...)\<close>; the length is a \<open>size_t\<close>.\<close>

definition auth_command :: "string \<Rightarrow> string" where
  "auth_command auth =
     ''*2'' @ crlf @ ''$4'' @ crlf @ ''AUTH'' @ crlf @ ''$'' @ dec_digits (length auth) @ crlf @ auth @ crlf @ INFO_COMMAND"

text \<open>
  The module and the static \<open>info_command\<close> of the library, which all its modules share.  A failed
  \<open>asprintf\<close> leaves it null, as the GNU library does.
\<close>

definition redis_init :: "cfg_dict \<Rightarrow> string option \<Rightarrow> alloc \<Rightarrow> redis_module option \<times> string option \<times> alloc" where
  "redis_init config info_command al =
     (case malloc al of
        (None, al) \<Rightarrow> (None, info_command, al)
      | (Some _, al) \<Rightarrow>
          (case monikor_config_dict_get_scalar config ''redis.host'' al of (host, al) \<Rightarrow>
           case monikor_config_dict_get_scalar config ''redis.port'' al of (port, al) \<Rightarrow>
           case monikor_config_dict_get_scalar config ''redis.instance'' al of (ins, al) \<Rightarrow>
           case monikor_config_dict_get_scalar config ''redis.auth'' al of (auth, al) \<Rightarrow>
             (let mdl = \<lparr>rm_host = (case host of Some h \<Rightarrow> h | None \<Rightarrow> MONIKOR_REDIS_DEFAULT_HOST),
                         rm_port = (case port of Some p \<Rightarrow> p | None \<Rightarrow> MONIKOR_REDIS_DEFAULT_PORT),
                         rm_instance = strip_instance MONIKOR_REDIS_MAX_INSTANCE_LENGTH ins,
                         rm_auth = auth, rm_io_handler = None\<rparr>
              in (case auth of
                    None \<Rightarrow> (Some mdl, info_command, al)
                  | Some a \<Rightarrow> (case strdup (auth_command a) al of (cmd, al) \<Rightarrow> (Some mdl, cmd, al))))))"

text \<open>
  The handler of the last poll is taken out and freed, with its descriptor if it still has one, before the
  new exchange starts; \<open>addr\<close> is where the new handler is.  The \<open>None\<close> result is undefined behaviour.
\<close>

definition redis_poll ::
  "string list option \<Rightarrow> attempt \<Rightarrow> nat \<Rightarrow> redis_module option \<Rightarrow> string option \<Rightarrow> module_world \<Rightarrow> alloc
     \<Rightarrow> (redis_module option \<times> cint \<times> module_world \<times> alloc) option" where
  "redis_poll addrs att addr data info_command w al =
     (case data of
        None \<Rightarrow> Some (None, -1, w, al)
      | Some mdl \<Rightarrow> do {
          w \<leftarrow> (case rm_io_handler mdl of None \<Rightarrow> Some w | Some h \<Rightarrow> release_exchange h w);
          (h, al) \<leftarrow> monikor_net_exchange addrs att (Some (case info_command of Some c \<Rightarrow> c | None \<Rightarrow> INFO_COMMAND)) al;
          (case h of
             None \<Rightarrow> Some (Some (mdl\<lparr>rm_io_handler := None\<rparr>), -1, w, al)
           | Some h \<Rightarrow> do {
               w \<leftarrow> register_exchange addr h w;
               Some (Some (mdl\<lparr>rm_io_handler := Some addr\<rparr>), -2, w, al) }) })"

definition redis_cleanup :: "redis_module \<Rightarrow> ('i, 'c, 'p) module_lists \<Rightarrow> ('i, 'c, 'p) module_lists option" where
  "redis_cleanup mdl w = (case rm_io_handler mdl of None \<Rightarrow> Some w | Some h \<Rightarrow> release_exchange h w)"

definition redis_metrics :: "(string \<times> string \<times> u8) list" where
  "redis_metrics =
    [(''total_commands_processed'', ''requests_per_second'', MONIKOR_METRIC_TIMEDELTA),
     (''keyspace_hits'', ''keyspace.hits'', MONIKOR_METRIC_DELTA), (''keyspace_misses'', ''keyspace.misses'', MONIKOR_METRIC_DELTA),
     (''evicted_keys'', ''keyspace.evictions'', MONIKOR_METRIC_DELTA), (''expired_keys'', ''keyspace.expirations'', MONIKOR_METRIC_DELTA),
     (''used_memory'', ''size'', 0), (''connected_clients'', ''connections.active'', 0), (''blocked_clients'', ''connections.blocked'', 0)]"

fun redis_base_samples :: "(string \<times> string \<times> u8) list \<Rightarrow> string option \<Rightarrow> string \<Rightarrow> sample list" where
  "redis_base_samples [] ins status = []"
| "redis_base_samples ((field, name, flags) # rest) ins status =
     (case field_value status (field @ '':'') of
        None \<Rightarrow> redis_base_samples rest ins status
      | Some v \<Rightarrow> Integer_Sample (instance_name (''redis.'' @ name) ins) v flags # redis_base_samples rest ins status)"

definition poll_base_metrics :: "string \<Rightarrow> redis_module \<Rightarrow> timeval \<Rightarrow> agent \<Rightarrow> alloc \<Rightarrow> agent \<times> alloc" where
  "poll_base_metrics status mdl clock mon al =
     (case push_samples clock (redis_base_samples redis_metrics (rm_instance mdl) status) mon al of (mon, _, al) \<Rightarrow> (mon, al))"

function keys_loop :: "string \<Rightarrow> u64 \<Rightarrow> u64" where
  "keys_loop metric count =
     (case strstr metric '':keys='' of
        None \<Rightarrow> count
      | Some m \<Rightarrow> (let m = drop 6 m in keys_loop m (count + strtoull_0 m)))"
  by auto
termination
proof (relation "measure (\<lambda>(metric, count). length metric)")
  fix metric count m m'
  assume "strstr metric '':keys='' = Some m" and "m' = drop 6 m"
  then have "length m' < length m \<and> length m \<le> length metric"
    using strstr_prefix [of metric "'':keys=''" m] strstr_length [of metric "'':keys=''" m] by (cases m) auto
  then show "((m', count + strtoull_0 m'), metric, count) \<in> measure (\<lambda>(metric, count). length metric)" by simp
qed simp

declare keys_loop.simps [simp del]

definition poll_keys_metrics :: "string \<Rightarrow> redis_module \<Rightarrow> timeval \<Rightarrow> agent \<Rightarrow> alloc \<Rightarrow> agent \<times> alloc" where
  "poll_keys_metrics status mdl clock mon al =
     (case strstr status ''# Keyspace'' of
        None \<Rightarrow> (mon, al)
      | Some metric \<Rightarrow>
          (case push_samples clock
                  [Integer_Sample (instance_name ''redis.keyspace.keys'' (rm_instance mdl)) (keys_loop metric 0) 0] mon al of
             (mon, _, al) \<Rightarrow> (mon, al)))"

definition redis_poll_metrics :: "string \<Rightarrow> redis_module \<Rightarrow> timeval \<Rightarrow> agent \<Rightarrow> alloc \<Rightarrow> agent \<times> alloc" where
  "redis_poll_metrics status mdl clock mon al =
     (case poll_base_metrics status mdl clock mon al of (mon, al) \<Rightarrow> poll_keys_metrics status mdl clock mon al)"

subsection \<open>memcached\<close>

definition MONIKOR_MEMCACHED_DEFAULT_HOST :: string where "MONIKOR_MEMCACHED_DEFAULT_HOST = ''localhost''"
definition MONIKOR_MEMCACHED_DEFAULT_PORT :: string where "MONIKOR_MEMCACHED_DEFAULT_PORT = ''11211''"
definition MONIKOR_MEMCACHED_MAX_INSTANCE_LENGTH :: nat where "MONIKOR_MEMCACHED_MAX_INSTANCE_LENGTH = 42"

record memcached_module =
  mm_host :: string
  mm_port :: string
  mm_instance :: "string option"
  mm_io_handler :: "nat option"

definition memcached_init :: "cfg_dict \<Rightarrow> alloc \<Rightarrow> memcached_module option \<times> alloc" where
  "memcached_init config al =
     (case malloc al of
        (None, al) \<Rightarrow> (None, al)
      | (Some _, al) \<Rightarrow>
          (case monikor_config_dict_get_scalar config ''memcached.host'' al of (host, al) \<Rightarrow>
           case monikor_config_dict_get_scalar config ''memcached.port'' al of (port, al) \<Rightarrow>
           case monikor_config_dict_get_scalar config ''memcached.instance'' al of (ins, al) \<Rightarrow>
             (Some \<lparr>mm_host = (case host of Some h \<Rightarrow> h | None \<Rightarrow> MONIKOR_MEMCACHED_DEFAULT_HOST),
                    mm_port = (case port of Some p \<Rightarrow> p | None \<Rightarrow> MONIKOR_MEMCACHED_DEFAULT_PORT),
                    mm_instance = strip_instance MONIKOR_MEMCACHED_MAX_INSTANCE_LENGTH ins,
                    mm_io_handler = None\<rparr>, al)))"

definition memcached_poll ::
  "string list option \<Rightarrow> attempt \<Rightarrow> nat \<Rightarrow> memcached_module option \<Rightarrow> module_world \<Rightarrow> alloc
     \<Rightarrow> (memcached_module option \<times> cint \<times> module_world \<times> alloc) option" where
  "memcached_poll addrs att addr data w al =
     (case data of
        None \<Rightarrow> Some (None, -1, w, al)
      | Some mdl \<Rightarrow> do {
          w \<leftarrow> (case mm_io_handler mdl of None \<Rightarrow> Some w | Some h \<Rightarrow> release_exchange h w);
          (h, al) \<leftarrow> monikor_net_exchange addrs att
             (Some (''stats'' @ [CHR 0x0A] @ ''stats slabs'' @ [CHR 0x0A] @ ''quit'' @ [CHR 0x0A])) al;
          (case h of
             None \<Rightarrow> Some (Some (mdl\<lparr>mm_io_handler := None\<rparr>), -1, w, al)
           | Some h \<Rightarrow> do {
               w \<leftarrow> register_exchange addr h w;
               Some (Some (mdl\<lparr>mm_io_handler := Some addr\<rparr>), -2, w, al) }) })"

definition memcached_cleanup :: "memcached_module \<Rightarrow> ('i, 'c, 'p) module_lists \<Rightarrow> ('i, 'c, 'p) module_lists option" where
  "memcached_cleanup mdl w = (case mm_io_handler mdl of None \<Rightarrow> Some w | Some h \<Rightarrow> release_exchange h w)"

definition hitmiss_metrics :: "(string \<times> string) list" where
  "hitmiss_metrics = [(''get_hits'', ''get_misses''), (''delete_hits'', ''delete_misses''), (''incr_hits'', ''incr_misses''),
     (''decr_hits'', ''decr_misses''), (''cas_hits'', ''cas_misses''), (''touch_hits'', ''touch_misses'')]"

fun hitmiss_loop :: "(string \<times> string) list \<Rightarrow> string \<Rightarrow> u64 \<Rightarrow> u64 \<Rightarrow> u64 \<times> u64" where
  "hitmiss_loop [] status hits misses = (hits, misses)"
| "hitmiss_loop ((hit, miss) # rest) status hits misses =
     (let hits = (case field_value status (''STAT '' @ hit @ '' '') of Some v \<Rightarrow> hits + v | None \<Rightarrow> hits);
          misses = (case field_value status (''STAT '' @ miss @ '' '') of Some v \<Rightarrow> misses + v | None \<Rightarrow> misses)
      in hitmiss_loop rest status hits misses)"

definition fetch_hitmiss_metrics :: "memcached_module \<Rightarrow> timeval \<Rightarrow> string \<Rightarrow> agent \<Rightarrow> alloc \<Rightarrow> agent \<times> alloc" where
  "fetch_hitmiss_metrics mdl clock status mon al =
     (case hitmiss_loop hitmiss_metrics status 0 0 of (hits, misses) \<Rightarrow>
        (case push_samples clock
                [Integer_Sample (instance_name ''memcached.cache.hits'' (mm_instance mdl)) hits MONIKOR_METRIC_DELTA,
                 Integer_Sample (instance_name ''memcached.cache.misses'' (mm_instance mdl)) misses MONIKOR_METRIC_DELTA] mon al of
           (mon, _, al) \<Rightarrow> (mon, al)))"

definition memcached_metrics :: "(string \<times> string \<times> u8) list" where
  "memcached_metrics =
    [(''cmd_get'', ''queries.get'', MONIKOR_METRIC_TIMEDELTA), (''cmd_set'', ''queries.set'', MONIKOR_METRIC_TIMEDELTA),
     (''cmd_flush'', ''queries.flush'', MONIKOR_METRIC_TIMEDELTA), (''cmd_touch'', ''queries.touch'', MONIKOR_METRIC_TIMEDELTA),
     (''bytes_read'', ''rx.bytes'', MONIKOR_METRIC_TIMEDELTA), (''bytes_written'', ''tx.bytes'', MONIKOR_METRIC_TIMEDELTA),
     (''curr_connections'', ''connections.current'', 0), (''threads'', ''threads'', 0), (''bytes'', ''size'', 0),
     (''limit_maxbytes'', ''total_size'', 0), (''evictions'', ''cache.evictions'', MONIKOR_METRIC_DELTA)]"

fun memcached_samples :: "(string \<times> string \<times> u8) list \<Rightarrow> string option \<Rightarrow> string \<Rightarrow> sample list" where
  "memcached_samples [] ins status = []"
| "memcached_samples ((field, name, flags) # rest) ins status =
     (case field_value status (''STAT '' @ field @ '' '') of
        None \<Rightarrow> memcached_samples rest ins status
      | Some v \<Rightarrow> Integer_Sample (instance_name (''memcached.'' @ name) ins) v flags # memcached_samples rest ins status)"

definition memcached_poll_metrics :: "string \<Rightarrow> memcached_module \<Rightarrow> timeval \<Rightarrow> agent \<Rightarrow> alloc \<Rightarrow> agent \<times> alloc" where
  "memcached_poll_metrics status mdl clock mon al =
     (case push_samples clock (memcached_samples memcached_metrics (mm_instance mdl) status) mon al of
        (mon, _, al) \<Rightarrow> fetch_hitmiss_metrics mdl clock status mon al)"

subsection \<open>Properties\<close>

text \<open>The handler of a module: none, or one that is registered.\<close>

definition kept_exchange :: "nat option \<Rightarrow> nat list \<Rightarrow> ('i, 'c, 'p) module_lists \<Rightarrow> bool" where
  "kept_exchange h xs w \<longleftrightarrow> (\<forall>a. h = Some a \<longrightarrow> a \<in> set xs \<and> io_data w a \<noteq> None)"

definition without :: "nat option \<Rightarrow> nat list \<Rightarrow> nat list" where
  "without h xs = (case h of None \<Rightarrow> xs | Some a \<Rightarrow> remove1 a xs)"

definition open_without :: "nat option \<Rightarrow> ('i, 'c, 'p) module_lists \<Rightarrow> cint list" where
  "open_without h w = (case h of None \<Rightarrow> ms_open (iw_state w)
     | Some a \<Rightarrow> close_open (case io_data w a of Some d \<Rightarrow> ih_fd d | None \<Rightarrow> -1) (ms_open (iw_state w)))"

lemma release_kept:
  assumes "handlers_are w xs ps" and "kept_exchange h xs w"
  obtains w' where "(case h of None \<Rightarrow> Some w | Some a \<Rightarrow> release_exchange a w) = Some w'" and "handlers_are w' (without h xs) ps"
    and "ms_open (iw_state w') = open_without h w"
proof (cases h)
  case None
  with assms(1) that show ?thesis by (auto simp: without_def open_without_def)
next
  case (Some a)
  with assms(2) obtain d where "a \<in> set xs" "io_data w a = Some d" by (auto simp: kept_exchange_def)
  with release_exchange_ok [OF assms(1)] Some that show ?thesis by (fastforce simp: without_def open_without_def)
qed

lemma exchange_connects:
  assumes "alloc_ok al" and "sock \<noteq> -1"
  obtains x al' where "monikor_net_exchange (Some as) (Connecting sock) s al = Some (Some x, al')" and "alloc_ok al'"
    and "nx_open x = [sock]" and "dn_data (exchange_node x)
      = \<lparr>ih_fd = sock, ih_mode = MONIKOR_IO_HANDLER_WR, ih_callback = Some (NET_IO HANDLE_IO_CONNECT (Some \<lparr>nd_send = s, nd_ai_cur = as\<rparr>))\<rparr>"
proof -
  obtain j al1 where 1: "malloc al = (Some j, al1)" "alloc_ok al1" using alloc_ok_malloc [OF assms(1)] by auto
  obtain k al2 where 2: "malloc al1 = (Some k, al2)" "alloc_ok al2" using alloc_ok_malloc [OF 1(2)] by auto
  show ?thesis
    using 1 2 assms(2)
    by (intro that [of _ al2]) (auto simp: monikor_net_exchange_def monikor_net_gai_def monikor_io_handler_new_def or_null_def alloc_ret_def exchange_node_def)
qed



end
