(* ===== verification/Exit.thy ===== *)
theory Exit
  imports Start Net_Pollers "HOL-Library.Multiset"
begin

text \<open>
  The end of the agent: \<open>monikor_cleanup\<close> of \<open>src/core/cleanup.c\<close>, \<open>monikor_exit\<close> of \<open>src/core/exit.c\<close>,
  \<open>monikor_signal_cleanup\<close> of \<open>src/core/sig.c\<close>, and \<open>main\<close>.  The cleanup functions of modules are
  called by symbol; what the agent relies on is the locale \<open>module_cleanups\<close>, which the modules that keep exchanges
  and those that keep nothing provide.  Freed memory is seen in the heaps of the handler lists only.
\<close>

subsection \<open>State\<close>

text \<open>What is left: the descriptors that were closed, in their order, and the paths that were removed.\<close>

record ('i, 'c, 'p) ended =
  en_lists :: "('i, 'c, 'p) handler_lists"
  en_modules :: module_state
  en_log :: logger
  en_closed :: "cint list"
  en_unlinked :: "string list"

subsection \<open>The operations\<close>

text \<open>\<open>call\<close> is what a cleanup function of a symbol does with the module's data.\<close>

definition monikor_mod_destroy :: "(string \<Rightarrow> nat option \<Rightarrow> 'w \<Rightarrow> 'w option) \<Rightarrow> modul \<Rightarrow> 'w \<Rightarrow> 'w option" where
  "monikor_mod_destroy call mdl w = (case md_cleanup mdl of None \<Rightarrow> Some w | Some f \<Rightarrow> call f (md_data mdl) w)"

fun destroy_modules :: "(string \<Rightarrow> nat option \<Rightarrow> 'w \<Rightarrow> 'w option) \<Rightarrow> modul list \<Rightarrow> 'w \<Rightarrow> 'w option" where
  "destroy_modules call [] w = Some w"
| "destroy_modules call (mdl # mods) w = do { w \<leftarrow> monikor_mod_destroy call mdl w; destroy_modules call mods w }"

definition monikor_signal_cleanup :: "cint \<Rightarrow> cint list \<Rightarrow> cint list" where
  "monikor_signal_cleanup sig_writefd fds = fds @ [sig_writefd]"

definition monikor_cleanup ::
  "(string \<Rightarrow> nat option \<Rightarrow> ('i, 'c, 'p) module_lists \<Rightarrow> ('i, 'c, 'p) module_lists option) \<Rightarrow> module_state
     \<Rightarrow> ('i, 'c, 'p) started \<Rightarrow> ('i, 'c, 'p) ended option" where
  "monikor_cleanup call ms st = do {
     (w, unlinked) \<leftarrow> monikor_server_cleanup
       \<lparr>iw_lists = st_lists st, iw_state = \<lparr>ss_server = st_server st, ss_config = mn_config (st_mon st),
          ss_metrics = mn_metrics (st_mon st), ss_closed = []\<rparr>\<rparr>;
     v \<leftarrow> destroy_modules call (mn_modules (st_mon st)) \<lparr>iw_lists = iw_lists w, iw_state = ms\<rparr>;
     (lists, fds) \<leftarrow> monikor_cleanup_io_handlers (iw_lists v);
     Some \<lparr>en_lists = lists, en_modules = iw_state v, en_log = monikor_logger_cleanup (st_log st),
       en_closed = monikor_signal_cleanup (st_signal_fd st) (ss_closed (iw_state w) @ fds),
       en_unlinked = (if unlinked then [the (cf_listen_path (mn_config (st_mon st)))] else [])\<rparr> }"

definition monikor_exit ::
  "(string \<Rightarrow> nat option \<Rightarrow> ('i, 'c, 'p) module_lists \<Rightarrow> ('i, 'c, 'p) module_lists option) \<Rightarrow> module_state
     \<Rightarrow> ('i, 'c, 'p) started \<Rightarrow> ('i, 'c, 'p) ended option" where
  "monikor_exit call ms st = do {
     en \<leftarrow> monikor_cleanup call ms (st\<lparr>st_log := fst (monikor_log LOG_ERR (''Exiting...'' @ [CHR 0x0A]) (st_log st))\<rparr>);
     Some (en\<lparr>en_unlinked := cf_pidfile (mn_config (st_mon st)) # en_unlinked en\<rparr>) }"

text \<open>
  The process ends with a status, or it is a parent that has forked the daemon, or it still runs when the inputs of the
  main loop are used up, or a signal has called \<open>monikor_exit\<close>.  The result of \<open>monikor_run\<close> is not looked at.
\<close>

datatype 'w main_result = Status cint | Forked proc | Runs_On 'w cint | Exits_By_Signal 'w

definition usage :: "'w main_result" where
  "usage = Status 1"

definition agent_main ::
  "init_env \<Rightarrow> (agent_callback, unit, unit, run_state) callbacks \<Rightarrow> poller \<Rightarrow> curl_env \<Rightarrow> timeval \<Rightarrow> clong \<Rightarrow> run_input list
     \<Rightarrow> alloc list \<Rightarrow> string list \<Rightarrow> (agent_callback, unit, unit) started \<Rightarrow> alloc
     \<Rightarrow> (agent_callback, unit, unit) run_world main_result option" where
  "agent_main ie cbs poll env now t ris mem argv st al =
     (if length argv \<noteq> 2 then Some usage
      else case monikor_init ie (Some (argv ! 1)) st al of
        None \<Rightarrow> None
      | Some (Parent_Exits p) \<Rightarrow> Some (Forked p)
      | Some (Init_Returns st r al) \<Rightarrow>
          if r \<noteq> 0 then Some (Status 1)
          else do {
            r \<leftarrow> monikor_run cbs poll env now t ris
                  \<lparr>iw_lists = st_lists st, iw_state = \<lparr>rs_agent = st_mon st, rs_pipe = [], rs_mem = mem\<rparr>\<rparr>;
            Some (case r of Returned w _ \<Rightarrow> Status 0 | Next w tick \<Rightarrow> Runs_On w tick | Ended w \<Rightarrow> Exits_By_Signal w) })"

subsection \<open>Descriptors of handlers\<close>

definition fds_in :: "'i io_handler dll \<Rightarrow> nat list \<Rightarrow> cint list" where
  "fds_in l xs = filter (\<lambda>fd. fd \<noteq> -1) (map (\<lambda>a. ih_fd (data_at l a)) xs)"

lemma fds_in_cong: "(\<And>a. a \<in> set xs \<Longrightarrow> ih_fd (data_at l a) = ih_fd (data_at l' a)) \<Longrightarrow> fds_in l xs = fds_in l' xs"
  by (auto simp: fds_in_def cong: map_cong)

lemma fds_in_remove:
  assumes "h \<in> set xs"
  shows "mset (fds_in l xs) = mset (fds_in l (remove1 h xs))
    + (if ih_fd (data_at l h) \<noteq> -1 then {#ih_fd (data_at l h)#} else {#})"
proof -
  have "mset xs = add_mset h (mset (remove1 h xs))" using assms by simp
  then have "mset (map f xs) = add_mset (f h) (mset (map f (remove1 h xs)))" for f :: "nat \<Rightarrow> cint"
    by (metis image_mset_add_mset mset_map)
  then show ?thesis by (simp add: fds_in_def)
qed

lemma data_at_data: "map_option dn_data (dl_heap l' a) = map_option dn_data (dl_heap l a) \<Longrightarrow> dl_heap l a \<noteq> None \<Longrightarrow>
    data_at l' a = data_at l a"
  by (auto simp: data_at_def)

text \<open>Taking a handler out of the list and freeing it leaves the descriptors of the others.\<close>

lemma unregister_free_fds:
  assumes "dll_is l xs" and "h \<in> set xs"
  obtains l' where "monikor_io_handler_list_remove l h = Some l'" and "dll_is (dll_free l' h) (remove1 h xs)"
    and "fds_in (dll_free l' h) (remove1 h xs) = fds_in l (remove1 h xs)" and "dl_heap (dll_free l' h) h = None"
    and "\<forall>a. dl_heap l a = None \<longrightarrow> dl_heap (dll_free l' h) a = None"
    and "\<forall>a. a \<noteq> h \<longrightarrow> map_option dn_data (dl_heap (dll_free l' h) a) = map_option dn_data (dl_heap l a)"
proof -
  from assms(2) obtain as bs where xs: "xs = as @ h # bs" "h \<notin> set as" by (meson split_list_first)
  then have r: "remove1 h xs = as @ bs" by (simp add: remove1_append)
  obtain l' where l': "monikor_io_handler_list_remove l h = Some l'" "dll_is l' (remove1 h xs)"
    "\<forall>a. map_option dn_data (dl_heap l' a) = map_option dn_data (dl_heap l a)"
    using io_list.remove_ok [of l as h bs] assms(1) xs r by auto
  have h: "h \<notin> set (remove1 h xs)" using assms(1) by (simp add: dll_is_def)
  have d: "map_option dn_data (dl_heap (dll_free l' h) a) = map_option dn_data (dl_heap l a)" if "a \<noteq> h" for a
    using l'(3) that by (simp add: dll_free_def)
  have "fds_in (dll_free l' h) (remove1 h xs) = fds_in l (remove1 h xs)"
  proof (rule fds_in_cong)
    fix a assume "a \<in> set (remove1 h xs)"
    with h dll_is_allocated [OF assms(1), of a] set_remove1_subset [of h xs] have "a \<noteq> h" "dl_heap l a \<noteq> None" by auto
    with data_at_data [OF d] show "ih_fd (data_at (dll_free l' h) a) = ih_fd (data_at l a)" by simp
  qed
  moreover have "\<forall>a. dl_heap l a = None \<longrightarrow> dl_heap (dll_free l' h) a = None"
    using l'(3) by (auto simp: dll_free_def) (metis map_option_is_None)
  ultimately show ?thesis
    using l' h d by (intro that [of l']) (simp_all add: dll_is_heap_update, simp add: dll_free_def)
qed

subsection \<open>The cleanups of modules\<close>

text \<open>Some handlers were taken out and freed, and their descriptors are no longer open; the rest is as it was.\<close>

definition released :: "('i, 'c, 'p) module_lists \<Rightarrow> nat list \<Rightarrow> ('i, 'c, 'p) module_lists \<Rightarrow> nat list \<Rightarrow> bool" where
  "released w xs w' xs' \<longleftrightarrow> dll_is (io_of w') xs' \<and> set xs' \<subseteq> set xs
     \<and> (\<forall>a. a \<in> set xs - set xs' \<or> dl_heap (io_of w) a = None \<longrightarrow> dl_heap (io_of w') a = None)
     \<and> hl_curl (iw_lists w') = hl_curl (iw_lists w)
     \<and> mset (ms_open (iw_state w)) + mset (fds_in (io_of w') xs') = mset (ms_open (iw_state w')) + mset (fds_in (io_of w) xs)"

lemma released_refl: "dll_is (io_of w) xs \<Longrightarrow> released w xs w xs"
  by (simp add: released_def)

lemma released_trans:
  assumes "released u xs v ys" and "released v ys w zs"
  shows "released u xs w zs"
proof -
  let ?o = "\<lambda>w. mset (ms_open (iw_state w))" and ?f = "\<lambda>w xs. mset (fds_in (io_of w) xs)"
  have e: "?o u + ?f v ys = ?o v + ?f u xs" "?o v + ?f w zs = ?o w + ?f v ys" using assms by (simp_all add: released_def)
  have "(?o u + ?f w zs) + (?o v + ?f v ys) = (?o u + ?f v ys) + (?o v + ?f w zs)" by (simp only: ac_simps)
  also have "\<dots> = (?o w + ?f u xs) + (?o v + ?f v ys)" unfolding e by (simp only: ac_simps)
  finally have "?o u + ?f w zs = ?o w + ?f u xs" by simp
  with assms show ?thesis by (auto simp: released_def)
qed

locale module_cleanups =
  fixes call :: "string \<Rightarrow> nat option \<Rightarrow> ('i, 'c, 'p) module_lists \<Rightarrow> ('i, 'c, 'p) module_lists option"
    and holds :: "modul list \<Rightarrow> ('i, 'c, 'p) module_lists \<Rightarrow> nat list \<Rightarrow> bool"
  assumes call_ok: "holds (m # ms) w xs \<Longrightarrow> dll_is (io_of w) xs \<Longrightarrow> md_cleanup m = Some f \<Longrightarrow>
      \<exists>w' xs'. call f (md_data m) w = Some w' \<and> released w xs w' xs' \<and> holds ms w' xs'"
    and skip_ok: "holds (m # ms) w xs \<Longrightarrow> md_cleanup m = None \<Longrightarrow> holds ms w xs"
begin

lemma destroy_modules_ok:
  "holds mods w xs \<Longrightarrow> dll_is (io_of w) xs \<Longrightarrow> \<exists>w' xs'. destroy_modules call mods w = Some w' \<and> released w xs w' xs'"
proof (induction mods arbitrary: w xs)
  case Nil
  then show ?case using released_refl by auto
next
  case (Cons m ms)
  show ?case
  proof (cases "md_cleanup m")
    case None
    with skip_ok Cons show ?thesis by (simp add: monikor_mod_destroy_def)
  next
    case (Some f)
    from call_ok [OF Cons.prems Some] obtain v ys where v: "call f (md_data m) w = Some v" "released w xs v ys" "holds ms v ys"
      by blast
    then have "dll_is (io_of v) ys" by (simp add: released_def)
    with Cons.IH [OF v(3)] obtain w' xs' where "destroy_modules call ms v = Some w'" "released v ys w' xs'" by blast
    with v Some released_trans [OF v(2)] show ?thesis by (auto simp: monikor_mod_destroy_def)
  qed
qed

end

text \<open>
  The cleanups of the modules that are loaded from libraries, by symbol.  Those of redis and memcached follow the
  pointer to their data; those of the other modules but varnish only free memory.
\<close>

datatype module_data = Redis_Data redis_module | Memcached_Data memcached_module | Other_Data

definition library_cleanup ::
  "(nat \<Rightarrow> module_data) \<Rightarrow> string \<Rightarrow> nat option \<Rightarrow> ('i, 'c, 'p) module_lists \<Rightarrow> ('i, 'c, 'p) module_lists option" where
  "library_cleanup mem f data w =
     (if f = ''redis_cleanup'' then
        (case map_option mem data of Some (Redis_Data mdl) \<Rightarrow> redis_cleanup mdl w | _ \<Rightarrow> None)
      else if f = ''memcached_cleanup'' then
        (case map_option mem data of Some (Memcached_Data mdl) \<Rightarrow> memcached_cleanup mdl w | _ \<Rightarrow> None)
      else Some w)"

text \<open>The handler that a module keeps (the outer \<open>None\<close>: the pointer to its data is bad).\<close>

definition kept_by :: "(nat \<Rightarrow> module_data) \<Rightarrow> modul \<Rightarrow> nat option option" where
  "kept_by mem m =
     (if md_cleanup m = Some ''redis_cleanup'' then
        (case map_option mem (md_data m) of Some (Redis_Data mdl) \<Rightarrow> Some (rm_io_handler mdl) | _ \<Rightarrow> None)
      else if md_cleanup m = Some ''memcached_cleanup'' then
        (case map_option mem (md_data m) of Some (Memcached_Data mdl) \<Rightarrow> Some (mm_io_handler mdl) | _ \<Rightarrow> None)
      else Some None)"

definition kept_handlers :: "(nat \<Rightarrow> module_data) \<Rightarrow> modul list \<Rightarrow> nat list" where
  "kept_handlers mem ms = List.map_filter (\<lambda>m. Option.bind (kept_by mem m) (\<lambda>h. h)) ms"

definition exchanges_kept :: "(nat \<Rightarrow> module_data) \<Rightarrow> modul list \<Rightarrow> ('i, 'c, 'p) module_lists \<Rightarrow> nat list \<Rightarrow> bool" where
  "exchanges_kept mem ms w xs \<longleftrightarrow> (\<forall>m\<in>set ms. kept_by mem m \<noteq> None) \<and> distinct (kept_handlers mem ms)
     \<and> set (kept_handlers mem ms) \<subseteq> set xs
     \<and> mset (fds_in (io_of w) (kept_handlers mem ms)) \<subseteq># mset (ms_open (iw_state w))"

lemma release_exchange_released:
  assumes "dll_is (io_of w) xs" and "h \<in> set xs"
    and "ih_fd (data_at (io_of w) h) = -1 \<or> ih_fd (data_at (io_of w) h) \<in> set (ms_open (iw_state w))"
  obtains w' where "release_exchange h w = Some w'" and "released w xs w' (remove1 h xs)"
    and "ms_open (iw_state w') = close_open (ih_fd (data_at (io_of w) h)) (ms_open (iw_state w))"
    and "\<forall>a. a \<noteq> h \<longrightarrow> map_option dn_data (dl_heap (io_of w') a) = map_option dn_data (dl_heap (io_of w) a)"
proof -
  obtain l' where l': "monikor_io_handler_list_remove (io_of w) h = Some l'" "dll_is (dll_free l' h) (remove1 h xs)"
    "fds_in (dll_free l' h) (remove1 h xs) = fds_in (io_of w) (remove1 h xs)" "dl_heap (dll_free l' h) h = None"
    "\<forall>a. dl_heap (io_of w) a = None \<longrightarrow> dl_heap (dll_free l' h) a = None"
    "\<forall>a. a \<noteq> h \<longrightarrow> map_option dn_data (dl_heap (dll_free l' h) a) = map_option dn_data (dl_heap (io_of w) a)"
    using assms(1,2) by (rule unregister_free_fds)
  from io_list.remove_any [OF assms(1,2)] l'(1) obtain n0 where n0: "dl_heap (io_of w) h = Some n0"
    using dll_is_allocated [OF assms(1,2)] by auto
  have "map_option dn_data (dl_heap l' h) = map_option dn_data (dl_heap (io_of w) h)"
  proof -
    from assms(2) obtain as bs where "xs = as @ h # bs" by (meson split_list)
    with io_list.remove_ok [of "io_of w" as h bs] assms(1) l'(1) show ?thesis by auto
  qed
  with n0 obtain n where n: "dl_heap l' h = Some n" "dn_data n = data_at (io_of w) h" by (auto simp: data_at_def)
  let ?fd = "ih_fd (data_at (io_of w) h)"
  let ?w = "with_io l' w"
  let ?v = "if ?fd \<noteq> -1 then with_state ((iw_state ?w)\<lparr>ms_open := remove1 ?fd (ms_open (iw_state ?w))\<rparr>) ?w else ?w"
  let ?w' = "with_io (dll_free (io_of ?v) h) ?v"
  have r: "release_exchange h w = Some ?w'"
    using l'(1) n by (simp add: release_exchange_def monikor_unregister_io_handler_def Let_def io_of_def with_io_def)
  have io: "io_of ?w' = dll_free l' h" "hl_curl (iw_lists ?w') = hl_curl (iw_lists w)"
    "ms_open (iw_state ?w') = close_open ?fd (ms_open (iw_state w))"
    by (simp_all add: io_of_def with_io_def with_state_def close_open_def)
  have sub: "set (remove1 h xs) = set xs - {h}" using assms(1) by (simp add: dll_is_def)
  have "mset (ms_open (iw_state w)) + mset (fds_in (io_of w) (remove1 h xs))
      = mset (close_open ?fd (ms_open (iw_state w))) + mset (fds_in (io_of w) xs)"
    using fds_in_remove [OF assms(2), of "io_of w"] assms(3) by (auto simp: close_open_def)
  then have "released w xs ?w' (remove1 h xs)"
    unfolding released_def io using l' sub by auto
  then show ?thesis using l' io by (intro that [OF r]) simp_all
qed

lemma kept_handlers_Cons:
  "kept_handlers mem (m # ms) = (case kept_by mem m of Some (Some h) \<Rightarrow> h # kept_handlers mem ms | _ \<Rightarrow> kept_handlers mem ms)"
  by (simp add: kept_handlers_def List.map_filter_simps split: option.split)

lemma library_cleanup_ok:
  assumes k: "exchanges_kept mem (m # ms) w xs" and l: "dll_is (io_of w) xs" and f: "md_cleanup m = Some f"
  shows "\<exists>w' xs'. library_cleanup mem f (md_data m) w = Some w' \<and> released w xs w' xs' \<and> exchanges_kept mem ms w' xs'"
proof -
  from k obtain oh where oh: "kept_by mem m = Some oh" by (auto simp: exchanges_kept_def)
  then have c: "library_cleanup mem f (md_data m) w = (case oh of None \<Rightarrow> Some w | Some h \<Rightarrow> release_exchange h w)"
    using f by (auto simp: kept_by_def library_cleanup_def redis_cleanup_def memcached_cleanup_def
        split: if_splits option.splits module_data.splits)
  show ?thesis
  proof (cases oh)
    case None
    with c k oh released_refl [OF l] show ?thesis by (auto simp: exchanges_kept_def kept_handlers_Cons)
  next
    case (Some h)
    let ?hs = "kept_handlers mem ms" and ?fd = "ih_fd (data_at (io_of w) h)"
    have hs: "kept_handlers mem (m # ms) = h # ?hs" using oh Some by (simp add: kept_handlers_Cons)
    with k have d: "h \<in> set xs" "h \<notin> set ?hs" "set ?hs \<subseteq> set xs" "distinct ?hs" "\<forall>m\<in>set ms. kept_by mem m \<noteq> None"
      "mset (fds_in (io_of w) (h # ?hs)) \<subseteq># mset (ms_open (iw_state w))" by (auto simp: exchanges_kept_def)
    have split: "mset (fds_in (io_of w) (h # ?hs)) = (if ?fd = -1 then {#} else {#?fd#}) + mset (fds_in (io_of w) ?hs)"
      by (simp add: fds_in_def)
    have "?fd = -1 \<or> ?fd \<in> set (ms_open (iw_state w))"
      using d(6) unfolding split by (auto split: if_splits dest: mset_subset_eqD)
    from release_exchange_released [OF l d(1) this] obtain w' where w': "release_exchange h w = Some w'"
      "released w xs w' (remove1 h xs)" "ms_open (iw_state w') = close_open ?fd (ms_open (iw_state w))"
      "\<forall>a. a \<noteq> h \<longrightarrow> map_option dn_data (dl_heap (io_of w') a) = map_option dn_data (dl_heap (io_of w) a)" by blast
    have "fds_in (io_of w') ?hs = fds_in (io_of w) ?hs"
    proof (rule fds_in_cong)
      fix a assume a: "a \<in> set ?hs"
      with d(2) have "a \<noteq> h" by auto
      with w'(4) data_at_data [of "io_of w'" a "io_of w"] dll_is_allocated [OF l] a d(3)
      show "ih_fd (data_at (io_of w') a) = ih_fd (data_at (io_of w) a)" by (metis subsetD)
    qed
    moreover have "mset (fds_in (io_of w) ?hs) \<subseteq># mset (close_open ?fd (ms_open (iw_state w)))"
      using d(6) unfolding split by (auto simp: close_open_def insert_subset_eq_iff split: if_splits)
    moreover have "set ?hs \<subseteq> set (remove1 h xs)" using d(2,3) l by (auto simp: dll_is_def)
    ultimately have "exchanges_kept mem ms w' (remove1 h xs)"
      using d(4,5) w'(3) by (simp add: exchanges_kept_def)
    with c Some w'(1,2) show ?thesis by auto
  qed
qed

interpretation library: module_cleanups "library_cleanup mem" "exchanges_kept mem" for mem
  by unfold_locales (rule library_cleanup_ok, auto simp: exchanges_kept_def kept_handlers_Cons kept_by_def)

subsection \<open>The end of the server\<close>

text \<open>The handler of the listening socket, when there is one, is in the list with that descriptor.\<close>

definition listening :: "server \<Rightarrow> 'i io_handler dll \<Rightarrow> nat list \<Rightarrow> bool" where
  "listening s l xs \<longleftrightarrow> (\<forall>h. sv_handler s = Some h \<longrightarrow> h \<in> set xs \<and> ih_fd (data_at l h) = sv_socket s)"

lemma server_cleanup_ok:
  assumes "dll_is (io_of w) xs" and "sv_mon (server_of w)" and "listening (server_of w) (io_of w) xs" and "ss_closed (iw_state w) = []"
  shows "\<exists>w'. monikor_server_cleanup w = Some (w', cf_listen_path (ss_config (iw_state w)) \<noteq> None)
    \<and> dll_is (io_of w') (without (sv_handler (server_of w)) xs) \<and> hl_curl (iw_lists w') = hl_curl (iw_lists w)
    \<and> ss_closed (iw_state w') = (if sv_socket (server_of w) \<noteq> -1 then [sv_socket (server_of w)] else [])
    \<and> fds_in (io_of w') (without (sv_handler (server_of w)) xs) = fds_in (io_of w) (without (sv_handler (server_of w)) xs)
    \<and> (\<forall>a. sv_handler (server_of w) = Some a \<or> dl_heap (io_of w) a = None \<longrightarrow> dl_heap (io_of w') a = None)
    \<and> (\<forall>a. sv_handler (server_of w) \<noteq> Some a \<longrightarrow>
        map_option dn_data (dl_heap (io_of w') a) = map_option dn_data (dl_heap (io_of w) a))"
proof (cases "sv_handler (server_of w)")
  case None
  with assms show ?thesis
    by (auto simp: monikor_server_cleanup_def without_def Let_def close_fd_def io_of_def server_of_def)
next
  case (Some h)
  with assms(3) have "h \<in> set xs" by (simp add: listening_def)
  from unregister_free_fds [OF assms(1) this] obtain l' where l': "monikor_io_handler_list_remove (io_of w) h = Some l'"
    "dll_is (dll_free l' h) (remove1 h xs)" "fds_in (dll_free l' h) (remove1 h xs) = fds_in (io_of w) (remove1 h xs)"
    "dl_heap (dll_free l' h) h = None" "\<forall>a. dl_heap (io_of w) a = None \<longrightarrow> dl_heap (dll_free l' h) a = None"
    "\<forall>a. a \<noteq> h \<longrightarrow> map_option dn_data (dl_heap (dll_free l' h) a) = map_option dn_data (dl_heap (io_of w) a)" by blast
  let ?w = "with_io (dll_free (io_of (with_io l' w)) h) (with_io l' w)"
  have w: "io_of ?w = dll_free l' h" "server_of ?w = server_of w" "iw_state ?w = iw_state w" "hl_curl (iw_lists ?w) = hl_curl (iw_lists w)"
    by (simp_all add: io_of_def with_io_def server_of_def)
  have "monikor_server_cleanup w = Some (if sv_socket (server_of w) \<noteq> -1 then close_fd (sv_socket (server_of w)) ?w else ?w,
      cf_listen_path (ss_config (iw_state w)) \<noteq> None)"
    using Some l'(1) assms(2) w by (simp add: monikor_server_cleanup_def monikor_unregister_io_handler_def
        monikor_server_handler_free_def Let_def close_fd_def server_of_def)
  moreover have "iw_lists (close_fd fd ?w) = iw_lists ?w" for fd by (simp add: close_fd_def)
  ultimately show ?thesis
    using l' Some w assms(4) by (auto simp: without_def io_of_def close_fd_def)
qed

lemma cleanup_io_ok:
  assumes "dll_is (hl_io l) xs" and "dll_is (cl_handlers (hl_curl l)) ys"
  obtains l' where "monikor_cleanup_io_handlers l = Some (l', fds_in (hl_io l) xs)"
    and "\<forall>a. a \<in> set xs \<or> dl_heap (hl_io l) a = None \<longrightarrow> dl_heap (hl_io l') a = None"
    and "\<forall>a\<in>set ys. dl_heap (cl_handlers (hl_curl l')) a = None"
proof -
  obtain io where io: "free_io_loop (hl_io l) (dl_first (hl_io l)) [] = Some (io, fds_in (hl_io l) xs)"
    "\<forall>a. dl_heap io a = (if a \<in> set xs then None else dl_heap (hl_io l) a)"
    using free_io_ok [of "hl_io l" None xs "[]"] assms(1) by (auto simp: dll_is_def fds_in_def)
  obtain c where "free_curl_loop (hl_curl l) (dl_first (cl_handlers (hl_curl l))) = Some c" "\<forall>a\<in>set ys. dl_heap (cl_handlers c) a = None"
    using free_curl_ok [of "hl_curl l" None ys] assms(2) by (auto simp: dll_is_def)
  with io that show ?thesis by (simp add: monikor_cleanup_io_handlers_def)
qed

lemma descriptors_balance:
  fixes A :: "cint multiset"
  assumes "A + B = C + D" and "S + D = F + X"
  shows "A + (S + B + G) = C + F + G + X"
proof -
  have "A + (S + B + G) = (A + B) + S + G" by (simp only: ac_simps)
  also have "\<dots> = C + (S + D) + G" unfolding assms(1) by (simp only: ac_simps)
  also have "\<dots> = C + F + G + X" unfolding assms(2) by (simp only: ac_simps)
  finally show ?thesis .
qed

lemma listening_fds:
  assumes "listening s l xs"
  shows "mset (if sv_socket s \<noteq> -1 then [sv_socket s] else []) + mset (fds_in l (without (sv_handler s) xs))
    = mset (fds_in l xs) + (if sv_handler s = None \<and> sv_socket s \<noteq> -1 then {#sv_socket s#} else {#})"
proof (cases "sv_handler s")
  case (Some h)
  with assms have "h \<in> set xs" "ih_fd (data_at l h) = sv_socket s" by (simp_all add: listening_def)
  with fds_in_remove [of h xs l] Some show ?thesis by (simp add: without_def)
qed (simp add: without_def)

lemma exiting_log: "lg_open (monikor_logger_cleanup (fst (monikor_log p m lg))) = lg_open (monikor_logger_cleanup lg)"
  by (simp add: monikor_log_def monikor_vlog_def monikor_logger_cleanup_def Let_def)

subsection \<open>Properties\<close>


text \<open>An agent whose list has its server on descriptor 8, an exchange of redis on 9 and the pipe of the signals on 5.\<close>

definition sample_redis :: redis_module where
  "sample_redis = \<lparr>rm_host = ''h'', rm_port = ''6379'', rm_instance = None, rm_auth = None, rm_io_handler = Some 2\<rparr>"

definition sample_node :: "cint \<Rightarrow> nat option \<Rightarrow> nat option \<Rightarrow> unit io_handler dnode" where
  "sample_node fd prv nxt = \<lparr>dn_data = \<lparr>ih_fd = fd, ih_mode = MONIKOR_IO_HANDLER_RD, ih_callback = Some ()\<rparr>, dn_prev = prv, dn_next = nxt\<rparr>"

definition sample_running :: "(unit, unit, unit) started" where
  "sample_running = \<lparr>st_mon = sample_agent\<lparr>mn_config := sample_settings\<lparr>cf_listen_path := Some ''/s''\<rparr>,
       mn_modules := [\<lparr>md_name = ''redis'', md_data = Some 0, md_poll_interval = 30, md_last_clock = \<lparr>tv_sec = 0, tv_usec = 0\<rparr>,
         md_config = None, md_dhandle = None, md_init = Some ''redis_init'', md_poll = Some ''redis_poll'',
         md_cleanup = Some ''redis_cleanup''\<rparr>]\<rparr>,
     st_log = logger_start, st_proc = root_process,
     st_server = \<lparr>sv_socket = 8, sv_n_clients = 0, sv_clients = [], sv_mon = True, sv_handler = Some 1\<rparr>,
     st_lists = \<lparr>hl_io = \<lparr>dl_heap = [1 \<mapsto> sample_node 8 None (Some 2), 2 \<mapsto> sample_node 9 (Some 1) (Some 3), 3 \<mapsto> sample_node 5 (Some 2) None],
         dl_first = Some 1, dl_last = Some 3\<rparr>, hl_curl = \<lparr>cl_multi = [], cl_handlers = empty_dll Map.empty\<rparr>, hl_processes = empty_dll Map.empty\<rparr>,
     st_signal_fd = 6\<rparr>"


text \<open>C27: Without a local server the start leaves the server's pointer to the agent unset, and the end of the agent follows it:
  no agent that was started without \<open>listen.path\<close> ends properly, whatever modules it has.\<close>

theorem exit_without_server:
  assumes "monikor_init ie path st al = Some (Init_Returns st' 0 al')" and "cf_listen_path (mn_config (st_mon st')) = None"
    and "\<not> sv_mon (st_server st)"
  shows "monikor_exit call ms st' = None"
proof -
  from assms(1) obtain mon s l al1 al2 al3 mon' where srv: "init_server ie mon (st_server st) al1 = Some (s, l, al2)"
    and mods: "monikor_init_modules (in_loader ie) mon al3 = Some (mon', 0, al')" and st': "st_server st' = s" "mn_config (st_mon st') = mn_config mon'"
    by (auto simp: monikor_init_def Let_def split: option.split_asm prod.split_asm bind_splits daemon_result.split_asm if_split_asm)
  obtain ls where "cf_modules (mn_config mon) = Some ls"
    using mods by (cases "cf_modules (mn_config mon)") (auto simp: monikor_init_modules_def)
  with init_modules_result [OF mods] have "mn_config mon' = mn_config mon" by auto
  with assms(2) st'(2) srv have "s = (st_server st)\<lparr>sv_handler := None, sv_socket := -1\<rparr>" by (simp add: init_server_def Let_def)
  with st'(1) assms(3) show ?thesis
    by (simp add: monikor_exit_def monikor_cleanup_def monikor_server_cleanup_def server_of_def Let_def)
qed

theorem exit_without_server_witness:
  "\<forall>junk. \<exists>st' al'. monikor_init (sample_init junk) (Some ''/c.yml'') before_start [] = Some (Init_Returns st' 0 al')
    \<and> monikor_exit (library_cleanup (\<lambda>a. Other_Data)) \<lparr>ms_open = [], ms_commands = Map.empty\<rparr> st' = None"
proof
  fix junk
  obtain st' al' where s: "monikor_init (sample_init junk) (Some ''/c.yml'') before_start [] = Some (Init_Returns st' 0 al')"
    "cf_listen_path (mn_config (st_mon st')) = None" using sample_start by blast
  have "\<not> sv_mon (st_server before_start)" by (simp add: before_start_def)
  from exit_without_server [OF s this] s(1)
  show "\<exists>st' al'. monikor_init (sample_init junk) (Some ''/c.yml'') before_start [] = Some (Init_Returns st' 0 al')
    \<and> monikor_exit (library_cleanup (\<lambda>a. Other_Data)) \<lparr>ms_open = [], ms_commands = Map.empty\<rparr> st' = None" by blast
qed

end
