(* ===== verification/Debug.thy ===== *)
theory Debug
  imports Logger Metric_Store Config_Dict C_Text
begin

text \<open>
  The dumps of \<open>src/debug.c\<close>: metrics and the sizes of the store go to the log, a configuration to the standard output.
  \<open>%f\<close> of the C library is a parameter; glibc prints \<open>(null)\<close> for a null string.
\<close>

definition newline :: string where "newline = [CHR 0x0A]"

text \<open>\<open>%ld\<close>\<close>

definition dec_long :: "clong \<Rightarrow> string" where
  "dec_long l = (if l <s 0 then CHR ''-'' # dec_digits (nat (- sint l)) else dec_digits (nat (sint l)))"

text \<open>The tag of a metric always names one of its three types, so the default branch cannot be taken.\<close>

definition metric_line :: "(f32 \<Rightarrow> string) \<Rightarrow> metric \<Rightarrow> string" where
  "metric_line print_float m =
     (let which = m_name m @ ''@'' @ dec_long (tv_sec (m_clock m)) in
      case m_value m of
        VInt i \<Rightarrow> ''METRIC INT '' @ which @ '': '' @ dec_digits (unat i) @ newline
      | VFloat f \<Rightarrow> ''METRIC FLOAT '' @ which @ '': '' @ print_float f @ newline
      | VString s \<Rightarrow> ''METRIC STRING '' @ which @ '': '' @ s @ newline)"

definition dump_metric :: "(f32 \<Rightarrow> string) \<Rightarrow> metric \<Rightarrow> logger \<Rightarrow> logger" where
  "dump_metric print_float m lg = fst (monikor_log LOG_DEBUG (metric_line print_float m) lg)"

definition size_line :: "string \<Rightarrow> mlist \<Rightarrow> string" where
  "size_line which l = ''metrics store '' @ [CHR 0x27] @ which @ [CHR 0x27] @ '' size '' @ dec_digits (unat (l_size l))
     @ '' ('' @ dec_digits (unat (l_data_size l)) @ ''B)'' @ newline"

definition dump_store_size :: "store \<Rightarrow> logger \<Rightarrow> logger" where
  "dump_store_size s lg =
     (let lg = fst (monikor_log LOG_DEBUG (size_line ''current'' (s_current s)) lg);
          lg = fst (monikor_log LOG_DEBUG (size_line ''delta'' (s_delta s)) lg)
      in fst (monikor_log LOG_DEBUG (size_line ''cache'' (s_cache s)) lg))"

definition dump_metric_list :: "(f32 \<Rightarrow> string) \<Rightarrow> mlist \<Rightarrow> logger \<Rightarrow> logger" where
  "dump_metric_list print_float l lg = monikor_metric_list_apply l (dump_metric print_float) lg"

text \<open>What is printed so far, and with it.\<close>

definition dump_config_list_elm :: "string \<Rightarrow> string \<Rightarrow> string" where
  "dump_config_list_elm s out = out @ s @ '', ''"

definition print_str :: "string option \<Rightarrow> string" where
  "print_str s = (case s of None \<Rightarrow> ''(null)'' | Some s \<Rightarrow> s)"

function dump_config :: "cfg_dict \<Rightarrow> string \<Rightarrow> string" where
  "dump_config [] out = out"
| "dump_config ((key, MONIKOR_CFG_DICT d) # rest) out =
     dump_config rest (dump_config d (out @ ''dict '' @ print_str key @ newline))"
| "dump_config ((key, MONIKOR_CFG_LIST l) # rest) out =
     dump_config rest (strl_apply l dump_config_list_elm (out @ ''list '' @ print_str key @ '': '') @ newline)"
| "dump_config ((key, MONIKOR_CFG_SCALAR v) # rest) out =
     dump_config rest (out @ print_str key @ '' = '' @ print_str v @ newline)"
  by pat_completeness auto
termination
  by (relation "measure (\<lambda>(d, out). size_list (size_prod (\<lambda>_. 0) size) d)") simp_all

subsection \<open>When something is written\<close>

text \<open>The main loop asks whether the level is at most \<open>LOG_DEBUG\<close> before it dumps the metrics, which every level of syslog is.\<close>

definition dump_wanted :: "logger \<Rightarrow> bool" where
  "dump_wanted lg \<longleftrightarrow> monikor_logger_level lg \<le>s LOG_DEBUG"

definition dump_lines :: "string list \<Rightarrow> logger \<Rightarrow> logger" where
  "dump_lines ls lg = (if lg_level lg = LOG_DEBUG then lg\<lparr>lg_written := lg_written lg @ map (\<lambda>l. (lg_fd lg, LOG_DEBUG, l)) ls\<rparr> else lg)"

lemma log_debug:
  assumes "sint (lg_level lg) \<le> 7"
  shows "fst (monikor_log LOG_DEBUG msg lg) = dump_lines [msg] lg"
proof -
  have "lg_level lg = 7 \<longleftrightarrow> sint (lg_level lg) = sint (7 :: cint)" by (rule word_eq_iff_signed)
  with assms show ?thesis
    by (subst log_written_iff) (auto simp: log_levels dump_lines_def)
qed

lemma dump_lines_simps [simp]:
  "lg_level (dump_lines ls lg) = lg_level lg" "dump_lines [] lg = lg"
  "dump_lines ks (dump_lines ls lg) = dump_lines (ls @ ks) lg"
  by (simp_all add: dump_lines_def)

lemma dump_metrics_lines:
  "sint (lg_level lg) \<le> 7 \<Longrightarrow> fold (dump_metric f) ms lg = dump_lines (map (metric_line f) ms) lg"
  by (induction ms arbitrary: lg) (simp_all add: dump_metric_def log_debug)

text \<open>With a level of syslog the guard always holds, and the dumps write one line per metric or list at the level
  of debugging and nothing at any other.\<close>

theorem dumps_at_debug_level:
  assumes "0 \<le> sint (lg_level lg)" and "sint (lg_level lg) \<le> 7"
  shows "dump_wanted lg
    \<and> dump_metric_list f l lg = (if lg_level lg = LOG_DEBUG
        then lg\<lparr>lg_written := lg_written lg @ map (\<lambda>m. (lg_fd lg, LOG_DEBUG, metric_line f m)) (l_nodes l)\<rparr> else lg)
    \<and> dump_store_size s lg = (if lg_level lg = LOG_DEBUG
        then lg\<lparr>lg_written := lg_written lg @ [(lg_fd lg, LOG_DEBUG, size_line ''current'' (s_current s)),
          (lg_fd lg, LOG_DEBUG, size_line ''delta'' (s_delta s)), (lg_fd lg, LOG_DEBUG, size_line ''cache'' (s_cache s))]\<rparr> else lg)"
proof (intro conjI)
  show "dump_wanted lg" using assms by (simp add: dump_wanted_def monikor_logger_level_def log_levels word_sle_eq)
  show "dump_metric_list f l lg = (if lg_level lg = LOG_DEBUG
        then lg\<lparr>lg_written := lg_written lg @ map (\<lambda>m. (lg_fd lg, LOG_DEBUG, metric_line f m)) (l_nodes l)\<rparr> else lg)"
    using assms(2) by (simp add: dump_metric_list_def monikor_metric_list_apply_def dump_metrics_lines) (simp add: dump_lines_def)
  show "dump_store_size s lg = (if lg_level lg = LOG_DEBUG
        then lg\<lparr>lg_written := lg_written lg @ [(lg_fd lg, LOG_DEBUG, size_line ''current'' (s_current s)),
          (lg_fd lg, LOG_DEBUG, size_line ''delta'' (s_delta s)), (lg_fd lg, LOG_DEBUG, size_line ''cache'' (s_cache s))]\<rparr> else lg)"
    using assms(2) by (simp add: dump_store_size_def Let_def log_debug) (simp add: dump_lines_def)
qed

theorem dumps_at_debug_level_witness:
  "dump_wanted logger_start \<and> dump_metric_list f l logger_start = logger_start"
  using dumps_at_debug_level [of logger_start f l] by (simp add: logger_start_def log_levels)

text \<open>The text of a configuration: a line per key, the elements of a dictionary behind its own line.\<close>

function config_text :: "cfg_dict \<Rightarrow> string" where
  "config_text [] = []"
| "config_text ((key, v) # rest) =
     (case v of
        MONIKOR_CFG_DICT d \<Rightarrow> ''dict '' @ print_str key @ newline @ config_text d
      | MONIKOR_CFG_LIST l \<Rightarrow> ''list '' @ print_str key @ '': '' @ concat (map (\<lambda>s. s @ '', '') (sl_strs l)) @ newline
      | MONIKOR_CFG_SCALAR s \<Rightarrow> print_str key @ '' = '' @ print_str s @ newline) @ config_text rest"
  by pat_completeness auto
termination
  by (relation "measure (size_list (size_prod (\<lambda>_. 0) size))") simp_all

lemma dump_list_elms: "fold dump_config_list_elm ss out = out @ concat (map (\<lambda>s. s @ '', '') ss)"
  by (induction ss arbitrary: out) (simp_all add: dump_config_list_elm_def)

lemma dump_config_text: "dump_config d out = out @ config_text d"
  by (induction d out rule: dump_config.induct) (simp_all add: strl_apply_def dump_list_elms)

end
