(* ===== verification/Store_Types.thy ===== *)
theory Store_Types
  imports Metric_Store
begin

text \<open>
  The types of metrics.  A module gives the samples of a metric one type and one set of flags, so a
  signature maps an identifier and a name to them.  The store changes both: a delta loses its flags,
  and the rate of an integer counter is a float.  This theory states the resulting types of what the
  store holds and shows that they are kept (preservation) and that no push is refused (progress).
\<close>

type_synonym signature = "u16 \<Rightarrow> string \<Rightarrow> metric_type \<times> u8"

definition sample_typed :: "signature \<Rightarrow> metric \<Rightarrow> bool" where
  "sample_typed T m \<longleftrightarrow> metric_wf m \<and> T (m_id m) (m_name m) = (m_type m, m_flags m)
     \<and> (is_delta m \<longrightarrow> m_type m \<noteq> MONIKOR_STRING)"

text \<open>The type and flags with which the samples of a type and flags become visible.\<close>

fun visible :: "metric_type \<times> u8 \<Rightarrow> metric_type \<times> u8" where
  "visible (ty, flags) =
     (if flags AND MONIKOR_METRIC_DELTA = 0 then (ty, flags)
      else (if flags AND MONIKOR_METRIC_TIMEDELTA = MONIKOR_METRIC_TIMEDELTA then MONIKOR_FLOAT else ty,
            flags AND NOT 3))"

definition visible_typed :: "signature \<Rightarrow> metric \<Rightarrow> bool" where
  "visible_typed T m \<longleftrightarrow> metric_wf m \<and> visible (T (m_id m) (m_name m)) = (m_type m, m_flags m)"

definition store_typed :: "signature \<Rightarrow> store \<Rightarrow> bool" where
  "store_typed T s \<longleftrightarrow> (\<forall>m\<in>set (l_nodes (s_delta s)). sample_typed T m)
     \<and> (\<forall>m\<in>set (l_nodes (s_current s)) \<union> set (l_nodes (s_cache s)). visible_typed T m)"

subsection \<open>Typed runs\<close>

text \<open>Stores that are reached by calls that push only samples of the signature; the allocator may fail.\<close>

inductive typed_store :: "signature \<Rightarrow> store \<Rightarrow> bool" for T where
  fresh: "monikor_metric_store_new al = (Some s, al') \<Longrightarrow> typed_store T s"
| push: "typed_store T s \<Longrightarrow> sample_typed T m \<Longrightarrow> monikor_metric_store_push s m al = (s', r, al') \<Longrightarrow> typed_store T s'"
| lpush: "typed_store T s \<Longrightarrow> \<forall>m\<in>set (l_nodes l). sample_typed T m \<Longrightarrow>
    monikor_metric_store_lpush s l al = (s', l', r, al') \<Longrightarrow> typed_store T s'"
| evict_cache: "typed_store T s \<Longrightarrow> monikor_metric_store_evict_cache s max_size = Some (s', n) \<Longrightarrow> typed_store T s'"
| evict_delta: "typed_store T s \<Longrightarrow> monikor_metric_store_evict_delta s clock = (s', n) \<Longrightarrow> typed_store T s'"
| flush: "typed_store T s \<Longrightarrow> typed_store T (monikor_metric_store_flush s)"
| cache: "typed_store T s \<Longrightarrow> typed_store T (monikor_metric_store_cache s)"
| uncache: "typed_store T s \<Longrightarrow> typed_store T (monikor_metric_store_uncache s)"
| flush_all: "typed_store T s \<Longrightarrow> typed_store T (monikor_metric_store_flush_all s)"

subsection \<open>Values\<close>

lemma sample_visible: "sample_typed T m \<Longrightarrow> \<not> is_delta m \<Longrightarrow> visible_typed T m"
  by (auto simp: sample_typed_def visible_typed_def)

lemma delta_type:
  assumes "monikor_metric_compute_delta a b al = (Some r, al')"
  shows "m_type r = (if is_timedelta a then MONIKOR_FLOAT else m_type a)"
  using assms
  by (auto simp: monikor_metric_compute_delta_def compute_int_delta_def compute_float_delta_def Let_def
      split: if_splits prod.splits option.splits metric_value.splits)

lemma delta_visible:
  assumes "monikor_metric_compute_delta a b al = (Some r, al')" and "sample_typed T a" and "is_delta a"
  shows "visible_typed T r"
proof -
  note d = compute_delta_Some [OF assms(1)]
  have "T (m_id a) (m_name a) = (m_type a, m_flags a)" using assms(2) by (simp add: sample_typed_def)
  moreover have "metric_wf r" using compute_delta_wf [OF assms(1)] assms(2) by (simp add: sample_typed_def)
  ultimately show ?thesis
    using assms(3) d delta_type [OF assms(1)] by (simp add: visible_typed_def is_timedelta_def)
qed

lemma add_visible:
  assumes "visible_typed T d"
  shows "visible_typed T (fst (monikor_metric_add d m))"
proof -
  obtain d' r where a: "monikor_metric_add d m = (d', r)" by force
  with assms metric_add_frame [OF a] metric_add_type [OF a] metric_add_wf [OF a] show ?thesis
    by (simp add: visible_typed_def)
qed

subsection \<open>Pushing\<close>

lemma list_push_nodes:
  "monikor_metric_list_push l m al = (l', r, al') \<Longrightarrow> set (l_nodes l') \<subseteq> insert m (set (l_nodes l))"
  by (erule list_push_cases) auto

lemma push_visible:
  assumes "store_typed T s" and "visible_typed T m" and "\<not> is_delta m"
    and "monikor_metric_store_push s m al = (s', r, al')"
  shows "store_typed T s'"
proof -
  have l: "store_typed T (s\<lparr>s_current := l\<rparr>)" if "monikor_metric_list_push (s_current s) m al = (l, r, al')" for l
    using list_push_nodes [OF that] assms(1,2) by (auto simp: store_typed_def)
  have u: "store_typed T (s\<lparr>s_current := (s_current s)\<lparr>l_nodes :=
      (l_nodes (s_current s))[i := fst (monikor_metric_add (l_nodes (s_current s) ! i) m)]\<rparr>\<rparr>)"
    if "i < length (l_nodes (s_current s))" for i
    using assms(1) that by (auto simp: store_typed_def add_visible dest!: subsetD [OF set_update_subset_insert])
  show ?thesis
    using assms(3,4) l u
    by (auto simp: monikor_metric_store_push.simps [of s m al] monikor_metric_store_push_aggregate_def Let_def
        split: if_splits prod.splits option.splits dest: find_first_SomeD)
qed

lemma push_typed:
  assumes "store_typed T s" and "sample_typed T m" and "monikor_metric_store_push s m al = (s', r, al')"
  shows "store_typed T s'"
proof (cases "is_delta m")
  case False
  with assms sample_visible push_visible show ?thesis by blast
next
  case True
  then have p: "monikor_metric_store_push_delta s m al = (s', r, al')"
    using assms(3) by (simp add: monikor_metric_store_push.simps [of s m al])
  show ?thesis
  proof (cases "find_first (is_cached_metric m) (l_nodes (s_delta s))")
    case None
    with p obtain l where "monikor_metric_list_push (s_delta s) m al = (l, r, al')" "s' = s\<lparr>s_delta := l\<rparr>"
      by (auto simp: monikor_metric_store_push_delta.simps [of s m al] split: prod.splits)
    with list_push_nodes assms(1,2) show ?thesis by (fastforce simp: store_typed_def)
  next
    case (Some i)
    let ?old = "l_nodes (s_delta s) ! i"
    let ?s = "s\<lparr>s_delta := (s_delta s)\<lparr>l_nodes := (l_nodes (s_delta s))[i := m]\<rparr>\<rparr>"
    from find_first_SomeD [OF Some] have i: "?old \<in> set (l_nodes (s_delta s))" "is_cached_metric m ?old" by simp_all
    have s: "store_typed T ?s"
      using assms(1,2) by (auto simp: store_typed_def dest!: subsetD [OF set_update_subset_insert])
    have old: "sample_typed T ?old" using assms(1) i(1) by (simp add: store_typed_def)
    moreover have "m_flags ?old = m_flags m"
      using old assms(2) i(2) by (auto simp: sample_typed_def is_cached_metric_def)
    ultimately have d: "sample_typed T ?old" "is_delta ?old" using True by simp_all
    show ?thesis
    proof (cases "fst (monikor_metric_compute_delta ?old m al)")
      case None
      with p Some assms(1) show ?thesis
        by (auto simp: monikor_metric_store_push_delta.simps [of s m al] Let_def split: prod.splits)
    next
      case (Some n)
      then obtain al1 where n: "monikor_metric_compute_delta ?old m al = (Some n, al1)" by (metis prod.collapse)
      with p \<open>find_first _ _ = Some i\<close> have "monikor_metric_store_push ?s n al1 = (s', r, al')"
        by (simp add: monikor_metric_store_push_delta.simps [of s m al] Let_def)
      with push_visible [OF s delta_visible [OF n d]] n show ?thesis by simp
    qed
  qed
qed

lemma push_visible_succeeds:
  assumes "\<not> is_delta m" and "alloc_ok al"
  obtains s' al' where "monikor_metric_store_push s m al = (s', 0, al')" and "alloc_ok al'"
proof -
  from assms(2) obtain al' where "monikor_metric_list_push (s_current s) m al
      = (monikor_metric_list_push_node (s_current s) m, 0, al')" "alloc_ok al'" by (rule list_push_ok)
  with assms have "\<exists>s' al'. monikor_metric_store_push s m al = (s', 0, al') \<and> alloc_ok al'"
    by (auto simp: monikor_metric_store_push.simps [of s m al] monikor_metric_store_push_aggregate_def Let_def
        split: option.split)
  then show ?thesis using that by blast
qed

lemma push_succeeds:
  assumes "store_typed T s" and "sample_typed T m" and "alloc_ok al"
  obtains s' al' where "monikor_metric_store_push s m al = (s', 0, al')" and "alloc_ok al'"
proof (cases "is_delta m")
  case False
  with assms(3) show ?thesis using that push_visible_succeeds by blast
next
  case True
  then have p: "monikor_metric_store_push s m al = monikor_metric_store_push_delta s m al"
    by (simp add: monikor_metric_store_push.simps [of s m al])
  show ?thesis
  proof (cases "find_first (is_cached_metric m) (l_nodes (s_delta s))")
    case None
    from assms(3) obtain al' where "monikor_metric_list_push (s_delta s) m al
        = (monikor_metric_list_push_node (s_delta s) m, 0, al')" "alloc_ok al'" by (rule list_push_ok)
    with None that show ?thesis by (simp add: p monikor_metric_store_push_delta.simps [of s m al])
  next
    case (Some i)
    let ?old = "l_nodes (s_delta s) ! i"
    from find_first_SomeD [OF Some] have i: "?old \<in> set (l_nodes (s_delta s))" "is_cached_metric m ?old" by simp_all
    have old: "sample_typed T ?old" using assms(1) i(1) by (simp add: store_typed_def)
    then have t: "m_type ?old = m_type m" "m_type m \<noteq> MONIKOR_STRING"
      using assms(2) i(2) True by (auto simp: sample_typed_def is_cached_metric_def)
    from assms(3) t(1) obtain al1 where c: "alloc_ok al1" "monikor_metric_compute_delta ?old m al =
        (let r = ?old\<lparr>m_flags := m_flags ?old AND NOT 3\<rparr>
         in case (m_value ?old, m_value m) of
              (VInt x, VInt y) \<Rightarrow> (Some (compute_int_delta ?old x m y r), al1)
            | (VFloat x, VFloat y) \<Rightarrow> (Some (compute_float_delta ?old x m y r), al1)
            | _ \<Rightarrow> (None, al1))"
      by (rule compute_delta_ok)
    with t have "\<exists>n. monikor_metric_compute_delta ?old m al = (Some n, al1)"
      by (auto simp: Let_def split: metric_value.splits)
    then obtain n where n: "monikor_metric_compute_delta ?old m al = (Some n, al1)" ..
    from n have "\<not> is_delta n" by simp
    then obtain s' al' where "monikor_metric_store_push
        (s\<lparr>s_delta := (s_delta s)\<lparr>l_nodes := (l_nodes (s_delta s))[i := m]\<rparr>\<rparr>) n al1 = (s', 0, al')" "alloc_ok al'"
      using c(1) by (rule push_visible_succeeds)
    with Some n that show ?thesis by (simp add: p monikor_metric_store_push_delta.simps [of s m al] Let_def)
  qed
qed

lemma list_pop_nodes:
  "monikor_metric_list_pop l = (Some m, l') \<Longrightarrow> l_nodes l = m # l_nodes l'"
  by (auto simp: monikor_metric_list_pop_def split: list.splits)

lemma lpush_typed:
  "lpush_loop s l err al = (s', l', r, al') \<Longrightarrow> store_typed T s \<Longrightarrow> \<forall>m\<in>set (l_nodes l). sample_typed T m \<Longrightarrow>
     store_typed T s' \<and> l_nodes l' = [] \<and> (alloc_ok al \<longrightarrow> r = err)"
proof (induction s l err al rule: lpush_loop.induct)
  case (1 s l err al)
  obtain m rest where pop: "monikor_metric_list_pop l = (m, rest)" by force
  show ?case
  proof (cases m)
    case None
    with pop 1(2,3) show ?thesis
      by (auto simp: lpush_loop.simps [of s l] monikor_metric_list_pop_def split: list.splits)
  next
    case (Some x)
    obtain s1 r1 al1 where p: "monikor_metric_store_push s x al = (s1, r1, al1)" by (metis prod_cases3)
    have x: "sample_typed T x" "\<forall>m\<in>set (l_nodes rest). sample_typed T m"
      using list_pop_nodes [of l x rest] pop Some 1(4) by simp_all
    have "alloc_ok al \<longrightarrow> r1 = 0 \<and> alloc_ok al1"
      using push_succeeds [OF 1(3) x(1), of al] p by auto
    then show ?thesis
      using 1(1) [OF pop [symmetric] Some p [symmetric] refl _ push_typed [OF 1(3) x(1) p] x(2)] 1(2) pop Some p
      by (auto simp: lpush_loop.simps [of s l])
  qed
qed

subsection \<open>The other operations\<close>

text \<open>They move metrics within what is visible, or drop some.\<close>

lemma store_typed_subset:
  assumes "store_typed T s" and "set (l_nodes (s_delta s')) \<subseteq> set (l_nodes (s_delta s))"
    and "set (l_nodes (s_current s')) \<union> set (l_nodes (s_cache s')) \<subseteq> set (l_nodes (s_current s)) \<union> set (l_nodes (s_cache s))"
  shows "store_typed T s'"
  using assms by (auto simp: store_typed_def)

lemma evict_cache_nodes:
  "evict_cache_loop c max_size n = Some (c', n') \<Longrightarrow> set (l_nodes c') \<subseteq> set (l_nodes c)"
proof (induction c max_size n rule: evict_cache_loop.induct)
  case (1 c max_size n)
  then show ?case
    by (auto simp: evict_cache_loop.simps [of c] split: if_splits prod.splits option.splits dest!: list_pop_nodes)
qed

lemma typed_store_typed: "typed_store T s \<Longrightarrow> store_typed T s"
proof (induction rule: typed_store.induct)
  case (fresh al s al')
  then show ?case
    by (auto simp: monikor_metric_store_new_def monikor_metric_list_new_def or_null_eq_Some_iff store_typed_def)
next
  case (push s m al s' r al')
  then show ?case by (blast intro: push_typed)
next
  case (lpush s l al s' l' r al')
  then show ?case using lpush_typed [of s l 0 al s' l' r al' T] by (simp add: monikor_metric_store_lpush_def)
next
  case (evict_cache s max_size s' n)
  then obtain c where "evict_cache_loop (s_cache s) max_size 0 = Some (c, n)" "s' = s\<lparr>s_cache := c\<rparr>"
    by (auto simp: monikor_metric_store_evict_cache_def split: bind_splits)
  with evict_cache_nodes [of "s_cache s" max_size 0 c n] evict_cache.IH show ?case
    by (auto intro!: store_typed_subset [of T s])
next
  case (evict_delta s clock s' n)
  then show ?case
    using list_remove_if_nodes [of "s_delta s" "evict_delta_predicate clock"]
    by (fastforce intro!: store_typed_subset [of T s] simp: monikor_metric_store_evict_delta_def split: prod.splits)
qed (auto intro: store_typed_subset simp: monikor_metric_store_flush_def monikor_metric_store_flush_all_def
    cache_nodes uncache_nodes)

subsection \<open>Properties\<close>

text \<open>C12: metrics are typed.  When every sample that is pushed has the type and flags that a signature gives to its
  identifier and name, the store holds samples of these types and shows metrics of the types they become,
  after any calls and whichever allocations failed; and unless an allocation fails, no push is refused.\<close>

theorem store_type_sound:
  assumes "typed_store T s" and "\<forall>m\<in>set (l_nodes l). sample_typed T m" and "alloc_ok al"
  shows "store_typed T s \<and> (\<exists>s' l' al'. monikor_metric_store_lpush s l al = (s', l', 0, al')
    \<and> store_typed T s' \<and> l_nodes l' = [])"
proof -
  obtain s' l' r al' where p: "lpush_loop s l 0 al = (s', l', r, al')" by (metis prod_cases4)
  with lpush_typed [OF p typed_store_typed [OF assms(1)] assms(2)] assms(3) typed_store_typed [OF assms(1)]
  show ?thesis by (simp add: monikor_metric_store_lpush_def)
qed

text \<open>A rate of an integer counter beside an integer aggregate.\<close>

definition sample_signature :: signature where
  "sample_signature i name = (if i = 3 then (MONIKOR_INTEGER, MONIKOR_METRIC_TIMEDELTA) else (MONIKOR_INTEGER, MONIKOR_METRIC_AGGREGATE))"

definition sample_samples :: mlist where
  "sample_samples = foldl monikor_metric_list_push_node monikor_metric_list_init
        [\<lparr>m_name = ''a'', m_id = 3, m_clock = \<lparr>tv_sec = 1, tv_usec = 0\<rparr>, m_value = VInt 10, m_flags = MONIKOR_METRIC_TIMEDELTA\<rparr>,
         \<lparr>m_name = ''b'', m_id = 4, m_clock = \<lparr>tv_sec = 1, tv_usec = 0\<rparr>, m_value = VInt 5, m_flags = MONIKOR_METRIC_AGGREGATE\<rparr>,
         \<lparr>m_name = ''a'', m_id = 3, m_clock = \<lparr>tv_sec = 3, tv_usec = 0\<rparr>, m_value = VInt 30, m_flags = MONIKOR_METRIC_TIMEDELTA\<rparr>]"

theorem store_type_sound_witness:
  "\<exists>s' l' al'. monikor_metric_store_lpush
      \<lparr>s_current = monikor_metric_list_init, s_delta = monikor_metric_list_init, s_cache = monikor_metric_list_init\<rparr>
      sample_samples [] = (s', l', 0, al') \<and> store_typed sample_signature s'"
proof -
  have "typed_store sample_signature
      \<lparr>s_current = monikor_metric_list_init, s_delta = monikor_metric_list_init, s_cache = monikor_metric_list_init\<rparr>"
    by (rule typed_store.fresh [of "[]" _ "[]"])
      (simp add: monikor_metric_store_new_def monikor_metric_list_new_def alloc_simps alloc_ret_def)
  moreover have "\<forall>m\<in>set (l_nodes sample_samples). sample_typed sample_signature m"
    by (simp add: sample_samples_def mlist.push_all_elems sample_typed_def sample_signature_def metric_wf_def)
  ultimately show ?thesis using store_type_sound [of sample_signature _ sample_samples "[]"] alloc_ok_Nil by blast
qed

end
