(* ===== verification/Server_Round.thy ===== *)
theory Server_Round
  imports Server
begin

text \<open>
  The event loop over the handlers of the local server: one round of \<open>select\<close> in which clients connect, send and leave.
  The handlers and the table of clients stay in step: every handler but that of the listening socket has its own
  active slot, and there are as many as the server counts.
\<close>

subsection \<open>The callbacks\<close>

text \<open>What arrives on a descriptor, the result of \<open>accept\<close>, and where a new handler is allocated; allocation succeeds.\<close>

record server_env =
  se_endian :: endian
  se_events :: "cint \<Rightarrow> sock_event list"
  se_accept :: cint
  se_addr :: "server_handler io_handler dll \<Rightarrow> nat"

definition server_callbacks :: "server_env \<Rightarrow> (server_handler, 'c, 'p, server_state) callbacks" where
  "server_callbacks se =
     \<lparr>cb_io = \<lambda>cb a mode w. (case cb of MONIKOR_SERVER_HANDLE_ANY client \<Rightarrow> do {
        (w, _) \<leftarrow> monikor_server_handle_any (se_endian se) (se_events se (ih_fd (data_at (io_of w) a))) (se_accept se)
                   (se_addr se (io_of w)) client a w [];
        Some (Running w) }),
      cb_curl = \<lambda>_ _ _ w. Some (Running w), cb_process = \<lambda>_ _ _ w. Some (Running w)\<rparr>"

text \<open>A client sends a complete message, or too few bytes for a header, or its connection fails.\<close>

definition message_ok :: "metric list \<Rightarrow> bool" where
  "message_ok ms \<longleftrightarrow> (\<forall>m\<in>set ms. metric_wf m \<and> length (m_name m) < 2 ^ 16) \<and> length ms < 2 ^ 16 \<and> length (encode_list ms) < 2 ^ 64"

inductive polite :: "sock_event list \<Rightarrow> bool" where
  closes: "polite []"
| fails: "polite (Failed # es)"
| too_short: "length bs < SERIALIZED_METRIC_LIST_HDR_SIZE \<Longrightarrow> polite (Received bs # es)"
| sends: "message_ok ms \<Longrightarrow> concat pieces = encode_list ms \<Longrightarrow> [] \<notin> set pieces \<Longrightarrow>
    polite (map Received (message_header ms # pieces))"

subsection \<open>Handlers and slots\<close>

definition client_slot :: "server_handler io_handler dll \<Rightarrow> nat \<Rightarrow> nat option" where
  "client_slot l a = (case ih_callback (data_at l a) of Some (MONIKOR_SERVER_HANDLE_ANY c) \<Rightarrow> c | None \<Rightarrow> None)"

definition slots_distinct :: "server_handler io_handler dll \<Rightarrow> nat list \<Rightarrow> bool" where
  "slots_distinct l xs \<longleftrightarrow> (\<forall>a\<in>set xs. \<forall>b\<in>set xs. \<forall>i. client_slot l a = Some i \<and> client_slot l b = Some i \<longrightarrow> a = b)"

definition served :: "('c, 'p) server_world \<Rightarrow> nat list \<Rightarrow> bool" where
  "served w xs \<longleftrightarrow> server_inv (server_of w)
     \<and> (\<forall>a\<in>set xs. \<forall>i. client_slot (io_of w) a = Some i \<longrightarrow>
          i < MONIKOR_SRV_MAX_CLIENTS \<and> active (sv_clients (server_of w) ! i))
     \<and> slots_distinct (io_of w) xs
     \<and> length (filter (\<lambda>a. client_slot (io_of w) a \<noteq> None) xs) = unat (sv_n_clients (server_of w))"

lemma served_slot:
  "served w xs \<Longrightarrow> a \<in> set xs \<Longrightarrow> client_slot (io_of w) a = Some i \<Longrightarrow>
     i < MONIKOR_SRV_MAX_CLIENTS \<and> active (sv_clients (server_of w) ! i)"
  by (simp add: served_def)

lemma served_distinct:
  "served w xs \<Longrightarrow> a \<in> set xs \<Longrightarrow> b \<in> set xs \<Longrightarrow> client_slot (io_of w) a = Some i \<Longrightarrow> client_slot (io_of w) b = Some i \<Longrightarrow> a = b"
  unfolding served_def slots_distinct_def by blast

lemma client_slot_cong:
  "map_option dn_data (dl_heap l' a) = map_option dn_data (dl_heap l a) \<Longrightarrow> dl_heap l a \<noteq> None \<Longrightarrow> client_slot l' a = client_slot l a"
  by (auto simp: client_slot_def data_at_def)

subsection \<open>A client is handled\<close>

lemma polite_handled:
  assumes "polite es" and "dll_is (io_of w) xs" and "h \<in> set xs" and "i < length (sv_clients (server_of w))"
  shows "\<exists>w' r al'. monikor_server_handle_client e es i h w [] = Some (w', r, al')"
proof -
  have error: "\<exists>w'. client_error i h w al = Some (w', -1, al)" for al
    using disconnect_ok [of "with_client i ((sv_clients (server_of w) ! i)\<lparr>cn_header := (cn_header (sv_clients (server_of w) ! i))\<lparr>h_count := 0\<rparr>\<rparr>) w"
        xs h i] assms(2-4) by (auto simp: client_error_def Let_def)
  from assms(1) show ?thesis
  proof cases
    case closes
    with error [of "[]"] show ?thesis by (auto simp: monikor_server_handle_client_def off_defs)
  next
    case (fails es)
    with error [of "[]"] show ?thesis by (auto simp: monikor_server_handle_client_def)
  next
    case (too_short bs es)
    with error [of "[]"] show ?thesis by (auto simp: monikor_server_handle_client_def off_defs)
  next
    case (sends ms pieces)
    then show ?thesis
      using server_ingests_message [OF assms(2-4) alloc_ok_Nil, of ms pieces e] by (auto simp: message_ok_def)
  qed
qed

lemma disconnect_list:
  assumes "monikor_server_disconnect i h w = Some w'" and "dll_is (io_of w) xs" and "h \<in> set xs"
  shows "dll_is (io_of w') (remove1 h xs)
    \<and> (\<forall>b. b \<noteq> h \<longrightarrow> map_option dn_data (dl_heap (io_of w') b) = map_option dn_data (dl_heap (io_of w) b))
    \<and> server_of w' = (server_of w)\<lparr>sv_clients := (sv_clients (server_of w))[i := monikor_client_init (sv_clients (server_of w) ! i)],
        sv_n_clients := sv_n_clients (server_of w) - 1\<rparr>"
proof -
  from assms(3) obtain as bs where xs: "xs = as @ h # bs" "h \<notin> set as" by (meson split_list_first)
  then have r: "remove1 h xs = as @ bs" by (simp add: remove1_append)
  obtain l where l: "monikor_io_handler_list_remove (io_of w) h = Some l" "dll_is l (remove1 h xs)"
    "\<forall>a. map_option dn_data (dl_heap l a) = map_option dn_data (dl_heap (io_of w) a)"
    using io_list.remove_ok [of "io_of w" as h bs] assms(2) xs r by auto
  moreover have "h \<notin> set (remove1 h xs)" using assms(2) by (simp add: dll_is_def)
  moreover have "map_option dn_data (dl_heap (dll_free l h) b) = map_option dn_data (dl_heap l b)" if "b \<noteq> h" for b
    using that by (simp add: dll_free_def)
  ultimately show ?thesis
    using assms(1)
    by (cases "cn_socket (sv_clients (server_of w) ! i) = -1")
      (auto simp: monikor_server_disconnect_def Let_def monikor_unregister_io_handler_def monikor_server_handler_free_def
        dll_free_other with_client_def)
qed

lemma disconnect_served:
  assumes "served w xs" and "dll_is (io_of w) xs" and "h \<in> set xs" and "client_slot (io_of w) h = Some i"
    and "monikor_server_disconnect i h w = Some w'"
  shows "served w' (remove1 h xs)" and "\<forall>b\<in>set (remove1 h xs). client_slot (io_of w') b = client_slot (io_of w) b"
proof -
  let ?s = "server_of w"
  note d = disconnect_list [OF assms(5,2,3)]
  have i: "i < MONIKOR_SRV_MAX_CLIENTS" "active (sv_clients ?s ! i)" using assms(1,3,4) by (auto simp: served_def)
  have inv: "server_inv ?s" "server_inv (server_of w')"
    using disconnect_inv [OF _ i assms(5)] assms(1) by (simp_all add: served_def)
  have set: "set (remove1 h xs) = set xs - {h}" using assms(2) by (simp add: dll_is_def)
  show slots: "\<forall>b\<in>set (remove1 h xs). client_slot (io_of w') b = client_slot (io_of w) b"
    using d dll_is_allocated [OF assms(2)] set by (auto intro!: client_slot_cong)
  have other: "client_slot (io_of w) b \<noteq> Some i" if "b \<in> set xs - {h}" for b
    using served_distinct [OF assms(1) _ assms(3) _ assms(4)] that by blast
  have "filter (\<lambda>a. client_slot (io_of w') a \<noteq> None) (remove1 h xs) = filter (\<lambda>a. client_slot (io_of w) a \<noteq> None) (remove1 h xs)"
    using slots by (intro filter_cong) auto
  also have "length \<dots> = length (filter (\<lambda>a. client_slot (io_of w) a \<noteq> None) xs) - 1"
    using assms(3,4) by (simp add: filter_remove1 length_remove1)
  finally have n: "length (filter (\<lambda>a. client_slot (io_of w') a \<noteq> None) (remove1 h xs)) = unat (sv_n_clients ?s) - 1"
    using assms(1) by (simp add: served_def)
  have "0 < length (filter active (sv_clients ?s))"
    using i inv(1) by (intro filter_pos [of i]) (simp_all add: server_inv_def)
  then have "unat (sv_n_clients ?s - 1) = unat (sv_n_clients ?s) - 1"
    using inv(1) by (subst unat_sub) (simp_all add: server_inv_def word_le_nat_alt Suc_le_eq)
  then have "length (filter (\<lambda>a. client_slot (io_of w') a \<noteq> None) (remove1 h xs)) = unat (sv_n_clients (server_of w'))"
    using n d by simp
  moreover have "j < MONIKOR_SRV_MAX_CLIENTS \<and> active (sv_clients (server_of w') ! j)"
    if "a \<in> set (remove1 h xs)" "client_slot (io_of w') a = Some j" for a j
  proof -
    have a: "a \<in> set xs - {h}" "client_slot (io_of w) a = Some j" using that slots set by auto
    with other have "j \<noteq> i" by auto
    with a served_slot [OF assms(1), of a j] d show ?thesis by simp
  qed
  moreover have "slots_distinct (io_of w') (remove1 h xs)"
    using served_distinct [OF assms(1)] slots set by (auto simp: slots_distinct_def)
  ultimately show "served w' (remove1 h xs)" using inv(2) unfolding served_def by blast
qed

subsection \<open>A client connects\<close>

lemma accepted_handler:
  obtains n where "monikor_server_handler_new s (Some i) [] = (Some n, [])" and "dn_prev n = None" and "dn_next n = None"
    and "ih_callback (dn_data n) = Some (MONIKOR_SERVER_HANDLE_ANY (Some i))"
  by (rule that) (auto simp: monikor_server_handler_new_def monikor_io_handler_new_def or_null_def alloc_ret_def)

lemma register_appends:
  assumes "dll_is (io_of w) xs" and "addr \<notin> set xs" and "dn_prev n = None" and "dn_next n = None"
  obtains w' where "monikor_register_io_handler addr (with_io (dll_alloc (io_of w) addr n) w) = Some w'"
    and "dll_is (io_of w') (xs @ [addr])" and "iw_state w' = iw_state w" and "data_at (io_of w') addr = dn_data n"
    and "\<forall>b. b \<noteq> addr \<longrightarrow> map_option dn_data (dl_heap (io_of w') b) = map_option dn_data (dl_heap (io_of w) b)"
proof -
  let ?l = "dll_alloc (io_of w) addr n"
  have "dll_is ?l xs" "dl_heap ?l addr = Some n" using assms(1,2) by (simp_all add: dll_is_heap_update) (simp add: dll_alloc_def)
  with io_list.push_ok [of ?l xs addr n] assms(2-4) obtain l' where l': "monikor_io_handler_list_push ?l addr = Some l'"
    "dll_is l' (xs @ [addr])" "\<forall>a. map_option dn_data (dl_heap l' a) = map_option dn_data (dl_heap ?l a)" by blast
  from l'(3) have "map_option dn_data (dl_heap l' addr) = Some (dn_data n)" by (simp add: dll_alloc_def)
  then have "data_at l' addr = dn_data n" by (auto simp: data_at_def)
  with l' show ?thesis
    by (intro that [of "with_io l' (with_io ?l w)"])
      (simp_all add: monikor_register_io_handler_def io_of_def with_io_def, simp add: dll_alloc_def)
qed

lemma connection_served:
  assumes "served w xs" and "dll_is (io_of w) xs" and "addr \<notin> set xs"
  shows "\<exists>w' r ys. monikor_server_handle_connection accept addr w [] = Some (w', r, []) \<and> dll_is (io_of w') ys \<and> served w' ys
    \<and> (ys = xs \<or> ys = xs @ [addr] \<and> client_slot (io_of w') addr \<noteq> None)
    \<and> (\<forall>b\<in>set xs. client_slot (io_of w') b = client_slot (io_of w) b)"
proof -
  let ?s = "server_of w" and ?conn = "monikor_server_handle_connection accept addr w []"
  have stay: ?thesis if "?conn = Some (w', r, [])" "io_of w' = io_of w" "sv_n_clients (server_of w') = sv_n_clients ?s"
    "\<And>j. j < MONIKOR_SRV_MAX_CLIENTS \<Longrightarrow> active (sv_clients ?s ! j) \<Longrightarrow> active (sv_clients (server_of w') ! j)" for w' r
  proof -
    have "server_inv (server_of w')" using connection_inv [OF _ that(1)] assms(1) by (simp add: served_def)
    with that assms(1,2) have "served w' xs" by (simp add: served_def)
    with that assms(2) show ?thesis by auto
  qed
  show ?thesis
  proof (cases "of_nat MONIKOR_SRV_MAX_CLIENTS \<le> sv_n_clients ?s")
    case True
    then show ?thesis by (intro stay [of w "-1"]) (simp_all add: monikor_server_handle_connection_def)
  next
    case room: False
    show ?thesis
    proof (cases "find_first (\<lambda>c. cn_socket c = MONIKOR_CLIENT_INACTIVE_SOCKET) (sv_clients ?s)")
      case None
      with room show ?thesis by (intro stay [of w 1]) (simp_all add: monikor_server_handle_connection_def)
    next
      case (Some i)
      from find_first_SomeD [OF Some] have i: "i < length (sv_clients ?s)" "\<not> active (sv_clients ?s ! i)" by (simp_all add: active_def)
      let ?v = "with_client i ((sv_clients ?s ! i)\<lparr>cn_socket := accept\<rparr>) w"
      have kept: "active (sv_clients (server_of ?v) ! j)" if "active (sv_clients ?s ! j)" for j
        using i that by (cases "j = i") simp_all
      show ?thesis
      proof (cases "accept = -1")
        case True
        with room Some kept show ?thesis by (intro stay [of ?v "-1"]) (simp_all add: monikor_server_handle_connection_def Let_def)
      next
        case False
        obtain n where n: "monikor_server_handler_new (server_of ?v) (Some i) [] = (Some n, [])" "dn_prev n = None" "dn_next n = None"
          "ih_callback (dn_data n) = Some (MONIKOR_SERVER_HANDLE_ANY (Some i))" by (rule accepted_handler)
        have "dll_is (io_of ?v) xs" using assms(2) by simp
        from register_appends [OF this assms(3) n(2,3)] obtain u where u: "monikor_register_io_handler addr (with_io (dll_alloc (io_of ?v) addr n) ?v) = Some u"
          "dll_is (io_of u) (xs @ [addr])" "iw_state u = iw_state ?v" "data_at (io_of u) addr = dn_data n"
          "\<forall>b. b \<noteq> addr \<longrightarrow> map_option dn_data (dl_heap (io_of u) b) = map_option dn_data (dl_heap (io_of w) b)" by auto
        let ?w' = "with_server ((server_of u)\<lparr>sv_n_clients := sv_n_clients (server_of u) + 1\<rparr>) u"
        have conn: "?conn = Some (?w', 0, [])"
          using room Some False n(1) u(1) by (simp add: monikor_server_handle_connection_def Let_def)
        have s: "server_of u = server_of ?v" using u(3) by (simp add: server_of_def)
        have slot: "client_slot (io_of ?w') addr = Some i" using u(4) n(4) by (simp add: client_slot_def)
        have same: "client_slot (io_of ?w') b = client_slot (io_of w) b" if "b \<in> set xs" for b
        proof -
          from that assms(3) have "b \<noteq> addr" by auto
          with u(5) client_slot_cong [OF _ dll_is_allocated [OF assms(2) that], of "io_of u"] show ?thesis by simp
        qed
        have inv: "server_inv (server_of ?w')" using connection_inv [OF _ conn] assms(1) by (simp add: served_def)
        have other: "client_slot (io_of w) b \<noteq> Some i" if "b \<in> set xs" for b
          using served_slot [OF assms(1) that] i(2) by auto
        have "served ?w' (xs @ [addr])"
        proof -
          have "slots_distinct (io_of ?w') (xs @ [addr])"
            unfolding slots_distinct_def
          proof (intro ballI allI impI, elim conjE)
            fix a b j
            assume a: "a \<in> set (xs @ [addr])" "b \<in> set (xs @ [addr])"
              "client_slot (io_of ?w') a = Some j" "client_slot (io_of ?w') b = Some j"
            have "c = addr \<longleftrightarrow> j = i" if "c \<in> set (xs @ [addr])" "client_slot (io_of ?w') c = Some j" for c
              using that slot same other assms(3) by (cases "c = addr") auto
            from this [OF a(1,3)] this [OF a(2,4)] a same served_distinct [OF assms(1), of a b j] show "a = b"
              by (cases "j = i") auto
          qed
          moreover have "j < MONIKOR_SRV_MAX_CLIENTS \<and> active (sv_clients (server_of ?w') ! j)"
            if "a \<in> set (xs @ [addr])" "client_slot (io_of ?w') a = Some j" for a j
          proof (cases "a = addr")
            case True
            with that(2) slot have "j = i" by simp
            moreover have "length (sv_clients ?s) = MONIKOR_SRV_MAX_CLIENTS" using assms(1) by (simp add: served_def server_inv_def)
            ultimately show ?thesis using i(1) False by (simp add: s active_def MONIKOR_CLIENT_INACTIVE_SOCKET_def)
          next
            case other: False
            with that have "a \<in> set xs" "client_slot (io_of w) a = Some j" using same by auto
            from served_slot [OF assms(1) this] kept [of j] show ?thesis by (simp add: s)
          qed
          moreover have "length (filter (\<lambda>a. client_slot (io_of ?w') a \<noteq> None) (xs @ [addr])) = unat (sv_n_clients (server_of ?w'))"
          proof -
            have "filter (\<lambda>a. client_slot (io_of ?w') a \<noteq> None) xs = filter (\<lambda>a. client_slot (io_of w) a \<noteq> None) xs"
              using same by (intro filter_cong) simp_all
            moreover have "unat (sv_n_clients ?s + 1) = unat (sv_n_clients ?s) + 1"
              using room by (simp add: MONIKOR_SRV_MAX_CLIENTS_def word_le_nat_alt unat_plus_if_size word_size)
            ultimately show ?thesis using assms(1) slot by (simp add: s served_def)
          qed
          ultimately show ?thesis using inv unfolding served_def by blast
        qed
        with conn u(2) slot same show ?thesis by auto
      qed
    qed
  qed
qed

subsection \<open>A round\<close>

text \<open>The allocator never gives an address that is in the list.\<close>

definition fresh_addresses :: "server_env \<Rightarrow> bool" where
  "fresh_addresses se \<longleftrightarrow> (\<forall>l xs. dll_is l xs \<longrightarrow> se_addr se l \<notin> set xs)"

definition quiet_clients :: "server_env \<Rightarrow> bool" where
  "quiet_clients se \<longleftrightarrow> (\<forall>fd. polite (se_events se fd)) \<and> fresh_addresses se"

lemma client_handled:
  assumes "polite es" and "served w xs" and "dll_is (io_of w) xs" and "h \<in> set xs" and "client_slot (io_of w) h = Some i"
  shows "\<exists>w' r al'. monikor_server_handle_client e es i h w [] = Some (w', r, al') \<and> dll_is (io_of w') (remove1 h xs)
    \<and> served w' (remove1 h xs) \<and> (\<forall>b\<in>set (remove1 h xs). client_slot (io_of w') b = client_slot (io_of w) b)"
proof -
  have i: "i < MONIKOR_SRV_MAX_CLIENTS" "active (sv_clients (server_of w) ! i)" using served_slot [OF assms(2,4,5)] by simp_all
  have inv: "server_inv (server_of w)" using assms(2) by (simp add: served_def)
  with i have len: "i < length (sv_clients (server_of w))" by (simp add: server_inv_def)
  obtain w' r al' where h: "monikor_server_handle_client e es i h w [] = Some (w', r, al')"
    using polite_handled [OF assms(1,3,4) len] by blast
  then obtain v where v: "touched i w v" "monikor_server_disconnect i h v = Some w'"
    using handle_client_disconnects len by blast
  have io: "io_of v = io_of w" using v(1) by (simp add: touched_def)
  have "active (sv_clients (server_of v) ! j)" if "active (sv_clients (server_of w) ! j)" for j
    using v(1) that by (cases "j = i") (auto simp: touched_def active_def len)
  then have "served v xs"
    using assms(2) v(1) touched_inv(1) [OF v(1) inv i] by (auto simp: served_def io) (simp add: touched_def)
  from disconnect_served [OF this _ assms(4) _ v(2)] disconnect_list [OF v(2) _ assms(4)] assms(3,5) h show ?thesis
    unfolding io by blast
qed

interpretation server_round: io_rounds "server_callbacks se" "\<lambda>w xs. served w xs \<and> quiet_clients se"
    "\<lambda>w a. client_slot (io_of w) a = None" for se
proof
  fix w :: "('a, 'b) server_world" and xs a cb mode
  assume "served w xs \<and> quiet_clients se" and l: "dll_is (io_of w) xs" "a \<in> set xs" and cb: "ih_callback (data_at (io_of w) a) = Some cb"
  then have s: "served w xs" and q: "polite (se_events se fd)" "se_addr se (io_of w) \<notin> set xs" "quiet_clients se" for fd
    by (auto simp: quiet_clients_def fresh_addresses_def)
  obtain client where c: "cb = MONIKOR_SERVER_HANDLE_ANY client" by (cases cb)
  with cb have slot: "client_slot (io_of w) a = client" by (simp add: client_slot_def)
  show "\<exists>r. cb_io (server_callbacks se) cb a mode w = Some r \<and> (\<forall>w'. r = Running w' \<longrightarrow> (\<exists>ys. (served w' ys \<and> quiet_clients se)
      \<and> dll_is (io_of w') ys \<and> (ys = xs \<or> ys = remove1 a xs \<or> client_slot (io_of w) a = None
          \<and> (\<exists>b. b \<notin> set xs \<and> ys = xs @ [b] \<and> \<not> client_slot (io_of w') b = None))
      \<and> (\<forall>b\<in>set ys \<inter> set xs. (client_slot (io_of w') b = None) = (client_slot (io_of w) b = None))))"
  proof (cases client)
    case None
    obtain w' r ys where w': "monikor_server_handle_connection (se_accept se) (se_addr se (io_of w)) w [] = Some (w', r, [])"
      "dll_is (io_of w') ys" "served w' ys" "ys = xs \<or> ys = xs @ [se_addr se (io_of w)] \<and> client_slot (io_of w') (se_addr se (io_of w)) \<noteq> None"
      "\<forall>b\<in>set xs. client_slot (io_of w') b = client_slot (io_of w) b"
      using connection_served [OF s l(1) q(2)] by blast
    then have "cb_io (server_callbacks se) cb a mode w = Some (Running w')"
      by (simp add: server_callbacks_def c None monikor_server_handle_any_def)
    with w' slot None q(2,3) show ?thesis by auto
  next
    case (Some i)
    with slot have "client_slot (io_of w) a = Some i" by simp
    from client_handled [OF q(1) s l this] obtain w' r al' where
      w': "monikor_server_handle_client (se_endian se) (se_events se (ih_fd (data_at (io_of w) a))) i a w [] = Some (w', r, al')"
      "dll_is (io_of w') (remove1 a xs)" "served w' (remove1 a xs)" "\<forall>b\<in>set (remove1 a xs). client_slot (io_of w') b = client_slot (io_of w) b"
      by blast
    then have "cb_io (server_callbacks se) cb a mode w = Some (Running w')"
      by (simp add: server_callbacks_def c Some monikor_server_handle_any_def)
    with w' q(3) show ?thesis by auto
  qed
qed

subsection \<open>Properties\<close>


text \<open>A listening socket on descriptor 8 and a client on 9, both ready; a second client connects on 10.\<close>

definition listening_server :: "(unit, unit) server_world" where
  "listening_server = with_io \<lparr>dl_heap = [3 \<mapsto> \<lparr>dn_data = \<lparr>ih_fd = 8, ih_mode = MONIKOR_IO_HANDLER_RD,
         ih_callback = Some (MONIKOR_SERVER_HANDLE_ANY None)\<rparr>, dn_prev = None, dn_next = Some 4\<rparr>,
       4 \<mapsto> \<lparr>dn_data = \<lparr>ih_fd = 9, ih_mode = MONIKOR_IO_HANDLER_RD,
         ih_callback = Some (MONIKOR_SERVER_HANDLE_ANY (Some 0))\<rparr>, dn_prev = Some 3, dn_next = None\<rparr>],
     dl_first = Some 3, dl_last = Some 4\<rparr> sample_server"

definition sample_clients :: "(server_handler io_handler dll \<Rightarrow> nat) \<Rightarrow> server_env" where
  "sample_clients addr = \<lparr>se_endian = LE, se_events = (\<lambda>fd. map Received [message_header (l_nodes wire_sample), encode_list (l_nodes wire_sample)]),
     se_accept = 10, se_addr = addr\<rparr>"

lemma dll_unique: "dll_is l xs \<Longrightarrow> dll_is l ys \<Longrightarrow> xs = ys"
proof -
  have "xs = ys" if "dchain hp p xs None" "dchain hp q ys None" "hd_opt xs None = hd_opt ys None" for hp :: "nat \<Rightarrow> 'a dnode option" and p q
    using that
  proof (induction xs arbitrary: p q ys)
    case Nil
    then show ?case by (cases ys) simp_all
  next
    case (Cons x xs)
    then obtain zs where "ys = x # zs" by (cases ys) simp_all
    with Cons show ?case by auto
  qed
  then show "dll_is l xs \<Longrightarrow> dll_is l ys \<Longrightarrow> xs = ys" by (simp add: dll_is_def) (metis option.inject)
qed


end
