(* ===== verification/Proc_Pollers.thy ===== *)
theory Proc_Pollers
  imports Samples
begin

text \<open>
  The modules of \<open>lib/modules\<close> that read what the kernel exports: cpu, memory, system, network, nfs, disk
  and process.  Files, \<open>sysconf\<close>, \<open>statvfs\<close> and the entries of \<open>/proc\<close> are parameters; \<open>None\<close> is a null
  pointer dereferenced or a read past the end of a string.
\<close>

record statvfs =
  f_frsize :: u64
  f_blocks :: u64
  f_bfree :: u64
  f_bavail :: u64
  f_files :: u64
  f_ffree :: u64
  f_favail :: u64

record dirent =
  d_is_dir :: bool
  d_name :: string

record host =
  ho_files :: fs
  ho_tps :: clong
  ho_cores :: clong
  ho_statvfs :: "string \<Rightarrow> statvfs option"
  ho_proc :: "dirent list option"

abbreviation newline :: char where "newline \<equiv> CHR 0x0A"

subsection \<open>cpu\<close>

definition cpu_metric_names :: "string list" where
  "cpu_metric_names = [''cpu.user'', ''cpu.nice'', ''cpu.system'', ''cpu.idle'', ''cpu.iowait'', ''cpu.irq'',
     ''cpu.softirq'', ''cpu.steal'', ''cpu.guest'']"

definition get_proc_stat_cpu_info :: "string \<Rightarrow> string option" where
  "get_proc_stat_cpu_info proc_stat = do {
     line \<leftarrow> strstr proc_stat ''cpu '';
     _ \<leftarrow> strchr line newline;
     Some (cut_at newline line) }"

definition cpu_value :: "host \<Rightarrow> string \<Rightarrow> f32" where
  "cpu_value ho s = f32_div (f32_div (fst (strtof s)) (f32_of_long (ho_tps ho))) (f32_of_long (ho_cores ho))"

fun cpu_loop :: "host \<Rightarrow> nat \<Rightarrow> string \<Rightarrow> f32 list" where
  "cpu_loop ho 0 start = []"
| "cpu_loop ho (Suc n) start =
     (let start = dropWhile (\<lambda>c. c = CHR '' '') start in
      case strchr start (CHR '' '') of
        None \<Rightarrow> [cpu_value ho start]
      | Some e \<Rightarrow> cpu_value ho (cut_at (CHR '' '') start) # cpu_loop ho n (tl e))"

definition cpu_fetch_metrics :: "host \<Rightarrow> nat \<Rightarrow> alloc \<Rightarrow> f32 list \<times> alloc" where
  "cpu_fetch_metrics ho n_metrics al =
     (case monikor_read_file (ho_files ho) ''/proc/stat'' al of
        (None, al) \<Rightarrow> ([], al)
      | (Some proc_stat, al) \<Rightarrow>
          (case get_proc_stat_cpu_info proc_stat of
             None \<Rightarrow> ([], al)
           | Some cpu_info \<Rightarrow>
               (case strchr cpu_info (CHR '' '') of
                  None \<Rightarrow> ([], al) | Some start \<Rightarrow> (cpu_loop ho n_metrics start, al))))"

definition cpu_fetch_loadavg :: "host \<Rightarrow> timeval \<Rightarrow> agent \<Rightarrow> alloc \<Rightarrow> agent \<times> cint \<times> alloc" where
  "cpu_fetch_loadavg ho clock mon al =
     (case monikor_read_file (ho_files ho) ''/proc/loadavg'' al of
        (None, al) \<Rightarrow> (mon, 1, al)
      | (Some loadavg, al) \<Rightarrow>
          (case strtof loadavg of (v, e) \<Rightarrow>
             if e = loadavg then (mon, 1, al)
             else (case push_float ''cpu.loadavg'' clock (f32_div v (f32_of_long (ho_cores ho))) 0 mon al of
                     (mon, _, al) \<Rightarrow> (mon, 0, al))))"

definition cpu_poll_metrics :: "host \<Rightarrow> timeval \<Rightarrow> agent \<Rightarrow> alloc \<Rightarrow> agent \<times> cint \<times> alloc" where
  "cpu_poll_metrics ho clock mon al =
     (case cpu_fetch_metrics ho (length cpu_metric_names) al of (values, al) \<Rightarrow>
      case push_samples clock (map2 (\<lambda>name v. Float_Sample name v MONIKOR_METRIC_TIMEDELTA) cpu_metric_names values) mon al of
        (mon, _, al) \<Rightarrow>
      case cpu_fetch_loadavg ho clock mon al of (mon, err, al) \<Rightarrow>
        (mon, of_nat (length values) + (if err = 0 then 1 else 0), al))"

definition cpu_poll :: "host \<Rightarrow> timeval \<Rightarrow> agent \<Rightarrow> alloc \<Rightarrow> agent \<times> cint \<times> alloc" where
  "cpu_poll ho now mon al = cpu_poll_metrics ho now mon al"

subsection \<open>memory\<close>

record memory_metric =
  mm_name :: string
  mm_field_name :: string
  mm_flags :: u8

definition meminfo_metrics :: "memory_metric list" where
  "meminfo_metrics = map (\<lambda>(n, f). \<lparr>mm_name = n, mm_field_name = f, mm_flags = 0\<rparr>)
     [(''memory.total'', ''MemTotal:''), (''memory.free'', ''MemFree:''), (''memory.available'', ''MemAvailable:''),
      (''memory.buffers'', ''Buffers:''), (''memory.cached'', ''Cached:''), (''memory.active'', ''Active:''),
      (''memory.inactive'', ''Inactive:''), (''swap.total'', ''SwapTotal:''), (''swap.free'', ''SwapFree:'')]"

definition vmstat_metrics :: "memory_metric list" where
  "vmstat_metrics = map (\<lambda>(n, f). \<lparr>mm_name = n, mm_field_name = f, mm_flags = MONIKOR_METRIC_TIMEDELTA\<rparr>)
     [(''swap.activity.pages_in'', ''pswpin''), (''swap.activity.pages_out'', ''pswpout'')]"

definition memory_fetch_metric :: "string \<Rightarrow> string \<Rightarrow> u64 option" where
  "memory_fetch_metric info name = do {
     line \<leftarrow> strstr info name;
     Some (fst (strtoull_10 (drop (length name) line)) * 1024) }"

definition memory_samples :: "string \<Rightarrow> memory_metric list \<Rightarrow> sample list" where
  "memory_samples info ms =
     List.map_filter (\<lambda>m. map_option (\<lambda>v. Integer_Sample (mm_name m) v (mm_flags m)) (memory_fetch_metric info (mm_field_name m))) ms"

text \<open>The count goes up whether or not the metric could be pushed.\<close>

definition fetch_metrics_from_file ::
  "host \<Rightarrow> timeval \<Rightarrow> string \<Rightarrow> memory_metric list \<Rightarrow> agent \<Rightarrow> alloc \<Rightarrow> agent \<times> cint \<times> alloc" where
  "fetch_metrics_from_file ho clock filename ms mon al =
     (case monikor_read_file (ho_files ho) filename al of
        (None, al) \<Rightarrow> (mon, 0, al)
      | (Some info, al) \<Rightarrow>
          (case push_samples clock (memory_samples info ms) mon al of
             (mon, _, al) \<Rightarrow> (mon, of_nat (length (memory_samples info ms)), al)))"

definition memory_poll_metrics :: "host \<Rightarrow> timeval \<Rightarrow> agent \<Rightarrow> alloc \<Rightarrow> agent \<times> cint \<times> alloc" where
  "memory_poll_metrics ho clock =
     poll_then (fetch_metrics_from_file ho clock ''/proc/meminfo'' meminfo_metrics)
               (fetch_metrics_from_file ho clock ''/proc/vmstat'' vmstat_metrics)"

definition memory_poll :: "host \<Rightarrow> timeval \<Rightarrow> agent \<Rightarrow> alloc \<Rightarrow> agent \<times> cint \<times> alloc" where
  "memory_poll ho now mon al = memory_poll_metrics ho now mon al"

subsection \<open>system\<close>

definition system_metrics :: "(string \<times> string) list" where
  "system_metrics = [(''intr '', ''system.interrupts''), (''ctxt '', ''system.context_switches''),
     (''processes '', ''system.forks'')]"

definition poll_file :: "host \<Rightarrow> timeval \<Rightarrow> agent \<Rightarrow> alloc \<Rightarrow> agent \<times> cint \<times> alloc" where
  "poll_file ho clock mon al =
     (case monikor_read_file (ho_files ho) ''/proc/sys/fs/file-nr'' al of
        (None, al) \<Rightarrow> (mon, 0, al)
      | (Some stat, al) \<Rightarrow>
          push_samples clock (Integer_Sample ''system.file.open'' (strtoull_0 stat) 0 #
            (case strrchr stat (CHR 0x09) of
               None \<Rightarrow> [] | Some str \<Rightarrow> [Integer_Sample ''system.file.max'' (strtoull_0 str) 0])) mon al)"

definition poll_inode :: "host \<Rightarrow> timeval \<Rightarrow> agent \<Rightarrow> alloc \<Rightarrow> agent \<times> cint \<times> alloc" where
  "poll_inode ho clock mon al =
     (case monikor_read_file (ho_files ho) ''/proc/sys/fs/inode-nr'' al of
        (None, al) \<Rightarrow> (mon, 0, al)
      | (Some stat, al) \<Rightarrow> push_samples clock [Integer_Sample ''system.inode.open'' (strtoull_0 stat) 0] mon al)"

definition poll_metric :: "string \<Rightarrow> string \<Rightarrow> u64 option" where
  "poll_metric name stat = do { metric \<leftarrow> strstr stat name; Some (strtoull_0 (drop (length name) metric)) }"

definition system_poll_metrics :: "host \<Rightarrow> timeval \<Rightarrow> agent \<Rightarrow> alloc \<Rightarrow> agent \<times> cint \<times> alloc" where
  "system_poll_metrics ho clock mon al =
     (case monikor_read_file (ho_files ho) ''/proc/stat'' al of
        (None, al) \<Rightarrow> (mon, 0, al)
      | (Some stat, al) \<Rightarrow>
          poll_then
            (push_samples clock (List.map_filter (\<lambda>(stat_name, name).
               map_option (\<lambda>v. Integer_Sample name v MONIKOR_METRIC_TIMEDELTA) (poll_metric stat_name stat)) system_metrics))
            (poll_then (poll_inode ho clock) (poll_file ho clock)) mon al)"

definition system_poll :: "host \<Rightarrow> timeval \<Rightarrow> agent \<Rightarrow> alloc \<Rightarrow> agent \<times> cint \<times> alloc" where
  "system_poll ho now mon al = system_poll_metrics ho now mon al"

subsection \<open>network\<close>

definition net_metrics :: "string option list" where
  "net_metrics = [Some ''rx.bytes'', Some ''rx.packets'', Some ''rx.errors'', Some ''rx.dropped'', None, None, None, None,
     Some ''tx.bytes'', Some ''tx.packets'', Some ''tx.errors'', Some ''tx.dropped'', None, None, None, None]"

definition MNK_NET_MAX_DEV_LEN :: nat where "MNK_NET_MAX_DEV_LEN = 10"

text \<open>The interfaces to watch (\<open>None\<close>: all but virtual ones).\<close>

record net_mod =
  nm_ifaces :: "strl option"

definition network_init :: "cfg_dict \<Rightarrow> alloc \<Rightarrow> net_mod option \<times> alloc" where
  "network_init cfg =
     or_null malloc (\<lambda>_ al. case monikor_config_dict_get_list cfg ''network.interfaces'' al of
       (ifaces, al) \<Rightarrow> (Some \<lparr>nm_ifaces = ifaces\<rparr>, al))"

fun device_samples :: "string \<Rightarrow> string option list \<Rightarrow> string \<Rightarrow> sample list" where
  "device_samples base [] metric = []"
| "device_samples base (name # names) metric =
     (case strtoull_10 metric of (v, metric) \<Rightarrow>
        (case name of None \<Rightarrow> [] | Some s \<Rightarrow> [Integer_Sample (base @ s) v MONIKOR_METRIC_TIMEDELTA])
        @ device_samples base names metric)"

definition poll_device_metrics :: "timeval \<Rightarrow> string \<Rightarrow> string \<Rightarrow> agent \<Rightarrow> alloc \<Rightarrow> agent \<times> cint \<times> alloc" where
  "poll_device_metrics clock name info mon al =
     (let ss = device_samples (''network.interfaces.'' @ name @ ''.'') net_metrics info
      in case push_samples clock ss mon al of (mon, _, al) \<Rightarrow> (mon, of_nat (length ss), al))"

text \<open>
  The name of a device: from the colon back to a blank or the beginning of the line.  When the scan
  stops at the beginning, the character there belongs to the name.
\<close>

definition back_to_blank :: "string \<Rightarrow> string" where
  "back_to_blank s =
     (let r = takeWhile (\<lambda>c. c \<noteq> CHR '' '' \<and> c \<noteq> newline) (rev s)
      in if length s \<le> Suc (length r) then s else rev r)"

definition next_device_info :: "string \<Rightarrow> (string \<times> string \<times> string) option" where
  "next_device_info netinfo = do {
     e \<leftarrow> strchr netinfo (CHR '':'');
     let devname = back_to_blank (cut_at (CHR '':'') netinfo);
     let devinfo = tl e;
     e \<leftarrow> strchr devinfo newline;
     Some (devname, cut_at newline devinfo, tl e) }"

lemma next_device_info_shorter: "next_device_info s = Some (d, i, r) \<Longrightarrow> length r < length s"
proof -
  assume n: "next_device_info s = Some (d, i, r)"
  then obtain e e' where e: "strchr s (CHR '':'') = Some e" "strchr (tl e) newline = Some e'" "r = tl e'"
    by (auto simp: next_device_info_def Let_def split: bind_splits)
  have "length e \<le> length s" "e \<noteq> []" "length e' \<le> length (tl e)" "e' \<noteq> []"
    using strchr_length [OF e(1)] strchr_length [OF e(2)] by auto
  with e(3) show ?thesis by (cases e; cases e') auto
qed

definition is_valid_device :: "string \<Rightarrow> net_mod \<Rightarrow> bool" where
  "is_valid_device name mdl =
     (if MNK_NET_MAX_DEV_LEN < length name then False
      else case nm_ifaces mdl of
        Some l \<Rightarrow> strl_contains l name \<noteq> 0
      | None \<Rightarrow> \<not> strncmp_eq name ''veth'' 4 \<and> \<not> strncmp_eq name ''dummy'' 5 \<and> \<not> strncmp_eq name ''docker'' 6)"

function network_loop :: "timeval \<Rightarrow> net_mod \<Rightarrow> string \<Rightarrow> agent \<Rightarrow> alloc \<Rightarrow> agent \<times> cint \<times> alloc" where
  "network_loop clock mdl rest mon al =
     (case next_device_info rest of
        None \<Rightarrow> (mon, 0, al)
      | Some (dev, info, rest) \<Rightarrow>
          poll_then (\<lambda>mon al. if is_valid_device dev mdl then poll_device_metrics clock dev info mon al else (mon, 0, al))
                    (network_loop clock mdl rest) mon al)"
  by pat_completeness auto
termination
  by (relation "measure (\<lambda>(clock, mdl, rest, mon, al). length rest)") (auto dest: next_device_info_shorter)

declare network_loop.simps [simp del]

definition poll_network_metrics :: "host \<Rightarrow> timeval \<Rightarrow> net_mod \<Rightarrow> agent \<Rightarrow> alloc \<Rightarrow> agent \<times> cint \<times> alloc" where
  "poll_network_metrics ho clock mdl mon al =
     (case monikor_read_file (ho_files ho) ''/proc/net/dev'' al of
        (None, al) \<Rightarrow> (mon, 0, al)
      | (Some netinfo, al) \<Rightarrow> network_loop clock mdl netinfo mon al)"

text \<open>The number of blanks before the first occurrence of a name.\<close>

definition find_index :: "string \<Rightarrow> string \<Rightarrow> cint" where
  "find_index str name =
     (case strstr str name of
        None \<Rightarrow> 0
      | Some pos \<Rightarrow> of_nat (length (filter c_isspace (take (length str - length pos) str))))"

fun index_value_loop :: "string \<Rightarrow> cint \<Rightarrow> cint \<Rightarrow> u64" where
  "index_value_loop [] space index = 0"
| "index_value_loop (c # s) space index =
     (let space = (if c = CHR '' '' then space + 1 else space)
      in if space = index then strtoull_0 (c # s) else index_value_loop s space index)"

definition get_index_value :: "string \<Rightarrow> cint \<Rightarrow> cint" where
  "get_index_value str index = (if index = 0 then 0 else int_of_long (index_value_loop str 0 index))"

definition tcp_metrics :: "(string \<times> string \<times> u8) list" where
  "tcp_metrics = [(''network.tcp.active'', ''ActiveOpens'', MONIKOR_METRIC_TIMEDELTA),
     (''network.tcp.passive'', ''PassiveOpens'', MONIKOR_METRIC_TIMEDELTA),
     (''network.tcp.failed'', ''AttemptFails'', MONIKOR_METRIC_TIMEDELTA),
     (''network.tcp.resets'', ''EstabResets'', MONIKOR_METRIC_TIMEDELTA),
     (''network.tcp.current'', ''CurrEstab'', 0)]"

text \<open>The first line that starts with \<open>Tcp:\<close> names the fields, the second one has their values.  A second
  \<open>Tcp:\<close> on the first line is cut with it.\<close>

definition tcp_lines :: "string \<Rightarrow> (string \<times> string) option option" where
  "tcp_lines stats = do {
     stat \<leftarrow> strstr stats ''Tcp:'';
     let v = strstr (tl stat) ''Tcp:'';
     case strchr stat newline of
       None \<Rightarrow> Some None
     | Some e \<Rightarrow> do {
         v \<leftarrow> v;
         let v = (if length e < length v then cut_at newline v else v);
         (case strchr v newline of
            None \<Rightarrow> Some None
          | Some _ \<Rightarrow> Some (Some (cut_at newline stat, cut_at newline v))) } }"

definition poll_tcp_metrics :: "host \<Rightarrow> timeval \<Rightarrow> agent \<Rightarrow> alloc \<Rightarrow> (agent \<times> cint \<times> alloc) option" where
  "poll_tcp_metrics ho clock mon al =
     (case monikor_read_file (ho_files ho) ''/proc/net/snmp'' al of
        (None, al) \<Rightarrow> Some (mon, 0, al)
      | (Some stats, al) \<Rightarrow> do {
          ls \<leftarrow> tcp_lines stats;
          Some (case ls of
            None \<Rightarrow> (mon, 0, al)
          | Some (stat, v) \<Rightarrow>
              push_samples clock (map (\<lambda>(name, field, flags).
                Integer_Sample name (size_of_int (get_index_value v (find_index stat field))) flags) tcp_metrics) mon al) })"

definition network_poll :: "host \<Rightarrow> timeval \<Rightarrow> net_mod option \<Rightarrow> agent \<Rightarrow> alloc \<Rightarrow> (agent \<times> cint \<times> alloc) option" where
  "network_poll ho now data mon al =
     (case data of
        None \<Rightarrow> Some (mon, -1, al)
      | Some mdl \<Rightarrow>
          (case poll_network_metrics ho now mdl mon al of (mon, n, al) \<Rightarrow> do {
             (mon, k, al) \<leftarrow> poll_tcp_metrics ho now mon al;
             Some (mon, n + k, al) }))"

subsection \<open>nfs\<close>

definition nfs_metrics :: "string list" where
  "nfs_metrics = ['''', ''''] @ map (\<lambda>s. ''nfs.client.v3.'' @ s)
     [''getattr'', ''setattr'', ''lookup'', ''access'', ''readlink'', ''read'', ''write'', ''create'', ''mkdir'',
      ''symlink'', ''mknod'', ''remove'', ''rmdir'', ''rename'', ''link'', ''readdir'', ''readdirplus'', ''fsstat'',
      ''fsinfo'', ''pathconf'', ''commit'']"

fun nfs_samples :: "string list \<Rightarrow> string \<Rightarrow> sample list" where
  "nfs_samples [] proc = []"
| "nfs_samples (name # names) proc =
     (case strtoull_10 proc of (v, proc) \<Rightarrow>
        (if name = '''' then [] else [Integer_Sample name v MONIKOR_METRIC_TIMEDELTA]) @ nfs_samples names proc)"

text \<open>\<open>proc + 6\<close> is past the end when nothing follows \<open>proc3\<close>.\<close>

definition nfs_fetch_metrics :: "host \<Rightarrow> timeval \<Rightarrow> agent \<Rightarrow> alloc \<Rightarrow> (agent \<times> cint \<times> alloc) option" where
  "nfs_fetch_metrics ho clock mon al =
     (case monikor_read_file (ho_files ho) ''/proc/net/rpc/nfs'' al of
        (None, al) \<Rightarrow> Some (mon, 0, al)
      | (Some nfsstat, al) \<Rightarrow>
          (case strstr nfsstat ''proc3'' of
             None \<Rightarrow> Some (mon, 0, al)
           | Some proc \<Rightarrow>
               if length proc < 6 then None
               else Some (push_samples clock (nfs_samples nfs_metrics (drop 6 proc)) mon al)))"

definition nfs_poll :: "host \<Rightarrow> timeval \<Rightarrow> agent \<Rightarrow> alloc \<Rightarrow> (agent \<times> cint \<times> alloc) option" where
  "nfs_poll ho now mon al = nfs_fetch_metrics ho now mon al"

subsection \<open>disk\<close>

definition dev_metrics :: "string list" where
  "dev_metrics = ['''', '''', ''bytes.read'', '''', '''', '''', ''bytes.write'', '''', '''', ''io.spent_ms'', '''']"

fun disk_dev_samples :: "string \<Rightarrow> u64 \<Rightarrow> string list \<Rightarrow> string \<Rightarrow> sample list" where
  "disk_dev_samples base sector_size [] stat = []"
| "disk_dev_samples base sector_size (name # names) stat =
     (case strtoull_10 stat of (v, next) \<Rightarrow>
        if next = stat then []
        else (if name = '''' then []
              else [Integer_Sample (base @ name) (if strncmp_eq name ''bytes.'' 6 then v * sector_size else v)
                      MONIKOR_METRIC_TIMEDELTA])
             @ disk_dev_samples base sector_size names next)"

definition process_one_disk_dev_stat ::
  "timeval \<Rightarrow> string \<Rightarrow> string \<Rightarrow> u64 \<Rightarrow> agent \<Rightarrow> alloc \<Rightarrow> agent \<times> cint \<times> alloc" where
  "process_one_disk_dev_stat clock dev stats sector_size mon al =
     (let ss = disk_dev_samples (''disk.device.'' @ dev @ ''.'') sector_size dev_metrics stats
      in case push_samples clock ss mon al of (mon, _, al) \<Rightarrow> (mon, of_nat (length ss), al))"

fun is_monitored_device :: "string \<Rightarrow> bool" where
  "is_monitored_device [a, b, c] \<longleftrightarrow>
     (a = CHR ''h'' \<or> a = CHR ''s'') \<and> b = CHR ''d'' \<and> 97 \<le> (of_char c :: nat) \<and> (of_char c :: nat) \<le> 122"
| "is_monitored_device _ \<longleftrightarrow> False"

definition fetch_one_disk_dev_metrics :: "host \<Rightarrow> timeval \<Rightarrow> string \<Rightarrow> agent \<Rightarrow> alloc \<Rightarrow> agent \<times> cint \<times> alloc" where
  "fetch_one_disk_dev_metrics ho clock part mon al =
     (case strrchr part (CHR '' '') of
        None \<Rightarrow> (mon, 0, al)
      | Some e \<Rightarrow>
          let dev = tl e in
          if \<not> is_monitored_device dev then (mon, 0, al)
          else case monikor_read_file (ho_files ho) (''/sys/block/'' @ dev @ ''/queue/hw_sector_size'') al of
            (None, al) \<Rightarrow> (mon, 0, al)
          | (Some sector_size, al) \<Rightarrow>
              (case monikor_read_file (ho_files ho) (''/sys/block/'' @ dev @ ''/stat'') al of
                 (None, al) \<Rightarrow> (mon, 0, al)
               | (Some stats, al) \<Rightarrow> process_one_disk_dev_stat clock dev stats (fst (strtoull_10 sector_size)) mon al))"

text \<open>The loop over the lines of a file: it gives up with -1 at a line without its newline.\<close>

function lines_loop ::
  "(string \<Rightarrow> agent \<Rightarrow> alloc \<Rightarrow> agent \<times> cint \<times> alloc) \<Rightarrow> string \<Rightarrow> cint \<Rightarrow> agent \<Rightarrow> alloc \<Rightarrow> agent \<times> cint \<times> alloc" where
  "lines_loop one s n mon al =
     (if s = [] then (mon, n, al)
      else case strchr s newline of
        None \<Rightarrow> (mon, -1, al)
      | Some e \<Rightarrow> (case one (cut_at newline s) mon al of (mon, k, al) \<Rightarrow> lines_loop one (tl e) (n + k) mon al))"
  by pat_completeness auto
termination
proof (relation "measure (\<lambda>(one, s, n, mon, al). length s)")
  fix one :: "string \<Rightarrow> agent \<Rightarrow> alloc \<Rightarrow> agent \<times> cint \<times> alloc" and s e n mon al x mon' y k al'
  assume "strchr s newline = Some e"
  then have "length (tl e) < length s" using strchr_length [of s newline e] by (cases e) auto
  then show "((one, tl e, n + k, mon', al'), one, s, n, mon, al) \<in> measure (\<lambda>(one, s, n, mon, al). length s)" by simp
qed simp

declare lines_loop.simps [simp del]

definition fetch_disk_dev_metrics :: "host \<Rightarrow> timeval \<Rightarrow> string \<Rightarrow> agent \<Rightarrow> alloc \<Rightarrow> agent \<times> cint \<times> alloc" where
  "fetch_disk_dev_metrics ho clock parts mon al = lines_loop (fetch_one_disk_dev_metrics ho clock) parts 0 mon al"

definition monitored_fs :: "string list" where
  "monitored_fs = [''btrfs'', ''ext2'', ''ext3'', ''ext4'', ''jfs'', ''reiser'', ''xfs'', ''ffs'', ''ufs'', ''jfs'', ''jfs2'',
     ''vxfs'', ''hfs'', ''ntfs'', ''fat3'']"

definition is_monitored_fs :: "string \<Rightarrow> bool" where
  "is_monitored_fs fstype = list_ex (\<lambda>f. fstype = f) monitored_fs"

definition fs_samples :: "string \<Rightarrow> statvfs \<Rightarrow> sample list" where
  "fs_samples path st = map (\<lambda>(name, v). Integer_Sample (''disk.fs.'' @ path @ ''.'' @ name) v 0)
     [(''bytes.total'', f_frsize st * f_blocks st), (''bytes.free'', f_frsize st * f_bfree st),
      (''bytes.available'', f_frsize st * f_bavail st), (''inodes.total'', f_files st), (''inodes.free'', f_ffree st),
      (''inodes.available'', f_favail st)]"

definition fetch_one_disk_fs_metrics :: "host \<Rightarrow> timeval \<Rightarrow> string \<Rightarrow> agent \<Rightarrow> alloc \<Rightarrow> agent \<times> cint \<times> alloc" where
  "fetch_one_disk_fs_metrics ho clock mount mon al =
     (case do { path \<leftarrow> strchr mount (CHR '' ''); fstype \<leftarrow> strchr (tl path) (CHR '' '');
                _ \<leftarrow> strchr (tl fstype) (CHR '' '');
                Some (cut_at (CHR '' '') (tl path), cut_at (CHR '' '') (tl fstype)) } of
        None \<Rightarrow> (mon, 0, al)
      | Some (path, fstype) \<Rightarrow>
          if \<not> is_monitored_fs fstype then (mon, 0, al)
          else case ho_statvfs ho path of
            None \<Rightarrow> (mon, 0, al)
          | Some st \<Rightarrow>
              if 1024 \<le> length (''disk.fs.'' @ path @ ''.'') then (mon, 0, al)
              else (case push_samples clock (fs_samples path st) mon al of (mon, _, al) \<Rightarrow> (mon, 6, al)))"

definition fetch_disk_fs_metrics :: "host \<Rightarrow> timeval \<Rightarrow> string \<Rightarrow> agent \<Rightarrow> alloc \<Rightarrow> agent \<times> cint \<times> alloc" where
  "fetch_disk_fs_metrics ho clock mounts mon al = lines_loop (fetch_one_disk_fs_metrics ho clock) mounts 0 mon al"

definition poll_disk_metrics :: "host \<Rightarrow> timeval \<Rightarrow> agent \<Rightarrow> alloc \<Rightarrow> agent \<times> cint \<times> alloc" where
  "poll_disk_metrics ho clock =
     poll_then
       (\<lambda>mon al. case monikor_read_file (ho_files ho) ''/proc/mounts'' al of
          (None, al) \<Rightarrow> (mon, 0, al) | (Some mounts, al) \<Rightarrow> fetch_disk_fs_metrics ho clock mounts mon al)
       (\<lambda>mon al. case monikor_read_file (ho_files ho) ''/proc/partitions'' al of
          (None, al) \<Rightarrow> (mon, 0, al) | (Some parts, al) \<Rightarrow> fetch_disk_dev_metrics ho clock parts mon al)"

definition disk_poll :: "host \<Rightarrow> timeval \<Rightarrow> agent \<Rightarrow> alloc \<Rightarrow> agent \<times> cint \<times> alloc" where
  "disk_poll ho now mon al = poll_disk_metrics ho now mon al"

subsection \<open>process\<close>

definition PROC_STATUSES :: string where "PROC_STATUSES = ''RSDZTW''"
definition PROC_TOTAL :: nat where "PROC_TOTAL = 6"
definition NB_PROC_METRICS :: nat where "NB_PROC_METRICS = 7"

definition looks_like_pid_dir :: "dirent \<Rightarrow> bool" where
  "looks_like_pid_dir entry \<longleftrightarrow> d_is_dir entry \<and> list_all is_digit (d_name entry)"

text \<open>The place of the status among the statuses; the terminating NUL of that string is one of its characters.\<close>

definition status_place :: "char \<Rightarrow> nat option" where
  "status_place c = find_first (\<lambda>d. d = c) (PROC_STATUSES @ [CHR 0x00])"

definition fetch_one_process_metrics :: "host \<Rightarrow> u64 list \<Rightarrow> string \<Rightarrow> alloc \<Rightarrow> (u64 list \<times> alloc) option" where
  "fetch_one_process_metrics ho ms pid al =
     (case monikor_read_file (ho_files ho) (''/proc/'' @ pid @ ''/stat'') al of
        (None, al) \<Rightarrow> Some (ms, al)
      | (Some proc_stat, al) \<Rightarrow>
          (case strchr proc_stat (CHR '')'') of
             None \<Rightarrow> Some (ms, al)
           | Some info \<Rightarrow>
               if length info < 2 then None
               else
                 (let c = (info @ [CHR 0x00]) ! 2;
                      ms = (case status_place c of None \<Rightarrow> ms | Some i \<Rightarrow> ms[i := ms ! i + 1])
                  in Some (ms[PROC_TOTAL := ms ! PROC_TOTAL + 1], al))))"

fun process_loop :: "host \<Rightarrow> dirent list \<Rightarrow> u64 list \<Rightarrow> alloc \<Rightarrow> (u64 list \<times> alloc) option" where
  "process_loop ho [] ms al = Some (ms, al)"
| "process_loop ho (entry # es) ms al =
     (if looks_like_pid_dir entry then do {
        (ms, al) \<leftarrow> fetch_one_process_metrics ho ms (d_name entry) al;
        process_loop ho es ms al }
      else process_loop ho es ms al)"

definition process_metric_names :: "string list" where
  "process_metric_names = [''process.running'', ''process.sleeping'', ''process.waiting'', ''process.zombie'',
     ''process.stopped'', ''process.paging'', ''process.total'']"

definition poll_process_metrics :: "host \<Rightarrow> timeval \<Rightarrow> agent \<Rightarrow> alloc \<Rightarrow> (agent \<times> cint \<times> alloc) option" where
  "poll_process_metrics ho clock mon al =
     (case ho_proc ho of
        None \<Rightarrow> Some (mon, 0, al)
      | Some es \<Rightarrow> do {
          (ms, al) \<leftarrow> process_loop ho es (replicate NB_PROC_METRICS 0) al;
          case push_samples clock (map2 (\<lambda>name v. Integer_Sample name v 0) process_metric_names ms) mon al of
            (mon, _, al) \<Rightarrow> Some (mon, of_nat NB_PROC_METRICS, al) })"

definition process_poll :: "host \<Rightarrow> timeval \<Rightarrow> agent \<Rightarrow> alloc \<Rightarrow> (agent \<times> cint \<times> alloc) option" where
  "process_poll ho now mon al = poll_process_metrics ho now mon al"

end
