(* ===== verification/Info_Module.thy ===== *)
theory Info_Module
  imports Samples Agent_Modules
begin

text \<open>
  The builtin module \<open>info\<close>, \<open>src/modules/info_module.c\<close>: uptime, kernel, distribution, cloud instance and
  tags of the configuration.  Files, \<open>uname\<close> and \<open>curl_easy_init\<close> are parameters; the terms of the
  final sum are evaluated from left to right.
\<close>

definition AWS_INSTANCE_ID_URL :: string where
  "AWS_INSTANCE_ID_URL = ''http://169.254.169.254/latest/meta-data/instance-id''"
definition GCE_INSTANCE_ID_URL :: string where
  "GCE_INSTANCE_ID_URL = ''http://metadata.google.internal/computeMetadata/v1/instance/id''"
definition CLOUD_HTTPGET_TIMEOUT :: clong where "CLOUD_HTTPGET_TIMEOUT = 15"
definition MONIKOR_MAX_TAG_NAME_LENGH :: u64 where "MONIKOR_MAX_TAG_NAME_LENGH = 512"

record utsname =
  un_sysname :: string
  un_release :: string
  un_machine :: string

record info_env =
  ie_files :: fs
  ie_uname :: "utsname option"
  ie_easy_init :: bool

definition poll_uname :: "info_env \<Rightarrow> timeval \<Rightarrow> agent \<Rightarrow> alloc \<Rightarrow> agent \<times> cint \<times> alloc" where
  "poll_uname ie clock mon al =
     (case ie_uname ie of
        None \<Rightarrow> (mon, 0, al)
      | Some name \<Rightarrow>
          push_samples clock
            [String_Sample ''sysinfo.uname.kernel'' (un_sysname name),
             String_Sample ''sysinfo.uname.kernel_version'' (un_release name),
             String_Sample ''sysinfo.uname.arch'' (un_machine name)] mon al)"

subsection \<open>Distribution\<close>

definition infos :: "(string \<times> string) list" where
  "infos = [(''ID='', ''sysinfo.os.distribution''), (''VERSION_ID='', ''sysinfo.os.version'')]"

text \<open>\<open>if (*value == '"' && (end = strrchr(value, '"'))) { value++; *end = 0; }\<close>\<close>

definition unquote :: "string \<Rightarrow> string" where
  "unquote value =
     (if take 1 value = [CHR 0x22] \<and> strrchr value (CHR 0x22) \<noteq> None then tl (cut_last (CHR 0x22) value) else value)"

fun os_info_loop :: "(string \<times> string) list \<Rightarrow> string \<Rightarrow> sample list" where
  "os_info_loop [] value = []"
| "os_info_loop ((osr_name, name) # rest) value =
     (let len = length osr_name in
      if \<not> strncmp_eq value osr_name len then os_info_loop rest value
      else [String_Sample name (unquote (drop len value))])"

definition poll_os_info :: "string \<Rightarrow> timeval \<Rightarrow> agent \<Rightarrow> alloc \<Rightarrow> agent \<times> cint \<times> alloc" where
  "poll_os_info value clock mon al = push_samples clock (os_info_loop infos value) mon al"

fun poll_os_loop :: "string list \<Rightarrow> timeval \<Rightarrow> agent \<Rightarrow> alloc \<Rightarrow> agent \<times> cint \<times> alloc" where
  "poll_os_loop [] clock mon al = (mon, 0, al)"
| "poll_os_loop (value # rest) clock mon al =
     (case poll_os_info value clock mon al of (mon, n, al) \<Rightarrow>
      case poll_os_loop rest clock mon al of (mon, k, al) \<Rightarrow> (mon, n + k, al))"

text \<open>\<open>strtok_r(..., "\n", ...)\<close> delivers the non-empty lines; overwriting a quote in a line leaves the rest of
  the file as it is.\<close>

definition poll_os :: "info_env \<Rightarrow> timeval \<Rightarrow> agent \<Rightarrow> alloc \<Rightarrow> agent \<times> cint \<times> alloc" where
  "poll_os ie clock mon al =
     (case monikor_read_file (ie_files ie) ''/etc/os-release'' al of
        (None, al) \<Rightarrow> (mon, 0, al)
      | (Some osrelease, al) \<Rightarrow> poll_os_loop (tokens [CHR 0x0A] osrelease) clock mon al)"

definition poll_uptime :: "info_env \<Rightarrow> timeval \<Rightarrow> agent \<Rightarrow> alloc \<Rightarrow> agent \<times> cint \<times> alloc" where
  "poll_uptime ie clock mon al =
     (case monikor_read_file (ie_files ie) ''/proc/uptime'' al of
        (None, al) \<Rightarrow> (mon, 0, al)
      | (Some uptime, al) \<Rightarrow>
          push_samples clock [Integer_Sample ''sysinfo.uptime'' (fst (strtoull_10 uptime)) 0] mon al)"

subsection \<open>Cloud instance\<close>

text \<open>
  A host identifier that was taken from the buffer follows it.  The condition compares with the
  buffer, not with the identifier in use.
\<close>

definition set_instance_id_as_hostid :: "string \<Rightarrow> agent \<Rightarrow> agent" where
  "set_instance_id_as_hostid i mon =
     (if i \<noteq> '''' \<and> i \<noteq> mn_instance_id mon then
        (let b = take 255 i;
             mon = mon\<lparr>mn_instance_id := b\<rparr>;
             mon = (if mn_hostid_shared mon then mon\<lparr>mn_config := (mn_config mon)\<lparr>cf_hostid := Some b\<rparr>\<rparr> else mon)
         in (if cf_hostid (mn_config mon) = None
             then mon\<lparr>mn_config := (mn_config mon)\<lparr>cf_hostid := Some b\<rparr>, mn_hostid_shared := True\<rparr>
             else mon))
      else mon)"

text \<open>\<open>None\<close>: the body is empty, and \<open>strlen\<close> is called on the null pointer.\<close>

definition handle_cloud_instance_id ::
  "http_response \<Rightarrow> cint \<Rightarrow> timeval \<Rightarrow> agent \<Rightarrow> alloc \<Rightarrow> (agent \<times> alloc) option" where
  "handle_cloud_instance_id status result clock mon al =
     (if result \<noteq> 0 \<or> hr_code status \<noteq> 200 then Some (mon, al)
      else do {
        d \<leftarrow> hr_data status;
        case push_string ''sysinfo.cloud.instance_id'' clock d (set_instance_id_as_hostid d mon) al of
          (mon, _, al) \<Rightarrow> Some (mon, al) })"

definition gce_curl_header :: "string list" where "gce_curl_header = [''Metadata-Flavor: Google'']"

definition poll_cloud :: "info_env \<Rightarrow> timeval \<Rightarrow> agent \<Rightarrow> alloc \<Rightarrow> agent \<times> cint \<times> alloc" where
  "poll_cloud ie clock mon al =
     (case monikor_read_file (ie_files ie) ''/sys/devices/virtual/dmi/id/bios_version'' al of
        (None, al) \<Rightarrow> (mon, 0, al)
      | (Some hyp_uuid, al) \<Rightarrow>
          (if strstr hyp_uuid ''amazon'' \<noteq> None then
             (case monikor_http_get (ie_easy_init ie) AWS_INSTANCE_ID_URL CLOUD_HTTPGET_TIMEOUT HANDLE_CLOUD_INSTANCE_ID mon al of
                (mon, _, al) \<Rightarrow> push_samples clock [String_Sample ''sysinfo.cloud.provider'' ''ec2''] mon al)
           else if strstr hyp_uuid ''Google'' \<noteq> None then
             (case monikor_http_get_with_headers (ie_easy_init ie) GCE_INSTANCE_ID_URL CLOUD_HTTPGET_TIMEOUT
                     HANDLE_CLOUD_INSTANCE_ID gce_curl_header mon al of
                (mon, _, al) \<Rightarrow> push_samples clock [String_Sample ''sysinfo.cloud.provider'' ''gce''] mon al)
           else (mon, 0, al)))"

subsection \<open>Tags\<close>

fun tag_samples :: "cfg_dict \<Rightarrow> sample list" where
  "tag_samples [] = []"
| "tag_samples ((key, v) # rest) =
     (case key of
        None \<Rightarrow> tag_samples rest
      | Some k \<Rightarrow>
          if MONIKOR_MAX_TAG_NAME_LENGH < strlen k then tag_samples rest
          else (case v of
                  MONIKOR_CFG_SCALAR t \<Rightarrow>
                    String_Sample (''sysinfo.agent.tags.'' @ k) (case t of Some t \<Rightarrow> t | None \<Rightarrow> '''') # tag_samples rest
                | _ \<Rightarrow> tag_samples rest))"

definition poll_tags :: "timeval \<Rightarrow> agent \<Rightarrow> alloc \<Rightarrow> agent \<times> cint \<times> alloc" where
  "poll_tags clock mon al =
     (case monikor_config_dict_get_dict (cf_full_config (mn_config mon)) ''tags'' al of
        ((_, MONIKOR_CFG_DICT tags) # _, al) \<Rightarrow> push_samples clock (tag_samples tags) mon al
      | (_, al) \<Rightarrow> (mon, 0, al))"

definition monikor_info_module_poll :: "info_env \<Rightarrow> timeval \<Rightarrow> agent \<Rightarrow> alloc \<Rightarrow> agent \<times> cint \<times> alloc" where
  "monikor_info_module_poll ie clock =
     poll_then (poll_uptime ie clock)
       (poll_then (poll_uname ie clock)
         (poll_then (poll_os ie clock)
           (poll_then (poll_cloud ie clock) (poll_tags clock))))"

subsection \<open>The lines of os-release\<close>

lemma key_prefix:
  "c \<notin> set k \<Longrightarrow> c \<notin> set t \<Longrightarrow> take (Suc (length t)) (k @ c # r) = t @ [c] \<longleftrightarrow> k = t"
proof (induction k arbitrary: t)
  case Nil
  then show ?case by (cases t) auto
next
  case (Cons d k)
  then show ?case by (cases t) auto
qed

lemma strrchr_last: "c \<notin> set r \<Longrightarrow> strrchr (p @ c # r) c = Some (c # r)"
proof (induction p)
  case Nil
  moreover have "c \<notin> set r \<Longrightarrow> strrchr r c = None" for r by (induction r) auto
  ultimately show ?case by simp
qed simp

lemma unquote_quoted: "unquote (CHR 0x22 # v @ [CHR 0x22]) = v"
  using strrchr_last [of "CHR 0x22" "[]" "CHR 0x22 # v"] by (simp add: unquote_def cut_last_def)

lemma unquote_plain: "take 1 v \<noteq> [CHR 0x22] \<Longrightarrow> unquote v = v"
  by (simp add: unquote_def)

text \<open>An entry \<open>KEY=value\<close> or \<open>KEY="value"\<close>, and the sample it stands for.\<close>

definition os_entry :: "string \<times> bool \<times> string \<Rightarrow> string" where
  "os_entry e = (case e of (k, q, v) \<Rightarrow> k @ ''='' @ (if q then CHR 0x22 # v @ [CHR 0x22] else v))"

definition os_sample :: "string \<times> bool \<times> string \<Rightarrow> sample list" where
  "os_sample e = (case e of (k, q, v) \<Rightarrow>
     if k = ''ID'' then [String_Sample ''sysinfo.os.distribution'' v]
     else if k = ''VERSION_ID'' then [String_Sample ''sysinfo.os.version'' v] else [])"

definition os_entry_ok :: "string \<times> bool \<times> string \<Rightarrow> bool" where
  "os_entry_ok e \<longleftrightarrow> (case e of (k, q, v) \<Rightarrow>
     CHR ''='' \<notin> set k \<and> CHR 0x0A \<notin> set k \<and> CHR 0x0A \<notin> set v \<and> (\<not> q \<longrightarrow> take 1 v \<noteq> [CHR 0x22]))"

lemma os_key:
  assumes "CHR ''='' \<notin> set k" and "CHR ''='' \<notin> set t"
  shows "strncmp_eq (k @ CHR ''='' # r) (t @ ''='') (length (t @ ''='')) \<longleftrightarrow> k = t"
  using key_prefix [OF assms] by (simp add: strncmp_eq_def del: take_append)

lemma os_info_entry:
  assumes "os_entry_ok e"
  shows "os_info_loop infos (os_entry e) = os_sample e"
proof -
  obtain k q v where e: "e = (k, q, v)" by (cases e)
  define r where "r = (if q then CHR 0x22 # v @ [CHR 0x22] else v)"
  have u: "unquote r = v"
    using assms by (simp add: e os_entry_ok_def unquote_quoted unquote_plain r_def)
  have "CHR ''='' \<notin> set k" using assms by (simp add: e os_entry_ok_def)
  from os_key [OF this, of "''ID''" r] os_key [OF this, of "''VERSION_ID''" r]
  have "strncmp_eq (k @ CHR ''='' # r) ''ID='' (length ''ID='') \<longleftrightarrow> k = ''ID''"
    "strncmp_eq (k @ CHR ''='' # r) ''VERSION_ID='' (length ''VERSION_ID='') \<longleftrightarrow> k = ''VERSION_ID''"
    by simp_all
  then have "os_info_loop infos (k @ CHR ''='' # r) = os_sample e"
    by (auto simp: infos_def os_sample_def e u Let_def)
  then show ?thesis by (simp add: os_entry_def e r_def)
qed

lemma push_samples_append:
  "push_samples clock (ss @ ts) mon al =
    (case push_samples clock ss mon al of (mon, n, al) \<Rightarrow>
     case push_samples clock ts mon al of (mon, k, al) \<Rightarrow> (mon, n + k, al))"
  by (induction ss arbitrary: mon al) (auto split: prod.splits)

lemma poll_os_entries:
  "\<forall>e\<in>set es. os_entry_ok e \<Longrightarrow>
    poll_os_loop (map os_entry es) clock mon al = push_samples clock (concat (map os_sample es)) mon al"
  by (induction es arbitrary: mon al) (simp_all add: poll_os_info_def os_info_entry push_samples_append split: prod.splits)

subsection \<open>Properties\<close>

text \<open>C30: The distribution and its version are read from any os-release file of entries \<open>KEY=value\<close> or
  \<open>KEY="value"\<close>, one per line: the quotes are removed, also around quotes, and the other keys, whatever
  they end with, are ignored.\<close>

theorem os_release_parsed:
  assumes "alloc_ok al" and "ie_files ie ''/etc/os-release'' = Some (file_of (join (CHR 0x0A) (map os_entry es)))"
    and "cstr (join (CHR 0x0A) (map os_entry es))" and "\<forall>e\<in>set es. os_entry_ok e"
  shows "\<exists>al'. alloc_ok al' \<and> poll_os ie clock mon al = push_samples clock (concat (map os_sample es)) mon al'"
proof -
  have "\<forall>l\<in>set (map os_entry es). component_ok (CHR 0x0A) l"
    using assms(4) by (auto simp: component_ok_def os_entry_def os_entry_ok_def)
  then have "tokens [CHR 0x0A] (join (CHR 0x0A) (map os_entry es)) = map os_entry es" by (rule tokens_join)
  moreover obtain al' where "monikor_read_file (ie_files ie) ''/etc/os-release'' al
      = (Some (join (CHR 0x0A) (map os_entry es)), al')" "alloc_ok al'"
    using assms(2,1,3) by (rule read_file_of)
  ultimately show ?thesis using poll_os_entries [OF assms(4)] by (auto simp: poll_os_def)
qed

definition sample_entries :: "(string \<times> bool \<times> string) list" where
  "sample_entries = [(''ID'', False, ''debian''), (''VERSION_ID'', True, ''12''), (''VARIANT_ID'', True, ''x'')]"

definition sample_info :: info_env where
  "sample_info = \<lparr>ie_files = (\<lambda>f. if f = ''/etc/os-release'' then Some (file_of
       (join (CHR 0x0A) (map os_entry sample_entries))) else None), ie_uname = None, ie_easy_init = True\<rparr>"

theorem os_release_parsed_witness:
  "\<exists>al'. poll_os sample_info \<lparr>tv_sec = 5, tv_usec = 0\<rparr> sample_agent [] = push_samples \<lparr>tv_sec = 5, tv_usec = 0\<rparr>
     [String_Sample ''sysinfo.os.distribution'' ''debian'', String_Sample ''sysinfo.os.version'' ''12''] sample_agent al'"
proof -
  have "cstr (join (CHR 0x0A) (map os_entry sample_entries))" "\<forall>e\<in>set sample_entries. os_entry_ok e"
    "concat (map os_sample sample_entries)
      = [String_Sample ''sysinfo.os.distribution'' ''debian'', String_Sample ''sysinfo.os.version'' ''12'']"
    by (simp_all add: sample_entries_def os_entry_def os_entry_ok_def os_sample_def)
  with os_release_parsed [of "[]" sample_info sample_entries "\<lparr>tv_sec = 5, tv_usec = 0\<rparr>" sample_agent]
  show ?thesis by (auto simp: sample_info_def)
qed

text \<open>When the configuration does not name the host, the identifier the cloud gives does, and a later
  different one replaces it; a configured name is kept.  The name is cut to 255 bytes, nothing but the
  host name and the metrics changes, and the answer is pushed.\<close>

theorem instance_id_names_host:
  assumes "hr_code r = 200" and "hr_data r = Some i" and "i \<noteq> ''''" and "i \<noteq> mn_instance_id mon"
  shows "\<exists>mon' al'. handle_cloud_instance_id r 0 clock mon al = Some (mon', al')
    \<and> cf_hostid (mn_config mon') =
        (if cf_hostid (mn_config mon) = None \<or> mn_hostid_shared mon then Some (take 255 i) else cf_hostid (mn_config mon))
    \<and> mn_instance_id mon' = take 255 i \<and> (agent_inv mon \<longrightarrow> agent_inv mon')"
proof -
  let ?m = "set_instance_id_as_hostid i mon"
  obtain mon' n al' where p: "push_string ''sysinfo.cloud.instance_id'' clock i ?m al = (mon', n, al')"
    by (cases "push_string ''sysinfo.cloud.instance_id'' clock i ?m al")
  with push_sample_only [of clock "String_Sample ''sysinfo.cloud.instance_id'' i" ?m al mon' n al']
  have o: "only_metrics ?m mon'" "agent_inv ?m \<longrightarrow> agent_inv mon'" by auto
  from o(1) have f: "mn_config mon' = mn_config ?m" "mn_instance_id mon' = mn_instance_id ?m"
    unfolding only_metrics_def by (metis agent.select_convs agent.surjective agent.update_convs(3))+
  have "agent_inv mon \<Longrightarrow> agent_inv ?m"
    by (auto simp: set_instance_id_as_hostid_def Let_def agent_inv_def)
  moreover have "handle_cloud_instance_id r 0 clock mon al = Some (mon', al')"
    using assms(1,2) p by (simp add: handle_cloud_instance_id_def)
  ultimately show ?thesis using o(2) f assms(3,4)
    by (auto simp: set_instance_id_as_hostid_def Let_def)
qed

definition instance_response :: http_response where
  "instance_response = \<lparr>hr_code = 200, hr_data = Some ''i-1'', hr_size = 3, hr_callback = HANDLE_CLOUD_INSTANCE_ID\<rparr>"

theorem instance_id_names_host_witness:
  "\<exists>mon' al'. handle_cloud_instance_id instance_response 0 \<lparr>tv_sec = 5, tv_usec = 0\<rparr> sample_agent [] = Some (mon', al')
    \<and> cf_hostid (mn_config mon') = Some ''i-1''"
  using instance_id_names_host [of instance_response "''i-1''" sample_agent "\<lparr>tv_sec = 5, tv_usec = 0\<rparr>" "[]"]
  by (auto simp: instance_response_def sample_agent_def sample_settings_def)

text \<open>C40: After a reload the name is lost: the configuration is new, but the answer of the cloud is the one that is
  still in the buffer, so the host stays without a name.\<close>

theorem instance_id_lost_on_reload:
  assumes "monikor_reload lo dir junk mon al = Some (mon', 0, al')" and "cf_hostid (mn_config mon') = None"
    and "hr_code r = 200" and "hr_data r = Some (mn_instance_id mon)"
  shows "\<exists>mon'' al''. handle_cloud_instance_id r 0 clock mon' al' = Some (mon'', al'')
    \<and> cf_hostid (mn_config mon'') = None"
proof -
  have i: "mn_instance_id mon' = mn_instance_id mon" using assms(1) by (rule reload_keeps_instance_id)
  let ?i = "mn_instance_id mon"
  obtain mon'' n al'' where p: "push_string ''sysinfo.cloud.instance_id'' clock ?i mon' al' = (mon'', n, al'')"
    by (cases "push_string ''sysinfo.cloud.instance_id'' clock ?i mon' al'")
  with push_sample_only [of clock "String_Sample ''sysinfo.cloud.instance_id'' ?i" mon' al' mon'' n al'']
  have "mn_config mon'' = mn_config mon'"
    unfolding only_metrics_def by simp (metis agent.select_convs(1) agent.surjective agent.update_convs(3))
  with p i assms(2-4) show ?thesis
    by (simp add: handle_cloud_instance_id_def set_instance_id_as_hostid_def)
qed

definition nameless_config :: cfg_dict where
  "nameless_config = [(Some ''user'', MONIKOR_CFG_SCALAR (Some ''u''))]"

theorem instance_id_lost_on_reload_witness:
  "\<forall>junk. \<exists>mon' al' mon'' al''.
     monikor_reload (loader_of nameless_config) (\<lambda>d. Some []) junk (sample_agent\<lparr>mn_instance_id := ''i-1''\<rparr>) []
       = Some (mon', 0, al')
     \<and> handle_cloud_instance_id instance_response 0 \<lparr>tv_sec = 5, tv_usec = 0\<rparr> mon' al' = Some (mon'', al'')
     \<and> cf_hostid (mn_config mon'') = None"
proof
  fix junk
  let ?m = "sample_agent\<lparr>mn_instance_id := ''i-1''\<rparr>"
  have "value_ok (MONIKOR_CFG_DICT nameless_config)" "cf_config_path (mn_config ?m) = ''/c.yml''"
    "path_setting nameless_config [''modules'', ''path''] MONIKOR_DEFAULT_MODULES_PATH = Some MONIKOR_DEFAULT_MODULES_PATH"
    "path_setting nameless_config [''modules'', ''config_path''] MONIKOR_DEFAULT_MODULES_CONFIG_PATH
       = Some MONIKOR_DEFAULT_MODULES_CONFIG_PATH"
    by (simp_all add: path_setting_def string_setting_def scalar_at_def nameless_config_def strip_slash_def
        MONIKOR_DEFAULT_MODULES_PATH_def MONIKOR_DEFAULT_MODULES_CONFIG_PATH_def sample_agent_def
        sample_settings_def)
  from reload_from [OF this, of junk] obtain mon' al' where
    r: "monikor_reload (loader_of nameless_config) (\<lambda>d. Some []) junk ?m [] = Some (mon', 0, al')"
    and h: "cf_hostid (mn_config mon') = None"
    by (auto simp: scalar_at_def nameless_config_def)
  from instance_id_lost_on_reload [OF r h, of instance_response] r
  show "\<exists>mon' al' mon'' al''. monikor_reload (loader_of nameless_config) (\<lambda>d. Some []) junk ?m [] = Some (mon', 0, al')
     \<and> handle_cloud_instance_id instance_response 0 \<lparr>tv_sec = 5, tv_usec = 0\<rparr> mon' al' = Some (mon'', al'')
     \<and> cf_hostid (mn_config mon'') = None"
    by (auto simp: instance_response_def)
qed

end
