(* ===== verification/Db_Pollers.thy ===== *)
theory Db_Pollers
  imports Samples
begin

text \<open>
  The modules mysqlstat and postgresql.  The client libraries of the databases are parameters: whether a call
  succeeds and the rows a result holds.  \<open>None\<close> is a null pointer followed.
\<close>

subsection \<open>mysqlstat\<close>

definition MONIKOR_MYSQL_DEFAULT_HOST :: string where "MONIKOR_MYSQL_DEFAULT_HOST = ''localhost''"

record mysql_config =
  mq_host :: string
  mq_port :: cint
  mq_user :: string
  mq_password :: string

text \<open>\<open>atoi\<close> is \<open>(int)strtol\<close> in the GNU library.\<close>

definition mysqlstat_init :: "cfg_dict \<Rightarrow> alloc \<Rightarrow> mysql_config option \<times> alloc" where
  "mysqlstat_init cfg al =
     (case malloc al of
        (None, al) \<Rightarrow> (None, al)
      | (Some _, al) \<Rightarrow>
          (case monikor_config_dict_get_scalar cfg ''mysql.host'' al of (host, al) \<Rightarrow>
           case monikor_config_dict_get_scalar cfg ''mysql.user'' al of (user, al) \<Rightarrow>
           case monikor_config_dict_get_scalar cfg ''mysql.password'' al of (password, al) \<Rightarrow>
           case monikor_config_dict_get_scalar cfg ''mysql.port'' al of (port, al) \<Rightarrow>
             (case (user, password) of
                (Some u, Some p) \<Rightarrow>
                  (Some \<lparr>mq_host = (case host of Some h \<Rightarrow> h | None \<Rightarrow> MONIKOR_MYSQL_DEFAULT_HOST),
                         mq_port = (case port of None \<Rightarrow> 0 | Some s \<Rightarrow> int_of_long (atol s)),
                         mq_user = u, mq_password = p\<rparr>, al)
              | _ \<Rightarrow> (None, al))))"

definition mysql_metrics :: "(string \<times> string \<times> u8) list" where
  "mysql_metrics =
    [(''Bytes_received'', ''rx.bytes'', MONIKOR_METRIC_TIMEDELTA), (''Bytes_sent'', ''tx.bytes'', MONIKOR_METRIC_TIMEDELTA),
     (''Com_delete'', ''queries.delete'', MONIKOR_METRIC_TIMEDELTA), (''Com_insert'', ''queries.insert'', MONIKOR_METRIC_TIMEDELTA),
     (''Com_select'', ''queries.select'', MONIKOR_METRIC_TIMEDELTA), (''Com_update'', ''queries.update'', MONIKOR_METRIC_TIMEDELTA),
     (''Threads_connected'', ''connections.current'', 0), (''Threads_running'', ''connections.active'', 0),
     (''max_connections'', ''connections.max'', 0)]"

text \<open>A row is its first two columns.  Only the value of a row whose name is known is read.\<close>

fun mysql_row_samples :: "(string \<times> string \<times> u8) list \<Rightarrow> string \<times> string option \<Rightarrow> sample list option" where
  "mysql_row_samples [] row = Some []"
| "mysql_row_samples ((field, name, flags) # rest) row =
     (if fst row = field then do {
        v \<leftarrow> snd row;
        ss \<leftarrow> mysql_row_samples rest row;
        Some (Integer_Sample (''mysql.'' @ name) (fst (strtoull_10 v)) flags # ss) }
      else mysql_row_samples rest row)"

fun mysql_samples :: "(string \<times> string option) list \<Rightarrow> sample list option" where
  "mysql_samples [] = Some []"
| "mysql_samples (row # rows) = do {
     ss \<leftarrow> mysql_row_samples mysql_metrics row;
     ts \<leftarrow> mysql_samples rows;
     Some (ss @ ts) }"

definition fetch_mysql_metrics ::
  "timeval \<Rightarrow> (string \<times> string option) list \<Rightarrow> agent \<Rightarrow> alloc \<Rightarrow> (agent \<times> cint \<times> alloc) option" where
  "fetch_mysql_metrics clock rows mon al = do {
     ss \<leftarrow> mysql_samples rows;
     case push_samples clock ss mon al of (mon, _, al) \<Rightarrow> Some (mon, of_nat (length ss), al) }"

definition mysqlstat_fetch_slow_queries :: "timeval \<Rightarrow> string option \<Rightarrow> agent \<Rightarrow> alloc \<Rightarrow> agent \<times> cint \<times> alloc" where
  "mysqlstat_fetch_slow_queries clock stats mon al =
     (case stats of
        None \<Rightarrow> (mon, 0, al)
      | Some stats \<Rightarrow>
          (case strstr stats ''Slow queries:'' of
             None \<Rightarrow> (mon, 0, al)
           | Some p \<Rightarrow>
               (case push_samples clock [Integer_Sample ''mysql.queries.slow''
                        (fst (strtoull_10 (drop (length ''Slow queries:'') p))) MONIKOR_METRIC_TIMEDELTA] mon al of
                  (mon, _, al) \<Rightarrow> (mon, 1, al))))"

text \<open>One result of the query: its rows (\<open>None\<close>: \<open>mysql_store_result\<close> failed) and what \<open>mysql_next_result\<close> says then.\<close>

type_synonym mysql_result = "(string \<times> string option) list option \<times> cint"

fun mysql_results_loop ::
  "timeval \<Rightarrow> mysql_result list \<Rightarrow> cint \<Rightarrow> agent \<Rightarrow> alloc \<Rightarrow> (agent \<times> cint \<times> cint \<times> alloc) option" where
  "mysql_results_loop clock [] n mon al = Some (mon, n, 1, al)"
| "mysql_results_loop clock ((None, err) # rs) n mon al = Some (mon, n, 1, al)"
| "mysql_results_loop clock ((Some rows, err) # rs) n mon al = do {
     (mon, k, al) \<leftarrow> fetch_mysql_metrics clock rows mon al;
     (if err = 0 then mysql_results_loop clock rs (n + k) mon al else Some (mon, n + k, err, al)) }"

record mysql_env =
  me_init :: bool
  me_connect :: bool
  me_stat :: "string option"
  me_query :: bool
  me_results :: "mysql_result list"

definition mysql_connect :: "mysql_env \<Rightarrow> bool" where
  "mysql_connect me \<longleftrightarrow> me_init me \<and> me_connect me"

definition mysqlstat_poll_metrics :: "mysql_env \<Rightarrow> timeval \<Rightarrow> agent \<Rightarrow> alloc \<Rightarrow> (agent \<times> cint \<times> alloc) option" where
  "mysqlstat_poll_metrics me clock mon al =
     (if \<not> mysql_connect me then Some (mon, -1, al)
      else (case mysqlstat_fetch_slow_queries clock (me_stat me) mon al of
              (mon, n, al) \<Rightarrow>
                if \<not> me_query me then Some (mon, -1, al)
                else do {
                  (mon, n, err, al) \<leftarrow> mysql_results_loop clock (me_results me) n mon al;
                  Some (mon, if 0 <s err then -1 else n, al) }))"

definition mysqlstat_poll :: "mysql_env \<Rightarrow> timeval \<Rightarrow> mysql_config option \<Rightarrow> agent \<Rightarrow> alloc \<Rightarrow> (agent \<times> cint \<times> alloc) option" where
  "mysqlstat_poll me now data mon al =
     (case data of None \<Rightarrow> Some (mon, -1, al) | Some config \<Rightarrow> mysqlstat_poll_metrics me now mon al)"

subsection \<open>postgresql\<close>

definition POSTGRESQL_DEFAULT_HOST :: string where "POSTGRESQL_DEFAULT_HOST = ''127.0.0.1''"
definition POSTGRESQL_DEFAULT_PORT :: string where "POSTGRESQL_DEFAULT_PORT = ''5432''"
definition MONIKOR_POSTGRES_MAX_INSTANCE_LENGTH :: nat where "MONIKOR_POSTGRES_MAX_INSTANCE_LENGTH = 64"

record postgresql_module =
  pg_host :: string
  pg_port :: string
  pg_user :: string
  pg_password :: string
  pg_database :: string

definition or_default :: "string option \<Rightarrow> string \<Rightarrow> string" where
  "or_default s d = (case s of None \<Rightarrow> d | Some t \<Rightarrow> if t = '''' then d else t)"

definition postgresql_init :: "cfg_dict \<Rightarrow> alloc \<Rightarrow> postgresql_module option \<times> alloc" where
  "postgresql_init config al =
     (case malloc al of
        (None, al) \<Rightarrow> (None, al)
      | (Some _, al) \<Rightarrow>
          (case monikor_config_dict_get_scalar config ''postgresql.host'' al of (host, al) \<Rightarrow>
           case monikor_config_dict_get_scalar config ''postgresql.port'' al of (port, al) \<Rightarrow>
           case monikor_config_dict_get_scalar config ''postgresql.user'' al of (user, al) \<Rightarrow>
           case monikor_config_dict_get_scalar config ''postgresql.password'' al of (password, al) \<Rightarrow>
           case monikor_config_dict_get_scalar config ''postgresql.database'' al of (database, al) \<Rightarrow>
             (case (user, password, database) of
                (Some u, Some p, Some db) \<Rightarrow>
                  (Some \<lparr>pg_host = or_default host POSTGRESQL_DEFAULT_HOST, pg_port = or_default port POSTGRESQL_DEFAULT_PORT,
                         pg_user = u, pg_password = p,
                         pg_database = (if MONIKOR_POSTGRES_MAX_INSTANCE_LENGTH \<le> length db
                                        then take (MONIKOR_POSTGRES_MAX_INSTANCE_LENGTH - 1) db else db)\<rparr>, al)
              | _ \<Rightarrow> (None, al))))"

text \<open>A result with its rows.  \<open>PQgetvalue\<close> gives the empty string for SQL's null, and null outside the result.\<close>

record pg_result =
  pr_tuples_ok :: bool
  pr_rows :: "string list list"

definition PQgetvalue :: "pg_result \<Rightarrow> nat \<Rightarrow> nat \<Rightarrow> string option" where
  "PQgetvalue r i j = (if i < length (pr_rows r) \<and> j < length (pr_rows r ! i) then Some (pr_rows r ! i ! j) else None)"

definition pg_name :: "string \<Rightarrow> postgresql_module \<Rightarrow> string" where
  "pg_name name mdl = name @ ''.'' @ pg_database mdl"

definition max_connection :: "postgresql_module \<Rightarrow> pg_result \<Rightarrow> sample list" where
  "max_connection mdl r =
     (case PQgetvalue r 0 1 of None \<Rightarrow> [] | Some v \<Rightarrow> [Integer_Sample (pg_name ''postgresql.connections.max'' mdl) (strtoull_0 v) 0])"

definition database_size :: "postgresql_module \<Rightarrow> pg_result \<Rightarrow> sample list" where
  "database_size mdl r =
     (case PQgetvalue r 0 0 of None \<Rightarrow> [] | Some v \<Rightarrow> [Integer_Sample (pg_name ''postgresql.database_size'' mdl) (strtoull_0 v) 0])"

definition pg_locks :: "postgresql_module \<Rightarrow> pg_result \<Rightarrow> sample list" where
  "pg_locks mdl r =
     (case PQgetvalue r 0 0 of None \<Rightarrow> [] | Some v \<Rightarrow> [Integer_Sample (pg_name ''postgresql.locks'' mdl) (fst (strtoull_10 v)) 0])"

definition stat_activity :: "postgresql_module \<Rightarrow> pg_result \<Rightarrow> sample list" where
  "stat_activity mdl r = [Integer_Sample (pg_name ''postgresql.connections.active'' mdl) (of_nat (length (pr_rows r))) 0]"

definition stat_database_columns :: "(string \<times> nat) list" where
  "stat_database_columns =
    [(''postgresql.transactions.commits'', 3), (''postgresql.transactions.rollbacks'', 4), (''postgresql.rows.returned'', 7),
     (''postgresql.rows.fetched'', 8), (''postgresql.rows.inserted'', 9), (''postgresql.rows.updated'', 10),
     (''postgresql.rows.deleted'', 11), (''postgresql.deadlocks_per_second'', 15)]"

definition stat_database :: "postgresql_module \<Rightarrow> pg_result \<Rightarrow> sample list" where
  "stat_database mdl r = List.map_filter (\<lambda>(name, col).
     map_option (\<lambda>v. Integer_Sample (pg_name name mdl) (strtoull_0 v) MONIKOR_METRIC_TIMEDELTA) (PQgetvalue r 0 col))
     stat_database_columns"

definition pg_pollers :: "(postgresql_module \<Rightarrow> pg_result \<Rightarrow> sample list) list" where
  "pg_pollers = [stat_activity, stat_database, database_size, pg_locks, max_connection]"

text \<open>The loop asks for one result per poller; \<open>None\<close> is a null result.\<close>

fun pg_loop ::
  "(postgresql_module \<Rightarrow> pg_result \<Rightarrow> sample list) list \<Rightarrow> postgresql_module \<Rightarrow> timeval \<Rightarrow> pg_result option list
     \<Rightarrow> agent \<Rightarrow> alloc \<Rightarrow> agent \<times> cint \<times> alloc" where
  "pg_loop [] mdl clock rs mon al = (mon, 0, al)"
| "pg_loop (p # ps) mdl clock rs mon al =
     (case (case rs of [] \<Rightarrow> None | r # _ \<Rightarrow> r) of
        None \<Rightarrow> pg_loop ps mdl clock (tl rs) mon al
      | Some r \<Rightarrow>
          if pr_tuples_ok r then poll_then (push_samples clock (p mdl r)) (pg_loop ps mdl clock (tl rs)) mon al
          else pg_loop ps mdl clock (tl rs) mon al)"

record pg_env =
  pe_connect :: bool
  pe_escape :: "string option"
  pe_send :: bool
  pe_results :: "pg_result option list"

definition postgresql_poll_metrics :: "pg_env \<Rightarrow> timeval \<Rightarrow> postgresql_module \<Rightarrow> agent \<Rightarrow> alloc \<Rightarrow> agent \<times> cint \<times> alloc" where
  "postgresql_poll_metrics pe clock mdl mon al =
     (case malloc al of
        (None, al) \<Rightarrow> (mon, 0, al)
      | (Some _, al) \<Rightarrow>
          if \<not> pe_connect pe then (mon, 0, al)
          else if pe_escape pe = None then (mon, 0, al)
          else (case malloc al of
                  (None, al) \<Rightarrow> (mon, 0, al)
                | (Some _, al) \<Rightarrow>
                    if \<not> pe_send pe then (mon, 0, al) else pg_loop pg_pollers mdl clock (pe_results pe) mon al))"

definition postgresql_poll :: "pg_env \<Rightarrow> timeval \<Rightarrow> postgresql_module option \<Rightarrow> agent \<Rightarrow> alloc \<Rightarrow> agent \<times> cint \<times> alloc" where
  "postgresql_poll pe now data mon al =
     (case data of None \<Rightarrow> (mon, -1, al) | Some mdl \<Rightarrow> postgresql_poll_metrics pe now mdl mon al)"

end
