(* ===== verification/All_Modules.thy ===== *)
theory All_Modules
  imports Proc_Pollers Info_Module Service_Pollers Db_Pollers
begin

text \<open>
  The poll functions of the agent's modules behind one interface: the function a module's symbol names, with the
  data its init function gave.  All of them keep the contract that the scheduler and the main loop rely on,
  so what is proved there for any modules holds for these.
\<close>

definition keeps :: "agent \<Rightarrow> agent \<Rightarrow> bool" where
  "keeps mon mon' \<longleftrightarrow> only_polled mon mon' \<and> (agent_inv mon \<longrightarrow> agent_inv mon')"

named_theorems keeps_dest "pollers keep the contract"

lemma keeps_refl [simp]: "keeps mon mon"
  by (simp add: keeps_def)

lemma keeps_trans: "keeps a b \<Longrightarrow> keeps b c \<Longrightarrow> keeps a c"
  by (auto simp: keeps_def intro: only_polled_trans)

lemma only_metrics_polled: "only_metrics mon mon' \<Longrightarrow> only_polled mon mon'"
  by (cases mon, cases mon') (simp add: only_metrics_def only_polled_def)

lemma push_samples_keep [keeps_dest]: "push_samples clock ss mon al = (mon', n, al') \<Longrightarrow> keeps mon mon'"
  using push_samples_only [of clock ss mon al mon' n al'] by (simp add: keeps_def only_metrics_polled)

lemma push_float_keep [keeps_dest]: "push_float name clock v f mon al = (mon', n, al') \<Longrightarrow> keeps mon mon'"
  using push_sample_only [of clock "Float_Sample name v f" mon al mon' n al'] by (simp add: keeps_def only_metrics_polled)

lemma http_get_headers_keep [keeps_dest]:
  "monikor_http_get_with_headers e url t cb hs mon al = (mon', n, al') \<Longrightarrow> keeps mon mon'"
  by (auto simp: monikor_http_get_with_headers_def keeps_def only_polled_def agent_inv_def
      split: prod.splits option.splits if_splits)

lemma http_get_keep [keeps_dest]: "monikor_http_get e url t cb mon al = (mon', n, al') \<Longrightarrow> keeps mon mon'"
  by (auto simp: monikor_http_get_def dest: http_get_headers_keep)

lemma poll_then_keep:
  assumes "poll_then f g mon al = (mon', n, al')"
    and "\<And>m a m' k a'. f m a = (m', k, a') \<Longrightarrow> keeps m m'" and "\<And>m a m' k a'. g m a = (m', k, a') \<Longrightarrow> keeps m m'"
  shows "keeps mon mon'"
  using assms(1) by (auto simp: poll_then_def split: prod.splits dest!: assms(2,3) intro: keeps_trans)

subsection \<open>The modules that read the kernel's files\<close>

lemma cpu_poll_keep: "cpu_poll ho now mon al = (mon', n, al') \<Longrightarrow> keeps mon mon'"
  by (auto simp: cpu_poll_def cpu_poll_metrics_def cpu_fetch_loadavg_def split: prod.splits option.splits if_splits
      dest!: keeps_dest intro: keeps_trans)

lemma memory_file_keep: "fetch_metrics_from_file ho clock f ms mon al = (mon', n, al') \<Longrightarrow> keeps mon mon'"
  by (auto simp: fetch_metrics_from_file_def split: prod.splits option.splits dest!: keeps_dest)

lemma memory_poll_keep: "memory_poll ho now mon al = (mon', n, al') \<Longrightarrow> keeps mon mon'"
  unfolding memory_poll_def memory_poll_metrics_def by (elim poll_then_keep memory_file_keep)

lemma system_poll_keep:
  assumes "system_poll ho now mon al = (mon', n, al')"
  shows "keeps mon mon'"
proof -
  have i: "poll_inode ho now m a = (m', k, a') \<Longrightarrow> keeps m m'" for m a m' k a'
    by (auto simp: poll_inode_def split: prod.splits option.splits dest: keeps_dest simp del: push_samples.simps)
  have f: "poll_file ho now m a = (m', k, a') \<Longrightarrow> keeps m m'" for m a m' k a'
    unfolding poll_file_def by (auto split: prod.splits option.splits dest: keeps_dest simp del: push_samples.simps)
  show ?thesis
    using assms by (auto simp: system_poll_def system_poll_metrics_def split: prod.splits option.splits
        elim!: poll_then_keep i f dest!: push_samples_keep)
qed

lemma network_loop_keep: "network_loop clock mdl s mon al = (mon', n, al') \<Longrightarrow> keeps mon mon'"
proof (induction clock mdl s mon al arbitrary: mon' n al' rule: network_loop.induct)
  case (1 clock mdl s mon al)
  have d: "poll_device_metrics clock dev info m a = (m', k, a') \<Longrightarrow> keeps m m'" for dev info m a m' k a'
    by (auto simp: poll_device_metrics_def Let_def split: prod.splits dest!: keeps_dest)
  from 1 show ?case
    by (auto simp: network_loop.simps [of clock mdl s] poll_then_def split: option.splits prod.splits if_splits
        dest!: d intro: keeps_trans)
qed

lemma network_poll_keep: "network_poll ho now data mon al = Some (mon', n, al') \<Longrightarrow> keeps mon mon'"
  by (auto simp: network_poll_def poll_network_metrics_def poll_tcp_metrics_def split: option.splits prod.splits bind_splits
      dest!: push_samples_keep network_loop_keep intro: keeps_trans)

lemma nfs_poll_keep: "nfs_poll ho now mon al = Some (mon', n, al') \<Longrightarrow> keeps mon mon'"
  by (auto simp: nfs_poll_def nfs_fetch_metrics_def split: option.splits prod.splits if_splits dest!: push_samples_keep)

lemma lines_loop_keep:
  assumes one: "\<And>l m a m' k a'. one l m a = (m', k, a') \<Longrightarrow> keeps m m'"
  shows "lines_loop one s n mon al = (mon', k, al') \<Longrightarrow> keeps mon mon'"
proof (induction s arbitrary: n mon al rule: measure_induct_rule [of length])
  case (less s)
  show ?case
  proof (cases "s = [] \<or> strchr s newline = None")
    case True
    with less.prems show ?thesis by (auto simp: lines_loop.simps [of one s] split: if_splits)
  next
    case False
    then obtain e m1 k1 a1 where e: "strchr s newline = Some e" and o: "one (cut_at newline s) mon al = (m1, k1, a1)"
      by (cases "one (cut_at newline s) mon al") auto
    with less.prems False have "lines_loop one (tl e) (n + k1) m1 a1 = (mon', k, al')" by (simp add: lines_loop.simps [of one s])
    moreover have "length (tl e) < length s" using strchr_length [OF e] by (cases e) auto
    ultimately show ?thesis using less.IH one [OF o] by (blast intro: keeps_trans)
  qed
qed

lemma disk_poll_keep: "disk_poll ho now mon al = (mon', n, al') \<Longrightarrow> keeps mon mon'"
proof -
  have d: "fetch_one_disk_dev_metrics ho now l m a = (m', k, a') \<Longrightarrow> keeps m m'" for l m a m' k a'
    by (auto simp: fetch_one_disk_dev_metrics_def process_one_disk_dev_stat_def Let_def
        split: option.splits prod.splits if_splits dest!: push_samples_keep)
  have f: "fetch_one_disk_fs_metrics ho now l m a = (m', k, a') \<Longrightarrow> keeps m m'" for l m a m' k a'
    by (auto simp: fetch_one_disk_fs_metrics_def split: option.splits prod.splits if_splits dest!: push_samples_keep)
  have "lines_loop (fetch_one_disk_dev_metrics ho now) s i m a = (m', k, a') \<Longrightarrow> keeps m m'" for s i m a m' k a'
    by (rule lines_loop_keep) (blast intro: d)+
  moreover have "lines_loop (fetch_one_disk_fs_metrics ho now) s i m a = (m', k, a') \<Longrightarrow> keeps m m'" for s i m a m' k a'
    by (rule lines_loop_keep) (blast intro: f)+
  ultimately show "disk_poll ho now mon al = (mon', n, al') \<Longrightarrow> keeps mon mon'"
    unfolding disk_poll_def poll_disk_metrics_def
    by (elim poll_then_keep) (auto simp: fetch_disk_fs_metrics_def fetch_disk_dev_metrics_def split: option.splits prod.splits)
qed

lemma process_poll_keep: "process_poll ho now mon al = Some (mon', n, al') \<Longrightarrow> keeps mon mon'"
  by (auto simp: process_poll_def poll_process_metrics_def split: option.splits prod.splits bind_splits
      dest!: push_samples_keep)

subsection \<open>The services, the databases and the builtin module\<close>

lemma nginx_poll_keep: "nginx_poll e url mon al = (mon', n, al') \<Longrightarrow> keeps mon mon'"
  by (auto simp: nginx_poll_def split: prod.splits dest!: http_get_keep)

lemma apache_poll_keep: "apache_poll e data mon al = (mon', n, al') \<Longrightarrow> keeps mon mon'"
  by (auto simp: apache_poll_def apache_poll_metrics_def split: prod.splits option.splits dest!: http_get_keep)

lemma mysql_loop_keep: "mysql_results_loop clock rs n mon al = Some (mon', k, e, al') \<Longrightarrow> keeps mon mon'"
  by (induction clock rs n mon al rule: mysql_results_loop.induct)
    (auto simp: fetch_mysql_metrics_def split: bind_splits prod.splits if_splits dest!: push_samples_keep
      intro: keeps_trans)

lemma mysql_slow_keep: "mysqlstat_fetch_slow_queries clock st mon al = (mon', n, al') \<Longrightarrow> keeps mon mon'"
  by (auto simp: mysqlstat_fetch_slow_queries_def split: option.splits prod.splits dest: push_samples_keep
      simp del: push_samples.simps)

lemma mysqlstat_poll_keep: "mysqlstat_poll me now data mon al = Some (mon', n, al') \<Longrightarrow> keeps mon mon'"
  by (auto simp: mysqlstat_poll_def mysqlstat_poll_metrics_def split: option.splits prod.splits if_splits bind_splits
      dest!: mysql_slow_keep mysql_loop_keep intro: keeps_trans)

lemma pg_loop_keep: "pg_loop ps mdl clock rs mon al = (mon', n, al') \<Longrightarrow> keeps mon mon'"
proof (induction ps arbitrary: rs mon al mon' n al')
  case (Cons p ps)
  show ?case
  proof (cases "case rs of [] \<Rightarrow> None | r # _ \<Rightarrow> r")
    case None
    with Cons show ?thesis by simp
  next
    case (Some r)
    with Cons.prems Cons.IH show ?thesis
      by (cases "pr_tuples_ok r") (auto elim!: poll_then_keep dest: push_samples_keep)
  qed
qed simp

lemma postgresql_poll_keep: "postgresql_poll pe now data mon al = (mon', n, al') \<Longrightarrow> keeps mon mon'"
  by (auto simp: postgresql_poll_def postgresql_poll_metrics_def split: option.splits prod.splits if_splits dest!: pg_loop_keep)

lemma poll_os_keep: "poll_os_loop ls clock mon al = (mon', n, al') \<Longrightarrow> keeps mon mon'"
  by (induction ls arbitrary: mon al mon' n al')
    (auto simp: poll_os_info_def split: prod.splits dest!: push_samples_keep intro: keeps_trans)

lemma info_poll_keep:
  assumes "monikor_info_module_poll ie clock mon al = (mon', n, al')"
  shows "keeps mon mon'"
proof -
  note [simp del] = push_samples.simps
  have t: "poll_uptime ie clock m a = (m', k, a') \<Longrightarrow> keeps m m'" for m a m' k a'
    unfolding poll_uptime_def by (auto split: option.splits prod.splits dest: push_samples_keep)
  have u: "poll_uname ie clock m a = (m', k, a') \<Longrightarrow> keeps m m'" for m a m' k a'
    unfolding poll_uname_def by (auto split: option.splits prod.splits dest: push_samples_keep)
  have o: "poll_os ie clock m a = (m', k, a') \<Longrightarrow> keeps m m'" for m a m' k a'
    unfolding poll_os_def by (auto split: option.splits prod.splits dest: poll_os_keep)
  have c: "poll_cloud ie clock m a = (m', k, a') \<Longrightarrow> keeps m m'" for m a m' k a'
    unfolding poll_cloud_def
    by (auto split: option.splits prod.splits if_splits dest!: push_samples_keep http_get_keep http_get_headers_keep
        intro: keeps_trans)
  have g: "poll_tags clock m a = (m', k, a') \<Longrightarrow> keeps m m'" for m a m' k a'
    unfolding poll_tags_def
    by (auto split: option.splits prod.splits list.splits cfg_value.splits dest: push_samples_keep)
  show ?thesis
    using assms unfolding monikor_info_module_poll_def
    by (elim poll_then_keep t u o c g)
qed

subsection \<open>The interface\<close>

text \<open>What the modules take from outside, and the data their init functions made, by the pointers to them.\<close>

record module_env =
  ve_now :: timeval
  ve_host :: host
  ve_info :: info_env
  ve_easy_init :: bool
  ve_net :: "nat \<Rightarrow> net_mod"
  ve_url :: "nat \<Rightarrow> string"
  ve_mysql :: mysql_env
  ve_mysql_config :: "nat \<Rightarrow> mysql_config"
  ve_pg :: pg_env
  ve_pg_module :: "nat \<Rightarrow> postgresql_module"

text \<open>
  \<open>None\<close> for a null function and for the functions of the modules that keep a connection or a command between
  their polls (theories \<open>Net_Pollers\<close> and \<open>Varnish\<close>).  The data of nginx is never null.
\<close>

definition module_poll :: "module_env \<Rightarrow> poller" where
  "module_poll ve mdl mon al = do {
     f \<leftarrow> md_poll mdl;
     if f = ''cpu_poll'' then Some (cpu_poll (ve_host ve) (ve_now ve) mon al)
     else if f = ''memory_poll'' then Some (memory_poll (ve_host ve) (ve_now ve) mon al)
     else if f = ''system_poll'' then Some (system_poll (ve_host ve) (ve_now ve) mon al)
     else if f = ''network_poll'' then network_poll (ve_host ve) (ve_now ve) (map_option (ve_net ve) (md_data mdl)) mon al
     else if f = ''nfs_poll'' then nfs_poll (ve_host ve) (ve_now ve) mon al
     else if f = ''disk_poll'' then Some (disk_poll (ve_host ve) (ve_now ve) mon al)
     else if f = ''process_poll'' then process_poll (ve_host ve) (ve_now ve) mon al
     else if f = ''nginx_poll'' then map_option (\<lambda>d. nginx_poll (ve_easy_init ve) (ve_url ve d) mon al) (md_data mdl)
     else if f = ''apache_poll'' then Some (apache_poll (ve_easy_init ve) (map_option (ve_url ve) (md_data mdl)) mon al)
     else if f = ''mysqlstat_poll'' then
       mysqlstat_poll (ve_mysql ve) (ve_now ve) (map_option (ve_mysql_config ve) (md_data mdl)) mon al
     else if f = ''postgresql_poll'' then
       Some (postgresql_poll (ve_pg ve) (ve_now ve) (map_option (ve_pg_module ve) (md_data mdl)) mon al)
     else if f = ''monikor_info_module_poll'' then Some (monikor_info_module_poll (ve_info ve) (ve_now ve) mon al)
     else None }"

lemma module_poll_keep:
  assumes "module_poll ve mdl mon al = Some (mon', n, al')"
  shows "keeps mon mon'"
proof -
  note keep = cpu_poll_keep memory_poll_keep system_poll_keep network_poll_keep nfs_poll_keep disk_poll_keep
    process_poll_keep nginx_poll_keep apache_poll_keep mysqlstat_poll_keep postgresql_poll_keep info_poll_keep
  from assms obtain f where "md_poll mdl = Some f" by (cases "md_poll mdl") (auto simp: module_poll_def)
  with assms show ?thesis
    unfolding module_poll_def
    by (simp split: if_split_asm) (auto dest: keep)
qed

interpretation all_modules: module_polls "module_poll ve"
  by unfold_locales (auto dest!: module_poll_keep simp: keeps_def)

subsection \<open>Properties\<close>


definition bare_host :: host where
  "bare_host = \<lparr>ho_files = (\<lambda>f. None), ho_tps = 100, ho_cores = 1, ho_statvfs = (\<lambda>p. None), ho_proc = None\<rparr>"


end
