(* ===== verification/Poll_Values.thy ===== *)
theory Poll_Values
  imports All_Modules
begin

text \<open>What the modules read out of well-formed files and answers.\<close>

subsection \<open>Processes by state\<close>

definition status_counts :: "(dirent \<Rightarrow> char) \<Rightarrow> dirent list \<Rightarrow> u64 list" where
  "status_counts st es =
     map (\<lambda>c. of_nat (length (filter (\<lambda>e. looks_like_pid_dir e \<and> st e = c) es))) PROC_STATUSES
     @ [of_nat (length (filter looks_like_pid_dir es))]"

lemma status_place_simp:
  "c \<noteq> CHR 0x00 \<Longrightarrow> status_place c =
    (if c = CHR ''R'' then Some 0 else if c = CHR ''S'' then Some 1 else if c = CHR ''D'' then Some 2
     else if c = CHR ''Z'' then Some 3 else if c = CHR ''T'' then Some 4 else if c = CHR ''W'' then Some 5 else None)"
  by (auto simp: status_place_def PROC_STATUSES_def)

lemma seven: "length ms = NB_PROC_METRICS \<Longrightarrow> \<exists>a b c d e f g. ms = [a, b, c, d, e, f, g]"
  by (auto simp: NB_PROC_METRICS_def length_Suc_conv numeral_eq_Suc)

lemma one_process_counts:
  assumes "alloc_ok al" and "length ms = NB_PROC_METRICS" and "looks_like_pid_dir e"
    and "ho_files ho (''/proc/'' @ d_name e @ ''/stat'') = Some (file_of (pre @ '') '' @ st e # rest))"
    and "CHR '')'' \<notin> set pre" and "cstr (pre @ '') '' @ st e # rest)"
  shows "\<exists>al'. fetch_one_process_metrics ho ms (d_name e) al = Some (map2 (+) ms (status_counts st [e]), al') \<and> alloc_ok al'"
proof -
  obtain al' where r: "monikor_read_file (ho_files ho) (''/proc/'' @ d_name e @ ''/stat'') al
      = (Some (pre @ '') '' @ st e # rest), al')" "alloc_ok al'"
    using assms(4,1,6) by (rule read_file_of)
  have i: "strchr (pre @ '') '' @ st e # rest) CHR '')'' = Some (CHR '')'' # CHR '' '' # st e # rest)"
    using assms(5) by (simp add: strchr_append)
  have "st e \<noteq> CHR 0x00" using assms(6) by simp
  moreover obtain a b c d f g h where "ms = [a, b, c, d, f, g, h]" using seven [OF assms(2)] by blast
  ultimately have "fetch_one_process_metrics ho ms (d_name e) al = Some (map2 (+) ms (status_counts st [e]), al')"
    using r(1) i assms(3)
    by (simp add: fetch_one_process_metrics_def Let_def status_place_simp status_counts_def PROC_STATUSES_def PROC_TOTAL_def)
  with r(2) show ?thesis by blast
qed

lemma status_counts_Cons: "status_counts st (e # es) = map2 (+) (status_counts st [e]) (status_counts st es)"
  by (simp add: status_counts_def PROC_STATUSES_def)

lemma status_counts_skip: "\<not> looks_like_pid_dir e \<Longrightarrow> status_counts st (e # es) = status_counts st es"
  by (simp add: status_counts_def)

lemma length_status_counts [simp]: "length (status_counts st es) = NB_PROC_METRICS"
  by (simp add: status_counts_def PROC_STATUSES_def NB_PROC_METRICS_def)

lemma map2_add_assoc:
  "length xs = length ys \<Longrightarrow> length ys = length zs \<Longrightarrow>
     map2 (+) (map2 (+) xs ys) zs = map2 (+) xs (map2 (+) ys zs :: u64 list)"
  by (induction xs ys zs rule: list_induct3) (simp_all add: add.assoc)

definition stat_files :: "host \<Rightarrow> (dirent \<Rightarrow> char) \<Rightarrow> dirent list \<Rightarrow> bool" where
  "stat_files ho st es \<longleftrightarrow> (\<forall>e\<in>set es. looks_like_pid_dir e \<longrightarrow>
     (\<exists>pre rest. ho_files ho (''/proc/'' @ d_name e @ ''/stat'') = Some (file_of (pre @ '') '' @ st e # rest))
        \<and> CHR '')'' \<notin> set pre \<and> cstr (pre @ '') '' @ st e # rest)))"

lemma process_loop_counts:
  assumes "alloc_ok al" and "length ms = NB_PROC_METRICS" and "stat_files ho st es"
  shows "\<exists>al'. process_loop ho es ms al = Some (map2 (+) ms (status_counts st es), al') \<and> alloc_ok al'"
  using assms
proof (induction es arbitrary: ms al)
  case Nil
  obtain a b c d e f g where "ms = [a, b, c, d, e, f, g]" using seven [OF Nil(2)] by blast
  with Nil show ?case by (simp add: status_counts_def PROC_STATUSES_def)
next
  case (Cons e es)
  then have tail: "stat_files ho st es" by (simp add: stat_files_def)
  show ?case
  proof (cases "looks_like_pid_dir e")
    case True
    with Cons.prems(3) obtain pre rest where f:
      "ho_files ho (''/proc/'' @ d_name e @ ''/stat'') = Some (file_of (pre @ '') '' @ st e # rest))"
      "CHR '')'' \<notin> set pre" "cstr (pre @ '') '' @ st e # rest)"
      by (auto simp: stat_files_def)
    from one_process_counts [where st = st and e = e and pre = pre and rest = rest, OF Cons.prems(1,2) True f] obtain al1 where
      1: "fetch_one_process_metrics ho ms (d_name e) al = Some (map2 (+) ms (status_counts st [e]), al1)" "alloc_ok al1" by blast
    from Cons.IH [OF 1(2) _ tail, of "map2 (+) ms (status_counts st [e])"] Cons.prems(2) 1(1) True show ?thesis
      by (simp add: map2_add_assoc status_counts_Cons [of st e es])
  next
    case False
    with Cons.IH [OF Cons.prems(1,2) tail] show ?thesis by (simp add: status_counts_skip)
  qed
qed


definition sample_host :: host where
  "sample_host = \<lparr>ho_files = (\<lambda>f. if f = ''/proc/1/stat'' then Some (file_of ''1 (init) S 0'')
       else if f = ''/proc/stat'' then Some (file_of (''cpu  10 20'' @ [newline] @ ''intr 5'' @ [newline])) else None),
     ho_tps = 100, ho_cores = 2, ho_statvfs = (\<lambda>p. None),
     ho_proc = Some [\<lparr>d_is_dir = True, d_name = ''1''\<rparr>, \<lparr>d_is_dir = True, d_name = ''bus''\<rparr>]\<rparr>"


lemma set_join: "set (join c ss) \<subseteq> insert c (\<Union> (set ` set ss))"
  by (induction c ss rule: join.induct) auto

subsection \<open>The cpu line\<close>

definition cpu_tokens_ok :: "string list \<Rightarrow> bool" where
  "cpu_tokens_ok ts \<longleftrightarrow> ts \<noteq> [] \<and> (\<forall>t\<in>set ts. t \<noteq> [] \<and> CHR '' '' \<notin> set t \<and> newline \<notin> set t)"

lemma drop_blanks:
  "t \<noteq> [] \<Longrightarrow> CHR '' '' \<notin> set t \<Longrightarrow> dropWhile (\<lambda>c. c = CHR '' '') (replicate k (CHR '' '') @ t @ r) = t @ r"
  by (induction k) (auto simp: neq_Nil_conv)

lemma cpu_loop_tokens:
  "cpu_tokens_ok ts \<Longrightarrow> cpu_loop ho n (replicate k (CHR '' '') @ join CHR '' '' ts) = map (cpu_value ho) (take n ts)"
proof (induction ts arbitrary: n k)
  case Nil
  then show ?case by (simp add: cpu_tokens_ok_def)
next
  case (Cons t ts)
  then have t: "t \<noteq> []" "CHR '' '' \<notin> set t" by (auto simp: cpu_tokens_ok_def)
  show ?case
  proof (cases n)
    case (Suc m)
    show ?thesis
    proof (cases ts)
      case Nil
      moreover have "strchr t (CHR '' '') = None" using t(2) by (simp add: strchr_None)
      ultimately show ?thesis using Suc drop_blanks [OF t, of k "[]"] by simp
    next
      case (Cons u us)
      with Cons.prems have "cpu_tokens_ok ts" by (simp add: cpu_tokens_ok_def)
      from Cons.IH [OF this, of m 0] Suc Cons t show ?thesis
        using drop_blanks [OF t, of k "CHR '' '' # join CHR '' '' ts"] by (simp add: strchr_append)
    qed
  qed simp
qed

text \<open>The values of the cpu are the fields of the first line of \<open>/proc/stat\<close>, in order, as many as there are names.\<close>

theorem cpu_values:
  assumes "alloc_ok al" and "cpu_tokens_ok ts"
    and "ho_files ho ''/proc/stat'' = Some (file_of (''cpu  '' @ join CHR '' '' ts @ newline # rest))"
    and "cstr (''cpu  '' @ join CHR '' '' ts @ newline # rest)"
  shows "fst (cpu_fetch_metrics ho n al) = map (cpu_value ho) (take n ts)"
proof -
  obtain al' where r: "monikor_read_file (ho_files ho) ''/proc/stat'' al
      = (Some (''cpu  '' @ join CHR '' '' ts @ newline # rest), al')"
    using assms(3,1,4) by (rule read_file_of)
  have nl: "newline \<notin> set (''cpu  '' @ join CHR '' '' ts)"
    using assms(2) set_join [of "CHR '' ''" ts] by (auto simp: cpu_tokens_ok_def)
  have "strstr (''cpu '' @ CHR '' '' # join CHR '' '' ts @ newline # rest) ''cpu ''
      = Some (''cpu '' @ CHR '' '' # join CHR '' '' ts @ newline # rest)" by (rule strstr_here)
  then have "get_proc_stat_cpu_info (''cpu  '' @ join CHR '' '' ts @ newline # rest) = Some (''cpu  '' @ join CHR '' '' ts)"
    using strchr_append [OF nl, of rest] cut_at_append [OF nl, of rest]
    by (simp add: get_proc_stat_cpu_info_def)
  with r cpu_loop_tokens [OF assms(2), of ho n 2] show ?thesis
    by (simp add: cpu_fetch_metrics_def numeral_2_eq_2)
qed

theorem cpu_values_witness:
  "fst (cpu_fetch_metrics sample_host 9 []) = map (cpu_value sample_host) [''10'', ''20'']"
proof -
  have "cpu_tokens_ok [''10'', ''20'']" by (simp add: cpu_tokens_ok_def)
  from cpu_values [OF _ this, of "[]" sample_host "''intr 5'' @ [newline]" 9] show ?thesis
    by (simp add: sample_host_def)
qed

subsection \<open>The lines of the devices\<close>

text \<open>A device line gives the name of the device and its counters; a name preceded by a single
  character keeps it.\<close>

theorem network_device_line:
  assumes "pre = [] \<or> last pre = CHR '' '' \<or> last pre = newline" and "CHR '':'' \<notin> set pre"
    and "\<forall>c\<in>set name. c \<noteq> CHR '' '' \<and> c \<noteq> newline \<and> c \<noteq> CHR '':''" and "newline \<notin> set info"
  shows "next_device_info (pre @ name @ CHR '':'' # info @ newline # rest)
    = Some (if length pre = 1 then pre @ name else name, info, rest)"
proof -
  let ?p = "\<lambda>c. c \<noteq> CHR '' '' \<and> c \<noteq> newline"
  have nc: "CHR '':'' \<notin> set (pre @ name)" using assms(2,3) by auto
  have "takeWhile ?p (rev (pre @ name)) = rev name"
  proof (cases pre rule: rev_cases)
    case Nil
    then show ?thesis using assms(3) by (simp add: takeWhile_eq_all_conv)
  next
    case (snoc qs q)
    with assms(1) have "\<not> ?p q" by auto
    moreover have "takeWhile ?p (rev name @ q # rev qs) = rev name @ takeWhile ?p (q # rev qs)"
      using assms(3) by (intro takeWhile_append2) auto
    ultimately show ?thesis using snoc by auto
  qed
  then have "back_to_blank (pre @ name) = (if length pre \<le> 1 then pre @ name else name)"
    by (simp add: back_to_blank_def)
  moreover have "length pre \<le> 1 \<longleftrightarrow> pre = [] \<or> length pre = 1" by (cases pre) auto
  ultimately show ?thesis
    using strchr_append [OF nc, of "info @ newline # rest"] cut_at_append [OF nc, of "info @ newline # rest"]
      strchr_append [OF assms(4), of rest] cut_at_append [OF assms(4), of rest]
    by (auto simp: next_device_info_def)
qed

theorem network_device_line_witness:
  "next_device_info (''  eth0: 12 3'' @ newline # '' wlan0: 4'') = Some (''eth0'', '' 12 3'', '' wlan0: 4'')"
  using network_device_line [of "''  ''" "''eth0''" "'' 12 3''" "'' wlan0: 4''"] by simp

end
