(* ===== verification/Varnish.thy ===== *)
theory Varnish
  imports Service_Pollers Handlers
begin

text \<open>
  The module varnish: it runs \<open>varnishstat\<close> at every poll and reads its output when the command has
  finished.  A command that is still running at the next poll is killed.  \<open>None\<close> is a null
  pointer followed or a read past the end of a string.
\<close>

definition MONIKOR_VARNISH_DEFAULT_VARNISHSTAT_PATH :: string where "MONIKOR_VARNISH_DEFAULT_VARNISHSTAT_PATH = ''varnishstat''"
definition MONIKOR_VARNISH_DEFAULT_VARNISHSTAT_TIMEOUT_ARG :: string where "MONIKOR_VARNISH_DEFAULT_VARNISHSTAT_TIMEOUT_ARG = ''10''"
definition MONIKOR_VARNISH_MAX_INSTANCE_LENGTH :: nat where "MONIKOR_VARNISH_MAX_INSTANCE_LENGTH = 128"
definition MONIKOR_VARNISH_VARNISHSTAT_MAX_ARGS :: nat where "MONIKOR_VARNISH_VARNISHSTAT_MAX_ARGS = 6"

record varnish_module =
  va_instance :: "string option"
  va_varnishstat_path :: string
  va_varnishstat_timeout_arg :: string
  va_cmd_handler :: "nat option"

definition varnish_init_timeout :: "agent \<Rightarrow> cfg_dict \<Rightarrow> alloc \<Rightarrow> string \<times> alloc" where
  "varnish_init_timeout mon config al =
     (case monikor_config_dict_get_scalar config ''varnish.varnishstat_timeout'' al of
        (None, al) \<Rightarrow> (MONIKOR_VARNISH_DEFAULT_VARNISHSTAT_TIMEOUT_ARG, al)
      | (Some timeout_s, al) \<Rightarrow>
          (let value = atol timeout_s in
           if value = 0 then (MONIKOR_VARNISH_DEFAULT_VARNISHSTAT_TIMEOUT_ARG, al)
           else if size_of_int (cf_poll_interval (mn_config mon)) <s value then (MONIKOR_VARNISH_DEFAULT_VARNISHSTAT_TIMEOUT_ARG, al)
           else (timeout_s, al)))"

definition varnish_init :: "agent \<Rightarrow> cfg_dict \<Rightarrow> alloc \<Rightarrow> varnish_module option \<times> alloc" where
  "varnish_init mon config al =
     (case malloc al of
        (None, al) \<Rightarrow> (None, al)
      | (Some _, al) \<Rightarrow>
          (case monikor_config_dict_get_scalar config ''varnish.varnishstat_path'' al of (path, al) \<Rightarrow>
           case varnish_init_timeout mon config al of (timeout, al) \<Rightarrow>
           case monikor_config_dict_get_scalar config ''varnish.instance'' al of (ins, al) \<Rightarrow>
             (Some \<lparr>va_instance = strip_instance MONIKOR_VARNISH_MAX_INSTANCE_LENGTH ins,
                    va_varnishstat_path = (case path of Some p \<Rightarrow> p | None \<Rightarrow> MONIKOR_VARNISH_DEFAULT_VARNISHSTAT_PATH),
                    va_varnishstat_timeout_arg = timeout, va_cmd_handler = None\<rparr>, al)))"

definition init_varnishstat_argv :: "varnish_module \<Rightarrow> string list" where
  "init_varnishstat_argv mdl =
     [va_varnishstat_path mdl, ''-1'', ''-t'', va_varnishstat_timeout_arg mdl]
     @ (case va_instance mdl of Some i \<Rightarrow> [''-n'', i] | None \<Rightarrow> [])"

text \<open>
  The command of the last poll is taken out and freed, whether or not it has finished; one that has not is
  killed, and a handler at \<open>reaper\<close> waits for its end.  \<open>h\<close>, \<open>c\<close> and \<open>oh\<close> are where the new command and its
  handlers are.  The module may be null.
\<close>

definition varnish_reap :: "cint option \<Rightarrow> nat \<Rightarrow> nat \<Rightarrow> module_world \<Rightarrow> alloc \<Rightarrow> (module_world \<times> alloc) option" where
  "varnish_reap kill reaper h w al = do {
     n \<leftarrow> dl_heap (processes_of w) h;
     (w, _, al) \<leftarrow> monikor_reap_process kill reaper REAP_PROCESS (ph_pid (dn_data n)) w al;
     Some (w, al) }"

definition varnish_poll ::
  "cint option \<Rightarrow> cint \<Rightarrow> cint option \<Rightarrow> nat \<Rightarrow> nat \<Rightarrow> nat \<Rightarrow> nat \<Rightarrow> varnish_module option \<Rightarrow> module_world \<Rightarrow> alloc
     \<Rightarrow> (varnish_module \<times> cint \<times> module_world \<times> alloc) option" where
  "varnish_poll pipe fork kill reaper h c oh data w al = do {
     mdl \<leftarrow> data;
     (w, al) \<leftarrow> (case va_cmd_handler mdl of
        None \<Rightarrow> Some (w, al)
      | Some handler \<Rightarrow> do {
          (_, cmd, _) \<leftarrow> command_of handler w;
          (w, al) \<leftarrow> (if monikor_command_finished (ce_state cmd) then Some (w, al) else varnish_reap kill reaper handler w al);
          w \<leftarrow> monikor_command_unregister_io_handlers handler w;
          w \<leftarrow> monikor_command_free handler w;
          Some (w, al) });
     case monikor_command_exec pipe fork True al of
       (None, al) \<Rightarrow> Some (mdl\<lparr>va_cmd_handler := None\<rparr>, -1, w, al)
     | (Some cmd, al) \<Rightarrow> do {
         w \<leftarrow> monikor_command_register_io_handlers h (place_command h c oh cmd w);
         Some (mdl\<lparr>va_cmd_handler := Some h\<rparr>, -2, w, al) } }"

text \<open>The process is killed even when the command has finished.\<close>

definition varnish_cleanup :: "cint option \<Rightarrow> nat \<Rightarrow> varnish_module \<Rightarrow> module_world \<Rightarrow> alloc \<Rightarrow> (module_world \<times> alloc) option" where
  "varnish_cleanup kill reaper mdl w al =
     (case va_cmd_handler mdl of
        None \<Rightarrow> Some (w, al)
      | Some handler \<Rightarrow> do {
          (w, al) \<leftarrow> varnish_reap kill reaper handler w al;
          w \<leftarrow> monikor_command_unregister_io_handlers handler w;
          w \<leftarrow> monikor_command_free handler w;
          Some (w, al) })"

subsection \<open>The output of varnishstat\<close>

definition varnish_metrics :: "(string \<times> string \<times> u8) list" where
  "varnish_metrics =
    [(''client_req'', ''varnish.requests_per_second'', MONIKOR_METRIC_TIMEDELTA),
     (''s_pipe'', ''varnish.requests.pipe'', MONIKOR_METRIC_TIMEDELTA),
     (''s_pass'', ''varnish.requests.pass'', MONIKOR_METRIC_TIMEDELTA),
     (''s_resp_hdrbytes'', ''varnish.bytes.headers'', MONIKOR_METRIC_TIMEDELTA),
     (''s_resp_bodybytes'', ''varnish.bytes.body'', MONIKOR_METRIC_TIMEDELTA),
     (''cache_hit'', ''varnish.cache.hits'', MONIKOR_METRIC_DELTA),
     (''cache_hitpass'', ''varnish.cache.hitpasses'', MONIKOR_METRIC_DELTA),
     (''cache_miss'', ''varnish.cache.misses'', MONIKOR_METRIC_DELTA),
     (''n_lru_nuked'', ''varnish.cache.evictions'', MONIKOR_METRIC_DELTA),
     (''n_expired'', ''varnish.cache.expires'', MONIKOR_METRIC_DELTA),
     (''sess_conn'', ''varnish.connections.total'', MONIKOR_METRIC_TIMEDELTA),
     (''sess_drop'', ''varnish.connections.drop'', MONIKOR_METRIC_TIMEDELTA),
     (''sess_fail'', ''varnish.connections.fail'', MONIKOR_METRIC_TIMEDELTA),
     (''sess_closed'', ''varnish.connections.close'', MONIKOR_METRIC_TIMEDELTA),
     (''sess_pipeline'', ''varnish.connections.pipeline'', MONIKOR_METRIC_TIMEDELTA),
     (''sess_herd'', ''varnish.connections.herd'', MONIKOR_METRIC_TIMEDELTA),
     (''sess_queued'', ''varnish.connections.queued'', MONIKOR_METRIC_TIMEDELTA),
     (''bans'', ''varnish.bans.count'', 0),
     (''n_object'', ''varnish.memory.objects'', 0),
     (''g_bytes'', ''varnish.memory.used'', 0),
     (''g_space'', ''varnish.memory.free'', 0),
     (''c_fail'', ''varnish.memory.alloc_fails'', MONIKOR_METRIC_DELTA),
     (''shm_records'', ''varnish.shm.records'', MONIKOR_METRIC_TIMEDELTA),
     (''shm_writes'', ''varnish.shm.writes'', MONIKOR_METRIC_TIMEDELTA),
     (''shm_flushes'', ''varnish.shm.flushes'', MONIKOR_METRIC_TIMEDELTA),
     (''n_backend'', ''varnish.backends.count'', 0),
     (''backend_req'', ''varnish.backends.requests_per_second'', MONIKOR_METRIC_TIMEDELTA),
     (''backend_conn'', ''varnish.backends.connections.count'', MONIKOR_METRIC_TIMEDELTA),
     (''backend_unhealthy'', ''varnish.backends.connections.unhealthy'', MONIKOR_METRIC_TIMEDELTA),
     (''backend_busy'', ''varnish.backends.connections.busy'', MONIKOR_METRIC_TIMEDELTA),
     (''backend_fail'', ''varnish.backends.connections.fail'', MONIKOR_METRIC_TIMEDELTA),
     (''backend_reuse'', ''varnish.backends.connections.reuse'', MONIKOR_METRIC_TIMEDELTA),
     (''backend_recycle'', ''varnish.backends.connections.recycle'', MONIKOR_METRIC_TIMEDELTA),
     (''threads'', ''varnish.threads.count'', 0),
     (''threads_failed'', ''varnish.threads.failed'', MONIKOR_METRIC_DELTA),
     (''esi_errors'', ''varnish.esi.errors'', MONIKOR_METRIC_DELTA),
     (''esi_warnings'', ''varnish.esi.warnings'', MONIKOR_METRIC_DELTA),
     (''uptime'', ''varnish.uptime'', 0)]"

definition VARNISH_SMA_TRANSIENT :: string where "VARNISH_SMA_TRANSIENT = ''.Transient.''"

text \<open>\<open>found - LEN < output || strncmp(found - LEN, VARNISH_SMA_TRANSIENT, LEN)\<close>\<close>

definition not_transient :: "string \<Rightarrow> string \<Rightarrow> bool" where
  "not_transient found output \<longleftrightarrow>
     (let off = length output - length found; len = length VARNISH_SMA_TRANSIENT in
      off < len \<or> \<not> strncmp_eq (drop (off - len) output) VARNISH_SMA_TRANSIENT len)"

text \<open>
  The value is sought behind as many bytes as the name of the metric has, not as the name in the
  output has; behind the end of the output it is undefined.
\<close>

fun varnish_loop :: "(string \<times> string \<times> u8) list \<Rightarrow> string option \<Rightarrow> string \<Rightarrow> sample list option" where
  "varnish_loop [] ins output = Some []"
| "varnish_loop ((varnish_name, name, flags) # rest) ins output =
     (case strstr output varnish_name of
        None \<Rightarrow> varnish_loop rest ins output
      | Some found \<Rightarrow>
          if \<not> not_transient found output then varnish_loop rest ins output
          else if length found < length name then None
          else (case strtoull_10 (drop (length name) found) of (value, endval) \<Rightarrow>
                  if endval = drop (length name) found then varnish_loop rest ins output
                  else map_option (\<lambda>ss. Integer_Sample (instance_name name ins) value flags # ss)
                         (varnish_loop rest ins output)))"

definition varnish_fetch_metrics :: "varnish_module \<Rightarrow> string \<Rightarrow> timeval \<Rightarrow> agent \<Rightarrow> alloc \<Rightarrow> poll_result option" where
  "varnish_fetch_metrics mdl output clock mon al =
     map_option (\<lambda>ss. push_samples clock ss mon al) (varnish_loop varnish_metrics (va_instance mdl) output)"

definition varnish_poll_metrics ::
  "command_exec \<Rightarrow> varnish_module \<Rightarrow> timeval \<Rightarrow> agent \<Rightarrow> alloc \<Rightarrow> (agent \<times> alloc) option" where
  "varnish_poll_metrics cmd mdl clock mon al =
     (if monikor_command_failed (ce_state cmd) then Some (mon, al)
      else do {
        output \<leftarrow> ce_output cmd;
        (mon, _, al) \<leftarrow> varnish_fetch_metrics mdl output clock mon al;
        Some (mon, al) })"

subsection \<open>Properties\<close>

lemma reap_ok:
  assumes "handlers_are w xs ps" and "alloc_ok al" and "h \<in> set ps" and "r \<notin> set ps"
  obtains w' al' where "varnish_reap kill r h w al = Some (w', al')" and "handlers_are w' xs (ps @ [r])" and "alloc_ok al'"
    and "iw_state w' = iw_state w" and "process_data w' h = process_data w h" and "io_data w' = io_data w"
proof -
  obtain j al1 where a: "malloc al = (Some j, al1)" "alloc_ok al1" using alloc_ok_malloc [OF assms(2)] by auto
  from assms(1,3) obtain n where n: "dl_heap (processes_of w) h = Some n"
    by (auto simp: handlers_are_def dll_is_def dest!: split_list)
  let ?w = "with_processes (dll_alloc (processes_of w) r
      \<lparr>dn_data = \<lparr>ph_pid = ph_pid (dn_data n), ph_callback = Some REAP_PROCESS\<rparr>, dn_prev = None, dn_next = None\<rparr>) w"
  have "handlers_are ?w xs ps" using assms(1,4) by (simp add: handlers_are_def)
  moreover have "unlinked (processes_of ?w) r" by simp
  ultimately obtain w' where w': "monikor_register_process r ?w = Some w'" "handlers_are w' xs (ps @ [r])" "same_data ?w w'"
    using assms(4) register_process_ok by blast
  have "h \<noteq> r" using assms(3,4) by auto
  with w'(3) have "process_data w' h = process_data w h" "io_data w' = io_data w" "iw_state w' = iw_state w"
    by (simp_all add: same_data_def)
  moreover have "varnish_reap kill r h w al = Some (w', al1)"
    using a n w'(1) by (simp add: varnish_reap_def monikor_reap_process_def monikor_process_handler_new_def or_null_def alloc_ret_def)
  ultimately show ?thesis using w'(2) a(2) that by blast
qed

lemma drop_command_ok:
  assumes "handlers_are w xs ps" and "command_of h w = Some (c, cmd, oh)" and "h \<in> set ps" and "oh \<in> set xs"
  shows "\<exists>w'. do { w \<leftarrow> monikor_command_unregister_io_handlers h w; w \<leftarrow> monikor_command_free h w; Some (w, al) } = Some (w', al)
    \<and> handlers_are w' (remove1 oh xs) (remove1 h ps) \<and> ms_open (iw_state w') = ms_open (iw_state w)"
proof -
  obtain w1 where 1: "monikor_command_unregister_io_handlers h w = Some w1" "handlers_are w1 (remove1 oh xs) (remove1 h ps)" "same_data w w1"
    using assms by (rule command_unregister_ok)
  have "distinct xs" "distinct ps" using assms(1) by (auto simp: handlers_are_def dll_is_def)
  then have "h \<notin> set (remove1 h ps)" "oh \<notin> set (remove1 oh xs)" by simp_all
  with command_free_ok [OF 1(2), of h c cmd oh] command_of_same [OF 1(3)] assms(2) 1(1,3) show ?thesis
    by (auto simp: same_data_def)
qed

lemma exec_ok:
  assumes "alloc_ok al" and "fork \<noteq> -1"
  obtains cmd al' where "monikor_command_exec (Some fd) fork True al = (Some cmd, al')" and "ce_fd cmd = fd" and "ce_pid cmd = fork" and "ce_state cmd = 0"
proof -
  obtain j al1 where 1: "malloc al = (Some j, al1)" "alloc_ok al1" using alloc_ok_malloc [OF assms(1)] by auto
  obtain k al2 where 2: "malloc al1 = (Some k, al2)" "alloc_ok al2" using alloc_ok_malloc [OF 1(2)] by auto
  obtain l al3 where 3: "malloc al2 = (Some l, al3)" "alloc_ok al3" using alloc_ok_malloc [OF 2(2)] by auto
  show ?thesis
    using 1 2 3 assms(2) by (intro that [of _ al3]) (auto simp: monikor_command_exec_def start_command_def or_null_def alloc_ret_def)
qed

text \<open>C23: A poll of varnish takes the previous command and its two handlers out of the lists of the agent, leaves a
  handler to reap its process when it has not finished, and registers the handlers of the new command.
  Nothing closes the previous pipe: that of a command that has not finished stays open.\<close>

theorem varnish_poll_replaces_command:
  assumes "handlers_are w xs ps" and "alloc_ok al" and "va_cmd_handler mdl = Some h0" and "command_of h0 w = Some (c0, cmd0, oh0)"
    and "h0 \<in> set ps" and "oh0 \<in> set xs" and "r \<notin> set ps" and "h \<notin> insert r (set ps)" and "oh \<notin> set xs" and "fork \<noteq> -1"
  shows "\<exists>w' al' cmd. varnish_poll (Some fd) fork kill r h c oh (Some mdl) w al = Some (mdl\<lparr>va_cmd_handler := Some h\<rparr>, -2, w', al')
    \<and> handlers_are w' (remove1 oh0 xs @ [oh])
        (remove1 h0 ps @ (if monikor_command_finished (ce_state cmd0) then [] else [r]) @ [h])
    \<and> ms_open (iw_state w') = ms_open (iw_state w) @ [fd]
    \<and> command_of h w' = Some (c, cmd, oh) \<and> ce_pid cmd = fork \<and> ce_state cmd = 0"
proof -
  let ?rs = "if monikor_command_finished (ce_state cmd0) then [] else [r]"
  obtain w1 al1 where 1: "(if monikor_command_finished (ce_state cmd0) then Some (w, al) else varnish_reap kill r h0 w al) = Some (w1, al1)"
    "handlers_are w1 xs (ps @ ?rs)" "alloc_ok al1" "iw_state w1 = iw_state w" "process_data w1 h0 = process_data w h0"
  proof (cases "monikor_command_finished (ce_state cmd0)")
    case True
    with assms(1,2) that show ?thesis by auto
  next
    case False
    obtain w1 al1 where "varnish_reap kill r h0 w al = Some (w1, al1)" "handlers_are w1 xs (ps @ [r])" "alloc_ok al1"
      "iw_state w1 = iw_state w" "process_data w1 h0 = process_data w h0"
      using assms(1,2,5,7) by (rule reap_ok)
    with False that show ?thesis by auto
  qed
  have "command_of h0 w1 = Some (c0, cmd0, oh0)"
    using assms(4) command_of_cong [OF 1(5,4)] by simp
  from drop_command_ok [OF 1(2) this _ assms(6), of al1] assms(5) obtain w2 where
    2: "do { w \<leftarrow> monikor_command_unregister_io_handlers h0 w1; w \<leftarrow> monikor_command_free h0 w; Some (w, al1) } = Some (w2, al1)"
    "handlers_are w2 (remove1 oh0 xs) (remove1 h0 ps @ ?rs)" "ms_open (iw_state w2) = ms_open (iw_state w)"
    using 1(4) by (auto simp: remove1_append)
  obtain cmd al2 where 3: "monikor_command_exec (Some fd) fork True al1 = (Some cmd, al2)" "ce_fd cmd = fd" "ce_pid cmd = fork" "ce_state cmd = 0"
    using 1(3) assms(10) by (rule exec_ok)
  have "h \<notin> set (remove1 h0 ps @ ?rs)" "oh \<notin> set (remove1 oh0 xs)"
    using assms(8,9) set_remove1_subset [of h0 ps] set_remove1_subset [of oh0 xs] by auto
  from command_handlers_placed [OF 2(2) this, of c cmd] obtain w3 where
    "monikor_command_register_io_handlers h (place_command h c oh cmd w2) = Some w3"
    "handlers_are w3 (remove1 oh0 xs @ [oh]) ((remove1 h0 ps @ ?rs) @ [h])" "command_of h w3 = Some (c, cmd, oh)"
    "ms_open (iw_state w3) = ms_open (iw_state w2) @ [ce_fd cmd]" by auto
  with 1(1) 2 3 assms(3,4) show ?thesis by (simp add: varnish_poll_def)
qed

definition sample_varnish :: varnish_module where
  "sample_varnish = \<lparr>va_instance = None, va_varnishstat_path = ''varnishstat'', va_varnishstat_timeout_arg = ''10'',
     va_cmd_handler = Some 1\<rparr>"

theorem varnish_poll_replaces_command_witness:
  "\<exists>w w' al'. handlers_are w [3] [1] \<and> ms_open (iw_state w) = [7]
    \<and> varnish_poll (Some 9) 43 None 10 11 12 13 (Some sample_varnish) w [] = Some (sample_varnish\<lparr>va_cmd_handler := Some 11\<rparr>, -2, w', al')
    \<and> handlers_are w' [13] [10, 11] \<and> ms_open (iw_state w') = [7, 9]"
proof -
  obtain w where w: "handlers_are w [3] [1]" "command_of 1 w = Some (2, sample_command, 3)" "ms_open (iw_state w) = [7]"
    using command_handlers_placed [OF empty_world_handlers, of 1 3 2 sample_command]
    by (auto simp: empty_world_def sample_command_def)
  have "\<not> monikor_command_finished (ce_state sample_command)"
    by (simp add: sample_command_def monikor_command_finished_def MNK_COMMAND_EXEC_STATE_FINISHED_def
        MNK_COMMAND_EXEC_STATE_PROCESS_DONE_def MNK_COMMAND_EXEC_STATE_READ_DONE_def)
  with varnish_poll_replaces_command [OF w(1) alloc_ok_Nil _ w(2), of sample_varnish 10 11 13 43 9 None 12] w show ?thesis
    by (auto simp: sample_varnish_def)
qed

end
